(* ===== verification/Prelude.thy ===== *)
theory Prelude
  imports Main "HOL-Library.Word"
begin

text \<open>
  Shared vocabulary of the development: the machine integers and byte types the node uses, the
  saturating operations of Rust's unsigned integers, the result type with its propagation operator
  (Rust's question mark), panics as values, and the standard library's mutex.
\<close>

section \<open>Machine types\<close>

type_synonym u8 = "8 word"
type_synonym u16 = "16 word"
type_synonym u32 = "32 word"
type_synonym u64 = "64 word"
type_synonym u128 = "128 word"
type_synonym u256 = "256 word"

text \<open>Addresses and hashes are fixed-size byte arrays compared as big-endian numbers.\<close>

type_synonym address = "160 word"
type_synonym b256 = "256 word"
type_synonym bytes = "8 word list"

named_theorems result_simps \<open>rewriting of results and of the propagation operator\<close>

section \<open>Saturating arithmetic\<close>

definition saturating_sub :: "'a::len word \<Rightarrow> 'a word \<Rightarrow> 'a word" where
  "saturating_sub x y = (if x < y then 0 else x - y)"

definition saturating_add :: "'a::len word \<Rightarrow> 'a word \<Rightarrow> 'a word" where
  "saturating_add x y = (if unat x + unat y < 2 ^ LENGTH('a) then x + y else - 1)"

definition saturating_mul :: "'a::len word \<Rightarrow> 'a word \<Rightarrow> 'a word" where
  "saturating_mul x y = (if unat x * unat y < 2 ^ LENGTH('a) then x * y else - 1)"

lemma unat_max_word: "unat (- 1 :: 'a::len word) = 2 ^ LENGTH('a) - 1"
  by (simp add: unsigned_minus_1_eq_mask mask_eq_exp_minus_1)

lemma unat_le_max: "unat (x :: 'a::len word) \<le> 2 ^ LENGTH('a) - 1"
  using unsigned_less [of x, where ?'a = nat] by linarith

lemma unat_saturating_sub: "unat (saturating_sub x y) = unat x - unat y"
  by (auto simp: saturating_sub_def unat_sub word_le_nat_alt word_less_nat_alt not_less)

lemma unat_saturating_add:
  "unat (saturating_add x (y :: 'a::len word)) = min (unat x + unat y) (2 ^ LENGTH('a) - 1)"
  by (auto simp: saturating_add_def unat_max_word unat_word_ariths min_def)

lemma unat_saturating_mul:
  "unat (saturating_mul x (y :: 'a::len word)) = min (unat x * unat y) (2 ^ LENGTH('a) - 1)"
proof (cases "unat x * unat y < 2 ^ LENGTH('a)")
  case True
  then have "min (unat x * unat y) (2 ^ LENGTH('a) - 1) = unat x * unat y" by linarith
  with True show ?thesis by (simp add: saturating_mul_def unat_word_ariths)
next
  case False
  then have "min (unat x * unat y) (2 ^ LENGTH('a) - 1) = 2 ^ LENGTH('a) - 1"
    using min.absorb2 [of "2 ^ LENGTH('a) - 1" "unat x * unat y"] by linarith
  with False show ?thesis by (simp add: saturating_mul_def unat_max_word)
qed

lemma saturating_sub_le: "saturating_sub x y \<le> x"
  by (simp add: word_le_nat_alt unat_saturating_sub)

lemma saturating_add_ge: "x \<le> saturating_add x y"
  using unat_le_max [of x] by (simp add: word_le_nat_alt unat_saturating_add)

lemma saturating_add_zero [simp]: "saturating_add x 0 = x"
  by (simp add: saturating_add_def)

lemma word_succ_greater: "(n :: 'a::len word) \<noteq> - 1 \<Longrightarrow> n < n + 1"
  using inc_less_eq_self_iff_eq [of n] by (simp add: not_le)

lemma word_less_succ_le: "(n :: 'a::len word) \<noteq> - 1 \<Longrightarrow> (m < n + 1) = (m \<le> n)"
  using word_succ_greater [of n] less_inc_imp_less_eq [of m n] by (auto intro: le_less_trans)

lemma word_add_within:
  assumes "u \<le> l" and "g \<le> l - u"
  shows "u \<le> u + g \<and> u + g \<le> (l :: 'a::len word)"
proof -
  have le: "unat u + unat g \<le> unat l"
    using assms by (simp add: word_le_nat_alt unat_sub)
  then have "unat u + unat g < 2 ^ LENGTH('a)"
    using unsigned_less [of l, where ?'a = nat] by linarith
  then have "unat (u + g) = unat u + unat g" by (simp add: unat_word_ariths)
  with le show ?thesis by (simp add: word_le_nat_alt)
qed

text \<open>The checked narrowing \<open>u64::try_from\<close>.\<close>

definition try_u64 :: "u256 \<Rightarrow> u64 option" where
  "try_u64 x = (if unat x < 2 ^ 64 then Some (ucast x) else None)"

lemma try_u64_Some_iff: "try_u64 x = Some y \<longleftrightarrow> unat x = unat y"
proof -
  have "unat (ucast x :: u64) = unat x mod 2 ^ 64"
    by (simp add: unsigned_ucast_eq take_bit_eq_mod)
  then show ?thesis
    using unsigned_less [of y, where ?'a = nat]
    by (auto simp: try_u64_def word_unat_eq_iff)
qed

section \<open>Big-endian bytes\<close>

primrec be_bytes :: "nat \<Rightarrow> 'a::len word \<Rightarrow> bytes" where
  "be_bytes 0 w = []"
| "be_bytes (Suc n) w = be_bytes n (drop_bit 8 w) @ [ucast w]"

text \<open>The value of big-endian bytes and the word it makes (\<open>from_be_bytes\<close>, \<open>Address::from_slice\<close>).\<close>

definition be_nat :: "bytes \<Rightarrow> nat" where
  "be_nat bs = foldl (\<lambda>a b. a * 256 + unat b) 0 bs"

definition be_word :: "bytes \<Rightarrow> 'a::len word" where
  "be_word bs = of_nat (be_nat bs)"

lemma length_be_bytes [simp]: "length (be_bytes n w) = n"
  by (induction n arbitrary: w) simp_all

lemma be_nat_append [simp]: "be_nat (bs @ [b]) = be_nat bs * 256 + unat b"
  by (simp add: be_nat_def)

lemma be_nat_zeros [simp]: "be_nat (replicate n 0) = 0"
  by (induction n) (simp_all add: be_nat_def)

lemma be_nat_be_bytes: "be_nat (be_bytes n w) = unat (w :: 'a::len word) mod 256 ^ n"
proof (induction n arbitrary: w)
  case (Suc n)
  have "unat (ucast w :: u8) = unat w mod 256"
    by (simp add: unsigned_ucast_eq take_bit_eq_mod)
  moreover have "unat (drop_bit 8 w) = unat w div 256"
    by (subst unat_drop_bit_eq) (simp add: drop_bit_eq_div)
  moreover have "unat w mod (256 * 256 ^ n) = unat w div 256 mod 256 ^ n * 256 + unat w mod 256"
    by (simp add: mod_mult2_eq)
  ultimately show ?case
    unfolding be_bytes.simps be_nat_append Suc.IH by simp
qed (simp add: be_nat_def)

lemma be_word_be_bytes:
  "256 ^ n \<ge> (2 :: nat) ^ LENGTH('a) \<Longrightarrow> be_word (be_bytes n w) = (w :: 'a::len word)"
proof -
  assume "256 ^ n \<ge> (2 :: nat) ^ LENGTH('a)"
  with unsigned_less [of w, where ?'a = nat] have "unat w < 256 ^ n" by linarith
  then show ?thesis by (simp add: be_word_def be_nat_be_bytes)
qed

section \<open>Results, propagation and panics\<close>

text \<open>
  A fallible function returns \<^typ>\<open>'e + 'a\<close>, with the error on the left. The question-mark operator
  returns early with the error and otherwise continues with the value.
\<close>

definition and_then :: "'e + 'a \<Rightarrow> ('a \<Rightarrow> 'e + 'b) \<Rightarrow> 'e + 'b" where
  "and_then r f = (case r of Inl e \<Rightarrow> Inl e | Inr a \<Rightarrow> f a)"

definition map_err :: "('e \<Rightarrow> 'f) \<Rightarrow> 'e + 'a \<Rightarrow> 'f + 'a" where
  "map_err g r = (case r of Inl e \<Rightarrow> Inl (g e) | Inr a \<Rightarrow> Inr a)"

definition ok_or :: "'e \<Rightarrow> 'a option \<Rightarrow> 'e + 'a" where
  "ok_or e m = (case m of None \<Rightarrow> Inl e | Some a \<Rightarrow> Inr a)"

lemma and_then_simps [simp, result_simps]:
  "and_then (Inl e) f = Inl e"
  "and_then (Inr a) f = f a"
  by (simp_all add: and_then_def)

lemma map_err_simps [simp, result_simps]:
  "map_err g (Inl e) = Inl (g e)"
  "map_err g (Inr a) = Inr a"
  by (simp_all add: map_err_def)

lemma ok_or_simps [simp, result_simps]:
  "ok_or e None = Inl e"
  "ok_or e (Some a) = Inr a"
  by (simp_all add: ok_or_def)

lemma and_then_Inr_iff [result_simps]:
  "and_then r f = Inr b \<longleftrightarrow> (\<exists>a. r = Inr a \<and> f a = Inr b)"
  by (cases r) auto

lemma and_then_Inl_iff [result_simps]:
  "and_then r f = Inl e \<longleftrightarrow> r = Inl e \<or> (\<exists>a. r = Inr a \<and> f a = Inl e)"
  by (cases r) auto

lemma map_err_Inr_iff [result_simps]: "map_err g r = Inr a \<longleftrightarrow> r = Inr a"
  by (cases r) auto

lemma ok_or_Inr_iff [result_simps]: "ok_or e m = Inr a \<longleftrightarrow> m = Some a"
  by (cases m) auto

text \<open>Code that can panic returns a \<open>fault\<close>: an error value of its own, or a panic.\<close>

datatype 'e fault = Err 'e | Panic string

section \<open>The standard mutex\<close>

text \<open>
  A mutex is poisoned when a thread panicked while it held the lock; \<open>lock\<close> then returns an error.
\<close>

datatype 'a mutex = Healthy 'a | Poisoned 'a

fun lock :: "'a mutex \<Rightarrow> unit + 'a" where
  "lock (Healthy a) = Inr a"
| "lock (Poisoned a) = Inl ()"

fun mutex_write :: "'a mutex \<Rightarrow> 'a \<Rightarrow> 'a mutex" where
  "mutex_write (Healthy _) b = Healthy b"
| "mutex_write (Poisoned a) b = Poisoned a"

text \<open>\<open>if let Ok(mut g) = m.lock() { f(g) }\<close>: a poisoned mutex is left as it is.\<close>

fun with_lock :: "'a mutex \<Rightarrow> ('a \<Rightarrow> 'a) \<Rightarrow> 'a mutex" where
  "with_lock (Healthy a) f = Healthy (f a)"
| "with_lock (Poisoned a) f = Poisoned a"

fun mutex_contents :: "'a mutex \<Rightarrow> 'a" where
  "mutex_contents (Healthy a) = a"
| "mutex_contents (Poisoned a) = a"

end
