(* ===== verification/BTreeMap.thy ===== *)
theory BTreeMap
  imports Prelude
begin

text \<open>
  The standard library's \<open>BTreeMap\<close>, which the node uses for every block-keyed transition table, for
  the pending validator transitions and for the signer counts. A map is the list of its entries in
  iteration order, that is strictly ascending by key. The operations are the ones the code calls:
  \<open>insert\<close>, \<open>get\<close>, \<open>remove\<close>, \<open>contains_key\<close>, \<open>len\<close>, \<open>is_empty\<close> (these two on the list) and
  \<open>range(..=k).next_back()\<close>, the entry with the greatest key not above \<open>k\<close>.

  The interface \<open>ordered_map\<close> states what clients rely on, through the abstraction to partial
  functions; clients use its facts through the interpretation \<open>bt\<close>.
\<close>

type_synonym ('k, 'v) btree = "('k \<times> 'v) list"

definition bt_wf :: "('k::linorder, 'v) btree \<Rightarrow> bool" where
  "bt_wf t \<longleftrightarrow> sorted_wrt (<) (map fst t)"

definition bt_empty :: "('k, 'v) btree" where
  "bt_empty = []"

fun bt_get :: "('k::linorder, 'v) btree \<Rightarrow> 'k \<Rightarrow> 'v option" where
  "bt_get [] k = None"
| "bt_get ((a, v) # t) k = (if k = a then Some v else bt_get t k)"

fun bt_insert :: "'k::linorder \<Rightarrow> 'v \<Rightarrow> ('k, 'v) btree \<Rightarrow> ('k, 'v) btree" where
  "bt_insert k v [] = [(k, v)]"
| "bt_insert k v ((a, w) # t) =
     (if k < a then (k, v) # (a, w) # t
      else if k = a then (k, v) # t
      else (a, w) # bt_insert k v t)"

fun bt_remove :: "'k::linorder \<Rightarrow> ('k, 'v) btree \<Rightarrow> ('k, 'v) btree" where
  "bt_remove k [] = []"
| "bt_remove k ((a, w) # t) = (if k = a then t else (a, w) # bt_remove k t)"

text \<open>The entry \<open>range(..=k).next_back()\<close> yields, if any.\<close>

fun bt_floor :: "('k::linorder, 'v) btree \<Rightarrow> 'k \<Rightarrow> ('k \<times> 'v) option" where
  "bt_floor [] k = None"
| "bt_floor ((a, v) # t) k =
     (if a \<le> k then (case bt_floor t k of None \<Rightarrow> Some (a, v) | Some e \<Rightarrow> Some e) else None)"

definition bt_from_list :: "('k::linorder \<times> 'v) list \<Rightarrow> ('k, 'v) btree" where
  "bt_from_list es = fold (\<lambda>(k, v) t. bt_insert k v t) es bt_empty"

section \<open>The interface\<close>

locale ordered_map =
  fixes empty :: "'m"
    and get :: "'m \<Rightarrow> 'k::linorder \<Rightarrow> 'v option"
    and insert :: "'k \<Rightarrow> 'v \<Rightarrow> 'm \<Rightarrow> 'm"
    and remove :: "'k \<Rightarrow> 'm \<Rightarrow> 'm"
    and floor :: "'m \<Rightarrow> 'k \<Rightarrow> ('k \<times> 'v) option"
    and wf :: "'m \<Rightarrow> bool"
  assumes get_empty: "get empty k = None"
    and get_insert: "get (insert k v m) j = (if j = k then Some v else get m j)"
    and get_remove: "wf m \<Longrightarrow> get (remove k m) j = (if j = k then None else get m j)"
    and floor_None: "wf m \<Longrightarrow> floor m k = None \<longleftrightarrow> (\<forall>j \<le> k. get m j = None)"
    and floor_Some: "wf m \<Longrightarrow> floor m k = Some (j, v) \<longleftrightarrow>
      j \<le> k \<and> get m j = Some v \<and> (\<forall>i. j < i \<and> i \<le> k \<longrightarrow> get m i = None)"
    and wf_empty: "wf empty"
    and wf_insert: "wf m \<Longrightarrow> wf (insert k v m)"
    and wf_remove: "wf m \<Longrightarrow> wf (remove k m)"
begin

lemma floor_exact: "wf m \<Longrightarrow> get m k = Some v \<Longrightarrow> floor m k = Some (k, v)"
  by (auto simp: floor_Some)

lemma floor_le: "wf m \<Longrightarrow> floor m k = Some (j, v) \<Longrightarrow> j \<le> k"
  by (simp add: floor_Some)

lemma floor_get: "wf m \<Longrightarrow> floor m k = Some (j, v) \<Longrightarrow> get m j = Some v"
  by (simp add: floor_Some)

text \<open>Between two transitions the looked-up entry does not change.\<close>

lemma floor_constant:
  assumes "wf m" and "k \<le> k'" and "\<forall>i. k < i \<and> i \<le> k' \<longrightarrow> get m i = None"
  shows "floor m k' = floor m k"
proof (cases "floor m k")
  case None
  with assms have "\<forall>j \<le> k'. get m j = None"
    by (meson floor_None not_le)
  with assms(1) have "floor m k' = None" using floor_None by blast
  with None show ?thesis by simp
next
  case (Some e)
  obtain j v where e: "e = (j, v)" by (cases e)
  with Some assms have "j \<le> k" and "get m j = Some v" and "\<forall>i. j < i \<and> i \<le> k \<longrightarrow> get m i = None"
    by (auto simp: floor_Some)
  moreover from this assms(2,3) have "\<forall>i. j < i \<and> i \<le> k' \<longrightarrow> get m i = None"
    by (meson linorder_not_le)
  ultimately have "floor m k' = Some (j, v)"
    using floor_Some [OF assms(1), of k' j v] assms(2) by simp
  with Some e show ?thesis by simp
qed

text \<open>An entry added above \<open>k\<close> is not seen by a lookup at \<open>k\<close>.\<close>

lemma floor_insert_above:
  assumes "wf m" and "k < a"
  shows "floor (insert a v m) k = floor m k"
proof (cases "floor m k")
  case None
  with assms show ?thesis
    by (metis (no_types, lifting) floor_None get_insert leD wf_insert)
next
  case (Some e)
  obtain j w where e: "e = (j, w)" by (cases e)
  with Some assms have "j \<le> k \<and> get m j = Some w \<and> (\<forall>i. j < i \<and> i \<le> k \<longrightarrow> get m i = None)"
    by (simp add: floor_Some)
  with assms have "floor (insert a v m) k = Some (j, w)"
    by (auto simp: floor_Some get_insert wf_insert)
  with Some e show ?thesis by simp
qed

text \<open>A present first key makes every later lookup succeed.\<close>

lemma floor_total:
  assumes "wf m" and "get m j \<noteq> None" and "j \<le> k"
  shows "floor m k \<noteq> None"
  using assms floor_None by auto

end

section \<open>The lists implement it\<close>

lemma bt_wf_Nil [simp]: "bt_wf []"
  by (simp add: bt_wf_def)

lemma bt_wf_Cons [simp]: "bt_wf ((a, v) # t) \<longleftrightarrow> (\<forall>x \<in> set t. a < fst x) \<and> bt_wf t"
  by (auto simp: bt_wf_def)

lemma bt_get_in_set: "bt_get t k = Some v \<Longrightarrow> (k, v) \<in> set t"
  by (induction t k rule: bt_get.induct) (auto split: if_splits)

lemma bt_get_None_iff: "bt_get t k = None \<longleftrightarrow> k \<notin> fst ` set t"
  by (induction t k rule: bt_get.induct) auto

lemma bt_get_insert: "bt_get (bt_insert k v t) j = (if j = k then Some v else bt_get t j)"
  by (induction k v t rule: bt_insert.induct) auto

lemma bt_insert_not_Nil [simp]: "bt_insert k v t \<noteq> []"
  by (induction k v t rule: bt_insert.induct) auto

lemma set_bt_insert_subset: "set (bt_insert k v t) \<subseteq> insert (k, v) (set t)"
  by (induction k v t rule: bt_insert.induct) auto

lemma bt_wf_insert: "bt_wf t \<Longrightarrow> bt_wf (bt_insert k v t)"
proof (induction k v t rule: bt_insert.induct)
  case (2 k v a w t)
  then show ?case using set_bt_insert_subset [of k v t] by fastforce
qed simp

lemma set_bt_remove_subset: "set (bt_remove k t) \<subseteq> set t"
  by (induction k t rule: bt_remove.induct) auto

lemma bt_wf_remove: "bt_wf t \<Longrightarrow> bt_wf (bt_remove k t)"
  by (induction k t rule: bt_remove.induct) (use set_bt_remove_subset in fastforce)+

lemma bt_get_below: "bt_wf ((a, v) # t) \<Longrightarrow> j \<le> a \<Longrightarrow> bt_get t j = None"
  by (force simp: bt_get_None_iff)

lemma bt_get_remove:
  "bt_wf t \<Longrightarrow> bt_get (bt_remove k t) j = (if j = k then None else bt_get t j)"
proof (induction k t rule: bt_remove.induct)
  case (2 k a w t)
  then show ?case using bt_get_below [of a w t j] by auto
qed simp

lemma bt_floor_None: "bt_wf t \<Longrightarrow> bt_floor t k = None \<longleftrightarrow> (\<forall>j \<le> k. bt_get t j = None)"
proof (induction t k rule: bt_floor.induct)
  case (2 a v t k)
  show ?case
  proof (cases "a \<le> k")
    case True
    then show ?thesis by (auto split: option.splits)
  next
    case False
    then have "bt_get t j = None" if "j \<le> k" for j
      using that bt_get_below [OF "2.prems", of j] by auto
    with False show ?thesis by auto
  qed
qed simp

lemma bt_floor_SomeD: "bt_wf t \<Longrightarrow> bt_floor t k = Some (j, v) \<Longrightarrow>
  j \<le> k \<and> bt_get t j = Some v \<and> (\<forall>i. j < i \<and> i \<le> k \<longrightarrow> bt_get t i = None)"
proof (induction t k rule: bt_floor.induct)
  case (2 a w t k)
  then have le: "a \<le> k" by (simp split: if_splits)
  show ?case
  proof (cases "bt_floor t k")
    case None
    with 2 le have "j = a" "v = w" by auto
    with 2 None le show ?thesis using bt_floor_None [of t k] by auto
  next
    case (Some e)
    with 2 le have e: "e = (j, v)" by simp
    with 2 Some le have IH: "j \<le> k \<and> bt_get t j = Some v \<and> (\<forall>i. j < i \<and> i \<le> k \<longrightarrow> bt_get t i = None)"
      by simp
    then have "(j, v) \<in> set t" by (simp add: bt_get_in_set)
    with "2.prems"(1) have "a < j" by auto
    with IH show ?thesis by auto
  qed
qed simp

lemma bt_floor_Some: "bt_wf t \<Longrightarrow> bt_floor t k = Some (j, v) \<longleftrightarrow>
  j \<le> k \<and> bt_get t j = Some v \<and> (\<forall>i. j < i \<and> i \<le> k \<longrightarrow> bt_get t i = None)"
proof
  assume wf: "bt_wf t"
    and j: "j \<le> k \<and> bt_get t j = Some v \<and> (\<forall>i. j < i \<and> i \<le> k \<longrightarrow> bt_get t i = None)"
  then obtain j' v' where f: "bt_floor t k = Some (j', v')"
    using bt_floor_None [of t k] by (cases "bt_floor t k") auto
  with wf have "j' \<le> k \<and> bt_get t j' = Some v' \<and> (\<forall>i. j' < i \<and> i \<le> k \<longrightarrow> bt_get t i = None)"
    by (rule bt_floor_SomeD)
  with j have "j' = j" by (metis linorder_neqE option.distinct(1))
  with j f \<open>j' \<le> k \<and> _\<close> show "bt_floor t k = Some (j, v)" by simp
qed (rule bt_floor_SomeD)

interpretation bt: ordered_map bt_empty bt_get bt_insert bt_remove bt_floor bt_wf
  by unfold_locales
    (auto simp: bt_empty_def bt_get_insert bt_get_remove bt_floor_None bt_floor_Some
      bt_wf_insert bt_wf_remove)

lemmas bt_laws = bt.get_empty bt_get_insert bt_get_remove bt_wf_insert bt_wf_remove bt.wf_empty

lemma bt_from_list_wf: "bt_wf (bt_from_list es)"
proof -
  have "bt_wf t \<Longrightarrow> bt_wf (fold (\<lambda>(k, v) t. bt_insert k v t) es t)" for t
    by (induction es arbitrary: t) (auto simp: bt_wf_insert split: prod.splits)
  then show ?thesis by (simp add: bt_from_list_def bt.wf_empty)
qed

text \<open>Inserting the entries in order keeps the last value of each key.\<close>

lemma bt_get_fold_insert:
  "bt_get (fold (\<lambda>(k, v) t. bt_insert k v t) es t) k =
     (case map_of (rev es) k of None \<Rightarrow> bt_get t k | Some v \<Rightarrow> Some v)"
  by (induction es arbitrary: t) (auto simp: bt_get_insert map_add_Some_iff split: option.splits prod.splits)

lemma bt_get_from_list: "bt_get (bt_from_list es) k = map_of (rev es) k"
  by (simp add: bt_from_list_def bt_get_fold_insert bt.get_empty split: option.splits)

lemma bt_get_map_of: "bt_get t k = map_of t k"
  by (induction t k rule: bt_get.induct) auto

lemma bt_wf_distinct: "bt_wf t \<Longrightarrow> distinct (map fst t)"
  by (simp add: bt_wf_def strict_sorted_iff)

lemma set_bt_keys_remove: "bt_wf t \<Longrightarrow> fst ` set (bt_remove k t) = fst ` set t - {k}"
  using bt_get_remove [of t k] bt_get_None_iff [of "bt_remove k t"] bt_get_None_iff [of t]
  by (auto split: if_splits) (metis imageI option.distinct(1) fst_conv)+

lemma set_bt_keys_insert: "fst ` set (bt_insert k v t) = insert k (fst ` set t)"
  by (induction k v t rule: bt_insert.induct) auto

lemma length_bt_keys: "bt_wf t \<Longrightarrow> length t = card (fst ` set t)"
  using bt_wf_distinct [of t] distinct_card [of "map fst t"] by simp

end
