(* ===== verification/Validators.thy ===== *)
theory Validators
  imports BTreeMap
begin

text \<open>
  The validator sets of \<open>src/aura/validators.rs\<close>: which set is active at a block, the list or the
  contract it is, and the round-robin proposer of a step.
\<close>

datatype ValidatorSetKind = List "address list" | Contract address

record ValidatorSet =
  sets :: "(u64, ValidatorSetKind) btree"

datatype ValidatorSetError = Empty

definition vs_new :: "(u64, ValidatorSetKind) btree \<Rightarrow> ValidatorSetError + ValidatorSet" where
  "vs_new s = (if s = [] then Inl Empty else Inr \<lparr>sets = s\<rparr>)"

definition kind_at :: "ValidatorSet \<Rightarrow> u64 \<Rightarrow> ValidatorSetKind option" where
  "kind_at vs n = map_option snd (bt_floor (sets vs) n)"

definition try_get_list_validators :: "ValidatorSet \<Rightarrow> u64 \<Rightarrow> address list option" where
  "try_get_list_validators vs n =
     (case kind_at vs n of
        None \<Rightarrow> None
      | Some (List addrs) \<Rightarrow> Some addrs
      | Some (Contract a) \<Rightarrow> None)"

definition contract_address_at :: "ValidatorSet \<Rightarrow> u64 \<Rightarrow> address option" where
  "contract_address_at vs n =
     (case kind_at vs n of
        None \<Rightarrow> None
      | Some (List addrs) \<Rightarrow> None
      | Some (Contract a) \<Rightarrow> Some a)"

text \<open>The modulo runs in \<open>u64\<close> and is narrowed to an index afterwards.\<close>

definition expected_proposer :: "u64 \<Rightarrow> address list \<Rightarrow> address option" where
  "expected_proposer step vs =
     (if length vs = 0 then None else Some (vs ! unat (step mod of_nat (length vs))))"

section \<open>Lookups across transitions\<close>

definition vs_wf :: "ValidatorSet \<Rightarrow> bool" where
  "vs_wf vs \<longleftrightarrow> bt_wf (sets vs) \<and> sets vs \<noteq> []"

lemma kind_at_Some_iff:
  "bt_wf (sets vs) \<Longrightarrow> kind_at vs n = Some k \<longleftrightarrow>
     (\<exists>j \<le> n. bt_get (sets vs) j = Some k \<and> (\<forall>i. j < i \<and> i \<le> n \<longrightarrow> bt_get (sets vs) i = None))"
  by (auto simp: kind_at_def bt.floor_Some)

lemma kind_at_None_iff:
  "bt_wf (sets vs) \<Longrightarrow> kind_at vs n = None \<longleftrightarrow> (\<forall>j \<le> n. bt_get (sets vs) j = None)"
  by (simp add: kind_at_def bt.floor_None)

lemma kind_at_constant:
  assumes "bt_wf (sets vs)" and "m \<le> n" and "\<forall>i. m < i \<and> i \<le> n \<longrightarrow> bt_get (sets vs) i = None"
  shows "kind_at vs n = kind_at vs m"
  unfolding kind_at_def by (subst bt.floor_constant [OF assms]) (rule refl)

lemma kind_at_transition:
  "bt_wf (sets vs) \<Longrightarrow> bt_get (sets vs) n = Some k \<Longrightarrow> kind_at vs n = Some k"
  by (simp add: kind_at_def bt.floor_exact)

lemma contract_not_list: "contract_address_at vs n = Some a \<Longrightarrow> try_get_list_validators vs n = None"
  by (auto simp: contract_address_at_def try_get_list_validators_def
      split: option.splits ValidatorSetKind.splits)

text \<open>The active set. The set active at a block is the one with the greatest activation
  block not above it: a set that activates at \<open>j\<close> is active at \<open>j\<close> itself and up to the next
  activation, whether it is asked for as a list or as a contract.\<close>

theorem active_set_between_transitions:
  assumes "vs_wf vs" and "bt_get (sets vs) j = Some k" and "j \<le> n"
    and "\<forall>i. j < i \<and> i \<le> n \<longrightarrow> bt_get (sets vs) i = None"
  shows "kind_at vs n = Some k
    \<and> try_get_list_validators vs n = (case k of List l \<Rightarrow> Some l | Contract a \<Rightarrow> None)
    \<and> contract_address_at vs n = (case k of List l \<Rightarrow> None | Contract a \<Rightarrow> Some a)"
proof -
  from assms have "kind_at vs n = kind_at vs j"
    by (intro kind_at_constant) (auto simp: vs_wf_def)
  also from assms have "\<dots> = Some k"
    by (intro kind_at_transition) (auto simp: vs_wf_def)
  finally show ?thesis
    by (auto simp: try_get_list_validators_def contract_address_at_def
        split: ValidatorSetKind.splits)
qed

theorem active_set_between_transitions_witness:
  "contract_address_at \<lparr>sets = [(0, List [1, 2]), (1300, Contract 170)]\<rparr> 1305 = Some 170
   \<and> try_get_list_validators \<lparr>sets = [(0, List [1, 2]), (1300, Contract 170)]\<rparr> 1299 = Some [1, 2]"
proof -
  let ?vs = "\<lparr>sets = [(0, List [1, 2]), (1300, Contract 170)]\<rparr>"
  have wf: "vs_wf ?vs" by (simp add: vs_wf_def)
  have late: "\<forall>i. 1300 < i \<and> i \<le> 1305 \<longrightarrow> bt_get (sets ?vs) i = None"
    and early: "\<forall>i. 0 < i \<and> i \<le> 1299 \<longrightarrow> bt_get (sets ?vs) i = None"
    by (auto simp: word_less_nat_alt word_le_nat_alt)
  show ?thesis
    using active_set_between_transitions [OF wf _ _ late, of "Contract 170"]
      active_set_between_transitions [OF wf _ _ early, of "List [1, 2]"] by simp
qed

section \<open>The proposer rotation\<close>

lemma unat_of_nat_length: "length vs < 2 ^ 64 \<Longrightarrow> unat (of_nat (length vs) :: u64) = length vs"
  by (simp add: unat_of_nat)

lemma expected_proposer_nth:
  assumes "vs \<noteq> []" and "length vs < 2 ^ 64"
  shows "expected_proposer step vs = Some (vs ! (unat step mod length vs))"
  using assms by (simp add: expected_proposer_def unat_mod unat_of_nat_length)

lemma expected_proposer_member:
  assumes "expected_proposer step vs = Some v" and "length vs < 2 ^ 64"
  shows "v \<in> set vs"
proof -
  from assms(1) have "vs \<noteq> []" by (auto simp: expected_proposer_def)
  with assms expected_proposer_nth [of vs step] show ?thesis by auto
qed

lemma mod_offset_unique:
  fixes s m i :: nat
  assumes "i < m"
  shows "\<exists>!j. j < m \<and> (s + j) mod m = i"
proof -
  let ?j = "(i + (m - s mod m)) mod m"
  have "(s + ?j) mod m = (s mod m + (i + (m - s mod m))) mod m"
    by (simp add: mod_simps)
  also have "s mod m + (i + (m - s mod m)) = i + m"
    using assms mod_less_divisor [of m s] by linarith
  finally have j: "?j < m \<and> (s + ?j) mod m = i" using assms by simp
  have "j = j'" if "j < m" "j' < m" "(s + j) mod m = (s + j') mod m" for j j'
  proof -
    have le: "a = b" if "a \<le> b" "b < m" "(s + a) mod m = (s + b) mod m" for a b
    proof -
      have "m dvd b - a"
        using that mod_eq_dvd_iff_nat [of "s + a" "s + b" m] by simp
      with that show ?thesis using nat_dvd_not_less [of "b - a" m] by linarith
    qed
    show ?thesis using that le [of j j'] le [of j' j] by linarith
  qed
  with j show ?thesis by metis
qed

text \<open>The rotation is fair. Over any run of as many consecutive steps as there are
  validators, every validator of a list without duplicates is the expected proposer exactly once.
  The step counter must not wrap during the run.\<close>

theorem proposer_rotation_fair:
  assumes "distinct vs" and "v \<in> set vs" and "unat step + length vs < 2 ^ 64"
  shows "\<exists>!j. j < length vs \<and> expected_proposer (step + of_nat j) vs = Some v"
proof -
  obtain i where i: "i < length vs" "vs ! i = v" using assms(2) by (auto simp: in_set_conv_nth)
  have "expected_proposer (step + of_nat j) vs = Some v \<longleftrightarrow> (unat step + j) mod length vs = i"
    if "j < length vs" for j
  proof -
    have "unat (step + of_nat j) = unat step + j"
      using that assms(3) by (simp add: unat_word_ariths unat_of_nat)
    moreover have "vs \<noteq> []" using that by auto
    ultimately show ?thesis
      using expected_proposer_nth [of vs "step + of_nat j"] assms(1,3) i that
      by (auto simp: nth_eq_iff_index_eq)
  qed
  with mod_offset_unique [OF i(1), of "unat step"] show ?thesis by (metis (mono_tags, lifting))
qed

theorem proposer_rotation_fair_witness:
  "\<exists>!j. j < length [10 :: address, 11, 12] \<and> expected_proposer (7 + of_nat j) [10, 11, 12] = Some 12"
  by (rule proposer_rotation_fair) simp_all

end
