(* ===== verification/AuraConfig.thy ===== *)
theory AuraConfig
  imports Validators
begin

text \<open>
  The AuRa section of the chain specification, \<open>src/aura/config.rs\<close>: the raw JSON structures, the
  block numbers written as strings, and \<open>from_json_value\<close>, which turns the raw form into the
  configuration the executor reads. Serde's own deserialization into the raw structures is a
  parameter; the node's code starts from its result.
\<close>

section \<open>Block numbers written as strings\<close>

datatype StringNum = StringNum (string_num: u64)

text \<open>The derived order compares the wrapped number.\<close>

instantiation StringNum :: linorder
begin

definition less_eq_StringNum :: "StringNum \<Rightarrow> StringNum \<Rightarrow> bool" where
  "less_eq_StringNum a b \<longleftrightarrow> string_num a \<le> string_num b"

definition less_StringNum :: "StringNum \<Rightarrow> StringNum \<Rightarrow> bool" where
  "less_StringNum a b \<longleftrightarrow> string_num a < string_num b"

instance
  by standard (auto simp: less_eq_StringNum_def less_StringNum_def intro: StringNum.expand)

end

text \<open>The standard library's \<open>str::parse::<u64>\<close>: an optional plus sign, then at least one decimal
  digit. A digit is checked before the overflow of the product it would be added to.\<close>

datatype ParseIntError = EmptyString | InvalidDigit | PosOverflow

definition digit_of :: "char \<Rightarrow> nat option" where
  "digit_of c = (let k = of_char c :: nat in if 48 \<le> k \<and> k \<le> 57 then Some (k - 48) else None)"

fun parse_digits :: "string \<Rightarrow> u64 \<Rightarrow> ParseIntError + u64" where
  "parse_digits [] acc = Inr acc"
| "parse_digits (c # cs) acc =
     (case digit_of c of
        None \<Rightarrow> Inl InvalidDigit
      | Some d \<Rightarrow>
          (if unat acc * 10 \<ge> 2 ^ 64 then Inl PosOverflow
           else if unat acc * 10 + d \<ge> 2 ^ 64 then Inl PosOverflow
           else parse_digits cs (acc * 10 + of_nat d)))"

fun parse_u64 :: "string \<Rightarrow> ParseIntError + u64" where
  "parse_u64 [] = Inl EmptyString"
| "parse_u64 (c # cs) =
     (if c = CHR ''+'' then (if cs = [] then Inl InvalidDigit else parse_digits cs 0)
      else parse_digits (c # cs) 0)"

text \<open>\<open>Deserialize for StringNum\<close>: the deserializer's string (its error is passed on), then the
  parser, whose error becomes a custom error of the deserializer.\<close>

datatype 'e de_error = Serde 'e | CustomParse ParseIntError | CustomEmpty ValidatorSetError
  | CustomMissingPosdao

definition deserialize_string_num ::
  "('de \<Rightarrow> 'e + string) \<Rightarrow> 'de \<Rightarrow> 'e de_error + StringNum" where
  "deserialize_string_num de_string deserializer =
     and_then (map_err Serde (de_string deserializer)) (\<lambda>s.
       case parse_u64 s of Inl e \<Rightarrow> Inl (CustomParse e) | Inr n \<Rightarrow> Inr (StringNum n))"

section \<open>The raw and the parsed configuration\<close>

datatype RawValidatorSetKind = RawList "address list" | RawSafeContract address | RawContract address

record RawValidators =
  multi :: "(StringNum, RawValidatorSetKind) btree"

record RawAuraConfig =
  raw_step_duration :: u64
  raw_validators :: RawValidators
  raw_block_reward_contract_address :: "address option"
  raw_block_reward_contract_transition :: "u64 option"
  raw_block_reward_contract_transitions :: "(StringNum, address) btree option"
  raw_posdao_transition :: "u64 option"
  raw_rewrite_bytecode :: "(StringNum, (address, bytes) btree) btree option"

record AuraConfig =
  step_duration :: u64
  aura_validators :: ValidatorSet
  block_reward_contract_transitions :: "(u64, address) btree"
  posdao_transition :: u64
  rewrite_bytecode :: "(u64, (address, bytes) btree) btree"

fun validator_kind :: "RawValidatorSetKind \<Rightarrow> ValidatorSetKind" where
  "validator_kind (RawList l) = List l"
| "validator_kind (RawSafeContract a) = Contract a"
| "validator_kind (RawContract a) = Contract a"

text \<open>The loops that insert every entry of a map keyed by \<open>StringNum\<close> under the number itself.\<close>

definition insert_all ::
  "('a \<Rightarrow> 'b) \<Rightarrow> (StringNum, 'a) btree \<Rightarrow> (u64, 'b) btree \<Rightarrow> (u64, 'b) btree" where
  "insert_all f raw t = fold (\<lambda>(k, v) m. bt_insert (string_num k) (f v) m) raw t"

definition build_reward_transitions :: "RawAuraConfig \<Rightarrow> (u64, address) btree" where
  "build_reward_transitions raw =
     (let legacy =
        (case raw_block_reward_contract_address raw of
           Some addr \<Rightarrow>
             bt_insert (case raw_block_reward_contract_transition raw of None \<Rightarrow> 0 | Some t \<Rightarrow> t)
               addr bt_empty
         | None \<Rightarrow> bt_empty)
      in case raw_block_reward_contract_transitions raw of
           Some ts \<Rightarrow> insert_all (\<lambda>a. a) ts legacy
         | None \<Rightarrow> legacy)"

definition from_json_value ::
  "('json \<Rightarrow> 'e + RawAuraConfig) \<Rightarrow> 'json \<Rightarrow> 'e de_error + AuraConfig" where
  "from_json_value from_value value =
     and_then (map_err Serde (from_value value)) (\<lambda>raw.
       let vsets = insert_all validator_kind (multi (raw_validators raw)) bt_empty;
           rewards = build_reward_transitions raw;
           rewrites = (case raw_rewrite_bytecode raw of
               Some rw \<Rightarrow> insert_all (\<lambda>c. c) rw bt_empty | None \<Rightarrow> bt_empty)
       in and_then (map_err CustomEmpty (vs_new vsets)) (\<lambda>vs.
            and_then (ok_or CustomMissingPosdao (raw_posdao_transition raw)) (\<lambda>posdao.
              Inr \<lparr>step_duration = raw_step_duration raw, aura_validators = vs,
                   block_reward_contract_transitions = rewards,
                   posdao_transition = posdao, rewrite_bytecode = rewrites\<rparr>)))"

section \<open>The string parser\<close>

text \<open>The value of a digit string, independent of the machine width.\<close>

definition decimal :: "string \<Rightarrow> nat \<Rightarrow> nat" where
  "decimal s acc = fold (\<lambda>c a. a * 10 + the (digit_of c)) s acc"

definition all_digits :: "string \<Rightarrow> bool" where
  "all_digits s \<longleftrightarrow> list_all (\<lambda>c. digit_of c \<noteq> None) s"

lemma decimal_simps [simp]:
  "decimal [] acc = acc"
  "decimal (c # cs) acc = decimal cs (acc * 10 + the (digit_of c))"
  by (simp_all add: decimal_def)

lemma decimal_ge: "acc \<le> decimal s acc"
proof (induction s arbitrary: acc)
  case (Cons c cs)
  from Cons.IH [of "acc * 10 + the (digit_of c)"] show ?case by simp
qed simp

lemma parse_digits_correct:
  "parse_digits s acc = Inr n \<longleftrightarrow> all_digits s \<and> decimal s (unat acc) = unat n"
proof (induction s acc rule: parse_digits.induct)
  case (1 acc)
  then show ?case by (auto simp: all_digits_def word_unat_eq_iff)
next
  case (2 c cs acc)
  show ?case
  proof (cases "digit_of c")
    case None
    then show ?thesis by (simp add: all_digits_def)
  next
    case (Some d)
    show ?thesis
    proof (cases "unat acc * 10 + d < 2 ^ 64")
      case True
      then have "unat (acc * 10 + of_nat d) = unat acc * 10 + d"
        by (simp add: unat_word_ariths unat_of_nat)
      with 2 [OF Some] Some True show ?thesis by (simp add: all_digits_def)
    next
      case False
      have "decimal cs (unat acc * 10 + d) \<noteq> unat n"
        using False decimal_ge [of "unat acc * 10 + d" cs] unsigned_less [of n, where ?'a = nat] by simp
      with Some False show ?thesis by auto
    qed
  qed
qed

text \<open>A block number written as a string is accepted exactly when it is a non-empty run of
  decimal digits, optionally after one plus sign, whose value fits in 64 bits; the value is then the
  decimal one. Everything else is the error the parser reports.\<close>

theorem deserialize_string_num_exact:
  "deserialize_string_num de_string d = Inr (StringNum n) \<longleftrightarrow>
     (\<exists>s ds. de_string d = Inr s \<and> (s = ds \<or> s = CHR ''+'' # ds) \<and> ds \<noteq> []
        \<and> all_digits ds \<and> decimal ds 0 = unat n)"
proof -
  have plus: "\<not> all_digits (CHR ''+'' # cs)" for cs
    by (simp add: all_digits_def digit_of_def)
  have p: "parse_u64 s = Inr n \<longleftrightarrow>
      (\<exists>ds. (s = ds \<or> s = CHR ''+'' # ds) \<and> ds \<noteq> [] \<and> all_digits ds \<and> decimal ds 0 = unat n)" for s
  proof (cases s)
    case (Cons c cs)
    show ?thesis
    proof (cases "c = CHR ''+''")
      case True
      with Cons plus [of cs] parse_digits_correct [of cs 0 n] show ?thesis by auto
    next
      case False
      with Cons parse_digits_correct [of s 0 n] show ?thesis by auto
    qed
  qed simp
  have "deserialize_string_num de_string d = Inr (StringNum n) \<longleftrightarrow>
      (\<exists>s. de_string d = Inr s \<and> parse_u64 s = Inr n)"
  proof (cases "de_string d")
    case (Inr s)
    then show ?thesis by (cases "parse_u64 s") (simp_all add: deserialize_string_num_def)
  qed (simp add: deserialize_string_num_def)
  then show ?thesis unfolding p by blast
qed

section \<open>The tables\<close>

lemma insert_all_wf: "bt_wf t \<Longrightarrow> bt_wf (insert_all f raw t)"
  unfolding insert_all_def
  by (induction raw arbitrary: t) (auto simp: bt_wf_insert split: prod.splits)

lemma insert_all_Nil [simp]: "insert_all f [] t = t"
  by (simp add: insert_all_def)

lemma insert_all_Cons [simp]:
  "insert_all f ((k, v) # raw) t = insert_all f raw (bt_insert (string_num k) (f v) t)"
  by (simp add: insert_all_def)

lemma insert_all_get:
  "bt_wf raw \<Longrightarrow> bt_get (insert_all f raw t) n =
     (case bt_get raw (StringNum n) of Some v \<Rightarrow> Some (f v) | None \<Rightarrow> bt_get t n)"
proof (induction raw arbitrary: t)
  case (Cons e raw)
  obtain k v where e: "e = (k, v)" by (cases e)
  have wf: "bt_wf raw" and "bt_get raw k = None" using Cons.prems e by (auto simp: bt_get_None_iff)
  moreover have "n = string_num k \<longleftrightarrow> StringNum n = k" by (cases k) auto
  ultimately show ?case
    by (cases "bt_get raw (StringNum n)")
      (auto simp: e Cons.IH [OF wf, of "bt_insert (string_num k) (f v) t"] bt_get_insert)
qed simp

lemma insert_all_empty_iff: "insert_all f raw bt_empty = bt_empty \<longleftrightarrow> raw = []"
proof -
  have keep: "insert_all f r m \<noteq> []" if "m \<noteq> []" for r m
    using that
  proof (induction r arbitrary: m)
    case (Cons e r)
    then show ?case by (cases e) simp
  qed simp
  show ?thesis
  proof (cases raw)
    case (Cons e r)
    then show ?thesis by (cases e) (simp add: bt_empty_def keep)
  qed simp
qed

lemma insert_all_get_empty:
  "bt_wf raw \<Longrightarrow> bt_get (insert_all f raw bt_empty) n = map_option f (bt_get raw (StringNum n))"
  by (simp add: insert_all_get bt.get_empty split: option.splits)

lemma build_reward_get:
  assumes "\<forall>ts. raw_block_reward_contract_transitions raw = Some ts \<longrightarrow> bt_wf ts"
  shows "bt_get (build_reward_transitions raw) n =
    (case Option.bind (raw_block_reward_contract_transitions raw) (\<lambda>ts. bt_get ts (StringNum n)) of
       Some a \<Rightarrow> Some a
     | None \<Rightarrow> (if n = (case raw_block_reward_contract_transition raw of None \<Rightarrow> 0 | Some t \<Rightarrow> t)
                then raw_block_reward_contract_address raw else None))"
  using assms
  by (auto simp: build_reward_transitions_def insert_all_get bt_get_insert bt.get_empty
      split: option.splits)

definition raw_wf :: "RawAuraConfig \<Rightarrow> bool" where
  "raw_wf raw \<longleftrightarrow> bt_wf (multi (raw_validators raw))
     \<and> pred_option bt_wf (raw_block_reward_contract_transitions raw)
     \<and> pred_option bt_wf (raw_rewrite_bytecode raw)"

lemma from_json_value_Inr:
  "from_json_value fv v = Inr cfg \<longleftrightarrow>
     (\<exists>raw posdao. fv v = Inr raw \<and> multi (raw_validators raw) \<noteq> []
        \<and> raw_posdao_transition raw = Some posdao
        \<and> cfg = \<lparr>step_duration = raw_step_duration raw,
             aura_validators = \<lparr>sets = insert_all validator_kind (multi (raw_validators raw)) bt_empty\<rparr>,
             block_reward_contract_transitions = build_reward_transitions raw,
             posdao_transition = posdao,
             rewrite_bytecode = (case raw_rewrite_bytecode raw of
               Some rw \<Rightarrow> insert_all (\<lambda>c. c) rw bt_empty | None \<Rightarrow> bt_empty)\<rparr>)"
  using insert_all_empty_iff [of validator_kind]
  by (cases "fv v") (auto simp: from_json_value_def Let_def and_then_Inr_iff map_err_Inr_iff
      ok_or_Inr_iff vs_new_def bt_empty_def)

text \<open>Property C40: the parsed tables. Parsing succeeds exactly when serde does, at least one validator
  set is given and \<open>posdaoTransition\<close> is present. The validator set of a block number is the raw one
  with both contract spellings merged; the reward contract of a block number is the explicit
  transition if there is one and otherwise the single legacy address, at its transition or at zero;
  and the configuration satisfies the invariant the lookups rely on.\<close>

theorem from_json_value_tables:
  assumes fv: "fv v = Inr raw" and wf: "raw_wf raw"
  shows "((\<exists>cfg. from_json_value fv v = Inr cfg) \<longleftrightarrow>
      multi (raw_validators raw) \<noteq> [] \<and> raw_posdao_transition raw \<noteq> None)
    \<and> (\<forall>cfg n. from_json_value fv v = Inr cfg \<longrightarrow>
      vs_wf (aura_validators cfg)
      \<and> bt_get (sets (aura_validators cfg)) n =
          map_option validator_kind (bt_get (multi (raw_validators raw)) (StringNum n))
      \<and> bt_get (block_reward_contract_transitions cfg) n =
          (case Option.bind (raw_block_reward_contract_transitions raw)
                  (\<lambda>ts. bt_get ts (StringNum n)) of
             Some a \<Rightarrow> Some a
           | None \<Rightarrow> (if n = (case raw_block_reward_contract_transition raw of
                                None \<Rightarrow> 0 | Some t \<Rightarrow> t)
                      then raw_block_reward_contract_address raw else None))
      \<and> bt_get (rewrite_bytecode cfg) n =
          Option.bind (raw_rewrite_bytecode raw) (\<lambda>rw. bt_get rw (StringNum n)))"
  (is "?ok \<and> (\<forall>cfg n. _ \<longrightarrow> ?W cfg \<and> ?V cfg n \<and> ?R cfg n \<and> ?B cfg n)")
proof (intro conjI allI impI)
  show ?ok using fv by (auto simp: from_json_value_Inr)
next
  fix cfg n assume "from_json_value fv v = Inr cfg"
  with fv have ne: "multi (raw_validators raw) \<noteq> []"
    and sets: "aura_validators cfg =
      \<lparr>sets = insert_all validator_kind (multi (raw_validators raw)) bt_empty\<rparr>"
    and rewards: "block_reward_contract_transitions cfg = build_reward_transitions raw"
    and codes: "rewrite_bytecode cfg = (case raw_rewrite_bytecode raw of
               Some rw \<Rightarrow> insert_all (\<lambda>c. c) rw bt_empty | None \<Rightarrow> bt_empty)"
    by (auto simp: from_json_value_Inr)
  from wf have wfs: "bt_wf (multi (raw_validators raw))"
      "\<forall>ts. raw_block_reward_contract_transitions raw = Some ts \<longrightarrow> bt_wf ts"
      "\<forall>rw. raw_rewrite_bytecode raw = Some rw \<longrightarrow> bt_wf rw"
    by (auto simp: raw_wf_def split: option.splits)
  show "?W cfg" using ne insert_all_empty_iff [of validator_kind "multi (raw_validators raw)"]
    by (simp add: vs_wf_def sets insert_all_wf bt.wf_empty bt_empty_def)
  show "?V cfg n" by (simp add: sets insert_all_get_empty wfs)
  show "?R cfg n" unfolding rewards by (rule build_reward_get [OF wfs(2)])
  show "?B cfg n" using wfs(3)
    by (simp add: codes insert_all_get_empty bt.get_empty option.map_ident split: option.splits)
qed

definition sample_raw :: RawAuraConfig where
  "sample_raw = \<lparr>raw_step_duration = 5,
     raw_validators = \<lparr>multi = [(StringNum 0, RawList [1]), (StringNum 1300, RawSafeContract 9)]\<rparr>,
     raw_block_reward_contract_address = Some 7, raw_block_reward_contract_transition = None,
     raw_block_reward_contract_transitions = Some [(StringNum 20, 8)],
     raw_posdao_transition = Some 2000, raw_rewrite_bytecode = None\<rparr>"

theorem from_json_value_tables_witness:
  "\<exists>cfg. from_json_value (\<lambda>r. Inr r :: string + RawAuraConfig) sample_raw = Inr cfg
        \<and> bt_get (block_reward_contract_transitions cfg) 0 = Some 7
        \<and> bt_get (block_reward_contract_transitions cfg) 20 = Some 8
        \<and> bt_get (sets (aura_validators cfg)) 1300 = Some (Contract 9)"
proof -
  let ?fv = "\<lambda>r. Inr r :: string + RawAuraConfig"
  have wf: "raw_wf sample_raw" by (simp add: raw_wf_def sample_raw_def less_StringNum_def)
  note tables = from_json_value_tables [of ?fv sample_raw sample_raw, OF refl wf]
  then obtain cfg where cfg: "from_json_value ?fv sample_raw = Inr cfg"
    by (auto simp: sample_raw_def)
  with tables show ?thesis
    by (intro exI [of _ cfg]) (simp add: sample_raw_def)
qed

end
