(* ===== verification/Header.thy ===== *)
theory Header
  imports Prelude
begin

text \<open>
  The block header the node works on. The type comes from \<open>gnosis_primitives\<close>, so only its data is
  here, with the fields and widths the sources under \<open>src/\<close> read and build. Its behaviour (its
  encoding, its hash, its notion of pre-merge) stays a parameter of the definitions that use it.
\<close>

record GnosisHeader =
  h_parent_hash :: b256
  h_ommers_hash :: b256
  h_beneficiary :: address
  h_state_root :: b256
  h_transactions_root :: b256
  h_receipts_root :: b256
  h_logs_bloom :: "2048 word"
  h_difficulty :: u256
  h_number :: u64
  h_gas_limit :: u64
  h_gas_used :: u64
  h_timestamp :: u64
  h_extra_data :: bytes
  h_mix_hash :: "b256 option"
  h_nonce :: "u64 option"
  h_aura_step :: "u256 option"
  h_aura_seal :: "bytes option"
  h_base_fee_per_gas :: "u64 option"
  h_withdrawals_root :: "b256 option"
  h_blob_gas_used :: "u64 option"
  h_excess_blob_gas :: "u64 option"
  h_parent_beacon_block_root :: "b256 option"
  h_requests_hash :: "b256 option"

text \<open>The header of \<open>alloy_consensus\<close>, with the fields the sources build it from.\<close>

record EthHeader =
  eth_parent_hash :: b256
  eth_ommers_hash :: b256
  eth_beneficiary :: address
  eth_state_root :: b256
  eth_transactions_root :: b256
  eth_receipts_root :: b256
  eth_logs_bloom :: "2048 word"
  eth_difficulty :: u256
  eth_number :: u64
  eth_gas_limit :: u64
  eth_gas_used :: u64
  eth_timestamp :: u64
  eth_extra_data :: bytes
  eth_mix_hash :: b256
  eth_nonce :: u64
  eth_base_fee_per_gas :: "u64 option"
  eth_withdrawals_root :: "b256 option"
  eth_blob_gas_used :: "u64 option"
  eth_excess_blob_gas :: "u64 option"
  eth_parent_beacon_block_root :: "b256 option"
  eth_requests_hash :: "b256 option"

text \<open>The constant \<open>EMPTY_OMMER_ROOT_HASH\<close> of \<open>alloy_consensus\<close> is a value like any other here; it is a
  parameter of the checks that compare with it.\<close>

text \<open>A seal is a fixed array of 65 bytes; the type of the list does not say so.\<close>

definition seal_wf :: "GnosisHeader \<Rightarrow> bool" where
  "seal_wf h \<longleftrightarrow> pred_option (\<lambda>s. length s = 65) (h_aura_seal h)"

definition blank_header :: GnosisHeader where
  "blank_header = \<lparr>h_parent_hash = 0, h_ommers_hash = 0, h_beneficiary = 0, h_state_root = 0,
     h_transactions_root = 0, h_receipts_root = 0, h_logs_bloom = 0, h_difficulty = 0, h_number = 0,
     h_gas_limit = 0, h_gas_used = 0, h_timestamp = 0, h_extra_data = [], h_mix_hash = None,
     h_nonce = None, h_aura_step = None, h_aura_seal = None, h_base_fee_per_gas = None,
     h_withdrawals_root = None, h_blob_gas_used = None, h_excess_blob_gas = None,
     h_parent_beacon_block_root = None, h_requests_hash = None\<rparr>"

end
