(* ===== verification/ChainSpec.thy ===== *)
theory ChainSpec
  imports AuraConfig Header
begin

text \<open>
  The Gnosis chain specification of \<open>src/spec/gnosis_spec.rs\<close>, with the Balancer hard fork
  configuration of \<open>src/consts.rs\<close> and the blob schedule of \<open>src/blobs.rs\<close>: how a genesis file becomes
  a hard fork table, how the fork identifier and the fork filter are read off the table, and the
  activation queries the other components ask. The hard fork container and the activation tests of
  \<open>alloy_hardforks\<close> are a parameter, \<open>hardforks_api\<close>; \<open>hardforks_ok\<close> states their documentation.
\<close>

section \<open>Data\<close>

datatype Chain = Gnosis | Chiado

fun from_chain_id :: "u64 \<Rightarrow> Chain option" where
  "from_chain_id n = (if n = 100 then Some Gnosis else if n = 10200 then Some Chiado else None)"

text \<open>The Ethereum forks the node names and the two forks of the \<open>hardfork!\<close> declaration.\<close>

datatype Hardfork = Frontier | Homestead | Dao | Tangerine | SpuriousDragon | Byzantium
  | Constantinople | Petersburg | Istanbul | Berlin | London | Paris | Shanghai | Cancun | Prague
  | Osaka | POSDAOActivation | BalancerFork

datatype ForkCondition =
    Block u64
  | TTD (activation_block_number: u64) (fork_block: "u64 option") (total_difficulty: u256)
  | Timestamp u64
  | Never

type_synonym fork_table = "(Hardfork \<times> ForkCondition) list"

text \<open>\<open>forks_iter\<close> enumerates a table in order, so a table is the list it enumerates.\<close>

record hardforks_api =
  hf_new :: "fork_table \<Rightarrow> fork_table"
  hf_fork :: "fork_table \<Rightarrow> Hardfork \<Rightarrow> ForkCondition"
  active_at_block :: "ForkCondition \<Rightarrow> u64 \<Rightarrow> bool"
  active_at_timestamp :: "ForkCondition \<Rightarrow> u64 \<Rightarrow> bool"
  as_timestamp :: "ForkCondition \<Rightarrow> u64 option"

definition hardforks_ok :: "hardforks_api \<Rightarrow> bool" where
  "hardforks_ok api \<longleftrightarrow>
     (\<forall>fs. hf_new api fs = fs)
     \<and> (\<forall>fs f. hf_fork api fs f = (case map_of fs f of None \<Rightarrow> Never | Some c \<Rightarrow> c))
     \<and> (\<forall>c n. active_at_block api c n \<longleftrightarrow>
          (case c of Block b \<Rightarrow> b \<le> n | TTD a _ _ \<Rightarrow> a \<le> n | Timestamp _ \<Rightarrow> False | Never \<Rightarrow> False))
     \<and> (\<forall>c t. active_at_timestamp api c t \<longleftrightarrow>
          (case c of Timestamp s \<Rightarrow> s \<le> t | Block _ \<Rightarrow> False | TTD _ _ _ \<Rightarrow> False | Never \<Rightarrow> False))
     \<and> (\<forall>c. as_timestamp api c =
          (case c of Timestamp s \<Rightarrow> Some s | Block _ \<Rightarrow> None | TTD _ _ _ \<Rightarrow> None | Never \<Rightarrow> None))"

datatype json = JNull | JBool bool | JNumber string | JString string | JArray "json list"
  | JObject "(string \<times> json) list"

record GenesisConfig =
  chain_id :: u64
  homestead_block :: "u64 option"
  dao_fork_block :: "u64 option"
  eip150_block :: "u64 option"
  eip155_block :: "u64 option"
  byzantium_block :: "u64 option"
  constantinople_block :: "u64 option"
  petersburg_block :: "u64 option"
  istanbul_block :: "u64 option"
  berlin_block :: "u64 option"
  london_block :: "u64 option"
  merge_netsplit_block :: "u64 option"
  terminal_total_difficulty :: "u256 option"
  shanghai_time :: "u64 option"
  cancun_time :: "u64 option"
  prague_time :: "u64 option"
  osaka_time :: "u64 option"
  deposit_contract_address :: "address option"
  extra_fields :: "string \<rightharpoonup> json"

record Genesis =
  g_config :: GenesisConfig
  g_timestamp :: u64
  g_difficulty :: u256

record BlobParams =
  target_blob_count :: u64
  max_blob_count :: u64
  update_fraction :: u128
  min_blob_fee :: u128
  max_blobs_per_tx :: u64
  blob_base_cost :: u64

record BlobSchedule =
  blobs_cancun :: BlobParams
  blobs_prague :: BlobParams
  blobs_osaka :: BlobParams
  blobs_scheduled :: "(u64 \<times> BlobParams) list"

record DepositContract =
  dc_address :: address
  dc_block :: u64
  dc_topic :: b256

record BalancerHardforkConfig =
  activation_time :: u64
  balancer_config :: "(address \<times> bytes option \<times> b256) list"

record GnosisChainSpec =
  spec_chain :: u64
  spec_inner_genesis_header :: EthHeader
  spec_genesis :: Genesis
  spec_hardforks :: fork_table
  paris_block_and_final_difficulty :: "(u64 \<times> u256) option"
  spec_deposit_contract :: "DepositContract option"
  spec_blob_params :: BlobSchedule
  spec_genesis_header :: GnosisHeader
  balancer_hardfork_config :: "BalancerHardforkConfig option"
  spec_aura_config :: "AuraConfig option"

section \<open>Blob schedule\<close>

text \<open>\<open>BLOB_BASE_COST\<close> is a constant of \<open>alloy_eips\<close> (EIP-7918) and a parameter here.\<close>

definition cancun_blob_params :: BlobParams where
  "cancun_blob_params = \<lparr>target_blob_count = 1, max_blob_count = 2, update_fraction = 1112826,
     min_blob_fee = 1000000000, max_blobs_per_tx = 2, blob_base_cost = 0\<rparr>"

definition prague_blob_params :: BlobParams where
  "prague_blob_params = \<lparr>target_blob_count = 1, max_blob_count = 2, update_fraction = 1112826,
     min_blob_fee = 1000000000, max_blobs_per_tx = 2, blob_base_cost = 0\<rparr>"

definition osaka_blob_params :: "u64 \<Rightarrow> BlobParams" where
  "osaka_blob_params base_cost = \<lparr>target_blob_count = 1, max_blob_count = 2,
     update_fraction = 1112826, min_blob_fee = 1000000000, max_blobs_per_tx = 2,
     blob_base_cost = base_cost\<rparr>"

definition gnosis_blob_schedule :: "u64 \<Rightarrow> BlobSchedule" where
  "gnosis_blob_schedule base_cost = \<lparr>blobs_cancun = cancun_blob_params,
     blobs_prague = prague_blob_params, blobs_osaka = osaka_blob_params base_cost,
     blobs_scheduled = []\<rparr>"

section \<open>The Balancer hard fork configuration\<close>

text \<open>Serde, the hex decoder and Keccak are parameters. A hash map is the list its iterator yields.
  Malformed input panics, as the code's \<open>expect\<close> and \<open>panic!\<close> do.\<close>

record balancer_api =
  json_u64 :: "json \<Rightarrow> unit + u64"
  json_address_map :: "json \<Rightarrow> unit + (address \<times> string) list"
  bytes_from_hex :: "string \<Rightarrow> unit + bytes"
  code_hash_slow :: "bytes \<Rightarrow> b256"
  keccak_empty :: b256

definition expect :: "string \<Rightarrow> 'e + 'a \<Rightarrow> 'f fault + 'a" where
  "expect msg r = (case r of Inl _ \<Rightarrow> Inl (Panic msg) | Inr a \<Rightarrow> Inr a)"

lemma expect_Inr_iff [result_simps]: "expect m r = Inr a \<longleftrightarrow> r = Inr a"
  by (cases r) (auto simp: expect_def)

definition balancer_entry ::
  "balancer_api \<Rightarrow> address \<times> string \<Rightarrow> 'e fault + (address \<times> bytes option \<times> b256)" where
  "balancer_entry b = (\<lambda>(addr, bytecode_str).
     and_then
       (if bytecode_str \<noteq> []
        then and_then (expect ''Unable to parse bytecode hex'' (bytes_from_hex b bytecode_str))
               (\<lambda>code. Inr (Some code))
        else Inr None)
       (\<lambda>bytecode. Inr (addr, bytecode,
          case bytecode of Some code \<Rightarrow> code_hash_slow b code | None \<Rightarrow> keccak_empty b)))"

fun collect_results :: "('a \<Rightarrow> 'e + 'b) \<Rightarrow> 'a list \<Rightarrow> 'e + 'b list" where
  "collect_results f [] = Inr []"
| "collect_results f (x # xs) =
     and_then (f x) (\<lambda>y. and_then (collect_results f xs) (\<lambda>ys. Inr (y # ys)))"

definition parse_balancer_hardfork_config ::
  "balancer_api \<Rightarrow> json option \<Rightarrow> json option \<Rightarrow> 'e fault + BalancerHardforkConfig option" where
  "parse_balancer_hardfork_config b time_value config_value =
     (case (time_value, config_value) of
        (Some tv, Some cv) \<Rightarrow>
          and_then (expect ''Error parsing balancerHardforkTime'' (json_u64 b tv)) (\<lambda>time.
          and_then (expect ''Error parsing balancerHardforkBytecodes'' (json_address_map b cv)) (\<lambda>m.
          and_then (collect_results (balancer_entry b) m) (\<lambda>cfg.
            Inr (Some \<lparr>activation_time = time, balancer_config = cfg\<rparr>))))
      | _ \<Rightarrow> Inr None)"

section \<open>From the genesis file to the specification\<close>

definition mainnet_hardfork_opts :: "GenesisConfig \<Rightarrow> (Hardfork \<times> u64 option) list" where
  "mainnet_hardfork_opts c =
     [(Homestead, homestead_block c), (Dao, dao_fork_block c), (Tangerine, eip150_block c),
      (SpuriousDragon, eip155_block c), (Byzantium, byzantium_block c),
      (Constantinople, constantinople_block c), (Petersburg, petersburg_block c),
      (Istanbul, istanbul_block c), (POSDAOActivation, Some 9186425), (Berlin, berlin_block c),
      (London, london_block c)]"

definition chiado_hardfork_opts :: "GenesisConfig \<Rightarrow> (Hardfork \<times> u64 option) list" where
  "chiado_hardfork_opts c =
     [(Homestead, homestead_block c), (Tangerine, eip150_block c),
      (SpuriousDragon, eip155_block c), (Byzantium, byzantium_block c),
      (Constantinople, constantinople_block c), (Petersburg, petersburg_block c),
      (Istanbul, istanbul_block c), (Berlin, berlin_block c), (London, london_block c)]"

definition time_hardfork_opts ::
  "GenesisConfig \<Rightarrow> BalancerHardforkConfig option \<Rightarrow> (Hardfork \<times> u64 option) list" where
  "time_hardfork_opts c bal =
     [(Shanghai, shanghai_time c), (Cancun, cancun_time c), (Prague, prague_time c),
      (BalancerFork, map_option activation_time bal), (Osaka, osaka_time c)]"

text \<open>\<open>filter_map(|(hardfork, opt)| opt.map(|x| (hardfork, cond(x))))\<close>.\<close>

definition scheduled :: "(u64 \<Rightarrow> ForkCondition) \<Rightarrow> (Hardfork \<times> u64 option) list \<Rightarrow> fork_table" where
  "scheduled cond opts = List.map_filter (\<lambda>(f, opt). map_option (\<lambda>x. (f, cond x)) opt) opts"

definition known_merge_block :: "GenesisConfig \<Rightarrow> u64 option" where
  "known_merge_block c =
     (case from_chain_id (chain_id c) of
        Some Gnosis \<Rightarrow> Some 25349537
      | Some Chiado \<Rightarrow> Some 680930
      | None \<Rightarrow> merge_netsplit_block c)"

definition unwrap_or_default :: "'a::zero option \<Rightarrow> 'a" where
  "unwrap_or_default m = (case m of None \<Rightarrow> 0 | Some x \<Rightarrow> x)"

definition build_hardforks :: "GenesisConfig \<Rightarrow> BalancerHardforkConfig option \<Rightarrow> fork_table" where
  "build_hardforks c bal =
     (case from_chain_id (chain_id c) of
        Some Gnosis \<Rightarrow> scheduled Block (mainnet_hardfork_opts c)
      | _ \<Rightarrow> scheduled Block (chiado_hardfork_opts c))
     @ (case terminal_total_difficulty c of
          Some ttd \<Rightarrow> [(Paris, TTD (unwrap_or_default (known_merge_block c)) None ttd)]
        | None \<Rightarrow> [])
     @ scheduled Timestamp (time_hardfork_opts c bal)"

text \<open>The library calls of the conversion: the genesis header of a genesis file and its conversion
  to the Gnosis header.\<close>

record genesis_api =
  make_genesis_header :: "Genesis \<Rightarrow> fork_table \<Rightarrow> EthHeader"
  gnosis_header_from :: "EthHeader \<Rightarrow> GnosisHeader"
  aura_from_value :: "json \<Rightarrow> unit + RawAuraConfig"
  eip7918_blob_base_cost :: u64

definition chain_spec_from_genesis ::
  "hardforks_api \<Rightarrow> balancer_api \<Rightarrow> genesis_api \<Rightarrow> Genesis \<Rightarrow> 'e fault + GnosisChainSpec" where
  "chain_spec_from_genesis api b ga g =
     (let c = g_config g in
      and_then (parse_balancer_hardfork_config b (extra_fields c ''balancerHardforkTime'')
        (extra_fields c ''balancerHardforkBytecodes'')) (\<lambda>bal.
      and_then (case extra_fields c ''aura'' of
          None \<Rightarrow> Inr None
        | Some v \<Rightarrow> and_then (expect ''malformed `aura` section in genesis''
            (from_json_value (aura_from_value ga) v)) (\<lambda>a. Inr (Some a))) (\<lambda>aura.
      let hardforks = hf_new api (build_hardforks c bal);
          is_paris_active_at_genesis =
            (case terminal_total_difficulty c of Some ttd \<Rightarrow> ttd \<le> g_difficulty g | None \<Rightarrow> False);
          eth_header = make_genesis_header ga g hardforks;
          converted = gnosis_header_from ga eth_header;
          genesis_header =
            (if is_paris_active_at_genesis then converted
             else converted\<lparr>h_mix_hash := None, h_nonce := None,
               h_aura_seal := Some (replicate 65 0), h_aura_step := Some 0\<rparr>)
      in Inr \<lparr>spec_chain = chain_id c, spec_inner_genesis_header = eth_header, spec_genesis = g,
           spec_hardforks = hardforks,
           paris_block_and_final_difficulty =
             (case terminal_total_difficulty c of
                Some ttd \<Rightarrow> map_option (\<lambda>block. (block, ttd)) (known_merge_block c)
              | None \<Rightarrow> None),
           spec_deposit_contract = map_option (\<lambda>a. \<lparr>dc_address = a, dc_block = 0,
               dc_topic = 0x649bbc62d0e31342afea4e5cd82d4049e7e1ee912fc0889aa790803be39038c5\<rparr>)
             (deposit_contract_address c),
           spec_blob_params = gnosis_blob_schedule (eip7918_blob_base_cost ga),
           spec_genesis_header = genesis_header,
           balancer_hardfork_config = bal, spec_aura_config = aura\<rparr>)))"

section \<open>Activation queries\<close>

definition fork_activation :: "hardforks_api \<Rightarrow> GnosisChainSpec \<Rightarrow> Hardfork \<Rightarrow> ForkCondition" where
  "fork_activation api spec f = hf_fork api (spec_hardforks spec) f"

text \<open>The trait's queries \<open>is_london_active_at_block\<close>, \<open>is_shanghai_active_at_timestamp\<close> and so on.\<close>

definition is_active_at_block ::
  "hardforks_api \<Rightarrow> GnosisChainSpec \<Rightarrow> Hardfork \<Rightarrow> u64 \<Rightarrow> bool" where
  "is_active_at_block api spec f n = active_at_block api (fork_activation api spec f) n"

definition is_active_at_timestamp ::
  "hardforks_api \<Rightarrow> GnosisChainSpec \<Rightarrow> Hardfork \<Rightarrow> u64 \<Rightarrow> bool" where
  "is_active_at_timestamp api spec f t = active_at_timestamp api (fork_activation api spec f) t"

definition is_balancer_hardfork_active_at_timestamp ::
  "hardforks_api \<Rightarrow> GnosisChainSpec \<Rightarrow> u64 \<Rightarrow> bool" where
  "is_balancer_hardfork_active_at_timestamp api spec t =
     active_at_timestamp api (hf_fork api (spec_hardforks spec) BalancerFork) t"

definition exec_deposit_contract_address :: "GnosisChainSpec \<Rightarrow> address option" where
  "exec_deposit_contract_address spec = map_option dc_address (spec_deposit_contract spec)"

section \<open>Fork identifier and fork filter\<close>

record 'h ForkId =
  fid_hash :: 'h
  fid_next :: u64

record Head =
  head_number :: u64
  head_timestamp :: u64

text \<open>The checksum of EIP-2124: its value for the genesis hash and its update by one fork point.\<close>

record 'h fork_hash_api =
  fork_hash_from :: "b256 \<Rightarrow> 'h"
  fork_hash_add :: "'h \<Rightarrow> u64 \<Rightarrow> 'h"

text \<open>The pattern \<open>Block(block) | TTD { fork_block: Some(block), .. }\<close>.\<close>

fun block_of :: "ForkCondition \<Rightarrow> u64 option" where
  "block_of (Block b) = Some b"
| "block_of (TTD _ fb _) = fb"
| "block_of (Timestamp _) = None"
| "block_of Never = None"

text \<open>The two loops. An early return is on the left.\<close>

fun fork_id_blocks ::
  "'h fork_hash_api \<Rightarrow> Head \<Rightarrow> fork_table \<Rightarrow> 'h \<times> u64 \<Rightarrow> 'h ForkId + ('h \<times> u64)" where
  "fork_id_blocks fh head [] st = Inr st"
| "fork_id_blocks fh head ((f, cond) # fs) (forkhash, current_applied) =
     (case block_of cond of
        Some block \<Rightarrow>
          (if head_number head \<ge> block
           then fork_id_blocks fh head fs
                  (if block \<noteq> current_applied then (fork_hash_add fh forkhash block, block)
                   else (forkhash, current_applied))
           else Inl \<lparr>fid_hash = forkhash, fid_next = block\<rparr>)
      | None \<Rightarrow> fork_id_blocks fh head fs (forkhash, current_applied))"

fun fork_id_timestamps ::
  "'h fork_hash_api \<Rightarrow> Head \<Rightarrow> u64 list \<Rightarrow> 'h \<times> u64 \<Rightarrow> 'h ForkId" where
  "fork_id_timestamps fh head [] (forkhash, current_applied) =
     \<lparr>fid_hash = forkhash, fid_next = 0\<rparr>"
| "fork_id_timestamps fh head (t # ts) (forkhash, current_applied) =
     (if head_timestamp head \<ge> t
      then fork_id_timestamps fh head ts
             (if t \<noteq> current_applied then (fork_hash_add fh forkhash t, t)
              else (forkhash, current_applied))
      else \<lparr>fid_hash = forkhash, fid_next = t\<rparr>)"

text \<open>The timestamp forks activated after the genesis block.\<close>

definition time_points :: "hardforks_api \<Rightarrow> GnosisChainSpec \<Rightarrow> u64 list" where
  "time_points api spec = List.map_filter (\<lambda>(_, cond). case as_timestamp api cond of
       None \<Rightarrow> None
     | Some time \<Rightarrow> (if time > g_timestamp (spec_genesis spec) then Some time else None))
     (spec_hardforks spec)"

definition genesis_hash :: "(GnosisHeader \<Rightarrow> b256) \<Rightarrow> GnosisChainSpec \<Rightarrow> b256" where
  "genesis_hash header_hash spec = header_hash (spec_genesis_header spec)"

definition fork_id ::
  "hardforks_api \<Rightarrow> 'h fork_hash_api \<Rightarrow> (GnosisHeader \<Rightarrow> b256) \<Rightarrow> GnosisChainSpec \<Rightarrow> Head
     \<Rightarrow> 'h ForkId" where
  "fork_id api fh header_hash spec head =
     (case fork_id_blocks fh head (spec_hardforks spec)
             (fork_hash_from fh (genesis_hash header_hash spec), 0) of
        Inl fid \<Rightarrow> fid
      | Inr st \<Rightarrow> fork_id_timestamps fh head (time_points api spec) st)"

datatype ForkFilterKey = BlockKey u64 | TimeKey u64

text \<open>The keys \<open>fork_filter\<close> hands to the library's filter.\<close>

definition fork_filter_keys :: "GnosisChainSpec \<Rightarrow> ForkFilterKey list" where
  "fork_filter_keys spec = List.map_filter (\<lambda>(_, cond). case cond of
       Block b \<Rightarrow> Some (BlockKey b)
     | TTD _ (Some b) _ \<Rightarrow> Some (BlockKey b)
     | Timestamp t \<Rightarrow> Some (TimeKey t)
     | _ \<Rightarrow> None) (spec_hardforks spec)"

section \<open>The fork identifier against EIP-2124\<close>

text \<open>The reference: the activation points in order; the checksum covers every point passed, with
  points equal to their predecessor (and zero at the start) counted once; next is the first point
  not reached.\<close>

definition block_points :: "GnosisChainSpec \<Rightarrow> u64 list" where
  "block_points spec = List.map_filter (\<lambda>(_, cond). block_of cond) (spec_hardforks spec)"

definition checksum :: "'h fork_hash_api \<Rightarrow> 'h \<Rightarrow> u64 list \<Rightarrow> 'h" where
  "checksum fh h points = foldl (fork_hash_add fh) h (tl (remdups_adj (0 # points)))"

definition eip2124 :: "'h fork_hash_api \<Rightarrow> 'h \<Rightarrow> u64 list \<Rightarrow> u64 list \<Rightarrow> Head \<Rightarrow> 'h ForkId" where
  "eip2124 fh h bs ts head =
     (let passed = takeWhile (\<lambda>b. b \<le> head_number head) bs;
          passed_t = takeWhile (\<lambda>t. t \<le> head_timestamp head) ts
      in if length passed < length bs
         then \<lparr>fid_hash = checksum fh h passed, fid_next = bs ! length passed\<rparr>
         else \<lparr>fid_hash = checksum fh h (bs @ passed_t),
                fid_next = (if length passed_t < length ts then ts ! length passed_t else 0)\<rparr>)"

definition apply_point :: "'h fork_hash_api \<Rightarrow> u64 \<Rightarrow> 'h \<times> u64 \<Rightarrow> 'h \<times> u64" where
  "apply_point fh x st = (if x \<noteq> snd st then (fork_hash_add fh (fst st) x, x) else st)"

lemma fold_apply_point:
  "fst (fold (apply_point fh) xs (h, c)) = foldl (fork_hash_add fh) h (tl (remdups_adj (c # xs)))"
proof (induction xs arbitrary: h c)
  case (Cons x xs)
  have "remdups_adj (x # xs) = x # tl (remdups_adj (x # xs))"
    using hd_remdups_adj [of "x # xs"] remdups_adj_Nil_iff [of "x # xs"]
    by (metis list.collapse list.sel(1) list.simps(3))
  then have "foldl f h' (remdups_adj (x # xs)) = foldl f (f h' x) (tl (remdups_adj (x # xs)))"
    for f and h' :: 'a
    by (metis foldl_Cons)
  with Cons show ?case by (simp add: apply_point_def)
qed simp

lemma fork_id_blocks_points:
  "fork_id_blocks fh head fs st =
     (let bs = List.map_filter (\<lambda>(_, cond). block_of cond) fs;
          passed = takeWhile (\<lambda>b. b \<le> head_number head) bs
      in if length passed < length bs
         then Inl \<lparr>fid_hash = fst (fold (apply_point fh) passed st), fid_next = bs ! length passed\<rparr>
         else Inr (fold (apply_point fh) bs st))"
proof (induction fh head fs st rule: fork_id_blocks.induct)
  case (2 fh head f cond fs forkhash cur)
  show ?case
  proof (cases "block_of cond")
    case None
    with 2 show ?thesis by (simp add: map_filter_simps)
  next
    case (Some b)
    with 2 show ?thesis
      by (cases "b \<noteq> cur") (simp_all add: map_filter_simps Let_def apply_point_def)
  qed
qed (simp add: map_filter_simps)

lemma fork_id_timestamps_points:
  "fork_id_timestamps fh head ts st =
     (let passed = takeWhile (\<lambda>t. t \<le> head_timestamp head) ts
      in \<lparr>fid_hash = fst (fold (apply_point fh) passed st),
          fid_next = (if length passed < length ts then ts ! length passed else 0)\<rparr>)"
proof (induction fh head ts st rule: fork_id_timestamps.induct)
  case (2 fh head t ts forkhash cur)
  then show ?case
    by (cases "t \<noteq> cur") (simp_all add: Let_def apply_point_def)
qed simp

text \<open>Property C25: the fork identifier is the one EIP-2124 prescribes for the table's block points and
  then its post-genesis timestamp points. The early returns, the skipping of duplicates and the two
  passes amount to the checksum of the points passed and the first point not reached.\<close>

theorem fork_id_is_eip2124:
  "fork_id api fh header_hash spec head =
     eip2124 fh (fork_hash_from fh (genesis_hash header_hash spec)) (block_points spec)
       (time_points api spec) head"
proof -
  have full: "takeWhile P bs = bs" if "\<not> length (takeWhile P bs) < length bs" for P and bs :: "u64 list"
    using that takeWhile_dropWhile_id [of P bs] by (metis append_eq_append_conv append_Nil2
        dropWhile_eq_Nil_conv takeWhile_eq_all_conv length_append less_add_same_cancel1 length_greater_0_conv)
  show ?thesis
    by (simp add: fork_id_def fork_id_blocks_points fork_id_timestamps_points eip2124_def Let_def
        checksum_def block_points_def fold_apply_point [symmetric] fold_append)
qed

section \<open>The table a genesis file gives\<close>

lemma map_of_scheduled:
  "distinct (map fst opts) \<Longrightarrow>
     map_of (scheduled cond opts) f = Option.bind (map_of opts f) (map_option cond)"
proof (induction opts)
  case (Cons e opts)
  obtain g opt where e: "e = (g, opt)" by (cases e)
  have "map_of (scheduled cond opts) g = None" if "g \<notin> fst ` set opts"
    using that by (force simp: scheduled_def map_filter_def map_of_eq_None_iff)
  with Cons e show ?case
    by (cases opt) (auto simp: scheduled_def map_filter_simps)
qed (simp add: scheduled_def map_filter_simps)

lemma scheduled_points:
  "List.map_filter (\<lambda>(_, cond). block_of cond) (scheduled Block opts) = List.map_filter snd opts"
  "List.map_filter (\<lambda>(_, cond). block_of cond) (scheduled Timestamp opts) = []"
  by (induction opts) (auto simp: scheduled_def map_filter_simps split: option.splits)

definition config_block_forks :: "GenesisConfig \<Rightarrow> (Hardfork \<times> u64 option) list" where
  "config_block_forks c = (case from_chain_id (chain_id c) of
     Some Gnosis \<Rightarrow> mainnet_hardfork_opts c | _ \<Rightarrow> chiado_hardfork_opts c)"

lemma build_hardforks_alt:
  "build_hardforks c bal = scheduled Block (config_block_forks c)
     @ (case terminal_total_difficulty c of
          Some ttd \<Rightarrow> [(Paris, TTD (unwrap_or_default (known_merge_block c)) None ttd)]
        | None \<Rightarrow> [])
     @ scheduled Timestamp (time_hardfork_opts c bal)"
  by (simp add: build_hardforks_def config_block_forks_def split: option.split Chain.split)

lemma config_block_forks_keys:
  "distinct (map fst (config_block_forks c))"
  "set (map fst (config_block_forks c)) \<inter> {Paris, Shanghai, Cancun, Prague, BalancerFork, Osaka} = {}"
  by (auto simp: config_block_forks_def mainnet_hardfork_opts_def chiado_hardfork_opts_def
      split: option.splits Chain.splits)

lemma chain_spec_hardforks:
  assumes "hardforks_ok api" and "chain_spec_from_genesis api b ga g = Inr spec"
  shows "spec_hardforks spec = build_hardforks (g_config g) (balancer_hardfork_config spec)"
    and "spec_genesis spec = g"
  using assms
  by (auto simp: chain_spec_from_genesis_def Let_def and_then_Inr_iff hardforks_ok_def)

lemma build_hardforks_lookup:
  "map_of (build_hardforks c bal) Paris =
     map_option (\<lambda>ttd. TTD (unwrap_or_default (known_merge_block c)) None ttd)
       (terminal_total_difficulty c)"
  "map_of (build_hardforks c bal) Shanghai = map_option Timestamp (shanghai_time c)"
  "map_of (build_hardforks c bal) Cancun = map_option Timestamp (cancun_time c)"
  "map_of (build_hardforks c bal) Prague = map_option Timestamp (prague_time c)"
  "map_of (build_hardforks c bal) Osaka = map_option Timestamp (osaka_time c)"
  "map_of (build_hardforks c bal) BalancerFork =
     map_option (\<lambda>k. Timestamp (activation_time k)) bal"
proof -
  have none: "map_of (config_block_forks c) f = None"
    if "f \<in> {Paris, Shanghai, Cancun, Prague, BalancerFork, Osaka}" for f
    using that config_block_forks_keys(2) [of c] unfolding map_of_eq_None_iff set_map by blast
  note unfold = build_hardforks_alt map_add_def map_of_scheduled config_block_forks_keys(1)
    time_hardfork_opts_def none
  show "map_of (build_hardforks c bal) Paris =
      map_option (\<lambda>ttd. TTD (unwrap_or_default (known_merge_block c)) None ttd)
        (terminal_total_difficulty c)"
    "map_of (build_hardforks c bal) Shanghai = map_option Timestamp (shanghai_time c)"
    "map_of (build_hardforks c bal) Cancun = map_option Timestamp (cancun_time c)"
    "map_of (build_hardforks c bal) Prague = map_option Timestamp (prague_time c)"
    "map_of (build_hardforks c bal) Osaka = map_option Timestamp (osaka_time c)"
    "map_of (build_hardforks c bal) BalancerFork =
       map_option (\<lambda>k. Timestamp (activation_time k)) bal"
    by (simp_all add: unfold option.map_comp comp_def split: option.split)
qed

text \<open>The merge and the fork identifier. In the specification built from a genesis file
  Paris is active from the chain's known merge block on, exactly when a terminal total difficulty is
  given, and yet the merge contributes no point to the fork identifier: the block points are those of
  the configured block forks alone.\<close>

theorem merge_activates_without_fork_point:
  assumes "hardforks_ok api" and "chain_spec_from_genesis api b ga g = Inr spec"
  shows "(is_active_at_block api spec Paris n \<longleftrightarrow>
      terminal_total_difficulty (g_config g) \<noteq> None
      \<and> unwrap_or_default (known_merge_block (g_config g)) \<le> n)
    \<and> block_points spec = List.map_filter snd (config_block_forks (g_config g))"
proof -
  note table = chain_spec_hardforks [OF assms]
  have append: "List.map_filter p (xs @ ys) = List.map_filter p xs @ List.map_filter p ys"
    for p :: "'x \<Rightarrow> 'y option" and xs ys
    by (simp add: map_filter_def)
  have "block_points spec = List.map_filter snd (config_block_forks (g_config g))"
    by (simp add: block_points_def table build_hardforks_alt append scheduled_points
        map_filter_simps split: option.split)
  moreover from assms(1) have "is_active_at_block api spec Paris n \<longleftrightarrow>
      terminal_total_difficulty (g_config g) \<noteq> None
      \<and> unwrap_or_default (known_merge_block (g_config g)) \<le> n"
    by (simp add: is_active_at_block_def fork_activation_def table hardforks_ok_def
        build_hardforks_lookup split: option.split)
  ultimately show ?thesis by simp
qed

text \<open>The documented library behaviour as executable functions, and a genesis file of Gnosis mainnet
  without forks besides the merge and Shanghai.\<close>

definition sample_hardforks_api :: hardforks_api where
  "sample_hardforks_api = \<lparr>hf_new = (\<lambda>fs. fs),
     hf_fork = (\<lambda>fs f. case map_of fs f of None \<Rightarrow> Never | Some c \<Rightarrow> c),
     active_at_block = (\<lambda>c n. case c of Block b \<Rightarrow> b \<le> n | TTD a _ _ \<Rightarrow> a \<le> n | _ \<Rightarrow> False),
     active_at_timestamp = (\<lambda>c t. case c of Timestamp s \<Rightarrow> s \<le> t | _ \<Rightarrow> False),
     as_timestamp = (\<lambda>c. case c of Timestamp s \<Rightarrow> Some s | _ \<Rightarrow> None)\<rparr>"

lemma sample_hardforks_ok: "hardforks_ok sample_hardforks_api"
  by (simp add: hardforks_ok_def sample_hardforks_api_def split: ForkCondition.split)

definition sample_genesis :: Genesis where
  "sample_genesis = \<lparr>g_config = \<lparr>chain_id = 100, homestead_block = Some 0, dao_fork_block = None,
       eip150_block = Some 0, eip155_block = Some 0, byzantium_block = Some 0,
       constantinople_block = Some 1604400, petersburg_block = Some 2508800,
       istanbul_block = Some 7298030, berlin_block = Some 16101500, london_block = Some 19040000,
       merge_netsplit_block = None,
       terminal_total_difficulty = Some 8626000110427540000000000000000000000000000000,
       shanghai_time = Some 1690889660, cancun_time = None, prague_time = None, osaka_time = None,
       deposit_contract_address = None, extra_fields = Map.empty\<rparr>,
     g_timestamp = 0, g_difficulty = 0x20000\<rparr>"

definition sample_balancer_api :: balancer_api where
  "sample_balancer_api = \<lparr>json_u64 = (\<lambda>_. Inl ()), json_address_map = (\<lambda>_. Inl ()),
     bytes_from_hex = (\<lambda>_. Inl ()), code_hash_slow = (\<lambda>_. 0), keccak_empty = 0\<rparr>"

definition sample_eth_header :: EthHeader where
  "sample_eth_header = \<lparr>eth_parent_hash = 0, eth_ommers_hash = 0, eth_beneficiary = 0,
     eth_state_root = 0, eth_transactions_root = 0, eth_receipts_root = 0, eth_logs_bloom = 0,
     eth_difficulty = 0, eth_number = 0, eth_gas_limit = 0, eth_gas_used = 0, eth_timestamp = 0,
     eth_extra_data = [], eth_mix_hash = 0, eth_nonce = 0, eth_base_fee_per_gas = None,
     eth_withdrawals_root = None, eth_blob_gas_used = None, eth_excess_blob_gas = None,
     eth_parent_beacon_block_root = None, eth_requests_hash = None\<rparr>"

definition sample_genesis_api :: genesis_api where
  "sample_genesis_api = \<lparr>make_genesis_header = (\<lambda>_ _. sample_eth_header),
     gnosis_header_from = (\<lambda>_. blank_header), aura_from_value = (\<lambda>_. Inl ()),
     eip7918_blob_base_cost = 8192\<rparr>"

text \<open>A specification with a given hard fork table.\<close>

definition sample_spec :: "fork_table \<Rightarrow> GnosisChainSpec" where
  "sample_spec table = \<lparr>spec_chain = 100, spec_inner_genesis_header = sample_eth_header,
     spec_genesis = sample_genesis, spec_hardforks = table, paris_block_and_final_difficulty = None,
     spec_deposit_contract = None, spec_blob_params = gnosis_blob_schedule 8192,
     spec_genesis_header = blank_header, balancer_hardfork_config = None, spec_aura_config = None\<rparr>"

lemma sample_spec_hardforks [simp]: "spec_hardforks (sample_spec table) = table"
  by (simp add: sample_spec_def)

lemma sample_spec_exists:
  "\<exists>spec. chain_spec_from_genesis sample_hardforks_api sample_balancer_api sample_genesis_api
     sample_genesis = (Inr spec :: unit fault + GnosisChainSpec)"
  by (simp add: chain_spec_from_genesis_def sample_genesis_def parse_balancer_hardfork_config_def
      Let_def)

theorem merge_activates_without_fork_point_witness:
  "\<exists>spec. chain_spec_from_genesis sample_hardforks_api sample_balancer_api sample_genesis_api
       sample_genesis = (Inr spec :: unit fault + GnosisChainSpec)
     \<and> is_active_at_block sample_hardforks_api spec Paris 25349537
     \<and> \<not> is_active_at_block sample_hardforks_api spec Paris 25349536
     \<and> block_points spec = [0, 0, 0, 0, 1604400, 2508800, 7298030, 9186425, 16101500, 19040000]"
proof -
  obtain spec where spec: "chain_spec_from_genesis sample_hardforks_api sample_balancer_api
      sample_genesis_api sample_genesis = (Inr spec :: unit fault + GnosisChainSpec)"
    using sample_spec_exists by blast
  note merge = merge_activates_without_fork_point [OF sample_hardforks_ok spec]
  have "block_points spec = [0, 0, 0, 0, 1604400, 2508800, 7298030, 9186425, 16101500, 19040000]"
    using merge by (simp add: sample_genesis_def config_block_forks_def mainnet_hardfork_opts_def
        map_filter_simps)
  moreover have "is_active_at_block sample_hardforks_api spec Paris 25349537"
    and "\<not> is_active_at_block sample_hardforks_api spec Paris 25349536"
    using merge by (simp_all add: sample_genesis_def known_merge_block_def unwrap_or_default_def)
  ultimately show ?thesis using spec by blast
qed

text \<open>The timestamp queries of the other components answer from the genesis fields: a
  timestamp fork is active from its configured time on and never when the field is absent, the
  Balancer fork from the activation time of its parsed configuration.\<close>

theorem timestamp_forks_from_genesis:
  assumes "hardforks_ok api" and "chain_spec_from_genesis api b ga g = Inr spec"
  shows "(is_active_at_timestamp api spec Shanghai t \<longleftrightarrow> (\<exists>s \<le> t. shanghai_time (g_config g) = Some s))
    \<and> (is_active_at_timestamp api spec Cancun t \<longleftrightarrow> (\<exists>s \<le> t. cancun_time (g_config g) = Some s))
    \<and> (is_active_at_timestamp api spec Prague t \<longleftrightarrow> (\<exists>s \<le> t. prague_time (g_config g) = Some s))
    \<and> (is_active_at_timestamp api spec Osaka t \<longleftrightarrow> (\<exists>s \<le> t. osaka_time (g_config g) = Some s))
    \<and> (is_balancer_hardfork_active_at_timestamp api spec t \<longleftrightarrow>
        (\<exists>cfg. balancer_hardfork_config spec = Some cfg \<and> activation_time cfg \<le> t))"
  using assms(1)
  by (simp add: is_active_at_timestamp_def is_balancer_hardfork_active_at_timestamp_def
      fork_activation_def chain_spec_hardforks [OF assms] hardforks_ok_def build_hardforks_lookup
      split: option.split)

theorem timestamp_forks_from_genesis_witness:
  "\<exists>spec. chain_spec_from_genesis sample_hardforks_api sample_balancer_api sample_genesis_api
       sample_genesis = (Inr spec :: unit fault + GnosisChainSpec)
     \<and> is_active_at_timestamp sample_hardforks_api spec Shanghai 1690889660
     \<and> \<not> is_active_at_timestamp sample_hardforks_api spec Shanghai 1690889659
     \<and> \<not> is_active_at_timestamp sample_hardforks_api spec Cancun 1690889660"
proof -
  obtain spec where spec: "chain_spec_from_genesis sample_hardforks_api sample_balancer_api
      sample_genesis_api sample_genesis = (Inr spec :: unit fault + GnosisChainSpec)"
    using sample_spec_exists by blast
  from timestamp_forks_from_genesis [OF sample_hardforks_ok spec] spec show ?thesis
    by (auto simp: sample_genesis_def)
qed

end
