(* ===== verification/Seal.thy ===== *)
theory Seal
  imports Header
begin

text \<open>
  The AuRa seal of \<open>src/aura/seal.rs\<close>: the bare hash the validator signs, the recovery of the author
  from the 65-byte signature, and the difficulty of a step. RLP encoding, Keccak and ECDSA are the
  libraries' and enter as parameters.
\<close>

section \<open>The bare hash\<close>

text \<open>\<open>alloy_rlp::Encodable\<close> for the field types of the header: the encoding and its announced
  length, and the encoding of a list header.\<close>

record rlp =
  enc_b256 :: "b256 \<Rightarrow> bytes"
  len_b256 :: "b256 \<Rightarrow> nat"
  enc_address :: "address \<Rightarrow> bytes"
  len_address :: "address \<Rightarrow> nat"
  enc_bloom :: "2048 word \<Rightarrow> bytes"
  len_bloom :: "2048 word \<Rightarrow> nat"
  enc_u256 :: "u256 \<Rightarrow> bytes"
  len_u256 :: "u256 \<Rightarrow> nat"
  enc_u64 :: "u64 \<Rightarrow> bytes"
  len_u64 :: "u64 \<Rightarrow> nat"
  enc_bytes :: "bytes \<Rightarrow> bytes"
  len_bytes :: "bytes \<Rightarrow> nat"
  enc_list_header :: "nat \<Rightarrow> bytes"

definition seal_hash_payload_length :: "rlp \<Rightarrow> GnosisHeader \<Rightarrow> nat" where
  "seal_hash_payload_length r h =
     len_b256 r (h_parent_hash h)
     + len_b256 r (h_ommers_hash h)
     + len_address r (h_beneficiary h)
     + len_b256 r (h_state_root h)
     + len_b256 r (h_transactions_root h)
     + len_b256 r (h_receipts_root h)
     + len_bloom r (h_logs_bloom h)
     + len_u256 r (h_difficulty h)
     + len_u64 r (h_number h)
     + len_u64 r (h_gas_limit h)
     + len_u64 r (h_gas_used h)
     + len_u64 r (h_timestamp h)
     + len_bytes r (h_extra_data h)
     + (case h_base_fee_per_gas h of Some fee \<Rightarrow> len_u64 r fee | None \<Rightarrow> 0)"

text \<open>The buffer \<open>compute_seal_hash\<close> hashes: every \<open>encode\<close> appends to it.\<close>

definition seal_hash_buffer :: "rlp \<Rightarrow> GnosisHeader \<Rightarrow> bytes" where
  "seal_hash_buffer r h =
     enc_list_header r (seal_hash_payload_length r h)
     @ enc_b256 r (h_parent_hash h)
     @ enc_b256 r (h_ommers_hash h)
     @ enc_address r (h_beneficiary h)
     @ enc_b256 r (h_state_root h)
     @ enc_b256 r (h_transactions_root h)
     @ enc_b256 r (h_receipts_root h)
     @ enc_bloom r (h_logs_bloom h)
     @ enc_u256 r (h_difficulty h)
     @ enc_u64 r (h_number h)
     @ enc_u64 r (h_gas_limit h)
     @ enc_u64 r (h_gas_used h)
     @ enc_u64 r (h_timestamp h)
     @ enc_bytes r (h_extra_data h)
     @ (case h_base_fee_per_gas h of Some fee \<Rightarrow> enc_u64 r fee | None \<Rightarrow> [])"

definition compute_seal_hash :: "rlp \<Rightarrow> (bytes \<Rightarrow> b256) \<Rightarrow> GnosisHeader \<Rightarrow> b256" where
  "compute_seal_hash r keccak256 h = keccak256 (seal_hash_buffer r h)"

text \<open>What \<open>Encodable\<close> promises: \<open>length\<close> is the length of what \<open>encode\<close> writes.\<close>

definition rlp_ok :: "rlp \<Rightarrow> bool" where
  "rlp_ok r \<longleftrightarrow>
     (\<forall>x. len_b256 r x = length (enc_b256 r x)) \<and> (\<forall>x. len_address r x = length (enc_address r x))
     \<and> (\<forall>x. len_bloom r x = length (enc_bloom r x)) \<and> (\<forall>x. len_u256 r x = length (enc_u256 r x))
     \<and> (\<forall>x. len_u64 r x = length (enc_u64 r x)) \<and> (\<forall>x. len_bytes r x = length (enc_bytes r x))"

text \<open>The hashed buffer is one well-formed list: its header announces exactly the number
  of payload bytes that follow it, with or without a base fee, so the list header cannot disagree
  with the fields written.\<close>

theorem seal_buffer_is_framed:
  assumes "rlp_ok r"
  shows "\<exists>payload. seal_hash_buffer r h = enc_list_header r (length payload) @ payload
    \<and> length payload = seal_hash_payload_length r h"
  using assms
  by (intro exI [of _ "drop (length (enc_list_header r (seal_hash_payload_length r h)))
      (seal_hash_buffer r h)"])
    (simp add: seal_hash_buffer_def seal_hash_payload_length_def rlp_ok_def add.assoc split: option.split)

text \<open>A concrete encoder of the kind: a prefix byte and the big-endian bytes, leading zeros of
  integers dropped.\<close>

definition sample_string :: "bytes \<Rightarrow> bytes" where
  "sample_string bs =
     (if length bs = 1 \<and> hd bs < 128 then bs
      else if length bs \<le> 55 then (128 + of_nat (length bs)) # bs
      else 185 # of_nat (length bs div 256) # of_nat (length bs) # bs)"

definition sample_rlp :: rlp where
  "sample_rlp =
     (let b256' = \<lambda>x. sample_string (be_bytes 32 x); addr = \<lambda>x. sample_string (be_bytes 20 x);
          bloom = \<lambda>x. sample_string (be_bytes 256 x);
          u256' = \<lambda>x. sample_string (dropWhile (\<lambda>b. b = 0) (be_bytes 32 x));
          u64' = \<lambda>x. sample_string (dropWhile (\<lambda>b. b = 0) (be_bytes 8 x))
      in \<lparr>enc_b256 = b256', len_b256 = \<lambda>x. length (b256' x),
          enc_address = addr, len_address = \<lambda>x. length (addr x),
          enc_bloom = bloom, len_bloom = \<lambda>x. length (bloom x),
          enc_u256 = u256', len_u256 = \<lambda>x. length (u256' x),
          enc_u64 = u64', len_u64 = \<lambda>x. length (u64' x),
          enc_bytes = sample_string, len_bytes = \<lambda>x. length (sample_string x),
          enc_list_header = \<lambda>n. [249, of_nat (n div 256), of_nat n]\<rparr>)"

theorem seal_buffer_is_framed_witness:
  "\<exists>payload. seal_hash_buffer sample_rlp blank_header
      = enc_list_header sample_rlp (length payload) @ payload
    \<and> length payload = seal_hash_payload_length sample_rlp blank_header"
  by (rule seal_buffer_is_framed) (simp add: rlp_ok_def sample_rlp_def Let_def)

text \<open>The message a validator signs does not depend on the seal fields, so sealing is
  not circular, nor on the post-merge fields the encoder leaves out.\<close>

theorem seal_hash_excludes_seal:
  "compute_seal_hash r keccak256
     (h\<lparr>h_aura_step := s, h_aura_seal := t, h_mix_hash := m, h_nonce := nc,
        h_withdrawals_root := w, h_blob_gas_used := bu, h_excess_blob_gas := be,
        h_parent_beacon_block_root := pb, h_requests_hash := rq\<rparr>)
   = compute_seal_hash r keccak256 h"
  by (simp add: compute_seal_hash_def seal_hash_buffer_def seal_hash_payload_length_def)

section \<open>The author\<close>

datatype SealError = MissingSeal | InvalidSignature | RecoveryFailed

text \<open>The signature library: parsing of the 65 bytes and recovery of the address; their error values
  are dropped by the code.\<close>

record 'sig ecdsa =
  signature_try_from :: "bytes \<Rightarrow> unit + 'sig"
  recover_address_from_prehash :: "'sig \<Rightarrow> b256 \<Rightarrow> unit + address"

definition normalize_v :: "u8 \<Rightarrow> u8" where
  "normalize_v v = (if v \<ge> 27 then v - 27 else v)"

definition recover_seal_author ::
  "rlp \<Rightarrow> (bytes \<Rightarrow> b256) \<Rightarrow> 'sig ecdsa \<Rightarrow> GnosisHeader \<Rightarrow> SealError + address" where
  "recover_seal_author r keccak256 ec h =
     and_then (ok_or MissingSeal (h_aura_seal h)) (\<lambda>sig_bytes.
       let seal_hash = compute_seal_hash r keccak256 h;
           v = sig_bytes ! 64;
           sig_with_v = sig_bytes[64 := normalize_v v]
       in and_then (map_err (\<lambda>_. InvalidSignature) (signature_try_from ec sig_with_v)) (\<lambda>sig.
            map_err (\<lambda>_. RecoveryFailed) (recover_address_from_prehash ec sig seal_hash)))"

lemma normalize_v_27: "v < 27 \<Longrightarrow> normalize_v (v + 27) = normalize_v v"
proof -
  assume v: "v < 27"
  then have "unat v < 27" by (simp add: word_less_nat_alt)
  then have "27 \<le> v + 27" by (simp add: word_le_nat_alt unat_word_ariths)
  with v show ?thesis by (simp add: normalize_v_def not_le)
qed

lemma recover_seal_author_hash_only:
  "compute_seal_hash r k h = compute_seal_hash r k h' \<Longrightarrow> h_aura_seal h = h_aura_seal h' \<Longrightarrow>
     recover_seal_author r k ec h = recover_seal_author r k ec h'"
  by (simp add: recover_seal_author_def)

text \<open>Both conventions for the recovery byte give the same author. A seal whose last
  byte is \<open>v\<close> below 27 and the seal with \<open>v + 27\<close> recover the same result, error or address.\<close>

theorem recovery_byte_conventions_agree:
  assumes "length rs = 64" and "v < 27"
  shows "recover_seal_author r keccak256 ec (h\<lparr>h_aura_seal := Some (rs @ [v + 27])\<rparr>)
    = recover_seal_author r keccak256 ec (h\<lparr>h_aura_seal := Some (rs @ [v])\<rparr>)"
proof -
  have hash: "compute_seal_hash r keccak256 (h\<lparr>h_aura_seal := x\<rparr>) = compute_seal_hash r keccak256 h" for x
    by (simp add: compute_seal_hash_def seal_hash_buffer_def seal_hash_payload_length_def)
  have "(rs @ [x]) ! 64 = x" and "(rs @ [x])[64 := y] = rs @ [y]" for x y :: u8
    using assms(1) by (simp_all add: nth_append list_update_append)
  then show ?thesis
    by (simp add: recover_seal_author_def hash Let_def normalize_v_27 [OF assms(2)])
qed

text \<open>A signature library in which the recovered address is read off the bytes.\<close>

definition sample_ecdsa :: "bytes ecdsa" where
  "sample_ecdsa = \<lparr>signature_try_from = (\<lambda>b. if last b \<le> 1 then Inr b else Inl ()),
     recover_address_from_prehash = (\<lambda>b hash. Inr (ucast (hd b) + ucast (last b)))\<rparr>"

theorem recovery_byte_conventions_agree_witness:
  "recover_seal_author sample_rlp (\<lambda>_. 0) sample_ecdsa
     (blank_header\<lparr>h_aura_seal := Some (replicate 64 7 @ [1 + 27])\<rparr>) = Inr 8"
proof -
  have "recover_seal_author sample_rlp (\<lambda>_. 0) sample_ecdsa
      (blank_header\<lparr>h_aura_seal := Some (replicate 64 7 @ [1 + 27])\<rparr>)
    = recover_seal_author sample_rlp (\<lambda>_. 0) sample_ecdsa
        (blank_header\<lparr>h_aura_seal := Some (replicate 64 7 @ [1])\<rparr>)"
    by (rule recovery_byte_conventions_agree) simp_all
  also have "\<dots> = Inr 8"
    by (simp add: recover_seal_author_def sample_ecdsa_def normalize_v_def nth_append
        list_update_append word_le_nat_alt)
  finally show ?thesis .
qed

section \<open>The difficulty\<close>

definition calculate_aura_difficulty :: "u64 \<Rightarrow> u64 \<Rightarrow> u256" where
  "calculate_aura_difficulty parent_step current_step =
     (let max_u128 = drop_bit 128 (- 1) in max_u128 + ucast parent_step - ucast current_step)"

lemma unat_max_u128: "unat (drop_bit 128 (- 1 :: u256)) = 2 ^ 128 - 1"
  unfolding unat_drop_bit_eq unat_max_word drop_bit_eq_div by simp

text \<open>The difficulty is the exact integer \<open>2^128 - 1 + parent_step - current_step\<close>; the 256-bit wrapping
  arithmetic never wraps, whatever the two steps.\<close>

lemma aura_difficulty_exact:
  "int (unat (calculate_aura_difficulty p c)) = 2 ^ 128 - 1 + int (unat p) - int (unat c)"
proof -
  have p: "unat (ucast p :: u256) = unat p" and c: "unat (ucast c :: u256) = unat c"
    by (simp_all add: unsigned_ucast_eq take_bit_nat_eq_self_iff less_le_trans [OF unsigned_less])
  have lp: "unat p < 2 ^ 64" and lc: "unat c < 2 ^ 64"
    using unsigned_less [of p, where ?'a = nat] unsigned_less [of c, where ?'a = nat] by simp_all
  define m :: u256 where "m = drop_bit 128 (- 1)"
  have m: "unat m = 2 ^ 128 - 1" unfolding m_def by (rule unat_max_u128)
  have sum: "unat (m + ucast p) = 2 ^ 128 - 1 + unat p"
    using lp by (simp add: unat_word_ariths m p)
  then have "unat (m + ucast p - ucast c) = 2 ^ 128 - 1 + unat p - unat c"
    using lc by (simp add: unat_sub word_le_nat_alt c)
  then have "unat (calculate_aura_difficulty p c) = 2 ^ 128 - 1 + unat p - unat c"
    unfolding calculate_aura_difficulty_def Let_def m_def .
  with lc show ?thesis by simp
qed


lemmas uint_aura_difficulty = aura_difficulty_exact [simplified]

end
