(* ===== verification/Consensus.thy ===== *)
theory Consensus
  imports ChainSpec Seal
begin

text \<open>
  Header and block validation of \<open>src/aura/mod.rs\<close>: the choice between the AuRa and the Beacon phase
  and the AuRa rules for a header alone and against its parent. The validators of reth the code calls
  are parameters, collected in \<open>consensus_api\<close>; the error of one of them is passed on as \<open>Library\<close>.
\<close>

record SealedHeader =
  sealed :: GnosisHeader
  sealed_hash :: b256

record 'body SealedBlock =
  sb_header :: SealedHeader
  sb_body :: 'body

text \<open>The errors. Each message of the code is a constructor with the values it prints.\<close>

datatype 'e ConsensusError =
    Library 'e
  | HeaderPhaseMismatch u64 bool bool
  | AuraConfigMissing
  | TheMergeOmmerRootIsNotEmpty
  | WithdrawalsRootUnexpected
  | BlobGasUsedUnexpected
  | MissingAuraStep
  | AuraStepExceedsU64 u256
  | MissingParentAuraStep
  | AuraParentStepExceedsU64 u256
  | StepNotIncreasing u64 u64
  | DifficultyMismatch u256 u256
  | SealVerificationFailed SealError
  | EmptyValidatorList
  | ProposerMismatch address address u64 u64

record ('body, 'res, 'bloom, 'e) consensus_api =
  is_pre_merge :: "GnosisHeader \<Rightarrow> bool"
  empty_ommer_root_hash :: b256
  validate_header_extra_data :: "GnosisHeader \<Rightarrow> nat \<Rightarrow> 'e + unit"
  validate_header_gas :: "GnosisHeader \<Rightarrow> 'e + unit"
  against_parent_hash_number :: "GnosisHeader \<Rightarrow> SealedHeader \<Rightarrow> 'e + unit"
  against_parent_timestamp :: "GnosisHeader \<Rightarrow> GnosisHeader \<Rightarrow> 'e + unit"
  against_parent_eip1559_base_fee ::
    "GnosisHeader \<Rightarrow> GnosisHeader \<Rightarrow> GnosisChainSpec \<Rightarrow> 'e + unit"
  beacon_validate_header :: "GnosisChainSpec \<Rightarrow> SealedHeader \<Rightarrow> 'e + unit"
  beacon_against_parent :: "GnosisChainSpec \<Rightarrow> SealedHeader \<Rightarrow> SealedHeader \<Rightarrow> 'e + unit"
  lib_validate_body_against_header :: "'body \<Rightarrow> GnosisHeader \<Rightarrow> 'e + unit"
  lib_validate_block_pre_execution :: "'body SealedBlock \<Rightarrow> GnosisChainSpec \<Rightarrow> 'e + unit"
  lib_validate_block_post_execution ::
    "'body SealedBlock \<Rightarrow> GnosisChainSpec \<Rightarrow> 'res \<Rightarrow> 'bloom option \<Rightarrow> 'e + unit"

text \<open>The cryptography \<open>recover_seal_author\<close> is applied to.\<close>

record 'sig seal_api =
  seal_rlp :: rlp
  seal_keccak :: "bytes \<Rightarrow> b256"
  seal_ecdsa :: "'sig ecdsa"

record GnosisConsensus =
  beacon_inner :: GnosisChainSpec
  gc_aura_config :: "AuraConfig option"
  gc_chain_spec :: GnosisChainSpec

text \<open>\<open>EthBeaconConsensus::new(spec)\<close> holds the specification; its methods are the two \<open>beacon\<close>
  operations of the parameter, applied to it.\<close>

definition gnosis_consensus_new :: "GnosisChainSpec \<Rightarrow> GnosisConsensus" where
  "gnosis_consensus_new spec =
     \<lparr>beacon_inner = spec, gc_aura_config = spec_aura_config spec, gc_chain_spec = spec\<rparr>"

section \<open>Phase\<close>

definition is_aura_block ::
  "hardforks_api \<Rightarrow> ('body, 'res, 'bloom, 'e) consensus_api \<Rightarrow> GnosisConsensus \<Rightarrow> GnosisHeader
     \<Rightarrow> 'e ConsensusError + bool" where
  "is_aura_block api ca gc header =
     (let pre_merge_per_spec = \<not> is_active_at_block api (gc_chain_spec gc) Paris (h_number header);
          pre_merge_per_header = is_pre_merge ca header
      in if pre_merge_per_spec \<noteq> pre_merge_per_header
         then Inl (HeaderPhaseMismatch (h_number header) pre_merge_per_spec pre_merge_per_header)
         else Inr pre_merge_per_spec)"

section \<open>The AuRa rules\<close>

definition validate_aura_header ::
  "hardforks_api \<Rightarrow> ('body, 'res, 'bloom, 'e) consensus_api \<Rightarrow> GnosisHeader \<Rightarrow> GnosisChainSpec
     \<Rightarrow> 'e ConsensusError + unit" where
  "validate_aura_header api ca header spec =
     (if h_ommers_hash header \<noteq> empty_ommer_root_hash ca then Inl TheMergeOmmerRootIsNotEmpty
      else
        and_then (map_err Library (validate_header_extra_data ca header 32)) (\<lambda>_.
        and_then (map_err Library (validate_header_gas ca header)) (\<lambda>_.
        if \<not> is_active_at_timestamp api spec Shanghai (h_timestamp header)
           \<and> h_withdrawals_root header \<noteq> None
        then Inl WithdrawalsRootUnexpected
        else if \<not> is_active_at_timestamp api spec Cancun (h_timestamp header)
           \<and> (h_blob_gas_used header \<noteq> None \<or> h_excess_blob_gas header \<noteq> None
              \<or> h_parent_beacon_block_root header \<noteq> None)
        then Inl BlobGasUsedUnexpected
        else Inr ())))"

definition validate_aura_header_against_parent ::
  "('body, 'res, 'bloom, 'e) consensus_api \<Rightarrow> 'sig seal_api \<Rightarrow> SealedHeader \<Rightarrow> SealedHeader
     \<Rightarrow> GnosisChainSpec \<Rightarrow> AuraConfig \<Rightarrow> 'e ConsensusError + unit" where
  "validate_aura_header_against_parent ca sa header parent spec cfg =
     and_then (map_err Library (against_parent_hash_number ca (sealed header) parent)) (\<lambda>_.
     and_then (map_err Library (against_parent_timestamp ca (sealed header) (sealed parent))) (\<lambda>_.
     and_then (map_err Library
       (against_parent_eip1559_base_fee ca (sealed header) (sealed parent) spec)) (\<lambda>_.
     and_then (ok_or MissingAuraStep (h_aura_step (sealed header))) (\<lambda>step256.
     and_then (ok_or (AuraStepExceedsU64 step256) (try_u64 step256)) (\<lambda>current_step.
     and_then (ok_or MissingParentAuraStep (h_aura_step (sealed parent))) (\<lambda>parent256.
     and_then (ok_or (AuraParentStepExceedsU64 parent256) (try_u64 parent256)) (\<lambda>parent_step.
     if current_step \<le> parent_step then Inl (StepNotIncreasing current_step parent_step)
     else let expected_difficulty = calculate_aura_difficulty parent_step current_step in
       if h_difficulty (sealed header) \<noteq> expected_difficulty
       then Inl (DifficultyMismatch expected_difficulty (h_difficulty (sealed header)))
       else let block_number = h_number (sealed header) in
         and_then (map_err SealVerificationFailed
           (recover_seal_author (seal_rlp sa) (seal_keccak sa) (seal_ecdsa sa) (sealed header)))
           (\<lambda>signer.
         case try_get_list_validators (aura_validators cfg) (saturating_sub block_number 1) of
           Some vals \<Rightarrow>
             and_then (ok_or EmptyValidatorList (expected_proposer current_step vals)) (\<lambda>proposer.
             if signer \<noteq> proposer
             then Inl (ProposerMismatch proposer signer current_step block_number)
             else Inr ())
         | None \<Rightarrow> Inr ()))))))))"

section \<open>The validator interfaces\<close>

definition validate_header ::
  "hardforks_api \<Rightarrow> ('body, 'res, 'bloom, 'e) consensus_api \<Rightarrow> GnosisConsensus \<Rightarrow> SealedHeader
     \<Rightarrow> 'e ConsensusError + unit" where
  "validate_header api ca gc header =
     and_then (is_aura_block api ca gc (sealed header)) (\<lambda>aura.
       if aura then validate_aura_header api ca (sealed header) (gc_chain_spec gc)
       else map_err Library (beacon_validate_header ca (beacon_inner gc) header))"

definition validate_header_against_parent ::
  "hardforks_api \<Rightarrow> ('body, 'res, 'bloom, 'e) consensus_api \<Rightarrow> 'sig seal_api \<Rightarrow> GnosisConsensus
     \<Rightarrow> SealedHeader \<Rightarrow> SealedHeader \<Rightarrow> 'e ConsensusError + unit" where
  "validate_header_against_parent api ca sa gc header parent =
     and_then (is_aura_block api ca gc (sealed header)) (\<lambda>aura.
       if aura
       then and_then (ok_or AuraConfigMissing (gc_aura_config gc)) (\<lambda>cfg.
              validate_aura_header_against_parent ca sa header parent (gc_chain_spec gc) cfg)
       else map_err Library (beacon_against_parent ca (beacon_inner gc) header parent))"

definition validate_body_against_header ::
  "('body, 'res, 'bloom, 'e) consensus_api \<Rightarrow> GnosisConsensus \<Rightarrow> 'body \<Rightarrow> SealedHeader
     \<Rightarrow> 'e ConsensusError + unit" where
  "validate_body_against_header ca gc body header =
     map_err Library (lib_validate_body_against_header ca body (sealed header))"

definition validate_block_pre_execution ::
  "hardforks_api \<Rightarrow> ('body, 'res, 'bloom, 'e) consensus_api \<Rightarrow> GnosisConsensus \<Rightarrow> 'body SealedBlock
     \<Rightarrow> 'e ConsensusError + unit" where
  "validate_block_pre_execution api ca gc block =
     and_then (is_aura_block api ca gc (sealed (sb_header block))) (\<lambda>aura.
       if aura
       then and_then (map_err Library
              (lib_validate_body_against_header ca (sb_body block) (sealed (sb_header block)))) (\<lambda>_.
            if h_ommers_hash (sealed (sb_header block)) \<noteq> empty_ommer_root_hash ca
            then Inl TheMergeOmmerRootIsNotEmpty
            else Inr ())
       else map_err Library (lib_validate_block_pre_execution ca block (gc_chain_spec gc)))"

definition validate_block_post_execution ::
  "('body, 'res, 'bloom, 'e) consensus_api \<Rightarrow> GnosisConsensus \<Rightarrow> 'body SealedBlock \<Rightarrow> 'res
     \<Rightarrow> 'bloom option \<Rightarrow> 'e ConsensusError + unit" where
  "validate_block_post_execution ca gc block result bloom =
     map_err Library (lib_validate_block_post_execution ca block (gc_chain_spec gc) result bloom)"

section \<open>What acceptance means\<close>

text \<open>The step of a header as the rules read it.\<close>

definition step_of :: "GnosisHeader \<Rightarrow> u64 option" where
  "step_of h = Option.bind (h_aura_step h) try_u64"

lemma aura_header_accepted_iff:
  "validate_aura_header_against_parent ca sa header parent spec cfg = Inr () \<longleftrightarrow>
     against_parent_hash_number ca (sealed header) parent = Inr ()
     \<and> against_parent_timestamp ca (sealed header) (sealed parent) = Inr ()
     \<and> against_parent_eip1559_base_fee ca (sealed header) (sealed parent) spec = Inr ()
     \<and> (\<exists>c p signer. step_of (sealed header) = Some c \<and> step_of (sealed parent) = Some p \<and> p < c
        \<and> h_difficulty (sealed header) = calculate_aura_difficulty p c
        \<and> recover_seal_author (seal_rlp sa) (seal_keccak sa) (seal_ecdsa sa) (sealed header) = Inr signer
        \<and> (\<forall>vals. try_get_list_validators (aura_validators cfg)
              (saturating_sub (h_number (sealed header)) 1) = Some vals
            \<longrightarrow> expected_proposer c vals = Some signer))" (is "?accept \<longleftrightarrow> ?lib \<and> ?num \<and> ?fee \<and> ?rules")
proof
  assume ?accept
  then show "?lib \<and> ?num \<and> ?fee \<and> ?rules"
    unfolding validate_aura_header_against_parent_def and_then_Inr_iff map_err_Inr_iff ok_or_Inr_iff
      step_of_def Let_def
    by (auto simp: bind_eq_Some_conv not_le and_then_Inr_iff map_err_Inr_iff ok_or_Inr_iff
        split: if_splits option.splits)
next
  assume "?lib \<and> ?num \<and> ?fee \<and> ?rules"
  then show ?accept
    by (cases "try_get_list_validators (aura_validators cfg)
          (saturating_sub (h_number (sealed header)) 1)")
      (auto simp: validate_aura_header_against_parent_def Let_def step_of_def bind_eq_Some_conv not_le)
qed

lemma is_aura_block_Inr_iff:
  "is_aura_block api ca gc h = Inr aura \<longleftrightarrow>
     aura = (\<not> is_active_at_block api (gc_chain_spec gc) Paris (h_number h))
     \<and> is_pre_merge ca h = aura"
  by (auto simp: is_aura_block_def Let_def)

text \<open>Property C8: an AuRa block is accepted against its parent exactly when the shared parent checks
  pass, its shape is pre-merge, the specification has an AuRa section, its step fits 64 bits and is
  above the parent's, its difficulty is the one of the two steps, its seal recovers to an address, and,
  where a list of validators is active at the previous block, that address is the round-robin
  proposer of the step.\<close>

theorem aura_block_accepted_iff:
  assumes "\<not> is_active_at_block api (gc_chain_spec gc) Paris (h_number (sealed header))"
  shows "validate_header_against_parent api ca sa gc header parent = Inr () \<longleftrightarrow>
     is_pre_merge ca (sealed header)
     \<and> against_parent_hash_number ca (sealed header) parent = Inr ()
     \<and> against_parent_timestamp ca (sealed header) (sealed parent) = Inr ()
     \<and> against_parent_eip1559_base_fee ca (sealed header) (sealed parent) (gc_chain_spec gc) = Inr ()
     \<and> (\<exists>cfg c p signer. gc_aura_config gc = Some cfg
        \<and> step_of (sealed header) = Some c \<and> step_of (sealed parent) = Some p \<and> p < c
        \<and> h_difficulty (sealed header) = calculate_aura_difficulty p c
        \<and> recover_seal_author (seal_rlp sa) (seal_keccak sa) (seal_ecdsa sa) (sealed header) = Inr signer
        \<and> (\<forall>vals. try_get_list_validators (aura_validators cfg)
              (saturating_sub (h_number (sealed header)) 1) = Some vals
            \<longrightarrow> expected_proposer c vals = Some signer))"
  using assms
  by (cases "gc_aura_config gc")
    (auto simp: validate_header_against_parent_def and_then_Inr_iff is_aura_block_Inr_iff
      aura_header_accepted_iff)

text \<open>A chain of sealed AuRa headers, each accepted against the one before.\<close>

fun aura_chain ::
  "('body, 'res, 'bloom, 'e) consensus_api \<Rightarrow> 'sig seal_api \<Rightarrow> GnosisChainSpec \<Rightarrow> AuraConfig
     \<Rightarrow> SealedHeader \<Rightarrow> SealedHeader list \<Rightarrow> bool" where
  "aura_chain ca sa spec cfg h [] \<longleftrightarrow> True"
| "aura_chain ca sa spec cfg h (x # xs) \<longleftrightarrow>
     validate_aura_header_against_parent ca sa x h spec cfg = Inr () \<and> aura_chain ca sa spec cfg x xs"

definition chain_difficulty :: "SealedHeader list \<Rightarrow> int" where
  "chain_difficulty hs = (\<Sum>h\<leftarrow>hs. int (unat (h_difficulty (sealed h))))"

text \<open>Property C9: the weight of an accepted AuRa chain. Its steps increase at every block, and its
  total difficulty telescopes to the number of blocks times \<open>2^128 - 1\<close> less the steps elapsed: a
  longer chain outweighs every shorter one, and of equally long ones the chain that skipped fewer
  steps wins.\<close>

theorem aura_chain_weight:
  assumes "aura_chain ca sa spec cfg h hs" and "step_of (sealed h) = Some p"
    and "step_of (sealed (last (h # hs))) = Some c"
  shows "chain_difficulty hs = int (length hs) * (2 ^ 128 - 1) - (int (unat c) - int (unat p))
    \<and> unat p + length hs \<le> unat c"
  using assms
proof (induction hs arbitrary: h p)
  case (Cons x xs)
  from Cons.prems obtain m where x: "step_of (sealed x) = Some m" "p < m"
      "h_difficulty (sealed x) = calculate_aura_difficulty p m"
    by (auto simp: aura_header_accepted_iff)
  moreover have "chain_difficulty xs =
      int (length xs) * (2 ^ 128 - 1) - (int (unat c) - int (unat m)) \<and> unat m + length xs \<le> unat c"
    using Cons.prems x by (intro Cons.IH [of x]) auto
  ultimately show ?case
    by (auto simp: chain_difficulty_def uint_aura_difficulty word_less_nat_alt algebra_simps)
qed (simp add: chain_difficulty_def)

definition sample_consensus_api :: "(unit, unit, unit, string) consensus_api" where
  "sample_consensus_api = \<lparr>is_pre_merge = (\<lambda>h. h_aura_step h \<noteq> None), empty_ommer_root_hash = 0,
     validate_header_extra_data = (\<lambda>h n. if length (h_extra_data h) \<le> n then Inr () else Inl ''extra''),
     validate_header_gas = (\<lambda>h. if h_gas_used h \<le> h_gas_limit h then Inr () else Inl ''gas''),
     against_parent_hash_number = (\<lambda>h p. if h_parent_hash h = sealed_hash p then Inr () else Inl ''parent''),
     against_parent_timestamp = (\<lambda>h p. if h_timestamp p < h_timestamp h then Inr () else Inl ''time''),
     against_parent_eip1559_base_fee = (\<lambda>_ _ _. Inr ()),
     beacon_validate_header = (\<lambda>_ _. Inr ()), beacon_against_parent = (\<lambda>_ _ _. Inr ()),
     lib_validate_body_against_header = (\<lambda>_ _. Inr ()),
     lib_validate_block_pre_execution = (\<lambda>_ _. Inr ()),
     lib_validate_block_post_execution = (\<lambda>_ _ _ _. Inr ())\<rparr>"

definition sample_seal_api :: "bytes seal_api" where
  "sample_seal_api = \<lparr>seal_rlp = sample_rlp, seal_keccak = (\<lambda>_. 0), seal_ecdsa = sample_ecdsa\<rparr>"

definition sample_aura_config :: AuraConfig where
  "sample_aura_config = \<lparr>step_duration = 5,
     aura_validators = \<lparr>sets = [(0, List [7, 8, 9]), (1300, Contract 170)]\<rparr>,
     block_reward_contract_transitions = [], posdao_transition = 0, rewrite_bytecode = []\<rparr>"

text \<open>A sealed header of the sample chain: number, step, difficulty, parent hash, hash and signer
  (the sample signature library reads the address off the first seal byte).\<close>

definition sample_header :: "u64 \<Rightarrow> u64 \<Rightarrow> u256 \<Rightarrow> b256 \<Rightarrow> b256 \<Rightarrow> u8 \<Rightarrow> SealedHeader" where
  "sample_header n step diff parent hash author = \<lparr>sealed = blank_header\<lparr>h_parent_hash := parent,
       h_number := n, h_timestamp := 5 * step, h_difficulty := diff, h_aura_step := Some (ucast step),
       h_aura_seal := Some (replicate 64 author @ [0])\<rparr>,
     sealed_hash = hash\<rparr>"

lemma sample_header_simps [simp]:
  "h_number (sealed (sample_header n st diff parent hash author)) = n"
  "h_difficulty (sealed (sample_header n st diff parent hash author)) = diff"
  "h_parent_hash (sealed (sample_header n st diff parent hash author)) = parent"
  "h_timestamp (sealed (sample_header n st diff parent hash author)) = 5 * st"
  "sealed_hash (sample_header n st diff parent hash author) = hash"
  "h_aura_step (sealed (sample_header n st diff parent hash author)) = Some (ucast st)"
  "step_of (sealed (sample_header n st diff parent hash author)) = Some st"
  by (simp_all add: sample_header_def step_of_def try_u64_Some_iff unsigned_ucast_eq
      take_bit_nat_eq_self_iff less_le_trans [OF unsigned_less])

lemma sample_header_author [simp]:
  "recover_seal_author sample_rlp (\<lambda>_. 0) sample_ecdsa
     (sealed (sample_header n st diff parent hash author)) = Inr (ucast author)"
  by (simp add: sample_header_def recover_seal_author_def sample_ecdsa_def normalize_v_def
      nth_append list_update_append word_le_nat_alt)

theorem aura_block_accepted_iff_witness:
  "validate_header_against_parent sample_hardforks_api sample_consensus_api sample_seal_api
     \<lparr>beacon_inner = sample_spec [], gc_aura_config = Some sample_aura_config,
       gc_chain_spec = sample_spec [(Paris, TTD 25349537 None 1)]\<rparr>
     (sample_header 12 100 (2 ^ 128 - 2) 44 45 8) (sample_header 11 99 0 43 44 7) = Inr ()"
proof -
  have "uint (calculate_aura_difficulty 99 100) = 2 ^ 128 - 2"
    by (simp add: uint_aura_difficulty)
  then have diff: "calculate_aura_difficulty 99 100 = 2 ^ 128 - 2"
    by (simp add: word_uint_eq_iff)
  show ?thesis
    by (subst aura_block_accepted_iff)
      (auto simp: is_active_at_block_def fork_activation_def sample_hardforks_api_def
        sample_consensus_api_def sample_seal_api_def sample_aura_config_def diff
        try_get_list_validators_def kind_at_def saturating_sub_def expected_proposer_def
        word_less_nat_alt word_le_nat_alt)
qed

text \<open>The chain of the witness: two blocks after the first, one step skipped.\<close>

definition sample_chain :: "SealedHeader list" where
  "sample_chain = [sample_header 12 100 (calculate_aura_difficulty 99 100) 44 45 8,
     sample_header 13 102 (calculate_aura_difficulty 100 102) 45 46 7]"

theorem aura_chain_weight_witness:
  "chain_difficulty sample_chain = 2 * (2 ^ 128 - 1) - 3"
proof -
  have "aura_chain sample_consensus_api sample_seal_api spec sample_aura_config
      (sample_header 11 99 0 43 44 7) sample_chain" for spec
    by (auto simp: sample_chain_def aura_header_accepted_iff sample_consensus_api_def
        sample_seal_api_def sample_aura_config_def try_get_list_validators_def kind_at_def
        saturating_sub_def expected_proposer_def word_less_nat_alt word_le_nat_alt)
  from aura_chain_weight [OF this, of 99 102] show ?thesis
    by (simp add: sample_chain_def)
qed

text \<open>No step has two authors. Two headers of the same height and step accepted under the
  same configuration, where a list of validators decides, were sealed by the same address.\<close>

theorem one_author_per_step:
  assumes "validate_aura_header_against_parent ca sa x px spec cfg = Inr ()"
    and "validate_aura_header_against_parent ca sa y py spec cfg = Inr ()"
    and "h_number (sealed x) = h_number (sealed y)"
    and "step_of (sealed x) = step_of (sealed y)"
    and "try_get_list_validators (aura_validators cfg) (saturating_sub (h_number (sealed x)) 1) \<noteq> None"
  shows "\<exists>signer. recover_seal_author (seal_rlp sa) (seal_keccak sa) (seal_ecdsa sa) (sealed x) = Inr signer
    \<and> recover_seal_author (seal_rlp sa) (seal_keccak sa) (seal_ecdsa sa) (sealed y) = Inr signer"
  using assms by (auto simp: aura_header_accepted_iff)

theorem one_author_per_step_witness:
  "\<exists>signer. recover_seal_author sample_rlp (\<lambda>_. 0) sample_ecdsa
       (sealed (sample_header 12 100 (calculate_aura_difficulty 99 100) 44 45 8)) = Inr signer
    \<and> recover_seal_author sample_rlp (\<lambda>_. 0) sample_ecdsa
       (sealed (sample_header 12 100 (calculate_aura_difficulty 98 100) 43 47 8)) = Inr signer"
proof -
  have "validate_aura_header_against_parent sample_consensus_api sample_seal_api
      (sample_header 12 100 (calculate_aura_difficulty 99 100) 44 45 8)
      (sample_header 11 99 0 43 44 7) spec sample_aura_config = Inr ()"
    and "validate_aura_header_against_parent sample_consensus_api sample_seal_api
      (sample_header 12 100 (calculate_aura_difficulty 98 100) 43 47 8)
      (sample_header 11 98 0 42 43 9) spec sample_aura_config = Inr ()" for spec
    by (auto simp: aura_header_accepted_iff sample_consensus_api_def
        sample_seal_api_def sample_aura_config_def try_get_list_validators_def kind_at_def
        saturating_sub_def expected_proposer_def word_less_nat_alt word_le_nat_alt)
  from one_author_per_step [OF this] show ?thesis
    by (simp add: sample_seal_api_def sample_aura_config_def try_get_list_validators_def kind_at_def
        saturating_sub_def)
qed

text \<open>The phase of a block is decided by the specification and a header of the other shape
  is refused everywhere: validated alone, against its parent, or as a block before execution, with
  the same error.\<close>

theorem phase_mismatch_rejected:
  assumes "is_pre_merge ca (sealed (sb_header block)) =
      is_active_at_block api (gc_chain_spec gc) Paris (h_number (sealed (sb_header block)))"
  shows "\<exists>e. e = HeaderPhaseMismatch (h_number (sealed (sb_header block)))
        (\<not> is_pre_merge ca (sealed (sb_header block))) (is_pre_merge ca (sealed (sb_header block)))
    \<and> validate_header api ca gc (sb_header block) = Inl e
    \<and> validate_header_against_parent api ca sa gc (sb_header block) parent = Inl e
    \<and> validate_block_pre_execution api ca gc block = Inl e"
  using assms
  by (auto simp: validate_header_def validate_header_against_parent_def validate_block_pre_execution_def
      is_aura_block_def Let_def)

theorem phase_mismatch_rejected_witness:
  "validate_header sample_hardforks_api sample_consensus_api
     (gnosis_consensus_new (sample_spec [(Paris, TTD 10 None 1)]))
     (sample_header 12 100 0 44 45 8) = Inl (HeaderPhaseMismatch 12 False True)"
proof -
  let ?gc = "gnosis_consensus_new (sample_spec [(Paris, TTD 10 None 1)])"
  have shape: "is_pre_merge sample_consensus_api (sealed (sample_header 12 100 0 44 45 8))"
    by (simp add: sample_consensus_api_def sample_header_def)
  moreover have "is_active_at_block sample_hardforks_api (gc_chain_spec ?gc) Paris 12"
    by (simp add: gnosis_consensus_new_def is_active_at_block_def fork_activation_def
        sample_hardforks_api_def)
  ultimately show ?thesis
    using phase_mismatch_rejected [of sample_consensus_api
        "\<lparr>sb_header = sample_header 12 100 0 44 45 8, sb_body = ()\<rparr>" sample_hardforks_api ?gc
        sample_seal_api "sample_header 11 99 0 43 44 7"]
    by simp
qed

text \<open>An AuRa header accepted alone has no uncles, and carries a withdrawals root only
  where Shanghai is active and blob fields only where Cancun is; with the shared header checks this
  is exactly when it is accepted.\<close>

theorem aura_header_alone_accepted_iff:
  assumes "\<not> is_active_at_block api (gc_chain_spec gc) Paris (h_number (sealed header))"
  shows "validate_header api ca gc header = Inr () \<longleftrightarrow>
     is_pre_merge ca (sealed header)
     \<and> h_ommers_hash (sealed header) = empty_ommer_root_hash ca
     \<and> validate_header_extra_data ca (sealed header) 32 = Inr ()
     \<and> validate_header_gas ca (sealed header) = Inr ()
     \<and> (h_withdrawals_root (sealed header) = None
        \<or> is_active_at_timestamp api (gc_chain_spec gc) Shanghai (h_timestamp (sealed header)))
     \<and> (h_blob_gas_used (sealed header) = None \<and> h_excess_blob_gas (sealed header) = None
          \<and> h_parent_beacon_block_root (sealed header) = None
        \<or> is_active_at_timestamp api (gc_chain_spec gc) Cancun (h_timestamp (sealed header)))"
  using assms
  by (auto simp: validate_header_def and_then_Inr_iff is_aura_block_Inr_iff validate_aura_header_def
      map_err_Inr_iff split: if_splits)

theorem aura_header_alone_accepted_iff_witness:
  "validate_header sample_hardforks_api sample_consensus_api
     (gnosis_consensus_new (sample_spec [(Paris, TTD 25349537 None 1)]))
     (sample_header 12 100 0 44 45 8) = Inr ()"
  by (subst aura_header_alone_accepted_iff)
    (simp_all add: gnosis_consensus_new_def is_active_at_block_def fork_activation_def
      sample_hardforks_api_def sample_consensus_api_def sample_header_def [of 12] blank_header_def)

end
