(* ===== verification/EvmTypes.thy ===== *)
theory EvmTypes
  imports Prelude
begin

text \<open>
  The data of revm the node reads and builds: hard fork identifiers, accounts and state diffs, the
  configuration, block and transaction environments, execution results and logs. Only the fields the
  sources under \<open>src/\<close> mention are kept. What revm does with them (running a transaction,
  committing a diff to the database) is collected in the parameters \<open>evm_api\<close> and \<open>db_api\<close>.
\<close>

section \<open>Hard fork identifiers\<close>

datatype SpecId = FRONTIER | HOMESTEAD | TANGERINE | SPURIOUS_DRAGON | BYZANTIUM | CONSTANTINOPLE
  | PETERSBURG | ISTANBUL | BERLIN | LONDON | MERGE | SHANGHAI | CANCUN | PRAGUE | OSAKA

text \<open>The identifiers are ordered by release; \<open>is_enabled_in\<close> is that order.\<close>

fun spec_rank :: "SpecId \<Rightarrow> nat" where
  "spec_rank FRONTIER = 0" | "spec_rank HOMESTEAD = 1" | "spec_rank TANGERINE = 2"
| "spec_rank SPURIOUS_DRAGON = 3" | "spec_rank BYZANTIUM = 4" | "spec_rank CONSTANTINOPLE = 5"
| "spec_rank PETERSBURG = 6" | "spec_rank ISTANBUL = 7" | "spec_rank BERLIN = 8"
| "spec_rank LONDON = 9" | "spec_rank MERGE = 10" | "spec_rank SHANGHAI = 11"
| "spec_rank CANCUN = 12" | "spec_rank PRAGUE = 13" | "spec_rank OSAKA = 14"

lemma spec_rank_inject: "spec_rank s = spec_rank t \<longleftrightarrow> s = t"
  by (cases s; cases t; simp)

instantiation SpecId :: linorder
begin

definition less_eq_SpecId :: "SpecId \<Rightarrow> SpecId \<Rightarrow> bool" where
  "less_eq_SpecId s t \<longleftrightarrow> spec_rank s \<le> spec_rank t"

definition less_SpecId :: "SpecId \<Rightarrow> SpecId \<Rightarrow> bool" where
  "less_SpecId s t \<longleftrightarrow> spec_rank s < spec_rank t"

instance
  by standard (auto simp: less_eq_SpecId_def less_SpecId_def spec_rank_inject)

end

section \<open>Accounts and state diffs\<close>

record account_info =
  balance :: u256
  nonce :: u64
  code_hash :: b256
  code :: "bytes option"

record storage_slot =
  original_value :: u256
  present_value :: u256

datatype account_flag = Created | SelfDestructed | Touched | LoadedAsNotExisting | Cold

record account =
  info :: account_info
  original_info :: account_info
  transaction_id :: nat
  storage :: "u256 \<rightharpoonup> storage_slot"
  status :: "account_flag set"

type_synonym evm_state = "address \<rightharpoonup> account"

section \<open>Environments\<close>

record cfg_env =
  cfg_chain_id :: u64
  cfg_spec :: SpecId
  disable_nonce_check :: bool
  disable_block_gas_limit :: bool
  disable_base_fee :: bool
  tx_gas_limit_cap :: "u64 option"
  limit_contract_code_size :: "u64 option"
  max_blobs_per_tx_cap :: "u64 option"
  gas_params :: "nat \<Rightarrow> u64"

record blob_excess_gas =
  excess_blob_gas :: u64
  blob_gasprice :: u128

record block_env =
  be_number :: u256
  be_beneficiary :: address
  be_timestamp :: u256
  be_difficulty :: u256
  be_prevrandao :: "b256 option"
  be_gas_limit :: u64
  be_basefee :: u64
  be_blob :: "blob_excess_gas option"
  be_slot_num :: u64

datatype tx_kind = Call address | Create

record tx_env =
  tx_caller :: address
  tx_kind :: tx_kind
  tx_nonce :: u64
  tx_gas_limit :: u64
  tx_value :: u256
  tx_data :: bytes
  tx_gas_price :: u128
  tx_chain_id :: "u64 option"
  tx_gas_priority_fee :: "u128 option"
  tx_access_list :: "(address \<times> b256 list) list"
  tx_blob_hashes :: "b256 list"
  tx_max_fee_per_blob_gas :: u128
  tx_type :: u8
  tx_authorizations :: nat

section \<open>Results\<close>

record log =
  log_address :: address
  log_topics :: "b256 list"
  log_data :: bytes

datatype exec_output = CallOutput bytes | CreateOutput bytes "address option"

fun into_data :: "exec_output \<Rightarrow> bytes" where
  "into_data (CallOutput b) = b"
| "into_data (CreateOutput b a) = b"

text \<open>Halt reasons and EVM errors are only ever formatted into messages; they are strings.\<close>

datatype exec_result =
    Success (er_gas: u64) (er_output: exec_output) (er_logs: "log list")
  | Revert (er_gas: u64) (er_bytes: bytes)
  | Halt (er_gas: u64) (er_reason: string)

record result_and_state =
  rs_result :: exec_result
  rs_state :: evm_state

section \<open>The EVM and its database\<close>

text \<open>
  A Gnosis EVM: the context's environments and database, the inspector and the precompiles (opaque),
  whether the instruction table holds the overridden \<open>SSTORE\<close>, the fee collector and whether the
  inspector is consulted.
\<close>

record ('db, 'insp, 'pre) evm =
  evm_cfg :: cfg_env
  evm_block :: block_env
  evm_db :: 'db
  evm_inspector :: 'insp
  evm_precompiles :: 'pre
  evm_sstore_eip1283 :: bool
  evm_fee_collector :: address
  evm_inspect :: bool

text \<open>revm's execution of a transaction by the node's handler, without and with the inspector.\<close>

record ('db, 'insp, 'pre) evm_api =
  run_transact :: "('db, 'insp, 'pre) evm \<Rightarrow> tx_env
     \<Rightarrow> (string + result_and_state) \<times> ('db, 'insp, 'pre) evm"
  run_inspect_tx :: "('db, 'insp, 'pre) evm \<Rightarrow> tx_env
     \<Rightarrow> (string + result_and_state) \<times> ('db, 'insp, 'pre) evm"
  default_account_info :: account_info

text \<open>The database interface: reading an account may fail and may fill a cache.\<close>

record 'db db_api =
  db_basic :: "address \<Rightarrow> 'db \<Rightarrow> (string + account_info option) \<times> 'db"
  db_commit :: "evm_state \<Rightarrow> 'db \<Rightarrow> 'db"
  db_increment_balances :: "(address \<rightharpoonup> u128) \<Rightarrow> 'db \<Rightarrow> (string + unit) \<times> 'db"
  info_default :: account_info
  code_hash_of :: "bytes \<Rightarrow> b256"
  empty_code_hash :: b256

text \<open>What the clients rely on, over a view of the accounts stored: a read shows the view and leaves
  it; committing touched accounts with code replaces exactly these.\<close>

definition db_ok :: "'db db_api \<Rightarrow> ('db \<Rightarrow> address \<Rightarrow> account_info option) \<Rightarrow> bool" where
  "db_ok d view \<longleftrightarrow>
     (\<forall>a db. fst (db_basic d a db) = Inr (view db a) \<and> view (snd (db_basic d a db)) = view db)
     \<and> (\<forall>st db. (\<forall>a acc. st a = Some acc \<longrightarrow> Touched \<in> status acc \<and> Created \<notin> status acc
            \<and> SelfDestructed \<notin> status acc \<and> code_hash (info acc) \<noteq> empty_code_hash d) \<longrightarrow>
          view (db_commit d st db) =
            (\<lambda>a. case st a of None \<Rightarrow> view db a | Some acc \<Rightarrow> Some (info acc)))"

end
