(* ===== verification/GnosisHandler.thy ===== *)
theory GnosisHandler
  imports EvmTypes
begin

text \<open>
  The custom handler of \<open>src/evm/gnosis_evm.rs\<close>: the fee hooks that credit the fee collector and the
  \<open>SSTORE\<close> instruction with EIP-1283 gas. revm's own steps, its journal and its interpreter are
  parameters; the delegation of the EVM and frame traits to revm is in \<open>EvmFrames\<close>.
\<close>

section \<open>Fee hooks\<close>

text \<open>The parts of the context the hooks read, and the journal they write.\<close>

record 'j handler_ctx =
  hc_block :: block_env
  hc_tx :: tx_env
  hc_spec :: SpecId
  hc_journal :: 'j

record gas =
  total_gas_spent :: u64
  refunded :: u64

text \<open>The journal gives a mutable account after loading it (which may fail); the two library steps
  the hooks start with. \<open>refunded\<close> is a signed number and read as its 64 bits.\<close>

record 'j journal_api =
  load_account_mut :: "address \<Rightarrow> 'j \<Rightarrow> string + 'j"
  acc_balance :: "address \<Rightarrow> 'j \<Rightarrow> u256"
  acc_set_balance :: "address \<Rightarrow> u256 \<Rightarrow> 'j \<Rightarrow> 'j"
  acc_touch :: "address \<Rightarrow> 'j \<Rightarrow> 'j"
  acc_touched :: "address \<Rightarrow> 'j \<Rightarrow> bool"
  lib_validate_and_deduct_caller :: "'j handler_ctx \<Rightarrow> string + 'j handler_ctx"
  lib_reward_beneficiary :: "'j handler_ctx \<Rightarrow> gas \<Rightarrow> string + 'j handler_ctx"
  tx_total_blob_gas :: "tx_env \<Rightarrow> u64"

definition blob_gas_cost :: "'j journal_api \<Rightarrow> 'j handler_ctx \<Rightarrow> u256" where
  "blob_gas_cost ja ctx =
     (if tx_type (hc_tx ctx) = 3
      then let blob_price = (case be_blob (hc_block ctx) of None \<Rightarrow> 0 | Some b \<Rightarrow> blob_gasprice b);
               blob_gas = (ucast (tx_total_blob_gas ja (hc_tx ctx)) :: u128)
           in saturating_mul (ucast blob_price) (ucast blob_gas)
      else 0)"

text \<open>Load the collector, add to its balance with saturation, touch it.\<close>

definition credit_collector ::
  "'j journal_api \<Rightarrow> address \<Rightarrow> u256 \<Rightarrow> 'j handler_ctx \<Rightarrow> string + 'j handler_ctx" where
  "credit_collector ja collector amount ctx =
     and_then (load_account_mut ja collector (hc_journal ctx)) (\<lambda>j.
       let new_balance = saturating_add (acc_balance ja collector j) amount
       in Inr (ctx\<lparr>hc_journal := acc_touch ja collector (acc_set_balance ja collector new_balance j)\<rparr>))"

definition validate_against_state_and_deduct_caller ::
  "'j journal_api \<Rightarrow> address \<Rightarrow> 'j handler_ctx \<Rightarrow> string + 'j handler_ctx" where
  "validate_against_state_and_deduct_caller ja fee_collector ctx =
     and_then (lib_validate_and_deduct_caller ja ctx) (\<lambda>ctx.
       if PRAGUE \<le> hc_spec ctx
       then credit_collector ja fee_collector (blob_gas_cost ja ctx) ctx
       else Inr ctx)"

definition is_free_tx :: "tx_env \<Rightarrow> bool" where
  "is_free_tx tx \<longleftrightarrow> tx_gas_price tx = 0
     \<and> (case tx_gas_priority_fee tx of None \<Rightarrow> 0 | Some f \<Rightarrow> f) = (0 :: u128)"

definition reward_beneficiary ::
  "'j journal_api \<Rightarrow> address \<Rightarrow> 'j handler_ctx \<Rightarrow> gas \<Rightarrow> string + 'j handler_ctx" where
  "reward_beneficiary ja fee_collector ctx exec_gas =
     and_then (lib_reward_beneficiary ja ctx exec_gas) (\<lambda>ctx.
       if LONDON \<le> hc_spec ctx
       then if \<not> is_free_tx (hc_tx ctx)
            then let basefee = (ucast (be_basefee (hc_block ctx)) :: u128);
                     gas_used = (ucast (total_gas_spent exec_gas - refunded exec_gas) :: u128)
                 in credit_collector ja fee_collector (ucast (basefee * gas_used)) ctx
            else Inr ctx
       else Inr ctx)"

text \<open>What the hooks rely on: loading changes no balance, a written balance is read back, and balances
  of other accounts stay.\<close>

definition journal_ok :: "'j journal_api \<Rightarrow> bool" where
  "journal_ok ja \<longleftrightarrow>
     (\<forall>a b j j'. load_account_mut ja a j = Inr j' \<longrightarrow> acc_balance ja b j' = acc_balance ja b j)
     \<and> (\<forall>a b v j. acc_balance ja b (acc_set_balance ja a v j) = (if b = a then v else acc_balance ja b j))
     \<and> (\<forall>a b j. acc_balance ja b (acc_touch ja a j) = acc_balance ja b j)
     \<and> (\<forall>a j. acc_touched ja a (acc_touch ja a j))"

lemma credit_collector_balance:
  assumes "journal_ok ja" and "credit_collector ja f amount ctx = Inr ctx'"
  shows "acc_balance ja b (hc_journal ctx') =
      (if b = f then saturating_add (acc_balance ja f (hc_journal ctx)) amount
       else acc_balance ja b (hc_journal ctx))"
    and "acc_touched ja f (hc_journal ctx')"
  using assms by (auto simp: journal_ok_def credit_collector_def and_then_Inr_iff Let_def)

lemma fee_product_exact:
  "unat (ucast (ucast (x :: u64) * ucast (y :: u64) :: u128) :: u256) = unat x * unat y"
proof -
  have "unat x * unat y < 2 ^ 64 * 2 ^ 64"
    using unsigned_less [of x, where ?'a = nat] unsigned_less [of y, where ?'a = nat]
    by (intro mult_strict_mono) auto
  then have *: "unat x * unat y < 2 ^ 128" by simp
  have u: "unat (ucast x :: u128) = unat x" "unat (ucast y :: u128) = unat y"
    by (simp_all add: unsigned_ucast_eq take_bit_nat_eq_self_iff less_le_trans [OF unsigned_less])
  with * have "unat (ucast x * ucast y :: u128) = unat x * unat y"
    by (simp add: unat_word_ariths)
  moreover have "unat (ucast z :: u256) = unat z" for z :: u128
    by (simp add: unsigned_ucast_eq take_bit_nat_eq_self_iff less_le_trans [OF unsigned_less])
  ultimately show ?thesis by simp
qed

text \<open>Property C21: the base fee is redirected, not burnt. After London a transaction that pays any gas
  price or tip credits the fee collector with exactly \<open>basefee\<close> times the gas it used after refunds
  (as integers: the product cannot overflow), capped at the largest balance; a free service
  transaction and every transaction before London change no balance beyond revm's own reward step.
  No other account is credited.\<close>

theorem collector_receives_base_fee:
  assumes "journal_ok ja" and "lib_reward_beneficiary ja ctx g = Inr mid"
    and "reward_beneficiary ja f ctx g = Inr ctx'"
    and "refunded g \<le> total_gas_spent g"
  shows "unat (acc_balance ja f (hc_journal ctx')) =
      (if LONDON \<le> hc_spec mid \<and> \<not> is_free_tx (hc_tx mid)
       then min (unat (acc_balance ja f (hc_journal mid))
              + unat (be_basefee (hc_block mid)) * (unat (total_gas_spent g) - unat (refunded g)))
              (2 ^ 256 - 1)
       else unat (acc_balance ja f (hc_journal mid)))
    \<and> (\<forall>b. b \<noteq> f \<longrightarrow> acc_balance ja b (hc_journal ctx') = acc_balance ja b (hc_journal mid))"
proof (cases "LONDON \<le> hc_spec mid \<and> \<not> is_free_tx (hc_tx mid)")
  case True
  define amount :: u256 where "amount = ucast (ucast (be_basefee (hc_block mid))
    * ucast (total_gas_spent g - refunded g) :: u128)"
  from True assms(2,3) have "credit_collector ja f amount mid = Inr ctx'"
    by (simp add: reward_beneficiary_def amount_def Let_def)
  note bal = credit_collector_balance(1) [OF assms(1) this]
  have "unat amount = unat (be_basefee (hc_block mid)) * (unat (total_gas_spent g) - unat (refunded g))"
    using assms(4) by (simp add: amount_def fee_product_exact unat_sub)
  with True show ?thesis by (simp add: bal unat_saturating_add)
next
  case False
  with assms(2,3) have "ctx' = mid" by (auto simp: reward_beneficiary_def split: if_splits)
  with False show ?thesis by auto
qed

text \<open>From Prague on the blob fee goes to the collector as well: the collector gains the
  blob gas price times the transaction's blob gas when it is a blob transaction and nothing
  otherwise, and before Prague the hook adds nothing to revm's validation step.\<close>

theorem collector_receives_blob_fee:
  assumes "journal_ok ja" and "lib_validate_and_deduct_caller ja ctx = Inr mid"
    and "validate_against_state_and_deduct_caller ja f ctx = Inr ctx'"
  shows "unat (acc_balance ja f (hc_journal ctx')) =
      (if PRAGUE \<le> hc_spec mid \<and> tx_type (hc_tx mid) = 3
       then min (unat (acc_balance ja f (hc_journal mid))
              + (case be_blob (hc_block mid) of None \<Rightarrow> 0 | Some b \<Rightarrow> unat (blob_gasprice b))
                * unat (tx_total_blob_gas ja (hc_tx mid))) (2 ^ 256 - 1)
       else unat (acc_balance ja f (hc_journal mid)))
    \<and> (\<forall>b. b \<noteq> f \<longrightarrow> acc_balance ja b (hc_journal ctx') = acc_balance ja b (hc_journal mid))
    \<and> (PRAGUE \<le> hc_spec mid \<longrightarrow> acc_touched ja f (hc_journal ctx'))"
proof (cases "PRAGUE \<le> hc_spec mid")
  case True
  with assms(2,3) have credit: "credit_collector ja f (blob_gas_cost ja mid) mid = Inr ctx'"
    by (simp add: validate_against_state_and_deduct_caller_def)
  have up: "unat (ucast p :: u256) = unat p" "unat (ucast w :: u128) = unat w"
    for p :: u128 and w :: u64
    by (simp_all add: unsigned_ucast_eq take_bit_nat_eq_self_iff less_le_trans [OF unsigned_less])
  have small: "unat p * unat w < 2 ^ 256 - 1" for p :: u128 and w :: u64
  proof -
    have "unat p * unat w < 2 ^ 128 * 2 ^ 64"
      using unsigned_less [of p, where ?'a = nat] unsigned_less [of w, where ?'a = nat]
      by (intro mult_strict_mono) auto
    then show ?thesis by simp
  qed
  have "unat (blob_gas_cost ja mid) = (if tx_type (hc_tx mid) = 3
      then (case be_blob (hc_block mid) of None \<Rightarrow> 0 | Some b \<Rightarrow> unat (blob_gasprice b))
        * unat (tx_total_blob_gas ja (hc_tx mid)) else 0)"
    using small by (auto simp: blob_gas_cost_def Let_def unat_saturating_mul up min_def not_le
        less_imp_le split: option.splits)
  with True credit_collector_balance [OF assms(1) credit] show ?thesis
    using unat_le_max [of "acc_balance ja f (hc_journal mid)"]
    by (auto simp: unat_saturating_add min_def)
next
  case False
  with assms(2,3) have "ctx' = mid"
    by (simp add: validate_against_state_and_deduct_caller_def)
  with False show ?thesis by simp
qed

text \<open>A journal as a table of balances and the set of touched accounts.\<close>

definition sample_journal_api :: "((address \<Rightarrow> u256) \<times> address set) journal_api" where
  "sample_journal_api = \<lparr>load_account_mut = (\<lambda>a j. Inr j), acc_balance = (\<lambda>a j. fst j a),
     acc_set_balance = (\<lambda>a v j. ((fst j)(a := v), snd j)),
     acc_touch = (\<lambda>a j. (fst j, insert a (snd j))), acc_touched = (\<lambda>a j. a \<in> snd j),
     lib_validate_and_deduct_caller = (\<lambda>ctx. Inr ctx), lib_reward_beneficiary = (\<lambda>ctx g. Inr ctx),
     tx_total_blob_gas = (\<lambda>tx. of_nat (length (tx_blob_hashes tx)) * 131072)\<rparr>"

lemma sample_journal_ok: "journal_ok sample_journal_api"
  by (simp add: journal_ok_def sample_journal_api_def)

lemma sample_credit_total: "\<exists>ctx'. credit_collector sample_journal_api f amount ctx = Inr ctx'"
  by (simp add: sample_journal_api_def credit_collector_def Let_def)

lemma sample_lib_steps [simp]:
  "lib_validate_and_deduct_caller sample_journal_api ctx = Inr ctx"
  "lib_reward_beneficiary sample_journal_api ctx g = Inr ctx"
  by (simp_all add: sample_journal_api_def)

definition sample_handler_ctx :: "((address \<Rightarrow> u256) \<times> address set) handler_ctx" where
  "sample_handler_ctx = \<lparr>hc_block = \<lparr>be_number = 1, be_beneficiary = 9, be_timestamp = 5,
       be_difficulty = 0, be_prevrandao = None, be_gas_limit = 30000000, be_basefee = 7,
       be_blob = Some \<lparr>excess_blob_gas = 0, blob_gasprice = 2\<rparr>, be_slot_num = 0\<rparr>,
     hc_tx = \<lparr>tx_caller = 1, tx_kind = Call 2, tx_nonce = 0, tx_gas_limit = 100000, tx_value = 0,
       tx_data = [], tx_gas_price = 10, tx_chain_id = None, tx_gas_priority_fee = None,
       tx_access_list = [], tx_blob_hashes = [5], tx_max_fee_per_blob_gas = 3, tx_type = 3,
       tx_authorizations = 0\<rparr>,
     hc_spec = PRAGUE, hc_journal = (\<lambda>_. 100, {})\<rparr>"

theorem collector_receives_base_fee_witness:
  "\<exists>ctx'. reward_beneficiary sample_journal_api 8 sample_handler_ctx
       \<lparr>total_gas_spent = 50000, refunded = 8000\<rparr> = Inr ctx'
     \<and> unat (acc_balance sample_journal_api 8 (hc_journal ctx')) = 100 + 7 * 42000"
proof -
  let ?g = "\<lparr>total_gas_spent = 50000, refunded = 8000\<rparr>"
  obtain ctx' where run: "reward_beneficiary sample_journal_api 8 sample_handler_ctx ?g = Inr ctx'"
    using sample_credit_total by (fastforce simp: reward_beneficiary_def Let_def split: if_splits)
  from collector_receives_base_fee [OF sample_journal_ok sample_lib_steps(2) run] run show ?thesis
    by (simp add: word_le_nat_alt) (simp add: sample_handler_ctx_def is_free_tx_def less_eq_SpecId_def
        sample_journal_api_def)
qed

theorem collector_receives_blob_fee_witness:
  "\<exists>ctx'. validate_against_state_and_deduct_caller sample_journal_api 8 sample_handler_ctx = Inr ctx'
     \<and> unat (acc_balance sample_journal_api 8 (hc_journal ctx')) = 100 + 2 * 131072"
proof -
  obtain ctx' where run:
    "validate_against_state_and_deduct_caller sample_journal_api 8 sample_handler_ctx = Inr ctx'"
    using sample_credit_total
    by (fastforce simp: validate_against_state_and_deduct_caller_def split: if_splits)
  from collector_receives_blob_fee [OF sample_journal_ok sample_lib_steps(1) run] run show ?thesis
    by (simp add: sample_handler_ctx_def less_eq_SpecId_def sample_journal_api_def)
qed

section \<open>The SSTORE instruction of EIP-1283\<close>

datatype InstructionResult = StateChangeDuringStaticCall | StackUnderflow | OutOfGas
  | FatalExternalError

record sstore_result =
  sr_original :: u256
  sr_present :: u256
  sr_new :: u256

record state_load =
  sl_data :: sstore_result
  sl_is_cold :: bool

text \<open>The interpreter: static flag, stack, target, gas and halting; the host's store and its gas
  parameters, whose dynamic cost and refund take the flag for net metering.\<close>

record ('i, 'h) interp_api =
  is_static :: "'i \<Rightarrow> bool"
  popn2 :: "'i \<Rightarrow> (u256 \<times> u256) option \<times> 'i"
  target_address :: "'i \<Rightarrow> address"
  record_regular_cost :: "u64 \<Rightarrow> 'i \<Rightarrow> bool \<times> 'i"
  record_refund :: "u64 \<Rightarrow> 'i \<Rightarrow> 'i"
  halt :: "InstructionResult \<Rightarrow> 'i \<Rightarrow> 'i"
  host_sstore :: "address \<Rightarrow> u256 \<Rightarrow> u256 \<Rightarrow> 'h \<Rightarrow> state_load option \<times> 'h"
  sstore_static_gas :: "'h \<Rightarrow> u64"
  sstore_dynamic_gas :: "'h \<Rightarrow> bool \<Rightarrow> sstore_result \<Rightarrow> bool \<Rightarrow> u64"
  sstore_refund :: "'h \<Rightarrow> bool \<Rightarrow> sstore_result \<Rightarrow> u64"

definition sstore_eip1283 :: "('i, 'h) interp_api \<Rightarrow> 'i \<times> 'h \<Rightarrow> 'i \<times> 'h" where
  "sstore_eip1283 ia = (\<lambda>(interp, host).
     if is_static ia interp then (halt ia StateChangeDuringStaticCall interp, host)
     else (case popn2 ia interp of
       (None, interp) \<Rightarrow> (halt ia StackUnderflow interp, host)
     | (Some (index, value), interp) \<Rightarrow>
         (let target = target_address ia interp in
          case record_regular_cost ia (sstore_static_gas ia host) interp of
            (False, interp) \<Rightarrow> (halt ia OutOfGas interp, host)
          | (True, interp) \<Rightarrow>
              (case host_sstore ia target index value host of
                 (None, host) \<Rightarrow> (halt ia FatalExternalError interp, host)
               | (Some load, host) \<Rightarrow>
                   (let dynamic_gas = sstore_dynamic_gas ia host True (sl_data load) (sl_is_cold load)
                    in case record_regular_cost ia dynamic_gas interp of
                         (False, interp) \<Rightarrow> (halt ia OutOfGas interp, host)
                       | (True, interp) \<Rightarrow>
                           (record_refund ia (sstore_refund ia host True (sl_data load)) interp,
                            host))))))"

text \<open>\<open>SSTORE\<close> guards the store. In a static call, with fewer than two operands or
  without gas for the static cost the host is left untouched and the interpreter halts with the
  matching reason.\<close>

theorem sstore_guards_store:
  "(is_static ia interp \<longrightarrow> sstore_eip1283 ia (interp, host) = (halt ia StateChangeDuringStaticCall interp, host))
   \<and> (\<not> is_static ia interp \<and> popn2 ia interp = (None, i1) \<longrightarrow>
        sstore_eip1283 ia (interp, host) = (halt ia StackUnderflow i1, host))
   \<and> (\<not> is_static ia interp \<and> popn2 ia interp = (Some (k, v), i1)
        \<and> record_regular_cost ia (sstore_static_gas ia host) i1 = (False, i2) \<longrightarrow>
        sstore_eip1283 ia (interp, host) = (halt ia OutOfGas i2, host))"
  by (simp add: sstore_eip1283_def)

text \<open>A stack machine: operands, gas left and refunds; the store is a map and its cost that of net
  metering.\<close>

record sample_interp =
  si_static :: bool
  si_stack :: "u256 list"
  si_gas :: u64
  si_refund :: u64
  si_halted :: "InstructionResult option"

definition sample_interp_api :: "(sample_interp, u256 \<Rightarrow> u256) interp_api" where
  "sample_interp_api = \<lparr>is_static = si_static,
     popn2 = (\<lambda>i. case si_stack i of a # b # st \<Rightarrow> (Some (a, b), i\<lparr>si_stack := st\<rparr>) | _ \<Rightarrow> (None, i)),
     target_address = (\<lambda>_. 17),
     record_regular_cost = (\<lambda>c i. if c \<le> si_gas i then (True, i\<lparr>si_gas := si_gas i - c\<rparr>) else (False, i)),
     record_refund = (\<lambda>r i. i\<lparr>si_refund := si_refund i + r\<rparr>),
     halt = (\<lambda>r i. i\<lparr>si_halted := Some r\<rparr>),
     host_sstore = (\<lambda>a k v h. (Some \<lparr>sl_data = \<lparr>sr_original = h k, sr_present = h k, sr_new = v\<rparr>,
         sl_is_cold = False\<rparr>, h(k := v))),
     sstore_static_gas = (\<lambda>_. 200),
     sstore_dynamic_gas = (\<lambda>_ net r _. if net \<and> sr_present r \<noteq> sr_new r then 4800 else 0),
     sstore_refund = (\<lambda>_ net r. if net \<and> sr_new r = 0 then 15000 else 0)\<rparr>"

theorem sstore_guards_store_witness:
  "sstore_eip1283 sample_interp_api
     (\<lparr>si_static = False, si_stack = [1, 2], si_gas = 100, si_refund = 0, si_halted = None\<rparr>, \<lambda>_. 0)
   = (\<lparr>si_static = False, si_stack = [], si_gas = 100, si_refund = 0, si_halted = Some OutOfGas\<rparr>, \<lambda>_. 0)"
  using sstore_guards_store [of sample_interp_api
      "\<lparr>si_static = False, si_stack = [1, 2], si_gas = 100, si_refund = 0, si_halted = None\<rparr>"
      "\<lambda>_. 0" "\<lparr>si_static = False, si_stack = [], si_gas = 100, si_refund = 0, si_halted = None\<rparr>"
      1 2 "\<lparr>si_static = False, si_stack = [], si_gas = 100, si_refund = 0, si_halted = None\<rparr>"]
  by (simp add: sample_interp_api_def word_le_nat_alt)

text \<open>Gas is always metered net, whatever the fork of the host: the instruction depends
  on the host's gas parameters only through their values for net metering, the flag EIP-1283 needs.\<close>

theorem sstore_always_net_metering:
  assumes "\<And>h r c. dyn' h True r c = sstore_dynamic_gas ia h True r c"
    and "\<And>h r. ref' h True r = sstore_refund ia h True r"
  shows "sstore_eip1283 (ia\<lparr>sstore_dynamic_gas := dyn', sstore_refund := ref'\<rparr>) = sstore_eip1283 ia"
  by (rule ext) (simp add: sstore_eip1283_def assms split: prod.split option.split bool.split)

theorem sstore_always_net_metering_witness:
  "sstore_eip1283 (sample_interp_api\<lparr>sstore_dynamic_gas :=
       (\<lambda>_ net r _. if net then (if sr_present r \<noteq> sr_new r then 4800 else 0) else 5000),
     sstore_refund := (\<lambda>_ net r. if net then (if sr_new r = 0 then 15000 else 0) else 7)\<rparr>)
   = sstore_eip1283 sample_interp_api"
  by (rule sstore_always_net_metering) (simp_all add: sample_interp_api_def)

end
