(* ===== verification/EvmFrames.thy ===== *)
theory EvmFrames
  imports Prelude
begin

text \<open>
  The EVM of \<open>src/evm/gnosis_evm.rs\<close> itself: its parts and their accessors, the three operations on the
  stack of call frames (\<open>frame_init\<close>, \<open>frame_run\<close>, \<open>frame_return_result\<close>) and the entry points that run,
  replay, inspect and commit a transaction. revm's frame stack, its interpreter frame, its handler loop
  and its context are parameters; \<open>frame_stack_ok\<close> states what revm documents of the stack and of a
  frame. The property is about every order in which revm's loop may call the three operations.
\<close>

section \<open>The EVM and its parts\<close>

text \<open>The tuple struct: revm's EVM and the fee collector.\<close>

record ('ctx, 'insp, 'ins, 'pre, 'fs) gnosis_evm =
  ge_ctx :: 'ctx
  ge_inspector :: 'insp
  ge_instruction :: 'ins
  ge_precompiles :: 'pre
  ge_frame_stack :: 'fs
  ge_fee_collector :: address

text \<open>A tuple of shared references is the tuple of the parts; a tuple of exclusive references is the
  tuple and what its user writes through it.\<close>

definition evm_all ::
  "('ctx, 'insp, 'ins, 'pre, 'fs) gnosis_evm \<Rightarrow> 'ctx \<times> 'ins \<times> 'pre \<times> 'fs" where
  "evm_all evm = (ge_ctx evm, ge_instruction evm, ge_precompiles evm, ge_frame_stack evm)"

definition evm_all_mut ::
  "('ctx \<times> 'ins \<times> 'pre \<times> 'fs \<Rightarrow> 'ctx \<times> 'ins \<times> 'pre \<times> 'fs)
     \<Rightarrow> ('ctx, 'insp, 'ins, 'pre, 'fs) gnosis_evm \<Rightarrow> ('ctx, 'insp, 'ins, 'pre, 'fs) gnosis_evm" where
  "evm_all_mut f evm = (case f (evm_all evm) of (c, i, p, s) \<Rightarrow>
     evm\<lparr>ge_ctx := c, ge_instruction := i, ge_precompiles := p, ge_frame_stack := s\<rparr>)"

definition evm_all_inspector ::
  "('ctx, 'insp, 'ins, 'pre, 'fs) gnosis_evm \<Rightarrow> 'ctx \<times> 'ins \<times> 'pre \<times> 'fs \<times> 'insp" where
  "evm_all_inspector evm = (ge_ctx evm, ge_instruction evm, ge_precompiles evm, ge_frame_stack evm,
     ge_inspector evm)"

definition evm_all_mut_inspector ::
  "('ctx \<times> 'ins \<times> 'pre \<times> 'fs \<times> 'insp \<Rightarrow> 'ctx \<times> 'ins \<times> 'pre \<times> 'fs \<times> 'insp)
     \<Rightarrow> ('ctx, 'insp, 'ins, 'pre, 'fs) gnosis_evm \<Rightarrow> ('ctx, 'insp, 'ins, 'pre, 'fs) gnosis_evm" where
  "evm_all_mut_inspector f evm = (case f (evm_all_inspector evm) of (c, i, p, s, n) \<Rightarrow>
     evm\<lparr>ge_ctx := c, ge_instruction := i, ge_precompiles := p, ge_frame_stack := s, ge_inspector := n\<rparr>)"

lemma evm_all_mut_writes: "evm_all (evm_all_mut f evm) = f (evm_all evm)"
  by (simp add: evm_all_mut_def evm_all_def split: prod.split)

lemma evm_all_mut_inspector_writes:
  "evm_all_inspector (evm_all_mut_inspector f evm) = f (evm_all_inspector evm)"
  by (simp add: evm_all_mut_inspector_def evm_all_inspector_def split: prod.split)

section \<open>The frame operations\<close>

datatype ('i, 'r) item_or_result = Item 'i | Result 'r

text \<open>
  revm's \<open>FrameStack\<close> and \<open>EthFrame\<close>. A slot (\<open>OutFrame\<close>) is where a frame is initialised, a token shows
  that it was. \<open>get\<close> has no frame to give when the stack is empty (it unwraps the index); \<open>fs_set\<close>
  stores what was written through the reference it gave.
\<close>

record ('fs, 'slot, 'tok, 'fr, 'ctx, 'ins, 'pre, 'act, 'init, 'res) frame_api =
  fs_index :: "'fs \<Rightarrow> nat option"
  fs_start_init :: "'fs \<Rightarrow> 'slot \<times> 'fs"
  fs_get_next :: "'fs \<Rightarrow> 'slot \<times> 'fs"
  fs_end_init :: "'tok \<Rightarrow> 'fs \<Rightarrow> 'fs"
  fs_push :: "'tok \<Rightarrow> 'fs \<Rightarrow> 'fs"
  fs_pop :: "'fs \<Rightarrow> 'fs"
  fs_get :: "'fs \<Rightarrow> 'fr option"
  fs_set :: "'fr \<Rightarrow> 'fs \<Rightarrow> 'fs"
  fr_init_with_context :: "'slot \<Rightarrow> 'fs \<Rightarrow> 'ctx \<Rightarrow> 'pre \<Rightarrow> 'init
     \<Rightarrow> (string + ('tok, 'res) item_or_result) \<times> 'fs \<times> 'ctx \<times> 'pre"
  fr_run_plain :: "'fr \<Rightarrow> 'ins \<Rightarrow> 'ctx \<Rightarrow> 'act \<times> 'fr \<times> 'ctx"
  fr_process_next_action :: "'fr \<Rightarrow> 'ctx \<Rightarrow> 'act
     \<Rightarrow> (string + ('init, 'res) item_or_result) \<times> 'fr \<times> 'ctx"
  fr_is_finished :: "'fr \<Rightarrow> bool"
  fr_set_finished :: "bool \<Rightarrow> 'fr \<Rightarrow> 'fr"
  fr_return_result :: "'fr \<Rightarrow> 'ctx \<Rightarrow> 'res \<Rightarrow> (string + unit) \<times> 'fr \<times> 'ctx"

abbreviation no_frame :: "'e fault" where
  "no_frame \<equiv> Panic ''called `Option::unwrap()` on a `None` value''"

definition frame_init where
  "frame_init fa input evm =
     (let is_first_init = (fs_index fa (ge_frame_stack evm) = None);
          (new_frame, fs) = (if is_first_init then fs_start_init fa (ge_frame_stack evm)
                             else fs_get_next fa (ge_frame_stack evm))
      in case fr_init_with_context fa new_frame fs (ge_ctx evm) (ge_precompiles evm) input of
           (r, fs, ctx, precompiles) \<Rightarrow>
             (let evm = evm\<lparr>ge_frame_stack := fs, ge_ctx := ctx, ge_precompiles := precompiles\<rparr>
              in case r of
                   Inl e \<Rightarrow> (Inl (Err e), evm)
                 | Inr (Result res) \<Rightarrow> (Inr (Result res), evm)
                 | Inr (Item token) \<Rightarrow>
                     (let fs = (if is_first_init then fs_end_init fa token fs else fs_push fa token fs);
                          evm = evm\<lparr>ge_frame_stack := fs\<rparr>
                      in case fs_get fa fs of
                           None \<Rightarrow> (Inl no_frame, evm)
                         | Some frame \<Rightarrow> (Inr (Item frame), evm))))"

definition frame_run where
  "frame_run fa evm =
     (case fs_get fa (ge_frame_stack evm) of
        None \<Rightarrow> (Inl no_frame, evm)
      | Some frame \<Rightarrow>
          (let (action, frame, ctx) = fr_run_plain fa frame (ge_instruction evm) (ge_ctx evm);
               (r, frame, ctx) = fr_process_next_action fa frame ctx action;
               frame = (case r of Inr (Result _) \<Rightarrow> fr_set_finished fa True frame | _ \<Rightarrow> frame)
           in (map_err Err r,
               evm\<lparr>ge_frame_stack := fs_set fa frame (ge_frame_stack evm), ge_ctx := ctx\<rparr>)))"

definition frame_return_result where
  "frame_return_result fa result evm =
     (case fs_get fa (ge_frame_stack evm) of
        None \<Rightarrow> (Inl no_frame, evm)
      | Some frame \<Rightarrow>
          (let evm = (if fr_is_finished fa frame
                      then evm\<lparr>ge_frame_stack := fs_pop fa (ge_frame_stack evm)\<rparr> else evm)
           in if fs_index fa (ge_frame_stack evm) = None then (Inr (Some result), evm)
              else case fs_get fa (ge_frame_stack evm) of
                     None \<Rightarrow> (Inl no_frame, evm)
                   | Some parent \<Rightarrow>
                       (case fr_return_result fa parent (ge_ctx evm) result of
                          (r, parent, ctx) \<Rightarrow>
                            (case r of Inl e \<Rightarrow> Inl (Err e) | Inr _ \<Rightarrow> Inr None,
                             evm\<lparr>ge_frame_stack := fs_set fa parent (ge_frame_stack evm),
                                 ge_ctx := ctx\<rparr>))))"

text \<open>The frame the inspector looks at.\<close>

definition ctx_inspector_frame_instructions where
  "ctx_inspector_frame_instructions fa evm =
     (case fs_get fa (ge_frame_stack evm) of
        None \<Rightarrow> Inl no_frame
      | Some frame \<Rightarrow> Inr (ge_ctx evm, ge_inspector evm, frame, ge_instruction evm))"

definition ctx_inspector_frame where
  "ctx_inspector_frame fa evm =
     (case fs_get fa (ge_frame_stack evm) of
        None \<Rightarrow> Inl no_frame | Some frame \<Rightarrow> Inr (ge_ctx evm, ge_inspector evm, frame))"

section \<open>Running a transaction\<close>

text \<open>The context's setters, its journal and its database, and the two loops of revm's handler with the
  node's hooks.\<close>

record ('evm, 'ctx, 'tx, 'block, 'insp, 'state, 'result) execute_api =
  ctx_set_tx :: "'tx \<Rightarrow> 'ctx \<Rightarrow> 'ctx"
  ctx_set_block :: "'block \<Rightarrow> 'ctx \<Rightarrow> 'ctx"
  journal_finalize :: "'ctx \<Rightarrow> 'state \<times> 'ctx"
  ctx_db_commit :: "'state \<Rightarrow> 'ctx \<Rightarrow> 'ctx"
  handler_run :: "address \<Rightarrow> 'evm \<Rightarrow> (string + 'result) \<times> 'evm"
  handler_inspect_run :: "address \<Rightarrow> 'evm \<Rightarrow> (string + 'result) \<times> 'evm"

definition transact_one where
  "transact_one xa tx evm =
     (let evm = evm\<lparr>ge_ctx := ctx_set_tx xa tx (ge_ctx evm)\<rparr>
      in handler_run xa (ge_fee_collector evm) evm)"

definition evm_finalize where
  "evm_finalize xa evm =
     (case journal_finalize xa (ge_ctx evm) of (state, ctx) \<Rightarrow> (state, evm\<lparr>ge_ctx := ctx\<rparr>))"

definition evm_set_block where
  "evm_set_block xa block evm = evm\<lparr>ge_ctx := ctx_set_block xa block (ge_ctx evm)\<rparr>"

definition evm_replay where
  "evm_replay xa evm =
     (case handler_run xa (ge_fee_collector evm) evm of
        (Inl e, evm) \<Rightarrow> (Inl e, evm)
      | (Inr result, evm) \<Rightarrow>
          (case evm_finalize xa evm of (state, evm) \<Rightarrow> (Inr (result, state), evm)))"

definition evm_commit where
  "evm_commit xa state evm = evm\<lparr>ge_ctx := ctx_db_commit xa state (ge_ctx evm)\<rparr>"

definition evm_set_inspector where
  "evm_set_inspector inspector evm = evm\<lparr>ge_inspector := inspector\<rparr>"

definition inspect_one_tx where
  "inspect_one_tx xa tx evm =
     (let evm = evm\<lparr>ge_ctx := ctx_set_tx xa tx (ge_ctx evm)\<rparr>
      in handler_inspect_run xa (ge_fee_collector evm) evm)"

section \<open>What revm documents of the stack\<close>

text \<open>
  Over a view of the stack as a list of frames, the top first: the index is that of the top; handing
  out a slot and initialising a frame in it leave the stack as it is; ending the initialisation of the
  first frame, or pushing, puts an unfinished frame on top; running a frame and giving it a result do not
  mark it finished or unfinished.
\<close>

definition frame_stack_ok where
  "frame_stack_ok fa frames \<longleftrightarrow>
     (\<forall>fs. fs_index fa fs = (if frames fs = [] then None else Some (length (frames fs) - 1)))
     \<and> (\<forall>fs. fs_get fa fs = (case frames fs of [] \<Rightarrow> None | f # _ \<Rightarrow> Some f))
     \<and> (\<forall>fs f. frames fs \<noteq> [] \<longrightarrow> frames (fs_set fa f fs) = f # tl (frames fs))
     \<and> (\<forall>fs. frames (fs_pop fa fs) = tl (frames fs))
     \<and> (\<forall>fs slot fs'. fs_start_init fa fs = (slot, fs') \<longrightarrow> frames fs = [] \<longrightarrow> frames fs' = [])
     \<and> (\<forall>fs slot fs'. fs_get_next fa fs = (slot, fs') \<longrightarrow> frames fs \<noteq> [] \<longrightarrow> frames fs' = frames fs)
     \<and> (\<forall>slot fs ctx pre input r fs' ctx' pre'.
          fr_init_with_context fa slot fs ctx pre input = (r, fs', ctx', pre') \<longrightarrow>
          frames fs' = frames fs
          \<and> (\<forall>tok. r = Inr (Item tok) \<longrightarrow>
               (\<exists>f. \<not> fr_is_finished fa f
                  \<and> (frames fs = [] \<longrightarrow> frames (fs_end_init fa tok fs') = [f])
                  \<and> (frames fs \<noteq> [] \<longrightarrow> frames (fs_push fa tok fs') = f # frames fs))))
     \<and> (\<forall>f ins ctx act f' ctx'. fr_run_plain fa f ins ctx = (act, f', ctx') \<longrightarrow>
          fr_is_finished fa f' = fr_is_finished fa f)
     \<and> (\<forall>f ctx act r f' ctx'. fr_process_next_action fa f ctx act = (r, f', ctx') \<longrightarrow>
          fr_is_finished fa f' = fr_is_finished fa f)
     \<and> (\<forall>f ctx res r f' ctx'. fr_return_result fa f ctx res = (r, f', ctx') \<longrightarrow>
          fr_is_finished fa f' = fr_is_finished fa f)
     \<and> (\<forall>f b. fr_is_finished fa (fr_set_finished fa b f) = b)"

text \<open>The laws, one at a time.\<close>

lemma frame_stack_okD:
  assumes "frame_stack_ok fa frames"
  shows index_law: "fs_index fa fs = (if frames fs = [] then None else Some (length (frames fs) - 1))"
    and get_law: "fs_get fa fs = (case frames fs of [] \<Rightarrow> None | f # _ \<Rightarrow> Some f)"
    and set_law: "frames fs \<noteq> [] \<Longrightarrow> frames (fs_set fa f fs) = f # tl (frames fs)"
    and pop_law: "frames (fs_pop fa fs) = tl (frames fs)"
    and start_law: "fs_start_init fa fs = (slot, fs') \<Longrightarrow> frames fs = [] \<Longrightarrow> frames fs' = []"
    and next_law: "fs_get_next fa fs = (slot, fs') \<Longrightarrow> frames fs \<noteq> [] \<Longrightarrow> frames fs' = frames fs"
    and init_law: "fr_init_with_context fa slot fs ctx pre input = (r, fs', ctx', pre') \<Longrightarrow> frames fs' = frames fs"
    and first_law: "fr_init_with_context fa slot fs ctx pre input = (Inr (Item tok), fs', ctx', pre') \<Longrightarrow>
      frames fs = [] \<Longrightarrow> \<exists>f. \<not> fr_is_finished fa f \<and> frames (fs_end_init fa tok fs') = [f]"
    and push_law: "fr_init_with_context fa slot fs ctx pre input = (Inr (Item tok), fs', ctx', pre') \<Longrightarrow>
      frames fs \<noteq> [] \<Longrightarrow> \<exists>f. \<not> fr_is_finished fa f \<and> frames (fs_push fa tok fs') = f # frames fs"
    and run_law: "fr_run_plain fa f ins ctx = (act, f', ctx') \<Longrightarrow> fr_is_finished fa f' = fr_is_finished fa f"
    and process_law: "fr_process_next_action fa f ctx act = (r2, f', ctx') \<Longrightarrow> fr_is_finished fa f' = fr_is_finished fa f"
    and return_law: "fr_return_result fa f ctx res = (r3, f', ctx') \<Longrightarrow> fr_is_finished fa f' = fr_is_finished fa f"
    and finished_law: "fr_is_finished fa (fr_set_finished fa b f) = b"
  by (use assms in \<open>unfold frame_stack_ok_def, elim conjE, metis\<close>)+

section \<open>One operation at a time\<close>

abbreviation stack_of where
  "stack_of frames evm \<equiv> frames (ge_frame_stack evm)"

text \<open>\<open>frame_init\<close> adds one unfinished frame or none, and never asks an empty stack for a frame.\<close>

lemma frame_init_stack:
  assumes ok: "frame_stack_ok fa frames" and run: "frame_init fa input evm = (r, evm')"
  shows "case r of
      Inr (Item _) \<Rightarrow> (\<exists>f. \<not> fr_is_finished fa f \<and> stack_of frames evm' = f # stack_of frames evm)
    | Inr (Result _) \<Rightarrow> stack_of frames evm' = stack_of frames evm
    | Inl x \<Rightarrow> (\<exists>m. x = Err m)"
proof -
  define first where "first = (fs_index fa (ge_frame_stack evm) = None)"
  have first_iff: "first \<longleftrightarrow> stack_of frames evm = []"
    by (simp add: first_def index_law [OF ok])
  obtain slot fs where out: "(if first then fs_start_init fa (ge_frame_stack evm)
      else fs_get_next fa (ge_frame_stack evm)) = (slot, fs)"
    by fastforce
  have fs: "frames fs = stack_of frames evm"
    using out start_law [OF ok, of "ge_frame_stack evm" slot fs] next_law [OF ok, of "ge_frame_stack evm" slot fs]
    by (simp add: first_iff split: if_splits)
  obtain q fs2 c p where init: "fr_init_with_context fa slot fs (ge_ctx evm) (ge_precompiles evm) input
      = (q, fs2, c, p)"
    by (cases "fr_init_with_context fa slot fs (ge_ctx evm) (ge_precompiles evm) input") auto
  note kept = init_law [OF ok init]
  show ?thesis
  proof (cases q)
    case (Inl e)
    with run out init show ?thesis by (auto simp: frame_init_def first_def Let_def)
  next
    case (Inr x)
    show ?thesis
    proof (cases x)
      case (Result res)
      with run out init Inr kept fs show ?thesis by (auto simp: frame_init_def first_def Let_def)
    next
      case (Item tok)
      define fs3 where "fs3 = (if first then fs_end_init fa tok fs2 else fs_push fa tok fs2)"
      obtain f where f: "\<not> fr_is_finished fa f" "frames fs3 = f # stack_of frames evm"
        using first_law [OF ok init [unfolded Inr Item]] push_law [OF ok init [unfolded Inr Item]] fs first_iff
        by (auto simp: fs3_def)
      with run out init Inr Item show ?thesis
        by (auto simp: frame_init_def first_def [symmetric] Let_def fs3_def [symmetric] get_law [OF ok])
    qed
  qed
qed

text \<open>\<open>frame_run\<close> rewrites the top frame, and marks it finished exactly when it yields a result.\<close>

lemma frame_run_stack:
  assumes ok: "frame_stack_ok fa frames" and run: "frame_run fa evm = (r, evm')"
    and top: "stack_of frames evm = f # fs"
  shows "\<exists>f'. stack_of frames evm' = f' # fs
    \<and> (case r of
         Inr (Item _) \<Rightarrow> fr_is_finished fa f' = fr_is_finished fa f
       | Inr (Result _) \<Rightarrow> fr_is_finished fa f'
       | Inl x \<Rightarrow> (\<exists>m. x = Err m))"
proof -
  obtain act f1 c1 where plain: "fr_run_plain fa f (ge_instruction evm) (ge_ctx evm) = (act, f1, c1)"
    by (cases "fr_run_plain fa f (ge_instruction evm) (ge_ctx evm)") auto
  obtain q f2 c2 where action: "fr_process_next_action fa f1 c1 act = (q, f2, c2)"
    by (cases "fr_process_next_action fa f1 c1 act") auto
  have "fr_is_finished fa f2 = fr_is_finished fa f"
    using run_law [OF ok plain] process_law [OF ok action] by simp
  moreover have "stack_of frames evm \<noteq> []" using top by simp
  ultimately show ?thesis
    using run plain action top finished_law [OF ok, of True f2]
    by (auto simp: frame_run_def get_law [OF ok] set_law [OF ok] map_err_def
        split: sum.splits item_or_result.splits)
qed

text \<open>\<open>frame_return_result\<close> pops the top frame exactly when it finished; the result leaves the stack when
  no frame is left, and goes to the frame on top otherwise.\<close>

lemma frame_return_result_stack:
  assumes ok: "frame_stack_ok fa frames" and run: "frame_return_result fa res evm = (r, evm')"
    and top: "stack_of frames evm = f # fs"
  shows "case (if fr_is_finished fa f then fs else f # fs) of
      [] \<Rightarrow> r = Inr (Some res) \<and> stack_of frames evm' = []
    | parent # rest \<Rightarrow> (\<exists>parent'. stack_of frames evm' = parent' # rest
        \<and> fr_is_finished fa parent' = fr_is_finished fa parent)
        \<and> (r = Inr None \<or> (\<exists>m. r = Inl (Err m)))"
proof -
  define evm1 where "evm1 = (if fr_is_finished fa f
    then evm\<lparr>ge_frame_stack := fs_pop fa (ge_frame_stack evm)\<rparr> else evm)"
  have left: "stack_of frames evm1 = (if fr_is_finished fa f then fs else f # fs)"
    using top by (simp add: evm1_def pop_law [OF ok])
  have get_top: "fs_get fa (ge_frame_stack evm) = Some f" using top by (simp add: get_law [OF ok])
  have run1: "frame_return_result fa res evm =
      (if fs_index fa (ge_frame_stack evm1) = None then (Inr (Some res), evm1)
       else case fs_get fa (ge_frame_stack evm1) of
              None \<Rightarrow> (Inl no_frame, evm1)
            | Some parent \<Rightarrow> (case fr_return_result fa parent (ge_ctx evm1) res of
                (r, parent, ctx) \<Rightarrow> (case r of Inl e \<Rightarrow> Inl (Err e) | Inr _ \<Rightarrow> Inr None,
                   evm1\<lparr>ge_frame_stack := fs_set fa parent (ge_frame_stack evm1), ge_ctx := ctx\<rparr>)))"
    unfolding frame_return_result_def get_top by (simp only: option.case Let_def evm1_def)
  show ?thesis
  proof (cases "stack_of frames evm1")
    case Nil
    with run run1 have "r = Inr (Some res)" "evm' = evm1" by (simp_all add: index_law [OF ok])
    with Nil left [symmetric] show ?thesis by simp
  next
    case (Cons parent rest)
    obtain q p c where ret: "fr_return_result fa parent (ge_ctx evm1) res = (q, p, c)"
      by (cases "fr_return_result fa parent (ge_ctx evm1) res") auto
    from Cons run run1 ret have "r = (case q of Inl e \<Rightarrow> Inl (Err e) | Inr _ \<Rightarrow> Inr None)"
        "evm' = evm1\<lparr>ge_frame_stack := fs_set fa p (ge_frame_stack evm1), ge_ctx := c\<rparr>"
      by (simp_all add: index_law [OF ok] get_law [OF ok])
    with Cons set_law [OF ok, of "ge_frame_stack evm1" p] return_law [OF ok ret] left [symmetric]
    show ?thesis by (auto split: sum.split)
  qed
qed

section \<open>The protocol\<close>

text \<open>
  How revm's loop uses the operations: the first frame is initialised; the top frame runs until it calls
  or yields a result; a call initialises a frame or yields a result at once; a result is returned, which
  ends the transaction or lets the frame on top go on. Any error ends the loop.
\<close>

datatype ('init, 'res) phase = Start 'init | Running | Calling 'init | Returned 'res | Done 'res
  | Failed "string fault"

inductive frame_step for fa where
  first_frame: "frame_init fa i e = (Inr (Item f), e') \<Longrightarrow> frame_step fa (Start i, e) (Running, e')"
| first_result: "frame_init fa i e = (Inr (Result r), e') \<Longrightarrow> frame_step fa (Start i, e) (Done r, e')"
| first_error: "frame_init fa i e = (Inl x, e') \<Longrightarrow> frame_step fa (Start i, e) (Failed x, e')"
| run_call: "frame_run fa e = (Inr (Item i), e') \<Longrightarrow> frame_step fa (Running, e) (Calling i, e')"
| run_result: "frame_run fa e = (Inr (Result r), e') \<Longrightarrow> frame_step fa (Running, e) (Returned r, e')"
| run_error: "frame_run fa e = (Inl x, e') \<Longrightarrow> frame_step fa (Running, e) (Failed x, e')"
| call_frame: "frame_init fa i e = (Inr (Item f), e') \<Longrightarrow> frame_step fa (Calling i, e) (Running, e')"
| call_result: "frame_init fa i e = (Inr (Result r), e') \<Longrightarrow> frame_step fa (Calling i, e) (Returned r, e')"
| call_error: "frame_init fa i e = (Inl x, e') \<Longrightarrow> frame_step fa (Calling i, e) (Failed x, e')"
| return_up: "frame_return_result fa r e = (Inr None, e') \<Longrightarrow> frame_step fa (Returned r, e) (Running, e')"
| return_out: "frame_return_result fa r e = (Inr (Some x), e') \<Longrightarrow> frame_step fa (Returned r, e) (Done x, e')"
| return_error: "frame_return_result fa r e = (Inl x, e') \<Longrightarrow> frame_step fa (Returned r, e) (Failed x, e')"

fun phase_ok where
  "phase_ok fa (Start i) fs \<longleftrightarrow> fs = []"
| "phase_ok fa Running fs \<longleftrightarrow> fs \<noteq> [] \<and> list_all (\<lambda>f. \<not> fr_is_finished fa f) fs"
| "phase_ok fa (Calling i) fs \<longleftrightarrow> fs \<noteq> [] \<and> list_all (\<lambda>f. \<not> fr_is_finished fa f) fs"
| "phase_ok fa (Returned r) fs \<longleftrightarrow> fs \<noteq> [] \<and> list_all (\<lambda>f. \<not> fr_is_finished fa f) (tl fs)"
| "phase_ok fa (Done r) fs \<longleftrightarrow> fs = []"
| "phase_ok fa (Failed x) fs \<longleftrightarrow> (\<exists>m. x = Err m)"

lemma frame_step_phase_ok:
  assumes ok: "frame_stack_ok fa frames" and step: "frame_step fa s s'"
    and inv: "phase_ok fa (fst s) (stack_of frames (snd s))"
  shows "phase_ok fa (fst s') (stack_of frames (snd s'))"
  using step inv
proof cases
  case (first_frame i e f e')
  with inv frame_init_stack [OF ok first_frame(3)] show ?thesis by auto
next
  case (first_result i e r e')
  with inv frame_init_stack [OF ok first_result(3)] show ?thesis by auto
next
  case (first_error i e x e')
  with frame_init_stack [OF ok first_error(3)] show ?thesis by auto
next
  case (run_call e i e')
  from inv run_call(1) obtain f fs where top: "stack_of frames e = f # fs" by (auto simp: neq_Nil_conv)
  from frame_run_stack [OF ok run_call(3) top] inv run_call(1,2) top show ?thesis by auto
next
  case (run_result e r e')
  from inv run_result(1) obtain f fs where top: "stack_of frames e = f # fs" by (auto simp: neq_Nil_conv)
  from frame_run_stack [OF ok run_result(3) top] inv run_result(1,2) top show ?thesis by auto
next
  case (run_error e x e')
  from inv run_error(1) obtain f fs where top: "stack_of frames e = f # fs" by (auto simp: neq_Nil_conv)
  from frame_run_stack [OF ok run_error(3) top] run_error(2) show ?thesis by auto
next
  case (call_frame i e f e')
  with inv frame_init_stack [OF ok call_frame(3)] show ?thesis by auto
next
  case (call_result i e r e')
  with inv frame_init_stack [OF ok call_result(3)] show ?thesis
    by (auto simp: neq_Nil_conv)
next
  case (call_error i e x e')
  with frame_init_stack [OF ok call_error(3)] show ?thesis by auto
next
  case (return_up r e e')
  from inv return_up(1) obtain f fs where top: "stack_of frames e = f # fs" by (auto simp: neq_Nil_conv)
  from frame_return_result_stack [OF ok return_up(3) top] inv return_up(1,2) top show ?thesis
    by (cases fs) (auto split: if_splits)
next
  case (return_out r e x e')
  from inv return_out(1) obtain f fs where top: "stack_of frames e = f # fs" by (auto simp: neq_Nil_conv)
  from frame_return_result_stack [OF ok return_out(3) top] inv return_out(1,2) top show ?thesis
    by (cases fs) (auto split: if_splits)
next
  case (return_error r e x e')
  from inv return_error(1) obtain f fs where top: "stack_of frames e = f # fs" by (auto simp: neq_Nil_conv)
  from frame_return_result_stack [OF ok return_error(3) top] return_error(2) show ?thesis
    by (cases fs) (auto split: if_splits)
qed

lemma frame_steps_phase_ok:
  assumes "frame_stack_ok fa frames" and "rtranclp (frame_step fa) s s'"
    and "phase_ok fa (fst s) (stack_of frames (snd s))"
  shows "phase_ok fa (fst s') (stack_of frames (snd s'))"
  using assms(2,3) by (induction rule: rtranclp_induct) (simp_all add: frame_step_phase_ok [OF assms(1)])

lemma result_leaves_iff:
  assumes ok: "frame_stack_ok fa frames" and "phase_ok fa (Returned r) (stack_of frames evm)"
  shows "fst (frame_return_result fa r evm) = Inr (Some r)
    \<longleftrightarrow> (\<exists>f. stack_of frames evm = [f] \<and> fr_is_finished fa f)"
proof -
  from assms(2) obtain f fs where top: "stack_of frames evm = f # fs" by (auto simp: neq_Nil_conv)
  obtain q evm' where run: "frame_return_result fa r evm = (q, evm')" by fastforce
  from frame_return_result_stack [OF ok run top] top run show ?thesis
    by (cases fs) (auto split: if_splits)
qed

text \<open>Property C22: the frame stack in every order of calls, returns and early results of a transaction
  that starts on an empty stack. While a frame runs or calls, the stack is not empty and no frame on it
  is finished; when a result is on its way only the top frame may be; when the transaction is over the
  stack is empty again; and if it fails, it is with an error of the database or the interpreter, never
  because a frame was asked of an empty stack. A result leaves the transaction exactly when the finished
  first frame is the only one left.\<close>

theorem frame_protocol_safe:
  assumes "frame_stack_ok fa frames" and "frames (ge_frame_stack evm) = []"
    and "rtranclp (frame_step fa) (Start input, evm) (p, evm')"
  shows "phase_ok fa p (frames (ge_frame_stack evm'))
    \<and> (\<forall>r. p = Returned r \<longrightarrow> (fst (frame_return_result fa r evm') = Inr (Some r)
         \<longleftrightarrow> (\<exists>f. frames (ge_frame_stack evm') = [f] \<and> fr_is_finished fa f)))"
proof -
  have "phase_ok fa p (stack_of frames evm')"
    using frame_steps_phase_ok [OF assms(1,3)] assms(2) by simp
  then show ?thesis using result_leaves_iff [OF assms(1)] by blast
qed

text \<open>A stack as a list of frames; a frame counts down, calling once with two to go and yielding a result
  with one to go.\<close>

definition sample_frame_api where
  "sample_frame_api = \<lparr>fs_index = (\<lambda>fs. if fs = [] then None else Some (length fs - 1)),
     fs_start_init = (\<lambda>fs. ((), fs)), fs_get_next = (\<lambda>fs. ((), fs)),
     fs_end_init = (\<lambda>tok fs. [(False, tok)]), fs_push = (\<lambda>tok fs. (False, tok) # fs), fs_pop = tl,
     fs_get = (\<lambda>fs. case fs of [] \<Rightarrow> None | f # _ \<Rightarrow> Some f), fs_set = (\<lambda>f fs. f # tl fs),
     fr_init_with_context = (\<lambda>_ fs c (p :: unit) (i :: nat). (Inr (Item i), fs, c, p)),
     fr_run_plain = (\<lambda>f (i :: unit) c. (snd f, f, c)),
     fr_process_next_action = (\<lambda>f c act. (if act = 2 then Inr (Item 1) else Inr (Result 7),
        (fst f, 1), c)),
     fr_is_finished = fst, fr_set_finished = (\<lambda>b f. (b, snd f)),
     fr_return_result = (\<lambda>f (c :: unit) (r :: nat). (Inr (), f, c))\<rparr>"

lemma sample_frame_stack_ok: "frame_stack_ok sample_frame_api (\<lambda>fs. fs)"
  unfolding frame_stack_ok_def by (auto simp: sample_frame_api_def split: list.splits if_splits)

definition sample_frames ::
  "(bool \<times> nat) list \<Rightarrow> (unit, unit, unit, unit, (bool \<times> nat) list) gnosis_evm" where
  "sample_frames fs = \<lparr>ge_ctx = (), ge_inspector = (), ge_instruction = (), ge_precompiles = (),
     ge_frame_stack = fs, ge_fee_collector = 0\<rparr>"

lemmas sample_frame_simps = sample_frames_def sample_frame_api_def frame_init_def frame_run_def
  frame_return_result_def map_err_def

lemma sample_call_and_return:
  "rtranclp (frame_step sample_frame_api) (Start 2, sample_frames [])
     (Returned 7, sample_frames [(True, 1), (False, 1)])"
proof -
  have "frame_step sample_frame_api (Start 2, sample_frames []) (Running, sample_frames [(False, 2)])"
    by (rule first_frame [where f = "(False, 2)"]) (simp add: sample_frame_simps)
  moreover have "frame_step sample_frame_api (Running, sample_frames [(False, 2)])
      (Calling 1, sample_frames [(False, 1)])"
    by (rule run_call) (simp add: sample_frame_simps)
  moreover have "frame_step sample_frame_api (Calling 1, sample_frames [(False, 1)])
      (Running, sample_frames [(False, 1), (False, 1)])"
    by (rule call_frame [where f = "(False, 1)"]) (simp add: sample_frame_simps)
  moreover have "frame_step sample_frame_api (Running, sample_frames [(False, 1), (False, 1)])
      (Returned 7, sample_frames [(True, 1), (False, 1)])"
    by (rule run_result) (simp add: sample_frame_simps)
  ultimately show ?thesis by (blast intro: converse_rtranclp_into_rtranclp)
qed

theorem frame_protocol_safe_witness:
  "phase_ok sample_frame_api (Returned 7) [(True, 1), (False, 1)]
   \<and> fst (frame_return_result sample_frame_api 7 (sample_frames [(True, 1), (False, 1)])) \<noteq> Inr (Some 7)"
  using frame_protocol_safe [OF sample_frame_stack_ok _ sample_call_and_return]
  by (simp add: sample_frames_def)

section \<open>Replaying\<close>

text \<open>A failed replay leaves the journal as the handler left it: its state is taken only with a result.\<close>

lemma replay_finalizes_once:
  "evm_replay xa evm =
     (let (r, evm1) = handler_run xa (ge_fee_collector evm) evm in
      case r of
        Inl e \<Rightarrow> (Inl e, evm1)
      | Inr result \<Rightarrow> (Inr (result, fst (journal_finalize xa (ge_ctx evm1))),
          evm1\<lparr>ge_ctx := snd (journal_finalize xa (ge_ctx evm1))\<rparr>))"
  by (simp add: evm_replay_def evm_finalize_def Let_def split: prod.split sum.split)

end
