(* ===== verification/EvmFactory.thy ===== *)
theory EvmFactory
  imports EvmTypes
begin

text \<open>
  The EVM wrapper and factory of \<open>src/evm/factory.rs\<close>: the choice between the plain and the inspected
  run, the construction of an EVM with the \<open>SSTORE\<close> override of Constantinople, and the system call
  with its saved configuration and the cleanup of its state diff. The interface \<open>system_call\<close> states
  what the callers of a system call rely on.
\<close>

definition TX_GAS_LIMIT :: u64 where
  "TX_GAS_LIMIT = 30000000"

text \<open>\<open>alloy_eips::eip4788::SYSTEM_ADDRESS\<close>.\<close>

definition SYSTEM_ADDRESS :: address where
  "SYSTEM_ADDRESS = 0xfffffffffffffffffffffffffffffffffffffffe"

section \<open>Running transactions\<close>

definition transact_raw ::
  "('db, 'insp, 'pre) evm_api \<Rightarrow> ('db, 'insp, 'pre) evm \<Rightarrow> tx_env
     \<Rightarrow> (string + result_and_state) \<times> ('db, 'insp, 'pre) evm" where
  "transact_raw ea evm tx =
     (if evm_inspect evm then run_inspect_tx ea evm tx else run_transact ea evm tx)"

definition set_inspector_enabled ::
  "bool \<Rightarrow> ('db, 'insp, 'pre) evm \<Rightarrow> ('db, 'insp, 'pre) evm" where
  "set_inspector_enabled enabled evm = evm\<lparr>evm_inspect := enabled\<rparr>"

definition evm_finish :: "('db, 'insp, 'pre) evm \<Rightarrow> 'db \<times> (cfg_env \<times> block_env)" where
  "evm_finish evm = (evm_db evm, (evm_cfg evm, evm_block evm))"

definition system_tx :: "address \<Rightarrow> address \<Rightarrow> bytes \<Rightarrow> tx_env" where
  "system_tx caller contract data = \<lparr>tx_caller = caller, tx_kind = Call contract, tx_nonce = 0,
     tx_gas_limit = TX_GAS_LIMIT, tx_value = 0, tx_data = data, tx_gas_price = 0,
     tx_chain_id = None, tx_gas_priority_fee = None, tx_access_list = [], tx_blob_hashes = [],
     tx_max_fee_per_blob_gas = 0, tx_type = 0, tx_authorizations = 0\<rparr>"

text \<open>The swap of the four checks; the local variables hold what the configuration had.\<close>

definition swap_checks ::
  "bool \<times> bool \<times> bool \<times> u64 option \<Rightarrow> cfg_env \<Rightarrow> cfg_env \<times> (bool \<times> bool \<times> bool \<times> u64 option)" where
  "swap_checks = (\<lambda>(nonce_check, block_limit, base_fee, cap) cfg.
     (cfg\<lparr>disable_nonce_check := nonce_check, disable_block_gas_limit := block_limit,
          disable_base_fee := base_fee, tx_gas_limit_cap := cap\<rparr>,
      (disable_nonce_check cfg, disable_block_gas_limit cfg, disable_base_fee cfg,
       tx_gas_limit_cap cfg)))"

text \<open>\<open>storage.retain(|_, value| present != original)\<close>.\<close>

definition retain_changed :: "account \<Rightarrow> account" where
  "retain_changed acc = acc\<lparr>storage := (\<lambda>k. case storage acc k of
       None \<Rightarrow> None
     | Some v \<Rightarrow> (if present_value v \<noteq> original_value v then Some v else None))\<rparr>"

definition mark_system_account :: "account_info \<Rightarrow> account option \<Rightarrow> account" where
  "mark_system_account default_info entry =
     (case entry of
        Some acc \<Rightarrow> acc\<lparr>info := original_info acc, status := status acc \<union> {Created, Touched}\<rparr>
      | None \<Rightarrow> \<lparr>info = default_info, original_info = default_info, transaction_id = 0,
          storage = Map.empty, status = {Created, Touched}\<rparr>)"

definition clean_system_state ::
  "account_info \<Rightarrow> address \<Rightarrow> address \<Rightarrow> evm_state \<Rightarrow> evm_state" where
  "clean_system_state default_info beneficiary fee_collector state =
     (let s1 = state(SYSTEM_ADDRESS \<mapsto> mark_system_account default_info (state SYSTEM_ADDRESS));
          s2 = s1(beneficiary := None);
          s3 = s2(fee_collector := None)
      in (\<lambda>a. map_option retain_changed (s3 a)))"

definition transact_system_call ::
  "('db, 'insp, 'pre) evm_api \<Rightarrow> address \<Rightarrow> address \<Rightarrow> bytes \<Rightarrow> ('db, 'insp, 'pre) evm
     \<Rightarrow> (string + result_and_state) \<times> ('db, 'insp, 'pre) evm" where
  "transact_system_call ea caller contract data evm =
     (let tx = system_tx caller contract data;
          (cfg1, saved) = swap_checks (True, True, True, Some TX_GAS_LIMIT) (evm_cfg evm);
          (res, evm2) = transact_raw ea (evm\<lparr>evm_cfg := cfg1\<rparr>) tx;
          (cfg3, _) = swap_checks saved (evm_cfg evm2);
          evm3 = evm2\<lparr>evm_cfg := cfg3\<rparr>
      in (case res of
            Inl e \<Rightarrow> (Inl e, evm3)
          | Inr rs \<Rightarrow>
              (Inr (rs\<lparr>rs_state := clean_system_state (default_account_info ea)
                  (be_beneficiary (evm_block evm3)) (evm_fee_collector evm3) (rs_state rs)\<rparr>),
               evm3)))"

section \<open>Creating an EVM\<close>

record evm_factory =
  fee_collector_address :: address

text \<open>The precompiles of a specification are revm's table, a parameter.\<close>

definition create_evm ::
  "(SpecId \<Rightarrow> 'pre) \<Rightarrow> evm_factory \<Rightarrow> 'db \<Rightarrow> cfg_env \<times> block_env \<Rightarrow> 'insp \<Rightarrow> ('db, 'insp, 'pre) evm" where
  "create_evm precompiles_of f db input no_op_inspector =
     (let spec_id = cfg_spec (fst input)
      in \<lparr>evm_cfg = fst input, evm_block = snd input, evm_db = db, evm_inspector = no_op_inspector,
          evm_precompiles = precompiles_of spec_id,
          evm_sstore_eip1283 = (spec_id = CONSTANTINOPLE),
          evm_fee_collector = fee_collector_address f, evm_inspect = False\<rparr>)"

definition create_evm_with_inspector ::
  "(SpecId \<Rightarrow> 'pre) \<Rightarrow> evm_factory \<Rightarrow> 'db \<Rightarrow> cfg_env \<times> block_env \<Rightarrow> 'insp \<Rightarrow> ('db, 'insp, 'pre) evm" where
  "create_evm_with_inspector precompiles_of f db input inspector =
     (let spec_id = cfg_spec (fst input)
      in \<lparr>evm_cfg = fst input, evm_block = snd input, evm_db = db, evm_inspector = inspector,
          evm_precompiles = precompiles_of spec_id,
          evm_sstore_eip1283 = (spec_id = CONSTANTINOPLE),
          evm_fee_collector = fee_collector_address f, evm_inspect = True\<rparr>)"

section \<open>The contract of a system call\<close>

text \<open>The four checks of a configuration.\<close>

definition checks :: "cfg_env \<Rightarrow> bool \<times> bool \<times> bool \<times> u64 option" where
  "checks cfg = (disable_nonce_check cfg, disable_block_gas_limit cfg, disable_base_fee cfg,
     tx_gas_limit_cap cfg)"

text \<open>
  The interface: \<open>call\<close> runs a system call, \<open>cfg\<close>, \<open>coinbase\<close> and \<open>collector\<close> read the EVM. The laws:
  the checks are as before the call whatever its outcome; the diff leaves out the beneficiary and the
  fee collector; the system account is never lost and never keeps a change; a slot in the diff is a
  changed slot.
\<close>

locale system_call =
  fixes call :: "address \<Rightarrow> address \<Rightarrow> bytes \<Rightarrow> 'evm \<Rightarrow> (string + result_and_state) \<times> 'evm"
    and cfg :: "'evm \<Rightarrow> cfg_env"
    and coinbase :: "'evm \<Rightarrow> address"
    and collector :: "'evm \<Rightarrow> address"
  assumes checks_restored: "checks (cfg (snd (call c t d e))) = checks (cfg e)"
    and beneficiary_left_out: "call c t d e = (Inr rs, e') \<Longrightarrow> rs_state rs (coinbase e') = None"
    and collector_left_out: "call c t d e = (Inr rs, e') \<Longrightarrow> rs_state rs (collector e') = None"
    and system_account_kept: "call c t d e = (Inr rs, e') \<Longrightarrow> coinbase e' \<noteq> SYSTEM_ADDRESS \<Longrightarrow>
      collector e' \<noteq> SYSTEM_ADDRESS \<Longrightarrow>
      \<exists>acc. rs_state rs SYSTEM_ADDRESS = Some acc \<and> info acc = original_info acc
        \<and> Created \<in> status acc \<and> Touched \<in> status acc"
    and slots_changed: "call c t d e = (Inr rs, e') \<Longrightarrow> rs_state rs a = Some acc \<Longrightarrow>
      storage acc k = Some v \<Longrightarrow> present_value v \<noteq> original_value v"
begin

text \<open>Over a sequence of system calls the checks never change.\<close>

fun run_calls :: "(address \<times> address \<times> bytes) list \<Rightarrow> 'evm \<Rightarrow> 'evm" where
  "run_calls [] e = e"
| "run_calls ((c, t, d) # xs) e = run_calls xs (snd (call c t d e))"

lemma run_calls_checks: "checks (cfg (run_calls xs e)) = checks (cfg e)"
  by (induction xs e rule: run_calls.induct) (simp_all add: checks_restored)

text \<open>An account in the diff is neither the beneficiary nor the collector.\<close>

lemma diff_address:
  assumes "call c t d e = (Inr rs, e')" and "rs_state rs a \<noteq> None"
  shows "a \<noteq> coinbase e' \<and> a \<noteq> collector e'"
  using assms beneficiary_left_out collector_left_out by fastforce

end

lemma clean_system_state_at:
  "clean_system_state df b f s a =
     (if a = b \<or> a = f then None
      else if a = SYSTEM_ADDRESS
      then Some (retain_changed (mark_system_account df (s SYSTEM_ADDRESS)))
      else map_option retain_changed (s a))"
  by (simp add: clean_system_state_def Let_def)

lemma transact_system_call_cases:
  obtains (failed) e evm' where "transact_system_call ea c t d evm = (Inl e, evm')"
      "checks (evm_cfg evm') = checks (evm_cfg evm)"
  | (ran) rs evm' s where "transact_system_call ea c t d evm = (Inr rs, evm')"
      "checks (evm_cfg evm') = checks (evm_cfg evm)"
      "rs_state rs = clean_system_state (default_account_info ea) (be_beneficiary (evm_block evm'))
         (evm_fee_collector evm') s"
proof -
  obtain res evm2 where run: "transact_raw ea (evm\<lparr>evm_cfg :=
      fst (swap_checks (True, True, True, Some TX_GAS_LIMIT) (evm_cfg evm))\<rparr>) (system_tx c t d) = (res, evm2)"
    by fastforce
  show thesis
  proof (cases res)
    case (Inl e)
    with run show thesis
      using failed [of e "snd (transact_system_call ea c t d evm)"]
      by (simp add: transact_system_call_def swap_checks_def checks_def)
  next
    case (Inr rs)
    define out where "out = transact_system_call ea c t d evm"
    from Inr run have "\<exists>rs'. fst out = Inr rs' \<and> checks (evm_cfg (snd out)) = checks (evm_cfg evm)
        \<and> rs_state rs' = clean_system_state (default_account_info ea)
            (be_beneficiary (evm_block (snd out))) (evm_fee_collector (snd out)) (rs_state rs)"
      by (simp add: out_def transact_system_call_def swap_checks_def checks_def)
    then show thesis using ran [of _ "snd out" "rs_state rs"] unfolding out_def
      by (metis prod.collapse)
  qed
qed

lemma transact_system_call_checks:
  "checks (evm_cfg (snd (transact_system_call ea c t d evm))) = checks (evm_cfg evm)"
  by (rule transact_system_call_cases [of ea c t d evm]) simp_all

lemma transact_system_call_state:
  assumes "transact_system_call ea c t d evm = (Inr rs, evm')"
  shows "\<exists>s. rs_state rs = clean_system_state (default_account_info ea)
    (be_beneficiary (evm_block evm')) (evm_fee_collector evm') s"
  using assms by (rule_tac transact_system_call_cases [of ea c t d evm]) auto

lemma retain_changed_simps [simp]:
  "info (retain_changed acc) = info acc"
  "original_info (retain_changed acc) = original_info acc"
  "status (retain_changed acc) = status acc"
  by (simp_all add: retain_changed_def)

lemma retain_changed_slot:
  "storage (retain_changed acc) k = Some v \<longleftrightarrow> storage acc k = Some v \<and> present_value v \<noteq> original_value v"
  by (auto simp: retain_changed_def split: option.splits)

lemma mark_system_account_simps [simp]:
  "info (mark_system_account df x) = original_info (mark_system_account df x)"
  "status (mark_system_account df x) = (case x of None \<Rightarrow> {} | Some acc \<Rightarrow> status acc) \<union> {Created, Touched}"
  by (simp_all add: mark_system_account_def split: option.split)

interpretation sys: system_call "transact_system_call ea" evm_cfg "\<lambda>e. be_beneficiary (evm_block e)"
  evm_fee_collector
  for ea :: "('db, 'insp, 'pre) evm_api"
proof unfold_locales
  show "checks (evm_cfg (snd (transact_system_call ea c t d e))) = checks (evm_cfg e)" for c t d e
    by (rule transact_system_call_checks)
  show "storage acc k = Some v \<Longrightarrow> present_value v \<noteq> original_value v"
    if "transact_system_call ea c t d e = (Inr rs, e')" and "rs_state rs a = Some acc"
    for c t d e rs e' a acc k v
    using that transact_system_call_state [OF that(1)]
    by (auto simp: clean_system_state_at retain_changed_slot split: if_splits)
qed (use transact_system_call_state in \<open>fastforce simp: clean_system_state_at\<close>)+

definition without_checks :: "('db, 'insp, 'pre) evm \<Rightarrow> ('db, 'insp, 'pre) evm" where
  "without_checks evm = evm\<lparr>evm_cfg := fst (swap_checks (True, True, True, Some TX_GAS_LIMIT) (evm_cfg evm))\<rparr>"

text \<open>Property C20: a system call leaves the EVM's checks as they were, whether the run fails or not,
  passes on the run's error or execution result, and cleans the state diff account by account: the
  beneficiary and the fee collector are dropped; the system account is always there, marked as created
  and touched, with the account data it had before the call, so that no nonce bump survives; every
  other account of the run is kept, with exactly the slots whose value changed.\<close>

theorem system_call_contract:
  assumes "transact_raw ea (without_checks evm) (system_tx c t d) = (res, evm2)"
    and "evm_fee_collector evm2 \<noteq> SYSTEM_ADDRESS"
    and "be_beneficiary (evm_block evm2) \<noteq> SYSTEM_ADDRESS"
  shows "checks (evm_cfg (snd (transact_system_call ea c t d evm))) = checks (evm_cfg evm)
    \<and> (case res of
         Inl e \<Rightarrow> fst (transact_system_call ea c t d evm) = Inl e
       | Inr run \<Rightarrow> \<exists>rs. fst (transact_system_call ea c t d evm) = Inr rs
           \<and> rs_result rs = rs_result run
           \<and> rs_state rs (be_beneficiary (evm_block evm2)) = None
           \<and> rs_state rs (evm_fee_collector evm2) = None
           \<and> (\<exists>acc. rs_state rs SYSTEM_ADDRESS = Some acc \<and> info acc = original_info acc
                \<and> Created \<in> status acc \<and> Touched \<in> status acc)
           \<and> (\<forall>a. a \<notin> {be_beneficiary (evm_block evm2), evm_fee_collector evm2, SYSTEM_ADDRESS} \<longrightarrow>
                rs_state rs a = map_option retain_changed (rs_state run a))
           \<and> (\<forall>a acc k v. rs_state rs a = Some acc \<longrightarrow> storage acc k = Some v \<longrightarrow>
                present_value v \<noteq> original_value v))"
proof (cases res)
  case (Inl e)
  with assms(1) show ?thesis
    by (simp add: transact_system_call_def swap_checks_def checks_def without_checks_def)
next
  case (Inr run)
  define evm3 where "evm3 = snd (transact_system_call ea c t d evm)"
  define rs where "rs = run\<lparr>rs_state := clean_system_state (default_account_info ea)
    (be_beneficiary (evm_block evm2)) (evm_fee_collector evm2) (rs_state run)\<rparr>"
  have call: "transact_system_call ea c t d evm = (Inr rs, evm3)"
    and evm3: "be_beneficiary (evm_block evm3) = be_beneficiary (evm_block evm2)"
      "evm_fee_collector evm3 = evm_fee_collector evm2"
    using assms(1) Inr
    by (simp_all add: evm3_def rs_def transact_system_call_def swap_checks_def without_checks_def)
  from sys.system_account_kept [OF call] sys.beneficiary_left_out [OF call]
    sys.collector_left_out [OF call] sys.slots_changed [OF call] evm3 assms(2,3)
    sys.checks_restored [of ea c t d evm]
  show ?thesis
    by (simp add: Inr call) (simp add: rs_def clean_system_state_at)
qed

text \<open>An EVM whose run bumps the caller's nonce, touches the beneficiary and reads one slot without
  changing it while changing another.\<close>

definition sample_info :: "u64 \<Rightarrow> account_info" where
  "sample_info n = \<lparr>balance = 0, nonce = n, code_hash = 1, code = None\<rparr>"

definition sample_account :: account where
  "sample_account = \<lparr>info = sample_info 1, original_info = sample_info 0, transaction_id = 0,
     storage = [0 \<mapsto> \<lparr>original_value = 5, present_value = 5\<rparr>,
       1 \<mapsto> \<lparr>original_value = 5, present_value = 6\<rparr>], status = {Touched}\<rparr>"

definition sample_run :: result_and_state where
  "sample_run = \<lparr>rs_result = Success 21000 (CallOutput []) [],
     rs_state = [SYSTEM_ADDRESS \<mapsto> sample_account, 17 \<mapsto> sample_account, 9 \<mapsto> sample_account]\<rparr>"

definition sample_evm_api :: "(unit, unit, unit) evm_api" where
  "sample_evm_api = \<lparr>run_transact = (\<lambda>evm tx. (Inr sample_run, evm)),
     run_inspect_tx = (\<lambda>evm tx. (Inr sample_run, evm)), default_account_info = sample_info 0\<rparr>"

definition sample_cfg :: cfg_env where
  "sample_cfg = \<lparr>cfg_chain_id = 100, cfg_spec = LONDON, disable_nonce_check = False,
     disable_block_gas_limit = False, disable_base_fee = True, tx_gas_limit_cap = None,
     limit_contract_code_size = None, max_blobs_per_tx_cap = None, gas_params = (\<lambda>_. 0)\<rparr>"

definition sample_block_env :: block_env where
  "sample_block_env = \<lparr>be_number = 1, be_beneficiary = 9, be_timestamp = 5, be_difficulty = 0,
     be_prevrandao = None, be_gas_limit = 30000000, be_basefee = 7, be_blob = None, be_slot_num = 0\<rparr>"

definition sample_evm :: "(unit, unit, unit) evm" where
  "sample_evm = \<lparr>evm_cfg = sample_cfg, evm_block = sample_block_env, evm_db = (),
     evm_inspector = (), evm_precompiles = (), evm_sstore_eip1283 = False, evm_fee_collector = 8,
     evm_inspect = False\<rparr>"

theorem system_call_contract_witness:
  "\<exists>rs. fst (transact_system_call sample_evm_api SYSTEM_ADDRESS 17 [] sample_evm) = Inr rs
     \<and> rs_state rs 9 = None \<and> rs_state rs 17 = Some (retain_changed sample_account)
     \<and> (\<exists>acc. rs_state rs SYSTEM_ADDRESS = Some acc \<and> info acc = original_info acc)"
proof -
  have run: "transact_raw sample_evm_api (without_checks sample_evm) (system_tx SYSTEM_ADDRESS 17 [])
      = (Inr sample_run, without_checks sample_evm)"
    by (simp add: transact_raw_def sample_evm_api_def)
  have b: "be_beneficiary (evm_block (without_checks sample_evm)) = 9"
    and f: "evm_fee_collector (without_checks sample_evm) = 8"
    by (simp_all add: without_checks_def sample_evm_def sample_block_env_def)
  have ne: "evm_fee_collector (without_checks sample_evm) \<noteq> SYSTEM_ADDRESS"
    "be_beneficiary (evm_block (without_checks sample_evm)) \<noteq> SYSTEM_ADDRESS"
    by (simp_all add: b f SYSTEM_ADDRESS_def)
  from system_call_contract [OF run ne] show ?thesis
    by (auto simp: b f sample_run_def SYSTEM_ADDRESS_def)
qed

end
