(* ===== verification/GnosisCalls.thy ===== *)
theory GnosisCalls
  imports EvmFactory ChainSpec
begin

text \<open>
  The post-block system calls and the bytecode rewrites of \<open>src/gnosis.rs\<close>: the withdrawal contract,
  the block rewards contract with the balance increments it returns, and the rewrites of contract
  code at a hard fork. ABI encoding is generated code and a parameter. The state hook of the system
  caller is the list of the events it was given.
\<close>

section \<open>Errors and the state hook\<close>

text \<open>Block execution errors; every formatted message is a constructor with the values it prints.\<close>

datatype BlockExecutionError =
    WithdrawalCallFailed string
  | ExecutionReverted bytes
  | ExecutionHalted string
  | RewardCallError string
  | RewardCallRevert bytes
  | RewardCallHalt string
  | RewardReturnUnparsable bytes string
  | NoWithdrawalsField
  | InternalMsg string
  | EvmFailure b256 string
  | TransactionGasLimitTooHigh u64 u64
  | ValidatorSyncError string
  | ParentHookError string
  | DepositError string
  | BalanceIncrementFailed
  | LibError string

datatype hook_source = WithdrawalRequestsContract | BalanceIncrements | OtherSource string

type_synonym hook_event = "hook_source \<times> evm_state"

text \<open>\<open>invoke_hook_with\<close>: a system caller without a hook ignores the event.\<close>

type_synonym system_caller = "hook_event list option"

definition invoke_hook :: "hook_event \<Rightarrow> system_caller \<Rightarrow> system_caller" where
  "invoke_hook ev sc = map_option (\<lambda>evs. evs @ [ev]) sc"

record withdrawal =
  w_index :: u64
  w_validator_index :: u64
  w_address :: address
  w_amount :: u64

record abi =
  enc_execute_system_withdrawals :: "u256 \<Rightarrow> u64 list \<Rightarrow> address list \<Rightarrow> bytes"
  enc_reward :: "address list \<Rightarrow> u16 list \<Rightarrow> bytes"
  dec_reward_returns :: "bytes \<Rightarrow> string + (address list \<times> u256 list)"

text \<open>What a handler works on: the EVM and the system caller.\<close>

type_synonym ('db, 'insp, 'pre) exec_state = "('db, 'insp, 'pre) evm \<times> system_caller"

definition commit ::
  "'db db_api \<Rightarrow> evm_state \<Rightarrow> ('db, 'insp, 'pre) evm \<Rightarrow> ('db, 'insp, 'pre) evm" where
  "commit d state evm = evm\<lparr>evm_db := db_commit d state (evm_db evm)\<rparr>"

section \<open>The withdrawal contract\<close>

definition apply_withdrawals_contract_call ::
  "('db, 'insp, 'pre) evm_api \<Rightarrow> 'db db_api \<Rightarrow> abi \<Rightarrow> address \<Rightarrow> withdrawal list
     \<Rightarrow> ('db, 'insp, 'pre) exec_state
     \<Rightarrow> (BlockExecutionError fault + bytes) \<times> ('db, 'insp, 'pre) exec_state" where
  "apply_withdrawals_contract_call ea d ab contract withdrawals = (\<lambda>(evm, sc).
     case transact_system_call ea SYSTEM_ADDRESS contract
         (enc_execute_system_withdrawals ab 4 (map w_amount withdrawals) (map w_address withdrawals))
         evm of
       (Inl e, evm) \<Rightarrow> (Inl (Err (WithdrawalCallFailed e)), (evm, sc))
     | (Inr rs, evm) \<Rightarrow>
         (let sc = invoke_hook (WithdrawalRequestsContract, rs_state rs) sc;
              evm = commit d (rs_state rs) evm
          in case rs_result rs of
               Success _ output _ \<Rightarrow> (Inr (into_data output), (evm, sc))
             | Revert _ output \<Rightarrow> (Inl (Err (ExecutionReverted output)), (evm, sc))
             | Halt _ reason \<Rightarrow> (Inl (Err (ExecutionHalted reason)), (evm, sc))))"

section \<open>The block rewards contract\<close>

text \<open>The loop over \<open>receivers.zip(rewards)\<close>: \<open>to::<u128>()\<close> panics on a larger amount and the
  addition wraps in a release build.\<close>

fun accumulate_rewards ::
  "(address \<times> u256) list \<Rightarrow> (address \<rightharpoonup> u128) \<Rightarrow> 'e fault + (address \<rightharpoonup> u128)" where
  "accumulate_rewards [] m = Inr m"
| "accumulate_rewards ((a, amount) # rest) m =
     (if unat amount < 2 ^ 128
      then accumulate_rewards rest (m(a \<mapsto> (case m a of None \<Rightarrow> 0 | Some v \<Rightarrow> v) + ucast amount))
      else Inl (Panic ''Overflow''))"

definition apply_block_rewards_contract_call ::
  "('db, 'insp, 'pre) evm_api \<Rightarrow> 'db db_api \<Rightarrow> abi \<Rightarrow> address \<Rightarrow> address
     \<Rightarrow> ('db, 'insp, 'pre) exec_state
     \<Rightarrow> (BlockExecutionError fault + (address \<rightharpoonup> u128) \<times> log list) \<times> ('db, 'insp, 'pre) exec_state" where
  "apply_block_rewards_contract_call ea d ab contract coinbase = (\<lambda>(evm, sc).
     case transact_system_call ea SYSTEM_ADDRESS contract (enc_reward ab [coinbase] [0]) evm of
       (Inl e, evm) \<Rightarrow> (Inl (Err (RewardCallError e)), (evm, sc))
     | (Inr rs, evm) \<Rightarrow>
         (if (case rs_state rs contract of
                None \<Rightarrow> True | Some account \<Rightarrow> code_hash (info account) = empty_code_hash d)
          then (Inr (Map.empty, []), (evm, sc))
          else
            (case rs_result rs of
               Revert _ output \<Rightarrow> (Inl (Err (RewardCallRevert output)), (evm, sc))
             | Halt _ reason \<Rightarrow> (Inl (Err (RewardCallHalt reason)), (evm, sc))
             | Success _ output logs \<Rightarrow>
                 (let output_bytes = into_data output in
                  case dec_reward_returns ab output_bytes of
                    Inl e \<Rightarrow> (Inl (Err (RewardReturnUnparsable output_bytes e)), (evm, sc))
                  | Inr (receivers, rewards) \<Rightarrow>
                      (let sc = invoke_hook (WithdrawalRequestsContract, rs_state rs) sc;
                           evm = commit d (rs_state rs) evm
                       in case accumulate_rewards (zip receivers rewards) Map.empty of
                            Inl f \<Rightarrow> (Inl f, (evm, sc))
                          | Inr increments \<Rightarrow> (Inr (increments, logs), (evm, sc)))))))"

definition apply_post_block_system_calls ::
  "hardforks_api \<Rightarrow> ('db, 'insp, 'pre) evm_api \<Rightarrow> 'db db_api \<Rightarrow> abi \<Rightarrow> GnosisChainSpec
     \<Rightarrow> address \<Rightarrow> address \<Rightarrow> u64 \<Rightarrow> withdrawal list option \<Rightarrow> address
     \<Rightarrow> ('db, 'insp, 'pre) exec_state
     \<Rightarrow> (BlockExecutionError fault + (address \<rightharpoonup> u128) \<times> bytes \<times> log list)
         \<times> ('db, 'insp, 'pre) exec_state" where
  "apply_post_block_system_calls api ea d ab spec rewards_contract withdrawal_contract timestamp
       withdrawals coinbase st =
     (let (requests, st) =
        (if is_active_at_timestamp api spec Shanghai timestamp
         then (case withdrawals of
                 None \<Rightarrow> (Inl (Err NoWithdrawalsField), st)
               | Some ws \<Rightarrow> apply_withdrawals_contract_call ea d ab withdrawal_contract ws st)
         else (Inr [], st))
      in case requests of
           Inl e \<Rightarrow> (Inl e, st)
         | Inr withdrawal_requests \<Rightarrow>
             (case apply_block_rewards_contract_call ea d ab rewards_contract coinbase st of
                (Inl e, st) \<Rightarrow> (Inl e, st)
              | (Inr (increments, logs), st) \<Rightarrow> (Inr (increments, withdrawal_requests, logs), st)))"

section \<open>Bytecode rewrites\<close>

text \<open>\<open>db.basic(addr).unwrap_or_default().unwrap_or_default()\<close>.\<close>

definition basic_or_default :: "'db db_api \<Rightarrow> address \<Rightarrow> 'db \<Rightarrow> account_info \<times> 'db" where
  "basic_or_default d a db =
     (case db_basic d a db of
        (Inr (Some i), db) \<Rightarrow> (i, db)
      | (_, db) \<Rightarrow> (info_default d, db))"

definition rewritten_account :: "account_info \<Rightarrow> b256 \<Rightarrow> bytes option \<Rightarrow> account" where
  "rewritten_account original hash bytecode =
     \<lparr>info = original\<lparr>code_hash := hash, code := bytecode\<rparr>, original_info = original,
      transaction_id = 0, storage = Map.empty, status = {Touched}\<rparr>"

fun aura_rewrite_state ::
  "'db db_api \<Rightarrow> (address \<times> bytes) list \<Rightarrow> evm_state \<Rightarrow> 'db \<Rightarrow> evm_state \<times> 'db" where
  "aura_rewrite_state d [] state db = (state, db)"
| "aura_rewrite_state d ((addr, bytecode) # rest) state db =
     (let (original, db) = basic_or_default d addr db;
          new_code_hash = code_hash_of d bytecode
      in if code_hash original = new_code_hash then aura_rewrite_state d rest state db
         else aura_rewrite_state d rest
                (state(addr \<mapsto> rewritten_account original new_code_hash (Some bytecode))) db)"

definition rewrite_aura_bytecodes ::
  "'db db_api \<Rightarrow> (address, bytes) btree \<Rightarrow> ('db, 'insp, 'pre) evm \<Rightarrow> ('db, 'insp, 'pre) evm" where
  "rewrite_aura_bytecodes d rewrites evm =
     (let (state, db) = aura_rewrite_state d rewrites Map.empty (evm_db evm)
      in commit d state (evm\<lparr>evm_db := db\<rparr>))"

fun balancer_rewrite_state ::
  "'db db_api \<Rightarrow> (address \<times> bytes option \<times> b256) list \<Rightarrow> evm_state \<Rightarrow> 'db \<Rightarrow> evm_state \<times> 'db" where
  "balancer_rewrite_state d [] state db = (state, db)"
| "balancer_rewrite_state d ((addr, bytecode, expected_code_hash) # rest) state db =
     (let (original, db) = basic_or_default d addr db
      in if code_hash original = expected_code_hash then balancer_rewrite_state d rest state db
         else balancer_rewrite_state d rest
                (state(addr \<mapsto> rewritten_account original
                   (case bytecode of Some c \<Rightarrow> code_hash_of d c | None \<Rightarrow> empty_code_hash d)
                   bytecode)) db)"

definition rewrite_bytecodes ::
  "'db db_api \<Rightarrow> BalancerHardforkConfig \<Rightarrow> ('db, 'insp, 'pre) evm \<Rightarrow> ('db, 'insp, 'pre) evm" where
  "rewrite_bytecodes d cfg evm =
     (let (state, db) = balancer_rewrite_state d (balancer_config cfg) Map.empty (evm_db evm)
      in commit d state (evm\<lparr>evm_db := db\<rparr>))"

section \<open>Rewards\<close>

text \<open>What a list of payments gives an address.\<close>

definition paid_to :: "address \<Rightarrow> (address \<times> u256) list \<Rightarrow> nat" where
  "paid_to a ps = (\<Sum>p\<leftarrow>ps. if fst p = a then unat (snd p) else 0)"

lemma paid_to_simps [simp]:
  "paid_to a [] = 0"
  "paid_to a (p # ps) = (if fst p = a then unat (snd p) else 0) + paid_to a ps"
  by (simp_all add: paid_to_def)

definition increment_of :: "(address \<rightharpoonup> u128) \<Rightarrow> address \<Rightarrow> nat" where
  "increment_of m a = (case m a of None \<Rightarrow> 0 | Some v \<Rightarrow> unat v)"

lemma increment_of_less: "increment_of m a < 2 ^ 128"
  using unsigned_less [where ?'a = nat and ?'b = 128] by (simp add: increment_of_def split: option.split)

lemma increment_of_add:
  assumes "unat (amount :: u256) < 2 ^ 128"
  shows "increment_of (m(b \<mapsto> (case m b of None \<Rightarrow> 0 | Some v \<Rightarrow> v) + ucast amount)) a
    = (increment_of m a + (if b = a then unat amount else 0)) mod 2 ^ 128"
proof -
  have "unat (ucast amount :: u128) = unat amount"
    using assms by (simp add: unsigned_ucast_eq take_bit_nat_eq_self_iff)
  then show ?thesis
    using increment_of_less [of m a] by (auto simp: increment_of_def unat_word_ariths split: option.splits)
qed

lemma accumulate_rewards_sum:
  assumes "accumulate_rewards ps m = Inr m'"
  shows "increment_of m' a = (increment_of m a + paid_to a ps) mod 2 ^ 128 \<and> dom m' = dom m \<union> fst ` set ps"
  using assms
proof (induction ps arbitrary: m)
  case Nil
  then show ?case using increment_of_less [of m a] by simp
next
  case (Cons p rest)
  obtain b amount where p: "p = (b, amount)" by (cases p)
  let ?m = "m(b \<mapsto> (case m b of None \<Rightarrow> 0 | Some v \<Rightarrow> v) + ucast amount)"
  from Cons.prems have small: "unat amount < 2 ^ 128" by (auto simp: p split: if_splits)
  with Cons.IH [of ?m] Cons.prems have "increment_of m' a = (increment_of ?m a + paid_to a rest) mod 2 ^ 128
      \<and> dom m' = dom ?m \<union> fst ` set rest"
    by (simp add: p del: fun_upd_apply)
  then show ?case
    unfolding increment_of_add [OF small] by (auto simp: p mod_simps add.assoc)
qed

lemma accumulate_rewards_panics:
  "\<exists>p \<in> set ps. 2 ^ 128 \<le> unat (snd p) \<Longrightarrow> accumulate_rewards ps m = Inl (Panic ''Overflow'')"
proof (induction ps arbitrary: m)
  case (Cons p ps)
  then show ?case by (cases p) (auto simp del: fun_upd_apply)
qed simp

lemma accumulate_rewards_returns:
  "\<forall>p \<in> set ps. unat (snd p) < 2 ^ 128 \<Longrightarrow> \<exists>m'. accumulate_rewards ps m = Inr m'"
proof (induction ps arbitrary: m)
  case (Cons p ps)
  then show ?case by (cases p) (simp del: fun_upd_apply)
qed simp

section \<open>The reward call\<close>

text \<open>The reward call commits at most once and never half. With the system call's result
  given: a failed call, a revert, a halt or an unparsable return commits nothing and gives the
  matching error; a contract that is absent from the diff or has no code commits nothing and pays
  nothing, whatever it returned; a successful return commits the call's diff exactly once and hands it
  to the hook before the increments are computed.\<close>

lemma reward_call_cases:
  assumes "transact_system_call ea SYSTEM_ADDRESS contract (enc_reward ab [coinbase] [0]) evm = (res, evm1)"
  shows "apply_block_rewards_contract_call ea d ab contract coinbase (evm, sc) =
    (case res of
       Inl e \<Rightarrow> (Inl (Err (RewardCallError e)), (evm1, sc))
     | Inr rs \<Rightarrow>
         (if \<forall>account. rs_state rs contract = Some account \<longrightarrow>
              code_hash (info account) = empty_code_hash d
          then (Inr (Map.empty, []), (evm1, sc))
          else (case rs_result rs of
              Revert _ out \<Rightarrow> (Inl (Err (RewardCallRevert out)), (evm1, sc))
            | Halt _ reason \<Rightarrow> (Inl (Err (RewardCallHalt reason)), (evm1, sc))
            | Success _ out logs \<Rightarrow> (case dec_reward_returns ab (into_data out) of
                Inl e \<Rightarrow> (Inl (Err (RewardReturnUnparsable (into_data out) e)), (evm1, sc))
              | Inr (receivers, rewards) \<Rightarrow>
                  (map_sum id (\<lambda>m. (m, logs)) (accumulate_rewards (zip receivers rewards) Map.empty),
                   (evm1\<lparr>evm_db := db_commit d (rs_state rs) (evm_db evm1)\<rparr>,
                    map_option (\<lambda>evs. evs @ [(WithdrawalRequestsContract, rs_state rs)]) sc))))))"
  using assms
  by (auto simp: apply_block_rewards_contract_call_def Let_def commit_def invoke_hook_def
      split: sum.split option.split exec_result.split)

text \<open>Encoders for the samples: the first byte tells the call, the return is one receiver and amount.\<close>

definition sample_abi :: abi where
  "sample_abi = \<lparr>enc_execute_system_withdrawals = (\<lambda>n amounts addresses. [1]),
     enc_reward = (\<lambda>benefactors kinds. [2]),
     dec_reward_returns = (\<lambda>out. case out of [a, v] \<Rightarrow> Inr ([ucast a], [ucast v]) | _ \<Rightarrow> Inl ''short'')\<rparr>"

text \<open>A database that is its table of accounts.\<close>

definition sample_db_api :: "(address \<rightharpoonup> account_info) db_api" where
  "sample_db_api = \<lparr>db_basic = (\<lambda>a db. (Inr (db a), db)),
     db_commit = (\<lambda>st db a. case st a of None \<Rightarrow> db a | Some acc \<Rightarrow> Some (info acc)),
     db_increment_balances = (\<lambda>m db. (Inr (), db)),
     info_default = \<lparr>balance = 0, nonce = 0, code_hash = 0, code = None\<rparr>,
     code_hash_of = (\<lambda>c. of_nat (length c)), empty_code_hash = 0\<rparr>"

lemma sample_db_ok: "db_ok sample_db_api (\<lambda>db. db)"
  by (auto simp: db_ok_def sample_db_api_def fun_eq_iff split: option.split)

definition calls_evm_api :: "exec_output \<Rightarrow> ((address \<rightharpoonup> account_info), unit, unit) evm_api" where
  "calls_evm_api out = \<lparr>run_transact = (\<lambda>evm tx. (Inr \<lparr>rs_result = Success (if tx_gas_limit tx = 0 then 0 else 1) out [],
       rs_state = [17 \<mapsto> sample_account]\<rparr>, evm)),
     run_inspect_tx = (\<lambda>evm tx. (Inl ''no inspector'', evm)), default_account_info = sample_info 0\<rparr>"

lemma calls_evm_api_gas: "transact_raw (calls_evm_api out) evm tx = (r, evm') \<Longrightarrow>
    evm_block evm' = evm_block evm \<and> (\<forall>rs. r = Inr rs \<longrightarrow> er_gas (rs_result rs) \<le> tx_gas_limit tx)"
  by (auto simp: transact_raw_def calls_evm_api_def word_le_nat_alt unat_gt_0 Suc_le_eq
      split: if_splits)

definition calls_evm :: "((address \<rightharpoonup> account_info), unit, unit) evm" where
  "calls_evm = \<lparr>evm_cfg = sample_cfg, evm_block = sample_block_env, evm_db = Map.empty,
     evm_inspector = (), evm_precompiles = (), evm_sstore_eip1283 = False, evm_fee_collector = 8,
     evm_inspect = False\<rparr>"

lemma sample_reward_payment:
  "\<exists>m evm'. apply_block_rewards_contract_call (calls_evm_api (CallOutput [3, 4])) sample_db_api
       sample_abi 17 9 (calls_evm, Some []) = (Inr (m, []), evm')
     \<and> m 3 = Some 4 \<and> length (the (snd evm')) = 1 \<and> evm_db (fst evm') 17 \<noteq> None"
proof -
  obtain res evm1 where call: "transact_system_call (calls_evm_api (CallOutput [3, 4])) SYSTEM_ADDRESS 17
      (enc_reward sample_abi [9] [0]) calls_evm = (res, evm1)"
    by fastforce
  then have res: "\<exists>rs. res = Inr rs \<and> rs_result rs = Success 1 (CallOutput [3, 4]) []
      \<and> rs_state rs 17 = Some (retain_changed sample_account)"
    by (auto simp: transact_system_call_def transact_raw_def swap_checks_def calls_evm_def
        calls_evm_api_def clean_system_state_at sample_block_env_def SYSTEM_ADDRESS_def system_tx_def
        TX_GAS_LIMIT_def)
  then show ?thesis
    using reward_call_cases [OF call, of sample_db_api "Some []"]
    by (auto simp: sample_abi_def sample_db_api_def sample_account_def sample_info_def)
qed

text \<open>Property C36: the balance increments of a block are the rewards the contract returned. When the reward
  call succeeds with receivers and amounts, its diff is committed and handed to the hook. If one of the
  amounts paid is \<open>2^128\<close> or more the code then panics; otherwise exactly the receivers get an increment,
  each the sum of the amounts paid to it, modulo \<open>2^128\<close> (so the very sum as long as that is smaller).\<close>

theorem reward_increments_are_sums:
  assumes "transact_system_call ea SYSTEM_ADDRESS contract (enc_reward ab [coinbase] [0]) evm = (Inr rs, evm1)"
    and "rs_state rs contract = Some account" and "code_hash (info account) \<noteq> empty_code_hash d"
    and "rs_result rs = Success g out logs"
    and "dec_reward_returns ab (into_data out) = Inr (receivers, rewards)"
  defines "ps \<equiv> zip receivers rewards"
  shows "\<exists>r. apply_block_rewards_contract_call ea d ab contract coinbase (evm, sc)
      = (r, evm1\<lparr>evm_db := db_commit d (rs_state rs) (evm_db evm1)\<rparr>,
           map_option (\<lambda>evs. evs @ [(WithdrawalRequestsContract, rs_state rs)]) sc)
    \<and> (if \<exists>p \<in> set ps. 2 ^ 128 \<le> unat (snd p) then r = Inl (Panic ''Overflow'')
       else \<exists>m. r = Inr (m, logs) \<and> dom m = fst ` set ps \<and> (\<forall>a. increment_of m a = paid_to a ps mod 2 ^ 128))"
proof -
  let ?acc = "accumulate_rewards ps Map.empty :: BlockExecutionError fault + _"
  have run: "apply_block_rewards_contract_call ea d ab contract coinbase (evm, sc)
      = (map_sum id (\<lambda>m. (m, logs)) ?acc, evm1\<lparr>evm_db := db_commit d (rs_state rs) (evm_db evm1)\<rparr>,
           map_option (\<lambda>evs. evs @ [(WithdrawalRequestsContract, rs_state rs)]) sc)"
    using reward_call_cases [OF assms(1), of d sc] assms(2-5) by (simp add: ps_def)
  show ?thesis
  proof (cases "\<exists>p \<in> set ps. 2 ^ 128 \<le> unat (snd p)")
    case True
    with run show ?thesis by (simp add: accumulate_rewards_panics)
  next
    case False
    then obtain m where m: "?acc = Inr m"
      using accumulate_rewards_returns [of ps Map.empty] by (auto simp: not_le)
    from accumulate_rewards_sum [OF m] False run m show ?thesis by (simp add: increment_of_def)
  qed
qed

lemma sample_reward_call:
  obtains rs evm1 where "transact_system_call (calls_evm_api out) SYSTEM_ADDRESS 17
      (enc_reward (sample_abi\<lparr>dec_reward_returns := f\<rparr>) [9] [0]) calls_evm = (Inr rs, evm1)"
    "rs_state rs 17 = Some (retain_changed sample_account)"
    "code_hash (info (retain_changed sample_account)) \<noteq> empty_code_hash sample_db_api"
    "rs_result rs = Success 1 out []"
proof -
  obtain res evm1 where call: "transact_system_call (calls_evm_api out) SYSTEM_ADDRESS 17
      (enc_reward (sample_abi\<lparr>dec_reward_returns := f\<rparr>) [9] [0]) calls_evm = (res, evm1)"
    by fastforce
  then have "\<exists>rs. res = Inr rs \<and> rs_result rs = Success 1 out []
      \<and> rs_state rs 17 = Some (retain_changed sample_account)"
    by (auto simp: transact_system_call_def transact_raw_def swap_checks_def calls_evm_def
        calls_evm_api_def clean_system_state_at sample_block_env_def SYSTEM_ADDRESS_def system_tx_def
        TX_GAS_LIMIT_def)
  with call that show thesis
    by (auto simp: sample_db_api_def sample_account_def sample_info_def)
qed

theorem reward_increments_are_sums_witness:
  "(\<exists>m st. apply_block_rewards_contract_call (calls_evm_api (CallOutput [])) sample_db_api
       (sample_abi\<lparr>dec_reward_returns := (\<lambda>_. Inr ([1, 2, 1], [5, 6, 7, 8]))\<rparr>) 17 9 (calls_evm, None) = (Inr (m, []), st)
     \<and> increment_of m 1 = 12 \<and> increment_of m 2 = 6)
   \<and> (\<exists>st. apply_block_rewards_contract_call (calls_evm_api (CallOutput [])) sample_db_api
       (sample_abi\<lparr>dec_reward_returns := (\<lambda>_. Inr ([1], [2 ^ 128]))\<rparr>) 17 9 (calls_evm, None) = (Inl (Panic ''Overflow''), st))"
proof -
  have dec: "dec_reward_returns (sample_abi\<lparr>dec_reward_returns := (\<lambda>_. Inr x)\<rparr>) out = Inr x" for x out by simp
  have first: "\<exists>m st. apply_block_rewards_contract_call (calls_evm_api (CallOutput [])) sample_db_api
       (sample_abi\<lparr>dec_reward_returns := (\<lambda>_. Inr ([1, 2, 1], [5, 6, 7, 8]))\<rparr>) 17 9 (calls_evm, None) = (Inr (m, []), st)
     \<and> increment_of m 1 = 12 \<and> increment_of m 2 = 6"
    by (rule sample_reward_call [of "CallOutput []" "\<lambda>_. Inr ([1, 2, 1], [5, 6, 7, 8])"])
      (drule (3) reward_increments_are_sums [OF _ _ _ _ dec, where sc = None], auto simp: paid_to_def)
  have second: "\<exists>st. apply_block_rewards_contract_call (calls_evm_api (CallOutput [])) sample_db_api
       (sample_abi\<lparr>dec_reward_returns := (\<lambda>_. Inr ([1], [2 ^ 128]))\<rparr>) 17 9 (calls_evm, None) = (Inl (Panic ''Overflow''), st)"
    by (rule sample_reward_call [of "CallOutput []" "\<lambda>_. Inr ([1], [2 ^ 128])"])
      (drule (3) reward_increments_are_sums [OF _ _ _ _ dec, where sc = None], auto)
  from first second show ?thesis by blast
qed

section \<open>The withdrawal call\<close>

text \<open>After Shanghai the withdrawals of a block reach the withdrawal contract before the
  rewards are computed: a block without a withdrawals field is refused with nothing run and nothing
  committed, and a failed withdrawal call ends the post-block phase with its error, so that the reward
  contract is never called in that block. Before Shanghai withdrawals are ignored.\<close>

theorem post_block_calls_order:
  "(is_active_at_timestamp api spec Shanghai t \<and> ws = None \<longrightarrow>
      apply_post_block_system_calls api ea d ab spec rc wc t ws coinbase st = (Inl (Err NoWithdrawalsField), st))
   \<and> (is_active_at_timestamp api spec Shanghai t \<and> ws = Some w
        \<and> apply_withdrawals_contract_call ea d ab wc w st = (Inl e, st1) \<longrightarrow>
      apply_post_block_system_calls api ea d ab spec rc wc t ws coinbase st = (Inl e, st1))
   \<and> (is_active_at_timestamp api spec Shanghai t \<and> ws = Some w
        \<and> apply_withdrawals_contract_call ea d ab wc w st = (Inr out, st1) \<longrightarrow>
      apply_post_block_system_calls api ea d ab spec rc wc t ws coinbase st =
        map_prod (map_sum id (\<lambda>(m, logs). (m, out, logs))) id
          (apply_block_rewards_contract_call ea d ab rc coinbase st1))
   \<and> (\<not> is_active_at_timestamp api spec Shanghai t \<longrightarrow>
      apply_post_block_system_calls api ea d ab spec rc wc t ws coinbase st =
        map_prod (map_sum id (\<lambda>(m, logs). (m, [], logs))) id
          (apply_block_rewards_contract_call ea d ab rc coinbase st))"
  by (auto simp: apply_post_block_system_calls_def Let_def split: prod.splits sum.splits)

theorem post_block_calls_order_witness:
  "apply_post_block_system_calls sample_hardforks_api (calls_evm_api (CallOutput [3, 4]))
     sample_db_api sample_abi (sample_spec [(Shanghai, Timestamp 5)]) 17 18 5 None 9 (calls_evm, None)
   = (Inl (Err NoWithdrawalsField), (calls_evm, None))"
  using post_block_calls_order [of sample_hardforks_api "sample_spec [(Shanghai, Timestamp 5)]" 5 None
      "calls_evm_api (CallOutput [3, 4])" sample_db_api sample_abi 17 18 9 "(calls_evm, None)"]
  by (simp add: is_active_at_timestamp_def fork_activation_def sample_hardforks_api_def)

section \<open>Rewrites install the code and are idempotent\<close>

lemma aura_rewrite_is_balancer_rewrite:
  "aura_rewrite_state d rws st db =
     balancer_rewrite_state d (map (\<lambda>(a, c). (a, Some c, code_hash_of d c)) rws) st db"
proof (induction rws arbitrary: st db)
  case (Cons e rws)
  then show ?case by (cases e) (simp del: fun_upd_apply split: prod.split)
qed simp

definition old_info :: "'db db_api \<Rightarrow> ('db \<Rightarrow> address \<Rightarrow> account_info option) \<Rightarrow> 'db \<Rightarrow> address \<Rightarrow> account_info" where
  "old_info d view db a = (case view db a of None \<Rightarrow> info_default d | Some i \<Rightarrow> i)"

lemma basic_or_default_view:
  assumes "db_ok d view" and "basic_or_default d a db = (i, db')"
  shows "i = old_info d view db a" and "view db' = view db"
proof -
  have "fst (db_basic d a db) = Inr (view db a)" and "view (snd (db_basic d a db)) = view db"
    using assms(1) by (simp_all add: db_ok_def)
  with assms(2) show "i = old_info d view db a" and "view db' = view db"
    by (cases "db_basic d a db"; cases "view db a"; simp add: basic_or_default_def old_info_def)+
qed

lemma balancer_rewrite_state_at:
  assumes "db_ok d view" and "distinct (map fst cfg)"
    and "balancer_rewrite_state d cfg st db = (st', db')"
  shows "view db' = view db"
    and "st' a = (case map_of cfg a of
        None \<Rightarrow> st a
      | Some (bc, expected) \<Rightarrow>
          (if code_hash (old_info d view db a) = expected then st a
           else Some (rewritten_account (old_info d view db a)
             (case bc of Some c \<Rightarrow> code_hash_of d c | None \<Rightarrow> empty_code_hash d) bc)))"
proof -
  have "view db' = view db \<and> (\<forall>a. st' a = (case map_of cfg a of
        None \<Rightarrow> st a
      | Some (bc, expected) \<Rightarrow>
          (if code_hash (old_info d view db a) = expected then st a
           else Some (rewritten_account (old_info d view db a)
             (case bc of Some c \<Rightarrow> code_hash_of d c | None \<Rightarrow> empty_code_hash d) bc))))"
    using assms(2,3)
  proof (induction cfg arbitrary: st db)
    case (Cons e cfg)
    obtain b bc expected where e: "e = (b, bc, expected)" by (cases e)
    obtain i db1 where basic: "basic_or_default d b db = (i, db1)" by fastforce
    note view = basic_or_default_view [OF assms(1) basic]
    have old: "old_info d view db1 = old_info d view db"
      by (simp add: old_info_def fun_eq_iff view)
    have "b \<notin> fst ` set cfg" using Cons.prems(1) e by simp
    then have fresh: "map_of cfg b = None" by (simp add: map_of_eq_None_iff)
    show ?case
    proof (cases "code_hash i = expected")
      case True
      with Cons.prems e basic have "balancer_rewrite_state d cfg st db1 = (st', db')" by simp
      with Cons.IH [of st db1, unfolded old view(2)] Cons.prems(1) True fresh show ?thesis
        by (auto simp: e view(1))
    next
      case False
      define st1 where "st1 = st(b \<mapsto> rewritten_account i
        (case bc of Some c \<Rightarrow> code_hash_of d c | None \<Rightarrow> empty_code_hash d) bc)"
      with Cons.prems e basic False have run: "balancer_rewrite_state d cfg st1 db1 = (st', db')"
        by (simp del: fun_upd_apply)
      have other: "st1 a = st a" if "a \<noteq> b" for a using that by (simp add: st1_def)
      from Cons.IH [of st1 db1, unfolded old view(2), OF _ run] Cons.prems(1) False fresh show ?thesis
        by (auto simp: e view(1) other cong: option.case_cong)
          (auto simp: st1_def view(1) split: option.split)
    qed
  qed simp
  then show "view db' = view db"
    and "st' a = (case map_of cfg a of
        None \<Rightarrow> st a
      | Some (bc, expected) \<Rightarrow>
          (if code_hash (old_info d view db a) = expected then st a
           else Some (rewritten_account (old_info d view db a)
             (case bc of Some c \<Rightarrow> code_hash_of d c | None \<Rightarrow> empty_code_hash d) bc)))"
    by blast+
qed

text \<open>The accounts after committing a rewrite.\<close>

definition rewritten_view ::
  "'db db_api \<Rightarrow> ('db \<Rightarrow> address \<Rightarrow> account_info option) \<Rightarrow> 'db
     \<Rightarrow> (address \<times> bytes option \<times> b256) list \<Rightarrow> address \<Rightarrow> account_info option" where
  "rewritten_view d view db cfg a =
     (case map_of cfg a of
        None \<Rightarrow> view db a
      | Some (bc, expected) \<Rightarrow>
          (if code_hash (old_info d view db a) = expected then view db a
           else Some ((old_info d view db a)\<lparr>code_hash :=
             (case bc of Some c \<Rightarrow> code_hash_of d c | None \<Rightarrow> empty_code_hash d), code := bc\<rparr>)))"

definition codes_not_empty :: "'db db_api \<Rightarrow> (address \<times> bytes option \<times> b256) list \<Rightarrow> bool" where
  "codes_not_empty d cfg \<longleftrightarrow>
     list_all (\<lambda>(_, bc, _). case bc of None \<Rightarrow> False | Some c \<Rightarrow> code_hash_of d c \<noteq> empty_code_hash d) cfg"

lemma commit_rewrite_view:
  assumes ok: "db_ok d view" and "distinct (map fst cfg)" and ne: "codes_not_empty d cfg"
    and run: "balancer_rewrite_state d cfg Map.empty db = (st, db')"
  shows "view (db_commit d st db') = rewritten_view d view db cfg"
proof -
  note at = balancer_rewrite_state_at [OF assms(1,2) run]
  have "Touched \<in> status acc \<and> Created \<notin> status acc \<and> SelfDestructed \<notin> status acc
      \<and> code_hash (info acc) \<noteq> empty_code_hash d" if "st a = Some acc" for a acc
  proof -
    from that at(2) [of a] obtain bc expected where bc: "map_of cfg a = Some (bc, expected)"
        "acc = rewritten_account (old_info d view db a)
          (case bc of Some c \<Rightarrow> code_hash_of d c | None \<Rightarrow> empty_code_hash d) bc"
      by (auto split: option.splits if_splits)
    from bc(1) ne have "\<exists>c. bc = Some c \<and> code_hash_of d c \<noteq> empty_code_hash d"
      by (auto simp: codes_not_empty_def list_all_iff dest!: map_of_SomeD split: option.splits)
    with bc(2) show ?thesis by (auto simp: rewritten_account_def)
  qed
  with ok have "view (db_commit d st db') =
      (\<lambda>a. case st a of None \<Rightarrow> view db' a | Some acc \<Rightarrow> Some (info acc))"
    unfolding db_ok_def by blast
  then show ?thesis
    by (auto simp: fun_eq_iff at rewritten_view_def rewritten_account_def split: option.splits)
qed

lemma balancer_rewrite_view:
  assumes "db_ok d view" and "distinct (map fst (balancer_config cfg))"
    and "codes_not_empty d (balancer_config cfg)"
  shows "view (evm_db (rewrite_bytecodes d cfg evm)) = rewritten_view d view (evm_db evm) (balancer_config cfg)"
  using commit_rewrite_view [OF assms]
  by (cases "balancer_rewrite_state d (balancer_config cfg) Map.empty (evm_db evm)")
    (simp add: rewrite_bytecodes_def commit_def)

definition as_rewrites :: "'db db_api \<Rightarrow> (address, bytes) btree \<Rightarrow> (address \<times> bytes option \<times> b256) list" where
  "as_rewrites d rws = map (\<lambda>(a, c). (a, Some c, code_hash_of d c)) rws"

lemma map_of_as_rewrites: "map_of (as_rewrites d rws) a = map_option (\<lambda>c. (Some c, code_hash_of d c)) (bt_get rws a)"
  by (induction rws) (auto simp: as_rewrites_def)

lemma aura_rewrite_view:
  assumes "db_ok d view" and "bt_wf rws" and "\<forall>e \<in> set rws. code_hash_of d (snd e) \<noteq> empty_code_hash d"
  shows "view (evm_db (rewrite_aura_bytecodes d rws evm)) = rewritten_view d view (evm_db evm) (as_rewrites d rws)"
proof -
  have "map fst (as_rewrites d rws) = map fst rws" by (auto simp: as_rewrites_def)
  with assms(2) have dist: "distinct (map fst (as_rewrites d rws))"
    using bt_wf_distinct by (metis (no_types))
  have ne: "codes_not_empty d (as_rewrites d rws)"
    using assms(3) by (auto simp: codes_not_empty_def as_rewrites_def list_all_iff)
  show ?thesis
    using commit_rewrite_view [OF assms(1) dist ne]
    by (cases "balancer_rewrite_state d (as_rewrites d rws) Map.empty (evm_db evm)")
      (simp add: rewrite_aura_bytecodes_def aura_rewrite_is_balancer_rewrite as_rewrites_def [symmetric]
        commit_def)
qed

text \<open>Property C37: the AuRa rewrite installs the code and nothing else. Every listed account whose code hash
  is not the one of the configured code holds that code and its hash afterwards, with balance and nonce
  kept (as a new account when there was none); a listed account already holding that hash and every
  account not listed are unchanged; and applying the rewrite a second time changes nothing, which is what
  makes the block-keyed rewrite safe to repeat.\<close>

theorem aura_rewrite_installs_and_is_idempotent:
  assumes "db_ok d view" and "bt_wf rws"
    and "\<forall>e \<in> set rws. code_hash_of d (snd e) \<noteq> empty_code_hash d"
  shows "(\<forall>a. view (evm_db (rewrite_aura_bytecodes d rws evm)) a =
      (case bt_get rws a of
         None \<Rightarrow> view (evm_db evm) a
       | Some c \<Rightarrow>
           (let old = (case view (evm_db evm) a of None \<Rightarrow> info_default d | Some i \<Rightarrow> i)
            in if code_hash old = code_hash_of d c then view (evm_db evm) a
               else Some \<lparr>balance = balance old, nonce = nonce old, code_hash = code_hash_of d c, code = Some c\<rparr>)))
    \<and> view (evm_db (rewrite_aura_bytecodes d rws (rewrite_aura_bytecodes d rws evm)))
      = view (evm_db (rewrite_aura_bytecodes d rws evm))"
proof -
  have at: "view (evm_db (rewrite_aura_bytecodes d rws evm)) a =
      (case bt_get rws a of
         None \<Rightarrow> view (evm_db evm) a
       | Some c \<Rightarrow>
           (let old = (case view (evm_db evm) a of None \<Rightarrow> info_default d | Some i \<Rightarrow> i)
            in if code_hash old = code_hash_of d c then view (evm_db evm) a
               else Some \<lparr>balance = balance old, nonce = nonce old, code_hash = code_hash_of d c, code = Some c\<rparr>))"
    for a and evm :: "('a, 'b, 'c) evm"
    by (cases "case view (evm_db evm) a of None \<Rightarrow> info_default d | Some i \<Rightarrow> i")
      (auto simp: aura_rewrite_view [OF assms] rewritten_view_def map_of_as_rewrites old_info_def Let_def
        split: option.splits)
  have "view (evm_db (rewrite_aura_bytecodes d rws (rewrite_aura_bytecodes d rws evm))) a
      = view (evm_db (rewrite_aura_bytecodes d rws evm)) a" for a
    by (subst (1) at) (auto simp: at Let_def split: option.splits)
  with at show ?thesis by blast
qed

theorem aura_rewrite_installs_and_is_idempotent_witness:
  "evm_db (rewrite_aura_bytecodes sample_db_api [(17, [1, 2, 3])]
       (rewrite_aura_bytecodes sample_db_api [(17, [1, 2, 3])] calls_evm))
     = evm_db (rewrite_aura_bytecodes sample_db_api [(17, [1, 2, 3])] calls_evm)
   \<and> evm_db (rewrite_aura_bytecodes sample_db_api [(17, [1, 2, 3])] calls_evm) 17
     = Some \<lparr>balance = 0, nonce = 0, code_hash = 3, code = Some [1, 2, 3]\<rparr>"
  using aura_rewrite_installs_and_is_idempotent [OF sample_db_ok, of "[(17, [1, 2, 3])]" calls_evm]
  by (simp add: sample_db_api_def calls_evm_def)

text \<open>The Balancer rewrite is guarded by the expected hash: an account that already has it
  is left alone, every other listed account gets the configured code and keeps balance and nonce, and
  unlisted accounts are untouched.\<close>

theorem balancer_rewrite_guarded:
  assumes "db_ok d view" and "distinct (map fst (balancer_config cfg))"
    and "codes_not_empty d (balancer_config cfg)"
  shows "view (evm_db (rewrite_bytecodes d cfg evm)) a =
    (case map_of (balancer_config cfg) a of
       None \<Rightarrow> view (evm_db evm) a
     | Some (bc, expected) \<Rightarrow>
         (let old = (case view (evm_db evm) a of None \<Rightarrow> info_default d | Some i \<Rightarrow> i)
          in if code_hash old = expected then view (evm_db evm) a
             else Some (old\<lparr>code_hash := code_hash_of d (the bc), code := bc\<rparr>)))"
proof (cases "map_of (balancer_config cfg) a")
  case (Some e)
  then obtain bc expected where e: "map_of (balancer_config cfg) a = Some (bc, expected)" by (cases e) auto
  with assms(3) have "bc \<noteq> None"
    by (auto simp: codes_not_empty_def list_all_iff dest!: map_of_SomeD split: option.splits)
  with e show ?thesis
    by (auto simp: balancer_rewrite_view [OF assms] rewritten_view_def old_info_def Let_def)
qed (simp add: balancer_rewrite_view [OF assms] rewritten_view_def)

theorem balancer_rewrite_guarded_witness:
  "evm_db (rewrite_bytecodes sample_db_api
     \<lparr>activation_time = 5, balancer_config = [(17, Some [1, 2], 2), (18, Some [1], 0)]\<rparr> calls_evm) 17
   = Some \<lparr>balance = 0, nonce = 0, code_hash = 2, code = Some [1, 2]\<rparr>"
proof -
  let ?cfg = "\<lparr>activation_time = 5, balancer_config = [(17, Some [1, 2], 2), (18, Some [1], 0)]\<rparr>"
  have "distinct (map fst (balancer_config ?cfg))" "codes_not_empty sample_db_api (balancer_config ?cfg)"
    by (simp_all add: codes_not_empty_def sample_db_api_def)
  from balancer_rewrite_guarded [OF sample_db_ok this, of calls_evm 17] show ?thesis
    by (simp add: calls_evm_def sample_db_api_def)
qed

end
