(* ===== verification/Finality.thy ===== *)
theory Finality
  imports BTreeMap
begin

text \<open>
  The rolling-finality tracker of \<open>src/aura/finality.rs\<close>: a window of unfinalized blocks with their
  signers, the number of blocks each signer has in the window, the pending \<open>InitiateChange\<close>
  transitions and the scheduled \<open>finalizeChange\<close> call. The mutable methods take the tracker and
  return it updated; a method that also returns a value returns the pair. Logging is not modelled.

  The abstract specification is the rule the code takes over from geth, stated on the window alone:
  a block is final once more than half of the validators signed it or a later block.
\<close>

section \<open>State\<close>

record RollingFinality =
  validators :: "address list"
  validators_sealed :: bool
  headers :: "(u64 \<times> address) list"
  sign_count :: "(address, u64) btree"
  pending_transitions :: "(u64, address) btree"
  finalize_change_at :: "(u64 \<times> address) option"

definition rf_new :: "address list \<Rightarrow> RollingFinality" where
  "rf_new vs = \<lparr>validators = vs, validators_sealed = False, headers = [], sign_count = bt_empty,
     pending_transitions = bt_empty, finalize_change_at = None\<rparr>"

definition from_recovered ::
  "(u64, address) btree \<Rightarrow> (u64 \<times> address) option \<Rightarrow> RollingFinality" where
  "from_recovered pending fca = \<lparr>validators = [], validators_sealed = False, headers = [],
     sign_count = bt_empty, pending_transitions = pending, finalize_change_at = fca\<rparr>"

section \<open>Operations\<close>

definition is_finalized :: "address list \<Rightarrow> (address, u64) btree \<Rightarrow> bool" where
  "is_finalized vs sc \<longleftrightarrow> length sc * 2 > length vs"

text \<open>\<open>*entry(signer).or_insert(0) += 1\<close>.\<close>

definition inc_signer :: "address \<Rightarrow> (address, u64) btree \<Rightarrow> (address, u64) btree" where
  "inc_signer a sc = bt_insert a ((case bt_get sc a of None \<Rightarrow> 0 | Some c \<Rightarrow> c) + 1) sc"

text \<open>The decrement of a popped block's signer, with the removal of a zero count.\<close>

definition dec_signer :: "address \<Rightarrow> (address, u64) btree \<Rightarrow> (address, u64) btree" where
  "dec_signer a sc =
     (case bt_get sc a of
        None \<Rightarrow> sc
      | Some c \<Rightarrow> (if c - 1 = 0 then bt_remove a sc else bt_insert a (c - 1) sc))"

text \<open>The loop \<open>while self.is_finalized()\<close>: it pops the front of the window until the rule fails or
  the window is empty. The result is the finalized blocks, the counts and the remaining window.\<close>

fun pop_finalized ::
  "address list \<Rightarrow> (address, u64) btree \<Rightarrow> (u64 \<times> address) list
     \<Rightarrow> (u64 \<times> address) list \<times> (address, u64) btree \<times> (u64 \<times> address) list" where
  "pop_finalized vs sc [] = ([], sc, [])"
| "pop_finalized vs sc ((num, a) # hs) =
     (if is_finalized vs sc
      then (case pop_finalized vs (dec_signer a sc) hs of
              (fin, sc', rest) \<Rightarrow> ((num, a) # fin, sc', rest))
      else ([], sc, (num, a) # hs))"

text \<open>The loop over the finalized blocks that schedules \<open>finalizeChange\<close> at the next block.\<close>

fun settle_pending ::
  "u64 \<Rightarrow> (u64 \<times> address) list \<Rightarrow> (u64, address) btree \<Rightarrow> (u64 \<times> address) option
     \<Rightarrow> (u64, address) btree \<times> (u64 \<times> address) option" where
  "settle_pending n [] pt fca = (pt, fca)"
| "settle_pending n ((num, a) # fin) pt fca =
     (case bt_get pt num of
        Some contract \<Rightarrow> settle_pending n fin (bt_remove num pt) (Some (n + 1, contract))
      | None \<Rightarrow> settle_pending n fin pt fca)"

definition push ::
  "u64 \<Rightarrow> address \<Rightarrow> RollingFinality \<Rightarrow> (u64 \<times> address) list \<times> RollingFinality" where
  "push block_number signer rf =
     (if signer \<notin> set (validators rf) \<and> validators_sealed rf then ([], rf)
      else
        let vs = (if signer \<in> set (validators rf) then validators rf else validators rf @ [signer]);
            sc = inc_signer signer (sign_count rf);
            hs = headers rf @ [(block_number, signer)]
        in (case pop_finalized vs sc hs of
              (fin, sc', hs') \<Rightarrow>
                (case settle_pending block_number fin (pending_transitions rf)
                        (finalize_change_at rf) of
                   (pt, fca) \<Rightarrow>
                     (fin, rf\<lparr>validators := vs, headers := hs', sign_count := sc',
                            pending_transitions := pt, finalize_change_at := fca\<rparr>))))"

definition set_immediate_finalize :: "u64 \<Rightarrow> address \<Rightarrow> RollingFinality \<Rightarrow> RollingFinality" where
  "set_immediate_finalize target contract rf = rf\<lparr>finalize_change_at := Some (target, contract)\<rparr>"

definition add_pending_transition :: "u64 \<Rightarrow> address \<Rightarrow> RollingFinality \<Rightarrow> RollingFinality" where
  "add_pending_transition n contract rf =
     rf\<lparr>pending_transitions := bt_insert n contract (pending_transitions rf)\<rparr>"

definition take_finalize_change ::
  "u64 \<Rightarrow> RollingFinality \<Rightarrow> address option \<times> RollingFinality" where
  "take_finalize_change n rf =
     (case finalize_change_at rf of
        Some (target, a) \<Rightarrow>
          (if n \<ge> target
           then (Some a, rf\<lparr>finalize_change_at := None, headers := [], sign_count := bt_empty\<rparr>)
           else (None, rf))
      | None \<Rightarrow> (None, rf))"

definition set_validators :: "address list \<Rightarrow> RollingFinality \<Rightarrow> RollingFinality" where
  "set_validators vs rf =
     rf\<lparr>validators := vs, validators_sealed := True, headers := [], sign_count := bt_empty\<rparr>"

definition validator_count :: "RollingFinality \<Rightarrow> nat" where
  "validator_count rf = length (validators rf)"

section \<open>The abstract window\<close>

definition signers :: "(u64 \<times> address) list \<Rightarrow> address set" where
  "signers w = snd ` set w"

definition has_majority :: "address list \<Rightarrow> (u64 \<times> address) list \<Rightarrow> bool" where
  "has_majority vs w \<longleftrightarrow> length vs < 2 * card (signers w)"

fun split_final ::
  "address list \<Rightarrow> (u64 \<times> address) list \<Rightarrow> (u64 \<times> address) list \<times> (u64 \<times> address) list" where
  "split_final vs [] = ([], [])"
| "split_final vs (x # w) =
     (if has_majority vs (x # w) then (case split_final vs w of (f, r) \<Rightarrow> (x # f, r))
      else ([], x # w))"

lemma signers_simps [simp]:
  "signers [] = {}"
  "signers (x # w) = insert (snd x) (signers w)"
  "signers (w @ w') = signers w \<union> signers w'"
  by (auto simp: signers_def)

lemma finite_signers [simp]: "finite (signers w)"
  by (simp add: signers_def)

lemma signers_drop_subset: "signers (drop i w) \<subseteq> signers w"
  using set_drop_subset [of i w] by (auto simp: signers_def)

lemma has_majority_mono: "signers w \<subseteq> signers w' \<Longrightarrow> has_majority vs w \<Longrightarrow> has_majority vs w'"
  unfolding has_majority_def by (meson card_mono finite_signers le_less_trans less_le_trans mult_le_mono2)

lemma split_final_append: "split_final vs w = (f, r) \<Longrightarrow> w = f @ r"
  by (induction vs w arbitrary: f rule: split_final.induct) (auto split: if_splits prod.splits)

text \<open>Majority is antitone along the window, so the finalized blocks are exactly the positions whose
  suffix carries a majority.\<close>

lemma split_final_position:
  "split_final vs w = (f, r) \<Longrightarrow> i < length w \<Longrightarrow> i < length f \<longleftrightarrow> has_majority vs (drop i w)"
proof (induction vs w arbitrary: f i rule: split_final.induct)
  case (2 vs x w)
  show ?case
  proof (cases "has_majority vs (x # w)")
    case True
    then obtain f' where f': "split_final vs w = (f', r)" "f = x # f'"
      using "2.prems"(1) by (auto split: prod.splits)
    show ?thesis
    proof (cases i)
      case 0
      with True f' show ?thesis by simp
    next
      case (Suc j)
      with "2.IH" [OF True f'(1), of j] "2.prems"(2) f' show ?thesis by simp
    qed
  next
    case False
    have "\<not> has_majority vs (drop i (x # w))"
      using False has_majority_mono [OF signers_drop_subset] by blast
    with False "2.prems"(1) show ?thesis by simp
  qed
qed simp

lemma split_final_rest: "split_final vs w = (f, r) \<Longrightarrow> \<not> has_majority vs r"
  by (induction vs w arbitrary: f rule: split_final.induct)
    (auto simp: has_majority_def split: if_splits prod.splits)

section \<open>The counts refine the window\<close>

text \<open>
  The signer counts represent the window: each signer's count is its number of blocks there, and a
  signer without a block has no entry. The window fits in memory, so counts do not wrap.
\<close>

definition counts_ok :: "(address, u64) btree \<Rightarrow> (u64 \<times> address) list \<Rightarrow> bool" where
  "counts_ok sc w \<longleftrightarrow> bt_wf sc \<and>
     (\<forall>a. bt_get sc a = (let c = count_list (map snd w) a
                          in if c = 0 then None else Some (of_nat c)))"

lemma counts_ok_empty [simp]: "counts_ok bt_empty []"
  by (simp add: counts_ok_def bt.wf_empty bt.get_empty)

lemma counts_ok_wf: "counts_ok sc w \<Longrightarrow> bt_wf sc"
  by (simp add: counts_ok_def)

lemma counts_ok_get:
  "counts_ok sc w \<Longrightarrow> bt_get sc a =
     (if count_list (map snd w) a = 0 then None else Some (of_nat (count_list (map snd w) a)))"
  by (simp add: counts_ok_def Let_def)

lemma counts_ok_length: "counts_ok sc w \<Longrightarrow> length sc = card (signers w)"
proof -
  assume ok: "counts_ok sc w"
  have "a \<in> fst ` set sc \<longleftrightarrow> a \<in> signers w" for a
  proof -
    have "a \<in> fst ` set sc \<longleftrightarrow> bt_get sc a \<noteq> None"
      by (simp add: bt_get_None_iff)
    also have "\<dots> \<longleftrightarrow> count_list (map snd w) a \<noteq> 0"
      using counts_ok_get [OF ok, of a] by simp
    also have "\<dots> \<longleftrightarrow> a \<in> signers w"
      by (simp add: count_list_0_iff signers_def)
    finally show ?thesis .
  qed
  then have "fst ` set sc = signers w" by blast
  with length_bt_keys [OF counts_ok_wf [OF ok]] show ?thesis by simp
qed

lemma is_finalized_majority: "counts_ok sc w \<Longrightarrow> is_finalized vs sc \<longleftrightarrow> has_majority vs w"
  by (auto simp: is_finalized_def has_majority_def counts_ok_length)

lemma counts_ok_inc:
  assumes "counts_ok sc w"
  shows "counts_ok (inc_signer a sc) (w @ [(n, a)])"
proof -
  have "bt_get (inc_signer a sc) b =
      (if count_list (map snd (w @ [(n, a)])) b = 0 then None
       else Some (of_nat (count_list (map snd (w @ [(n, a)])) b)))" for b
    using counts_ok_get [OF assms, of b]
    by (auto simp: inc_signer_def bt_get_insert add.commute)
  with assms show ?thesis
    by (simp add: counts_ok_def inc_signer_def bt_wf_insert Let_def)
qed

lemma counts_ok_dec:
  assumes ok: "counts_ok sc ((n, a) # w)" and len: "length w < 2 ^ 64 - 1"
  shows "counts_ok (dec_signer a sc) w"
proof -
  let ?c = "count_list (map snd w) a"
  have get: "bt_get sc a = Some (of_nat ?c + 1)"
    using counts_ok_get [OF ok, of a] by (simp add: add.commute)
  have "?c < 2 ^ 64"
    using count_le_length [of "map snd w" a] len by simp
  then have zero: "(of_nat ?c :: u64) = 0 \<longleftrightarrow> ?c = 0"
    using nat_dvd_not_less [of ?c "2 ^ 64"] by (auto simp: word_of_nat_eq_0_iff)
  have other: "bt_get sc b = (if count_list (map snd w) b = 0 then None
       else Some (of_nat (count_list (map snd w) b)))" if "b \<noteq> a" for b
    using counts_ok_get [OF ok, of b] that by auto
  have "bt_get (dec_signer a sc) b = (if count_list (map snd w) b = 0 then None
       else Some (of_nat (count_list (map snd w) b)))" for b
    using get zero other [of b] counts_ok_wf [OF ok]
    by (cases "b = a") (auto simp: dec_signer_def bt_get_insert bt_get_remove)
  moreover have "bt_wf (dec_signer a sc)"
    using counts_ok_wf [OF ok] by (auto simp: dec_signer_def bt_wf_insert bt_wf_remove split: option.splits)
  ultimately show ?thesis by (simp add: counts_ok_def Let_def)
qed

lemma pop_finalized_refines:
  "counts_ok sc w \<Longrightarrow> length w < 2 ^ 64 \<Longrightarrow> pop_finalized vs sc w = (fin, sc', rest) \<Longrightarrow>
     split_final vs w = (fin, rest) \<and> counts_ok sc' rest"
proof (induction vs sc w arbitrary: fin rule: pop_finalized.induct)
  case (2 vs sc num a hs)
  show ?case
  proof (cases "is_finalized vs sc")
    case True
    with "2.prems" have maj: "has_majority vs ((num, a) # hs)"
      by (simp add: is_finalized_majority)
    from True "2.prems"(3) obtain fin' where
      f: "pop_finalized vs (dec_signer a sc) hs = (fin', sc', rest)" "fin = (num, a) # fin'"
      by (auto split: prod.splits)
    have "counts_ok (dec_signer a sc) hs"
      using "2.prems" by (intro counts_ok_dec) auto
    with "2.IH" [OF True this _ f(1)] "2.prems"(2) maj f(2) show ?thesis by simp
  next
    case False
    with "2.prems" have "\<not> has_majority vs ((num, a) # hs)"
      by (simp add: is_finalized_majority)
    with False "2.prems" show ?thesis by auto
  qed
qed simp

section \<open>What a push does\<close>

definition push_validators :: "address \<Rightarrow> RollingFinality \<Rightarrow> address list" where
  "push_validators s rf = (if s \<in> set (validators rf) then validators rf else validators rf @ [s])"

definition accepts :: "address \<Rightarrow> RollingFinality \<Rightarrow> bool" where
  "accepts s rf \<longleftrightarrow> s \<in> set (validators rf) \<or> \<not> validators_sealed rf"

lemma push_rejected: "\<not> accepts s rf \<Longrightarrow> push n s rf = ([], rf)"
  by (simp add: accepts_def push_def)

lemma push_accepted:
  assumes "accepts s rf" and "push n s rf = (fin, rf')"
  obtains sc' hs' pt fca where
    "pop_finalized (push_validators s rf) (inc_signer s (sign_count rf)) (headers rf @ [(n, s)])
       = (fin, sc', hs')"
    "settle_pending n fin (pending_transitions rf) (finalize_change_at rf) = (pt, fca)"
    "rf' = rf\<lparr>validators := push_validators s rf, headers := hs', sign_count := sc',
              pending_transitions := pt, finalize_change_at := fca\<rparr>"
proof -
  obtain fin0 sc' hs' where p:
    "pop_finalized (push_validators s rf) (inc_signer s (sign_count rf)) (headers rf @ [(n, s)])
       = (fin0, sc', hs')" by (metis prod_cases3)
  obtain pt fca where q:
    "settle_pending n fin0 (pending_transitions rf) (finalize_change_at rf) = (pt, fca)"
    by (metis surj_pair)
  have "push n s rf = (fin0, rf\<lparr>validators := push_validators s rf, headers := hs',
      sign_count := sc', pending_transitions := pt, finalize_change_at := fca\<rparr>)"
    using assms(1) p q unfolding push_def accepts_def push_validators_def
    by (auto simp: Let_def)
  with assms(2) p q that show thesis by auto
qed

text \<open>The invariant the tracker keeps: counts represent the window, every signer in the window is in
  the validator list, and the window never holds a majority.\<close>

definition rf_inv :: "RollingFinality \<Rightarrow> bool" where
  "rf_inv rf \<longleftrightarrow> counts_ok (sign_count rf) (headers rf) \<and> bt_wf (pending_transitions rf) \<and>
     signers (headers rf) \<subseteq> set (validators rf) \<and> \<not> has_majority (validators rf) (headers rf)"

lemma rf_inv_dest:
  assumes "rf_inv rf"
  shows "counts_ok (sign_count rf) (headers rf)" "bt_wf (pending_transitions rf)"
    "signers (headers rf) \<subseteq> set (validators rf)" "\<not> has_majority (validators rf) (headers rf)"
  using assms by (simp_all add: rf_inv_def)

lemma push_window:
  assumes "accepts s rf" and "push n s rf = (fin, rf')"
    and "counts_ok (sign_count rf) (headers rf)" and "length (headers rf) < 2 ^ 64 - 1"
  shows "split_final (push_validators s rf) (headers rf @ [(n, s)]) = (fin, headers rf')"
    and "counts_ok (sign_count rf') (headers rf')"
    and "validators rf' = push_validators s rf"
proof -
  from push_accepted [OF assms(1,2)] obtain sc' hs' pt fca where p:
    "pop_finalized (push_validators s rf) (inc_signer s (sign_count rf)) (headers rf @ [(n, s)])
       = (fin, sc', hs')"
    "rf' = rf\<lparr>validators := push_validators s rf, headers := hs', sign_count := sc',
              pending_transitions := pt, finalize_change_at := fca\<rparr>" by metis
  have "counts_ok (inc_signer s (sign_count rf)) (headers rf @ [(n, s)])"
    using assms(3) by (rule counts_ok_inc)
  from pop_finalized_refines [OF this _ p(1)] assms(4) p(2)
  show "split_final (push_validators s rf) (headers rf @ [(n, s)]) = (fin, headers rf')"
    and "counts_ok (sign_count rf') (headers rf')" by simp_all
  from p(2) show "validators rf' = push_validators s rf" by simp
qed

lemma settle_pending_wf:
  "bt_wf pt \<Longrightarrow> settle_pending n fin pt fca = (pt', fca') \<Longrightarrow> bt_wf pt'"
  by (induction n fin pt fca rule: settle_pending.induct)
    (auto split: option.splits simp: bt_wf_remove)

lemma settle_pending_get:
  "bt_wf pt \<Longrightarrow> settle_pending n fin pt fca = (pt', fca') \<Longrightarrow>
     bt_get pt' k = (if k \<in> fst ` set fin then None else bt_get pt k)"
  by (induction n fin pt fca rule: settle_pending.induct)
    (auto split: option.splits simp: bt_wf_remove bt_get_remove)

lemma settle_pending_none:
  "\<forall>x \<in> set fin. bt_get pt (fst x) = None \<Longrightarrow> settle_pending n fin pt fca = (pt, fca)"
  by (induction n fin pt fca rule: settle_pending.induct) (auto split: option.splits)

lemma settle_pending_single:
  "bt_wf pt \<Longrightarrow> bt_get pt m = Some c \<Longrightarrow> m \<in> fst ` set fin \<Longrightarrow>
   \<forall>x \<in> set fin. fst x \<noteq> m \<longrightarrow> bt_get pt (fst x) = None \<Longrightarrow>
   settle_pending n fin pt fca = (bt_remove m pt, Some (n + 1, c))"
proof (induction n fin pt fca rule: settle_pending.induct)
  case (2 n num a fin pt fca)
  show ?case
  proof (cases "num = m")
    case True
    have "\<forall>x \<in> set fin. bt_get (bt_remove m pt) (fst x) = None"
      using "2.prems" by (auto simp: bt_get_remove)
    with True "2.prems" show ?thesis by (simp add: settle_pending_none)
  next
    case False
    with 2 show ?thesis by auto
  qed
qed simp

lemma settle_pending_same:
  "bt_wf pt \<Longrightarrow> \<forall>k v. bt_get pt k = Some v \<longrightarrow> v = c \<Longrightarrow>
     snd (settle_pending n fin pt fca) =
       (if \<exists>x \<in> set fin. bt_get pt (fst x) \<noteq> None then Some (n + 1, c) else fca)"
proof (induction n fin pt fca rule: settle_pending.induct)
  case (2 n num a fin pt fca)
  show ?case
  proof (cases "bt_get pt num")
    case None
    with "2.IH"(1) [OF None] "2.prems" show ?thesis by simp
  next
    case (Some v)
    then have "v = c" using "2.prems"(2) by simp
    moreover have "\<forall>k v. bt_get (bt_remove num pt) k = Some v \<longrightarrow> v = c"
      using "2.prems" by (simp add: bt_get_remove)
    ultimately show ?thesis
      using "2.IH"(2) [OF Some] "2.prems"(1) Some by (simp add: bt_wf_remove)
  qed
qed simp

section \<open>Every operation keeps the invariant\<close>

lemma rf_inv_new: "rf_inv (rf_new vs)"
  by (simp add: rf_inv_def rf_new_def bt.wf_empty has_majority_def)

lemma rf_inv_from_recovered: "bt_wf pending \<Longrightarrow> rf_inv (from_recovered pending fca)"
  by (simp add: rf_inv_def from_recovered_def has_majority_def)

lemma rf_inv_set_validators: "rf_inv rf \<Longrightarrow> rf_inv (set_validators vs rf)"
  by (simp add: rf_inv_def set_validators_def has_majority_def)

lemma rf_inv_add_pending: "rf_inv rf \<Longrightarrow> rf_inv (add_pending_transition n c rf)"
  by (simp add: rf_inv_def add_pending_transition_def bt_wf_insert)

lemma rf_inv_set_immediate: "rf_inv rf \<Longrightarrow> rf_inv (set_immediate_finalize n c rf)"
  by (simp add: rf_inv_def set_immediate_finalize_def)

lemma take_finalize_change_cases:
  obtains (due) target c where "finalize_change_at rf = Some (target, c)" "target \<le> n"
      "take_finalize_change n rf =
         (Some c, rf\<lparr>finalize_change_at := None, headers := [], sign_count := bt_empty\<rparr>)"
    | (idle) "\<forall>target c. finalize_change_at rf = Some (target, c) \<longrightarrow> n < target"
      "take_finalize_change n rf = (None, rf)"
  by (cases "finalize_change_at rf") (fastforce simp: take_finalize_change_def)+

lemma rf_inv_take: "rf_inv rf \<Longrightarrow> rf_inv (snd (take_finalize_change n rf))"
  by (cases rule: take_finalize_change_cases [of rf n]) (simp_all add: rf_inv_def has_majority_def)

lemma push_validators_superset: "insert s (set (validators rf)) = set (push_validators s rf)"
  by (auto simp: push_validators_def)

lemma rf_inv_push:
  assumes inv: "rf_inv rf" and len: "length (headers rf) < 2 ^ 64 - 1"
  shows "rf_inv (snd (push n s rf))"
proof (cases "accepts s rf")
  case False
  with inv show ?thesis by (simp add: push_rejected)
next
  case True
  obtain fin rf' where p: "push n s rf = (fin, rf')" by fastforce
  note w = push_window [OF True p rf_inv_dest(1) [OF inv] len]
  have split: "headers rf @ [(n, s)] = fin @ headers rf'"
    using w(1) by (rule split_final_append)
  have "signers (headers rf') \<subseteq> signers (headers rf @ [(n, s)])"
    unfolding split by simp
  then have "signers (headers rf') \<subseteq> set (push_validators s rf)"
    using rf_inv_dest(3) [OF inv] push_validators_superset [of s rf] by auto
  moreover have "bt_wf (pending_transitions rf')"
  proof -
    obtain pt fca where "settle_pending n fin (pending_transitions rf) (finalize_change_at rf)
        = (pt, fca)" "pending_transitions rf' = pt"
      by (rule push_accepted [OF True p]) simp
    with settle_pending_wf [OF rf_inv_dest(2) [OF inv]] show ?thesis by simp
  qed
  ultimately show ?thesis
    using w split_final_rest [OF w(1)] p by (simp add: rf_inv_def)
qed

lemma pop_finalized_rest_length:
  "pop_finalized vs sc w = (f, c, r) \<Longrightarrow> length r \<le> length w"
  by (induction vs sc w arbitrary: f rule: pop_finalized.induct)
    (auto split: if_splits prod.splits intro: le_SucI)

lemma push_length: "length (headers (snd (push n s rf))) \<le> Suc (length (headers rf))"
proof (cases "accepts s rf")
  case True
  obtain fin rf' where p: "push n s rf = (fin, rf')" by fastforce
  obtain sc' hs' where
    "pop_finalized (push_validators s rf) (inc_signer s (sign_count rf)) (headers rf @ [(n, s)])
       = (fin, sc', hs')" and "headers rf' = hs'"
    by (rule push_accepted [OF True p]) simp
  with pop_finalized_rest_length [of "push_validators s rf"] p show ?thesis by fastforce
qed (simp add: push_rejected)

section \<open>The tracker as a state machine\<close>

datatype rf_event =
    Push u64 address
  | AddPending u64 address
  | SetImmediate u64 address
  | Take u64
  | SetValidators "address list"

fun rf_apply :: "rf_event \<Rightarrow> RollingFinality \<Rightarrow> RollingFinality" where
  "rf_apply (Push n s) rf = snd (push n s rf)"
| "rf_apply (AddPending n c) rf = add_pending_transition n c rf"
| "rf_apply (SetImmediate n c) rf = set_immediate_finalize n c rf"
| "rf_apply (Take n) rf = snd (take_finalize_change n rf)"
| "rf_apply (SetValidators vs) rf = set_validators vs rf"

fun rf_run :: "rf_event list \<Rightarrow> RollingFinality \<Rightarrow> RollingFinality" where
  "rf_run [] rf = rf"
| "rf_run (e # es) rf = rf_run es (rf_apply e rf)"

text \<open>States reachable in at most \<open>k\<close> operations from either constructor.\<close>

inductive rf_reachable :: "nat \<Rightarrow> RollingFinality \<Rightarrow> bool" where
  created: "rf_reachable k (rf_new vs)"
| recovered: "bt_wf pending \<Longrightarrow> rf_reachable k (from_recovered pending fca)"
| operated: "rf_reachable k rf \<Longrightarrow> rf_reachable (Suc k) (rf_apply e rf)"

lemma rf_apply_length: "length (headers (rf_apply e rf)) \<le> Suc (length (headers rf))"
proof (cases e)
  case (Take n)
  then show ?thesis by (cases rule: take_finalize_change_cases [of rf n]) simp_all
qed (simp_all add: push_length add_pending_transition_def set_immediate_finalize_def set_validators_def)

lemma rf_inv_apply:
  "rf_inv rf \<Longrightarrow> length (headers rf) < 2 ^ 64 - 1 \<Longrightarrow> rf_inv (rf_apply e rf)"
  by (cases e) (simp_all add: rf_inv_push rf_inv_add_pending rf_inv_set_immediate rf_inv_take
      rf_inv_set_validators)

lemma rf_run_inv:
  "rf_inv rf \<Longrightarrow> length (headers rf) + length es < 2 ^ 64 \<Longrightarrow> rf_inv (rf_run es rf)"
proof (induction es arbitrary: rf)
  case (Cons e es)
  with rf_inv_apply [of rf e] rf_apply_length [of e rf] show ?case by simp
qed simp

lemma rf_reachable_length: "rf_reachable k rf \<Longrightarrow> length (headers rf) \<le> k"
proof (induction rule: rf_reachable.induct)
  case (operated k rf e)
  then show ?case using rf_apply_length [of e rf] by simp
qed (simp_all add: rf_new_def from_recovered_def)

lemma rf_reachable_keeps_inv:
  assumes "rf_reachable k rf" and "k < 2 ^ 64"
  shows "rf_inv rf"
  using assms
proof (induction rule: rf_reachable.induct)
  case (operated k rf e)
  then have "length (headers rf) < 2 ^ 64 - 1"
    using rf_reachable_length [of k rf] by linarith
  with operated show ?case by (intro rf_inv_apply) simp_all
qed (simp_all add: rf_inv_new rf_inv_from_recovered)

text \<open>Property C4: in every state the tracker reaches, the signer counts are exactly the numbers of
  blocks each signer has in the window, all of them are validators, and the window never holds a
  majority: no finalizable block is left waiting. The bound on the number of operations only says
  that the 64-bit counters cannot wrap.\<close>

theorem rf_reachable_inv:
  assumes "rf_reachable k rf" and "k < 2 ^ 64"
  shows "rf_inv rf"
  using assms by (rule rf_reachable_keeps_inv)

theorem rf_reachable_inv_witness:
  "rf_reachable 3 (rf_apply (Push 2 12) (rf_apply (Push 1 11)
      (rf_apply (SetValidators [11, 12, 13]) (rf_new []))))
   \<and> rf_inv (rf_apply (Push 2 12) (rf_apply (Push 1 11)
      (rf_apply (SetValidators [11, 12, 13]) (rf_new []))))"
proof -
  have "rf_reachable (Suc (Suc (Suc 0))) (rf_apply (Push 2 12) (rf_apply (Push 1 11)
      (rf_apply (SetValidators [11, 12, 13]) (rf_new []))))"
    by (intro rf_reachable.intros)
  then have r: "rf_reachable 3 (rf_apply (Push 2 12) (rf_apply (Push 1 11)
      (rf_apply (SetValidators [11, 12, 13]) (rf_new []))))"
    by (simp only: numeral_3_eq_3)
  with rf_reachable_inv [OF r] show ?thesis by simp
qed

text \<open>Property C1: the finality rule. After a push, the finalized blocks are the front of the old
  window extended by the new block, the rest stays in order, and a block at position \<open>i\<close> is
  finalized exactly when more than half of the validators signed it or a later block.\<close>

theorem push_finalizes_majority:
  assumes "rf_inv rf" and "length (headers rf) < 2 ^ 64 - 1" and "accepts s rf"
    and "push n s rf = (fin, rf')"
  shows "headers rf @ [(n, s)] = fin @ headers rf'
    \<and> (\<forall>i < length (headers rf) + 1. i < length fin \<longleftrightarrow>
         length (validators rf') < 2 * card (snd ` set (drop i (headers rf @ [(n, s)]))))"
proof -
  note w = push_window [OF assms(3,4) rf_inv_dest(1) [OF assms(1)] assms(2)]
  have "i < length fin \<longleftrightarrow>
      length (validators rf') < 2 * card (snd ` set (drop i (headers rf @ [(n, s)])))"
    if "i < length (headers rf) + 1" for i
    using split_final_position [OF w(1), of i] that
    unfolding has_majority_def signers_def w(3) by simp
  with split_final_append [OF w(1)] show ?thesis by blast
qed

theorem push_finalizes_majority_witness:
  "fst (push 3 13 (rf_run [SetValidators [11, 12, 13, 14], Push 1 11, Push 2 12] (rf_new [])))
     = [(1, 11)]
   \<and> headers (snd (push 3 13 (rf_run [SetValidators [11, 12, 13, 14], Push 1 11, Push 2 12]
         (rf_new [])))) = [(2, 12), (3, 13)]"
proof -
  define rf where "rf = rf_run [SetValidators [11, 12, 13, 14], Push 1 11, Push 2 12] (rf_new [])"
  have inv: "rf_inv rf" unfolding rf_def by (rule rf_run_inv [OF rf_inv_new]) (simp add: rf_new_def)
  have h: "headers rf = [(1, 11), (2, 12)]" unfolding rf_def by code_simp
  have acc: "accepts 13 rf" unfolding rf_def by code_simp
  have vs: "validators (snd (push 3 13 rf)) = [11, 12, 13, 14]" unfolding rf_def by code_simp
  obtain fin rf' where p: "push 3 13 rf = (fin, rf')" by fastforce
  have len: "length (headers rf) < 2 ^ 64 - 1" by (simp add: h)
  note spec = push_finalizes_majority [OF inv len acc p]
  from spec h have app: "[(1, 11), (2, 12), (3, 13)] = fin @ headers rf'" by simp
  have pos: "i < length fin \<longleftrightarrow>
       4 < 2 * card (snd ` set (drop i [(1::u64, 11::address), (2, 12), (3, 13)]))" if "i < 3" for i
    using spec [THEN conjunct2, rule_format, of i] that h vs p by simp arith
  from pos [of 0] pos [of 1] have "0 < length fin \<and> \<not> 1 < length fin" by simp
  then have "length fin = 1" by linarith
  with app p show ?thesis unfolding rf_def [symmetric] by (cases fin) auto
qed

text \<open>Scheduling. When the blocks finalized by a push at block \<open>n\<close> include a block with a
  pending \<open>InitiateChange\<close>, and no other finalized block has one, then \<open>finalizeChange\<close> on that
  contract is scheduled for the next block, the pending entries of all finalized blocks are gone and
  every other pending entry stays.\<close>

theorem push_schedules_finalize_change:
  assumes "bt_wf (pending_transitions rf)" and "push n s rf = (fin, rf')"
    and "m \<in> fst ` set fin" and "bt_get (pending_transitions rf) m = Some contract"
    and "\<forall>x \<in> set fin. fst x \<noteq> m \<longrightarrow> bt_get (pending_transitions rf) (fst x) = None"
  shows "finalize_change_at rf' = Some (n + 1, contract)
    \<and> (\<forall>k. bt_get (pending_transitions rf') k =
         (if k \<in> fst ` set fin then None else bt_get (pending_transitions rf) k))"
proof -
  have "accepts s rf"
    using assms(2,3) push_rejected [of s rf n] by (cases "accepts s rf") auto
  then obtain pt fca where
    set: "settle_pending n fin (pending_transitions rf) (finalize_change_at rf) = (pt, fca)"
    and rf': "pending_transitions rf' = pt" "finalize_change_at rf' = fca"
    by (rule push_accepted [OF _ assms(2)]) simp
  from settle_pending_single [OF assms(1,4,3,5)] set have "fca = Some (n + 1, contract)" by simp
  with settle_pending_get [OF assms(1) set] rf' show ?thesis by simp
qed

theorem push_schedules_finalize_change_witness:
  "finalize_change_at (snd (push 3 13
     (rf_run [SetValidators [11, 12, 13, 14], Push 1 11, AddPending 1 170, Push 2 12] (rf_new []))))
   = Some (4, 170)"
proof -
  define rf where "rf = rf_run [SetValidators [11, 12, 13, 14], Push 1 11, AddPending 1 170, Push 2 12]
     (rf_new [])"
  have wf: "bt_wf (pending_transitions rf)" unfolding rf_def by code_simp
  obtain fin rf' where p: "push 3 13 rf = (fin, rf')" by fastforce
  have "fst (push 3 13 rf) = [(1, 11)]" unfolding rf_def by code_simp
  with p have fin: "fin = [(1, 11)]" by simp
  have pend: "bt_get (pending_transitions rf) 1 = Some 170" unfolding rf_def by code_simp
  from push_schedules_finalize_change [OF wf p _ pend] fin p
  show ?thesis unfolding rf_def [symmetric] by simp
qed

text \<open>\<open>take_finalize_change\<close> returns the scheduled contract exactly when the block has
  reached the target; it then unschedules the call and empties the window, so a second call at any
  block returns nothing. Before the target it changes nothing.\<close>

theorem take_finalize_change_once:
  "take_finalize_change n rf =
     (if \<exists>target c. finalize_change_at rf = Some (target, c) \<and> target \<le> n
      then (Some (snd (the (finalize_change_at rf))),
            rf\<lparr>finalize_change_at := None, headers := [], sign_count := []\<rparr>)
      else (None, rf))
   \<and> (fst (take_finalize_change n rf) \<noteq> None \<longrightarrow>
        (\<forall>k. fst (take_finalize_change k (snd (take_finalize_change n rf))) = None))"
proof (cases rule: take_finalize_change_cases [of rf n])
  case (due target c)
  then show ?thesis by (auto simp: bt_empty_def take_finalize_change_def)
next
  case idle
  then show ?thesis by fastforce
qed

theorem take_finalize_change_once_witness:
  "fst (take_finalize_change 99 (set_immediate_finalize 100 170 (rf_new [1]))) = None
   \<and> fst (take_finalize_change 100 (set_immediate_finalize 100 170 (rf_new [1]))) = Some 170
   \<and> fst (take_finalize_change 101 (snd (take_finalize_change 100
        (set_immediate_finalize 100 170 (rf_new [1]))))) = None"
proof -
  define rf where "rf = set_immediate_finalize 100 170 (rf_new [1])"
  have fca: "finalize_change_at rf = Some (100, 170)"
    by (simp add: rf_def set_immediate_finalize_def)
  from take_finalize_change_once [of 99 rf] fca have "fst (take_finalize_change 99 rf) = None" by simp
  moreover from take_finalize_change_once [of 100 rf] fca
  have "fst (take_finalize_change 100 rf) = Some 170" by simp
  ultimately show ?thesis
    using take_finalize_change_once [of 100 rf] by (fold rf_def) blast
qed

text \<open>In a sealed set a signer that is not a validator is ignored altogether, and no push
  ever adds a validator to a sealed set.\<close>

theorem sealed_set_ignores_unknown:
  assumes "validators_sealed rf"
  shows "(s \<notin> set (validators rf) \<longrightarrow> push n s rf = ([], rf))
    \<and> validators (snd (push n s rf)) = validators rf \<and> validators_sealed (snd (push n s rf))"
proof (cases "accepts s rf")
  case True
  then have s: "s \<in> set (validators rf)" using assms by (simp add: accepts_def)
  obtain fin rf' where p: "push n s rf = (fin, rf')" by fastforce
  have "validators rf' = validators rf \<and> validators_sealed rf'"
    by (rule push_accepted [OF True p]) (simp add: push_validators_def s assms)
  with s p show ?thesis by simp
next
  case False
  then show ?thesis by (simp add: push_rejected accepts_def assms)
qed

theorem sealed_set_ignores_unknown_witness:
  "push 7 255 (set_validators [1, 2] (rf_new [])) = ([], set_validators [1, 2] (rf_new []))"
  using sealed_set_ignores_unknown [of "set_validators [1, 2] (rf_new [])" 255 7]
  by (simp add: set_validators_def)

section \<open>Pending transitions outside the window\<close>

lemma settle_pending_other:
  "bt_wf pt \<Longrightarrow> p \<notin> fst ` set fin \<Longrightarrow> settle_pending n fin pt fca = (pt', fca') \<Longrightarrow>
     bt_get pt' p = bt_get pt p"
  by (simp add: settle_pending_get)

definition not_in_window :: "u64 \<Rightarrow> RollingFinality \<Rightarrow> bool" where
  "not_in_window p rf \<longleftrightarrow> p \<notin> fst ` set (headers rf)"

fun touches_block :: "u64 \<Rightarrow> rf_event \<Rightarrow> bool" where
  "touches_block p (Push n s) = (n = p)"
| "touches_block p (AddPending n c) = (n = p)"
| "touches_block p e = False"

lemma pop_finalized_append: "pop_finalized vs sc w = (f, c, r) \<Longrightarrow> w = f @ r"
  by (induction vs sc w arbitrary: f rule: pop_finalized.induct) (auto split: if_splits prod.splits)

lemma not_in_union_insert: "A \<union> B = insert n C \<Longrightarrow> p \<notin> C \<Longrightarrow> n \<noteq> p \<Longrightarrow> p \<notin> A \<and> p \<notin> B"
  by (metis UnI1 UnI2 insertE)

lemma push_other_block:
  assumes "bt_wf (pending_transitions rf)" and "not_in_window p rf" and "n \<noteq> p"
  shows "bt_wf (pending_transitions (snd (push n s rf)))
    \<and> not_in_window p (snd (push n s rf))
    \<and> bt_get (pending_transitions (snd (push n s rf))) p = bt_get (pending_transitions rf) p"
proof (cases "accepts s rf")
  case True
  obtain fin rf' where p: "push n s rf = (fin, rf')" by fastforce
  obtain sc' pt fca where q:
    "pop_finalized (push_validators s rf) (inc_signer s (sign_count rf)) (headers rf @ [(n, s)])
       = (fin, sc', headers rf')"
    "settle_pending n fin (pending_transitions rf) (finalize_change_at rf) = (pt, fca)"
    "pending_transitions rf' = pt"
    by (rule push_accepted [OF True p]) simp
  from pop_finalized_append [OF q(1)]
  have "fst ` set (fin @ headers rf') = fst ` set (headers rf @ [(n, s)])" by simp
  then have "fst ` set fin \<union> fst ` set (headers rf') = insert n (fst ` set (headers rf))"
    by (simp add: image_Un)
  note split = not_in_union_insert [OF this assms(2) [unfolded not_in_window_def] assms(3)]
  from settle_pending_other [OF assms(1) split [THEN conjunct1] q(2)]
    settle_pending_wf [OF assms(1) q(2)] q(3) p split [THEN conjunct2]
  show ?thesis by (simp add: not_in_window_def)
qed (simp add: assms push_rejected)

lemma rf_apply_other_block:
  assumes "bt_wf (pending_transitions rf)" and "not_in_window p rf" and "\<not> touches_block p e"
  shows "bt_wf (pending_transitions (rf_apply e rf)) \<and> not_in_window p (rf_apply e rf)
    \<and> bt_get (pending_transitions (rf_apply e rf)) p = bt_get (pending_transitions rf) p"
proof (cases e)
  case (Push n s)
  with assms push_other_block show ?thesis by simp
next
  case (Take n)
  with assms show ?thesis
    by (cases rule: take_finalize_change_cases [of rf n]) (simp_all add: not_in_window_def)
qed (use assms in \<open>simp_all add: add_pending_transition_def set_immediate_finalize_def
      set_validators_def not_in_window_def bt_get_insert bt_wf_insert\<close>)

lemma pending_outside_window_run:
  assumes "bt_wf (pending_transitions rf)" and "not_in_window p rf"
    and "\<forall>e \<in> set es. \<not> touches_block p e"
  shows "not_in_window p (rf_run es rf)
    \<and> bt_get (pending_transitions (rf_run es rf)) p = bt_get (pending_transitions rf) p"
  using assms
proof (induction es arbitrary: rf)
  case (Cons e es)
  with rf_apply_other_block [of rf p e] show ?case by simp
qed simp

end
