(* ===== verification/AddressArray.thy ===== *)
theory AddressArray
  imports Prelude
begin

text \<open>
  The decoder of the \<open>address[]\<close> that \<open>getValidators()\<close> returns, \<open>decode_address_array\<close> of
  \<open>src/block.rs\<close>, with its 64-bit index arithmetic (which wraps), its slice indexing (which panics out
  of range) and the allocation of the result (which panics when the capacity overflows).
\<close>

definition slice_of :: "bytes \<Rightarrow> u64 \<Rightarrow> u64 \<Rightarrow> 'e fault + bytes" where
  "slice_of data a b =
     (if a \<le> b \<and> unat b \<le> length data
      then Inr (take (unat b - unat a) (drop (unat a) data))
      else Inl (Panic ''slice index out of range''))"

primrec decode_loop ::
  "nat \<Rightarrow> bytes \<Rightarrow> u64 \<Rightarrow> u64 \<Rightarrow> address list \<Rightarrow> unit fault + address list" where
  "decode_loop 0 data offset i addresses = Inr addresses"
| "decode_loop (Suc n) data offset i addresses =
     (let start = offset + 32 + i * 32 in
      if unat (start + 32) > length data then Inl (Err ())
      else and_then (slice_of data (start + 12) (start + 32)) (\<lambda>bs.
             decode_loop n data offset (i + 1) (addresses @ [be_word bs])))"

definition decode_address_array :: "bytes \<Rightarrow> unit fault + address list" where
  "decode_address_array data =
     (if length data < 64 then Inl (Err ())
      else
        and_then (slice_of data 24 32) (\<lambda>bs.
        let offset = be_word bs :: u64 in
        if unat (offset + 32) > length data then Inl (Err ())
        else
          and_then (slice_of data (offset + 24) (offset + 32)) (\<lambda>bs.
          let len = be_word bs :: u64 in
          if unat len * 20 \<ge> 2 ^ 63 then Inl (Panic ''capacity overflow'')
          else decode_loop (unat len) data offset 0 [])))"

text \<open>The ABI encoding of a list of addresses.\<close>

definition address_word :: "address \<Rightarrow> bytes" where
  "address_word a = replicate 12 0 @ be_bytes 20 a"

definition encode_address_array :: "address list \<Rightarrow> bytes" where
  "encode_address_array vs =
     replicate 31 0 @ [32] @ replicate 24 0 @ be_bytes 8 (of_nat (length vs) :: u64)
     @ concat (map address_word vs)"

lemma length_address_word [simp]: "length (address_word a) = 32"
  by (simp add: address_word_def)

lemma length_words [simp]: "length (concat (map address_word vs)) = 32 * length vs"
  by (induction vs) simp_all

lemma length_encode [simp]: "length (encode_address_array vs) = 64 + 32 * length vs"
  by (simp add: encode_address_array_def)

lemma drop_words: "drop (32 * k) (concat (map address_word vs)) = concat (map address_word (drop k vs))"
proof (induction vs arbitrary: k)
  case (Cons v vs)
  show ?case
  proof (cases k)
    case (Suc j)
    then have "drop (32 * k) (concat (map address_word (v # vs))) =
        drop (32 * j) (concat (map address_word vs))"
      by simp
    with Suc Cons show ?thesis by simp
  qed simp
qed simp

lemma drop_encode: "drop (64 + 32 * k) (encode_address_array vs) = concat (map address_word (drop k vs))"
proof -
  have "drop 64 (encode_address_array vs) = concat (map address_word vs)"
    by (simp add: encode_address_array_def)
  then show ?thesis by (metis add.commute drop_drop drop_words)
qed

lemma element_bytes:
  assumes "k < length vs"
  shows "take 20 (drop (76 + 32 * k) (encode_address_array vs)) = be_bytes 20 (vs ! k)"
proof -
  have "drop (76 + 32 * k) (encode_address_array vs) =
      drop 12 (concat (map address_word (drop k vs)))"
    by (simp add: drop_encode [symmetric])
  also have "drop k vs = vs ! k # drop (Suc k) vs"
    using assms by (simp add: Cons_nth_drop_Suc)
  finally show ?thesis by (simp add: address_word_def)
qed

text \<open>The loop on a prefix of the encoding: it succeeds exactly when every element is there.\<close>

lemma decode_loop_prefix:
  assumes "n + k = length vs" and "64 \<le> m" and "m \<le> 64 + 32 * length vs" and "length vs < 2 ^ 58"
  shows "decode_loop n (take m (encode_address_array vs)) 32 (of_nat k) acc =
    (if m = 64 + 32 * length vs \<or> n = 0 then Inr (acc @ drop k vs) else Inl (Err ()))"
  using assms
proof (induction n arbitrary: k acc)
  case (Suc n)
  define start :: u64 where "start = 32 + 32 + of_nat k * 32"
  have k: "k < length vs" "k < 2 ^ 58" using Suc.prems by auto
  have "unat (of_nat k * 32 :: u64) = 32 * k"
    using k by (simp add: unat_word_ariths unat_of_nat)
  then have start: "unat start = 64 + 32 * k"
    using k by (simp add: start_def unat_word_ariths)
  have s12: "unat (start + 12) = 76 + 32 * k" and s32: "unat (start + 32) = 96 + 32 * k"
    using k by (simp_all add: unat_word_ariths start)
  show ?case
  proof (cases "96 + 32 * k \<le> m")
    case True
    have "slice_of (take m (encode_address_array vs)) (start + 12) (start + 32)
        = (Inr (be_bytes 20 (vs ! k)) :: unit fault + bytes)"
      using True Suc.prems element_bytes [OF k(1)]
      by (simp add: slice_of_def word_le_nat_alt s12 s32 drop_take)
    moreover have suc: "of_nat k + 1 = (of_nat (Suc k) :: u64)" by simp
    ultimately have "decode_loop (Suc n) (take m (encode_address_array vs)) 32 (of_nat k) acc =
        decode_loop n (take m (encode_address_array vs)) 32 (of_nat (Suc k)) (acc @ [vs ! k])"
      unfolding decode_loop.simps Let_def start_def [symmetric]
      using True Suc.prems by (simp add: s32 be_word_be_bytes suc del: of_nat_Suc)
    also have "\<dots> = (if m = 64 + 32 * length vs \<or> n = 0 then Inr (acc @ [vs ! k] @ drop (Suc k) vs)
        else Inl (Err ()))"
      using Suc.IH [of "Suc k"] Suc.prems by simp
    also have "[vs ! k] @ drop (Suc k) vs = drop k vs"
      using k(1) by (simp add: Cons_nth_drop_Suc)
    also have "(m = 64 + 32 * length vs \<or> n = 0) = (m = 64 + 32 * length vs \<or> Suc n = 0)"
      using True Suc.prems by auto
    finally show ?thesis .
  next
    case False
    with Suc.prems k show ?thesis
      unfolding decode_loop.simps Let_def start_def [symmetric] by (auto simp: s32)
  qed
qed simp

lemma encode_head:
  "take 8 (drop 24 (encode_address_array vs)) = replicate 7 0 @ [32]"
  "take 8 (drop 56 (encode_address_array vs)) = be_bytes 8 (of_nat (length vs) :: u64)"
  by (simp_all add: encode_address_array_def)

lemma decode_prefix:
  assumes "64 \<le> m" and "m \<le> 64 + 32 * length vs" and "length vs < 2 ^ 58"
  shows "decode_address_array (take m (encode_address_array vs)) =
    (if m = 64 + 32 * length vs then Inr vs else Inl (Err ()))"
proof -
  let ?data = "take m (encode_address_array vs)"
  have off: "slice_of ?data 24 32 = (Inr (replicate 7 0 @ [32]) :: unit fault + bytes)"
    using assms encode_head(1) [of vs] by (simp add: slice_of_def drop_take)
  have "be_word (replicate 7 0 @ [32]) = (32 :: u64)"
    by (simp add: be_word_def)
  moreover have len: "slice_of ?data (32 + 24) (32 + 32) = (Inr (be_bytes 8 (of_nat (length vs) :: u64)) :: unit fault + bytes)"
    using assms encode_head(2) [of vs] by (simp add: slice_of_def drop_take)
  moreover have "be_word (be_bytes 8 (of_nat (length vs) :: u64)) = (of_nat (length vs) :: u64)"
    by (simp add: be_word_be_bytes)
  moreover have "unat (of_nat (length vs) :: u64) = length vs"
    using assms(3) by (simp add: unat_of_nat)
  ultimately have "decode_address_array ?data = decode_loop (length vs) ?data 32 0 []"
    using assms off by (simp add: decode_address_array_def)
  also have "\<dots> = (if m = 64 + 32 * length vs \<or> length vs = 0 then Inr vs else Inl (Err ()))"
    using decode_loop_prefix [of "length vs" 0 vs m "[]"] assms by simp
  finally show ?thesis using assms by auto
qed

lemma decode_encode: "length vs < 2 ^ 58 \<Longrightarrow> decode_address_array (encode_address_array vs) = Inr vs"
  using decode_prefix [of "64 + 32 * length vs" vs] by simp

text \<open>Property C27: the decoder inverts the ABI encoding of every list of addresses, and every proper
  prefix of an encoding is rejected with the error value; none of them panics or reads past the end.\<close>

theorem address_array_roundtrip:
  assumes "length vs < 2 ^ 58"
  shows "decode_address_array (encode_address_array vs) = Inr vs
    \<and> (\<forall>m < length (encode_address_array vs).
         decode_address_array (take m (encode_address_array vs)) = Inl (Err ()))"
proof (intro conjI allI impI)
  show "decode_address_array (encode_address_array vs) = Inr vs"
    by (rule decode_encode [OF assms])
  fix m assume m: "m < length (encode_address_array vs)"
  show "decode_address_array (take m (encode_address_array vs)) = Inl (Err ())"
  proof (cases "m < 64")
    case True
    with m show ?thesis by (simp add: decode_address_array_def)
  next
    case False
    with m decode_prefix [of m vs] assms show ?thesis by simp
  qed
qed

theorem address_array_roundtrip_witness:
  "decode_address_array (encode_address_array [1, 2, 3]) = Inr [1, 2, 3]
   \<and> decode_address_array (take 144 (encode_address_array [1, 2, 3])) = Inl (Err ())"
  using address_array_roundtrip [of "[1, 2, 3]"] by simp

text \<open>The comment on the decoder says an oversized length is harmless, but the vector is
  allocated before the elements are checked: 64 bytes whose length word is \<open>2^60\<close> or more panic with a
  capacity overflow instead of giving the error value.\<close>

theorem huge_length_panics:
  assumes "2 ^ 60 \<le> unat (len :: u64)"
  shows "decode_address_array (replicate 31 0 @ [32] @ replicate 24 0 @ be_bytes 8 len)
    = Inl (Panic ''capacity overflow'')"
proof -
  let ?data = "replicate 31 0 @ [32] @ replicate 24 0 @ be_bytes 8 len"
  have "slice_of ?data 24 32 = (Inr (replicate 7 0 @ [32]) :: unit fault + bytes)"
    and "slice_of ?data (32 + 24) (32 + 32) = (Inr (be_bytes 8 len) :: unit fault + bytes)"
    by (simp_all add: slice_of_def)
  moreover have "be_word (replicate 7 0 @ [32]) = (32 :: u64)"
    by (simp add: be_word_def)
  moreover have "be_word (be_bytes 8 len) = len" by (simp add: be_word_be_bytes)
  ultimately show ?thesis using assms by (simp add: decode_address_array_def)
qed

theorem huge_length_panics_witness:
  "decode_address_array (replicate 31 0 @ [32] @ replicate 24 0 @ be_bytes 8 (2 ^ 63 :: u64))
   = Inl (Panic ''capacity overflow'')"
  by (rule huge_length_panics) simp

end
