(* ===== verification/BlockExecutor.thy ===== *)
theory BlockExecutor
  imports GnosisCalls Finality AddressArray
begin

text \<open>
  The block executor of \<open>src/block.rs\<close>: the AuRa context, the changes before the transactions
  (validator initialisation, rewrites, \<open>finalizeChange\<close>), the execution and commit of a transaction
  with its gas accounting, and \<open>finish\<close> with the post-block calls, the detection of \<open>InitiateChange\<close>
  and the push into the rolling-finality tracker. The tracker is shared behind a mutex; the executor's
  copy of the shared cell is the field \<open>ex_rf\<close>. Calls into reth's own system caller, the receipt
  builder and the request parser are parameters.
\<close>

section \<open>State\<close>

record AuraExecutionCtx =
  finalize_change_address :: "address option"
  validator_contract :: "address option"
  actx_posdao_transition :: u64
  aura_bytecode_rewrites :: "(address, bytes) btree option"

record GnosisBlockExecutionCtx =
  ctx_parent_hash :: b256
  ctx_parent_beacon_block_root :: "b256 option"
  ctx_withdrawals :: "withdrawal list option"
  ctx_parent_timestamp :: u64
  ctx_aura :: "AuraExecutionCtx option"
  ctx_block_rewards_override :: "address option"

record ('db, 'insp, 'pre, 'receipt) executor =
  ex_spec :: GnosisChainSpec
  ex_ctx :: GnosisBlockExecutionCtx
  ex_evm :: "('db, 'insp, 'pre) evm"
  ex_system_caller :: system_caller
  ex_receipts :: "'receipt list"
  ex_gas_used :: u64
  ex_blob_gas_used :: u64
  ex_block_rewards_address :: address
  ex_rf :: "RollingFinality mutex"

record requests_entry =
  rq_type :: u8
  rq_data :: bytes

record 'receipt block_result =
  br_receipts :: "'receipt list"
  br_requests :: "requests_entry list"
  br_gas_used :: u64
  br_blob_gas_used :: u64

text \<open>A transaction as the executor sees it, and its result before the commit.\<close>

record exec_tx =
  et_env :: tx_env
  et_gas_limit :: u64
  et_blob_gas_used :: "u64 option"
  et_type :: u8
  et_hash :: b256

record tx_result =
  tr_result :: result_and_state
  tr_blob_gas_used :: u64
  tr_type :: u8

text \<open>The library calls of the executor.\<close>

record ('db, 'insp, 'pre, 'receipt) block_api =
  blockhashes_call :: "b256 \<Rightarrow> ('db, 'insp, 'pre) exec_state
     \<Rightarrow> (BlockExecutionError fault + unit) \<times> ('db, 'insp, 'pre) exec_state"
  beacon_root_call :: "b256 option \<Rightarrow> ('db, 'insp, 'pre) exec_state
     \<Rightarrow> (BlockExecutionError fault + unit) \<times> ('db, 'insp, 'pre) exec_state"
  withdrawal_requests_call :: "('db, 'insp, 'pre) exec_state
     \<Rightarrow> (BlockExecutionError fault + bytes) \<times> ('db, 'insp, 'pre) exec_state"
  consolidation_requests_call :: "('db, 'insp, 'pre) exec_state
     \<Rightarrow> (BlockExecutionError fault + bytes) \<times> ('db, 'insp, 'pre) exec_state"
  parse_deposits :: "GnosisChainSpec \<Rightarrow> 'receipt list \<Rightarrow> BlockExecutionError fault + bytes"
  build_receipt :: "u8 \<Rightarrow> exec_result \<Rightarrow> evm_state \<Rightarrow> u64 \<Rightarrow> 'receipt"
  receipt_logs :: "'receipt \<Rightarrow> log list"
  balance_increment_state :: "(address \<rightharpoonup> u128) \<Rightarrow> 'db \<Rightarrow> (BlockExecutionError fault + evm_state) \<times> 'db"

record ('db, 'insp, 'pre, 'receipt) exec_env =
  xe_hardforks :: hardforks_api
  xe_evm :: "('db, 'insp, 'pre) evm_api"
  xe_db :: "'db db_api"
  xe_abi :: abi
  xe_block :: "('db, 'insp, 'pre, 'receipt) block_api"

definition executor_new ::
  "('db, 'insp, 'pre) evm \<Rightarrow> GnosisBlockExecutionCtx \<Rightarrow> RollingFinality mutex \<Rightarrow> GnosisChainSpec
     \<Rightarrow> address \<Rightarrow> ('db, 'insp, 'pre, 'receipt) executor" where
  "executor_new evm ctx rf spec block_rewards_address =
     \<lparr>ex_spec = spec, ex_ctx = ctx, ex_evm = evm, ex_system_caller = None, ex_receipts = [],
      ex_gas_used = 0, ex_blob_gas_used = 0, ex_block_rewards_address = block_rewards_address,
      ex_rf = rf\<rparr>"

definition set_state_hook ::
  "system_caller \<Rightarrow> ('db, 'insp, 'pre, 'receipt) executor \<Rightarrow> ('db, 'insp, 'pre, 'receipt) executor" where
  "set_state_hook hook ex = ex\<lparr>ex_system_caller := hook\<rparr>"

text \<open>\<open>u256.to::<u64>()\<close>, which panics on a larger value.\<close>

definition to_u64 :: "u256 \<Rightarrow> 'e fault + u64" where
  "to_u64 x = (case try_u64 x of None \<Rightarrow> Inl (Panic ''Overflow'') | Some v \<Rightarrow> Inr v)"

definition saturating_to_u64 :: "u256 \<Rightarrow> u64" where
  "saturating_to_u64 x = (case try_u64 x of None \<Rightarrow> - 1 | Some v \<Rightarrow> v)"

section \<open>System calls of the executor\<close>

definition system_call_and_commit ::
  "('db, 'insp, 'pre, 'receipt) exec_env \<Rightarrow> address \<Rightarrow> bytes \<Rightarrow> ('db, 'insp, 'pre, 'receipt) executor
     \<Rightarrow> (string + exec_result) \<times> ('db, 'insp, 'pre, 'receipt) executor" where
  "system_call_and_commit xe contract data ex =
     (case transact_system_call (xe_evm xe) SYSTEM_ADDRESS contract data (ex_evm ex) of
        (Inl e, evm) \<Rightarrow> (Inl e, ex\<lparr>ex_evm := evm\<rparr>)
      | (Inr rs, evm) \<Rightarrow>
          (Inr (rs_result rs), ex\<lparr>ex_evm := commit (xe_db xe) (rs_state rs) evm\<rparr>))"

definition GET_VALIDATORS :: bytes where
  "GET_VALIDATORS = [0xb7, 0xab, 0x4d, 0xb5]"

definition FINALIZE_CHANGE :: bytes where
  "FINALIZE_CHANGE = [0x75, 0x28, 0x62, 0x11]"

definition refresh_validators ::
  "('db, 'insp, 'pre, 'receipt) exec_env \<Rightarrow> address \<Rightarrow> u64 \<Rightarrow> ('db, 'insp, 'pre, 'receipt) executor
     \<Rightarrow> (BlockExecutionError fault + unit) \<times> ('db, 'insp, 'pre, 'receipt) executor" where
  "refresh_validators xe contract block_num ex =
     (case system_call_and_commit xe contract GET_VALIDATORS ex of
        (Inl e, ex) \<Rightarrow> (Inl (Err (ValidatorSyncError ''syscall failed'')), ex)
      | (Inr (Success _ output _), ex) \<Rightarrow>
          (case decode_address_array (into_data output) of
             Inl (Panic m) \<Rightarrow> (Inl (Panic m), ex)
           | Inl (Err _) \<Rightarrow> (Inl (Err (ValidatorSyncError ''undecodable data'')), ex)
           | Inr vals \<Rightarrow>
               (case ctx_aura (ex_ctx ex) of
                  None \<Rightarrow> (Inr (), ex)
                | Some aura \<Rightarrow>
                    (case lock (ex_rf ex) of
                       Inl _ \<Rightarrow> (Inl (Err (ValidatorSyncError ''mutex poisoned'')), ex)
                     | Inr rf \<Rightarrow>
                         (Inr (), ex\<lparr>ex_rf := mutex_write (ex_rf ex) (set_validators vals rf)\<rparr>))))
      | (Inr other, ex) \<Rightarrow> (Inl (Err (ValidatorSyncError ''did not succeed'')), ex))"

section \<open>Before the transactions\<close>

text \<open>Steps that may fail and thread the executor: the sequencing of the question-mark operator.\<close>

definition then_do ::
  "('e + 'a) \<times> 'x \<Rightarrow> ('a \<Rightarrow> 'x \<Rightarrow> ('e + 'b) \<times> 'x) \<Rightarrow> ('e + 'b) \<times> 'x" where
  "then_do m f = (case m of (Inl e, x) \<Rightarrow> (Inl e, x) | (Inr a, x) \<Rightarrow> f a x)"

lemma then_do_simps [simp, result_simps]:
  "then_do (Inl e, x) f = (Inl e, x)"
  "then_do (Inr a, x) f = f a x"
  by (simp_all add: then_do_def)

lemma then_do_Inr_iff [result_simps]:
  "then_do m f = (Inr b, y) \<longleftrightarrow> (\<exists>a x. m = (Inr a, x) \<and> f a x = (Inr b, y))"
  by (auto simp: then_do_def split: prod.splits sum.splits)

definition init_validators ::
  "('db, 'insp, 'pre, 'receipt) exec_env \<Rightarrow> AuraExecutionCtx \<Rightarrow> u64 \<Rightarrow> ('db, 'insp, 'pre, 'receipt) executor
     \<Rightarrow> (BlockExecutionError fault + unit) \<times> ('db, 'insp, 'pre, 'receipt) executor" where
  "init_validators xe aura block_num ex =
     (if actx_posdao_transition aura \<le> block_num
      then (case validator_contract aura of
          None \<Rightarrow> (Inr (), ex)
        | Some contract \<Rightarrow>
            (case lock (ex_rf ex) of
               Inl _ \<Rightarrow> (Inl (Err (InternalMsg ''AuRa rolling-finality mutex poisoned'')), ex)
             | Inr rf \<Rightarrow> (if validator_count rf = 0 then refresh_validators xe contract block_num ex
                          else (Inr (), ex))))
      else (Inr (), ex))"

definition aura_rewrites ::
  "('db, 'insp, 'pre, 'receipt) exec_env \<Rightarrow> AuraExecutionCtx \<Rightarrow> ('db, 'insp, 'pre, 'receipt) executor
     \<Rightarrow> ('db, 'insp, 'pre, 'receipt) executor" where
  "aura_rewrites xe aura ex =
     (case aura_bytecode_rewrites aura of
        None \<Rightarrow> ex
      | Some rws \<Rightarrow> ex\<lparr>ex_evm := rewrite_aura_bytecodes (xe_db xe) rws (ex_evm ex)\<rparr>)"

definition call_finalize_change ::
  "('db, 'insp, 'pre, 'receipt) exec_env \<Rightarrow> AuraExecutionCtx \<Rightarrow> u64 \<Rightarrow> ('db, 'insp, 'pre, 'receipt) executor
     \<Rightarrow> (BlockExecutionError fault + unit) \<times> ('db, 'insp, 'pre, 'receipt) executor" where
  "call_finalize_change xe aura block_num ex =
     (case finalize_change_address aura of
        None \<Rightarrow> (Inr (), ex)
      | Some contract \<Rightarrow>
          (case system_call_and_commit xe contract FINALIZE_CHANGE ex of
             (Inl e, ex) \<Rightarrow> (Inl (Err (InternalMsg ''AuRa finalizeChange() syscall failed'')), ex)
           | (Inr result, ex) \<Rightarrow>
               (if actx_posdao_transition aura \<le> block_num
                then refresh_validators xe contract block_num ex
                else (Inr (), ex))))"

definition aura_pre_execution ::
  "('db, 'insp, 'pre, 'receipt) exec_env \<Rightarrow> u64 \<Rightarrow> ('db, 'insp, 'pre, 'receipt) executor
     \<Rightarrow> (BlockExecutionError fault + unit) \<times> ('db, 'insp, 'pre, 'receipt) executor" where
  "aura_pre_execution xe block_num ex =
     (case ctx_aura (ex_ctx ex) of
        None \<Rightarrow> (Inr (), ex)
      | Some aura \<Rightarrow>
          then_do (init_validators xe aura block_num ex) (\<lambda>_ ex.
            call_finalize_change xe aura block_num (aura_rewrites xe aura ex)))"

definition balancer_activation ::
  "('db, 'insp, 'pre, 'receipt) exec_env \<Rightarrow> u64 \<Rightarrow> ('db, 'insp, 'pre, 'receipt) executor
     \<Rightarrow> ('db, 'insp, 'pre, 'receipt) executor" where
  "balancer_activation xe timestamp ex =
     (if is_balancer_hardfork_active_at_timestamp (xe_hardforks xe) (ex_spec ex) timestamp
         \<and> \<not> is_balancer_hardfork_active_at_timestamp (xe_hardforks xe) (ex_spec ex)
               (ctx_parent_timestamp (ex_ctx ex))
      then (case balancer_hardfork_config (ex_spec ex) of
              None \<Rightarrow> ex
            | Some cfg \<Rightarrow> ex\<lparr>ex_evm := rewrite_bytecodes (xe_db xe) cfg (ex_evm ex)\<rparr>)
      else ex)"

text \<open>A call on the EVM and the system caller, lifted to the executor.\<close>

definition on_exec_state ::
  "(('db, 'insp, 'pre) exec_state \<Rightarrow> ('e + 'a) \<times> ('db, 'insp, 'pre) exec_state)
     \<Rightarrow> ('db, 'insp, 'pre, 'receipt) executor \<Rightarrow> ('e + 'a) \<times> ('db, 'insp, 'pre, 'receipt) executor" where
  "on_exec_state f ex =
     (case f (ex_evm ex, ex_system_caller ex) of
        (r, (evm, sc)) \<Rightarrow> (r, ex\<lparr>ex_evm := evm, ex_system_caller := sc\<rparr>))"

definition apply_pre_execution_changes ::
  "('db, 'insp, 'pre, 'receipt) exec_env \<Rightarrow> ('db, 'insp, 'pre, 'receipt) executor
     \<Rightarrow> (BlockExecutionError fault + unit) \<times> ('db, 'insp, 'pre, 'receipt) executor" where
  "apply_pre_execution_changes xe ex =
     then_do (to_u64 (be_number (evm_block (ex_evm ex))), ex) (\<lambda>block_num ex.
     then_do (aura_pre_execution xe block_num ex) (\<lambda>_ ex.
     then_do (to_u64 (be_timestamp (evm_block (ex_evm ex))), ex) (\<lambda>timestamp ex.
     let ex = balancer_activation xe timestamp ex in
     then_do (on_exec_state (blockhashes_call (xe_block xe) (ctx_parent_hash (ex_ctx ex))) ex) (\<lambda>_ ex.
     on_exec_state (beacon_root_call (xe_block xe) (ctx_parent_beacon_block_root (ex_ctx ex))) ex))))"

section \<open>Transactions\<close>

text \<open>The subtraction is unchecked in a release build.\<close>

definition execute_transaction_without_commit ::
  "('db, 'insp, 'pre, 'receipt) exec_env \<Rightarrow> exec_tx \<Rightarrow> ('db, 'insp, 'pre, 'receipt) executor
     \<Rightarrow> (BlockExecutionError fault + tx_result) \<times> ('db, 'insp, 'pre, 'receipt) executor" where
  "execute_transaction_without_commit xe tx ex =
     (let block_available_gas = be_gas_limit (evm_block (ex_evm ex)) - ex_gas_used ex in
      if et_gas_limit tx > block_available_gas
      then (Inl (Err (TransactionGasLimitTooHigh (et_gas_limit tx) block_available_gas)), ex)
      else (case transact_raw (xe_evm xe) (ex_evm ex) (et_env tx) of
              (Inl e, evm) \<Rightarrow> (Inl (Err (EvmFailure (et_hash tx) e)), ex\<lparr>ex_evm := evm\<rparr>)
            | (Inr result, evm) \<Rightarrow>
                (Inr \<lparr>tr_result = result,
                   tr_blob_gas_used = (case et_blob_gas_used tx of None \<Rightarrow> 0 | Some g \<Rightarrow> g),
                   tr_type = et_type tx\<rparr>, ex\<lparr>ex_evm := evm\<rparr>)))"

definition commit_transaction ::
  "('db, 'insp, 'pre, 'receipt) exec_env \<Rightarrow> tx_result \<Rightarrow> ('db, 'insp, 'pre, 'receipt) executor
     \<Rightarrow> u64 \<times> ('db, 'insp, 'pre, 'receipt) executor" where
  "commit_transaction xe out ex =
     (let result = rs_result (tr_result out);
          state = rs_state (tr_result out);
          sc = invoke_hook (OtherSource ''Transaction'', state) (ex_system_caller ex);
          gas_used = er_gas result;
          total = ex_gas_used ex + gas_used;
          blob = (if is_active_at_timestamp (xe_hardforks xe) (ex_spec ex) Cancun
                       (saturating_to_u64 (be_timestamp (evm_block (ex_evm ex))))
                  then saturating_add (ex_blob_gas_used ex) (tr_blob_gas_used out)
                  else ex_blob_gas_used ex);
          receipt = build_receipt (xe_block xe) (tr_type out) result state total
      in (gas_used, ex\<lparr>ex_system_caller := sc, ex_gas_used := total, ex_blob_gas_used := blob,
            ex_receipts := ex_receipts ex @ [receipt],
            ex_evm := commit (xe_db xe) state (ex_evm ex)\<rparr>))"

section \<open>After the transactions\<close>

definition INITIATE_CHANGE_TOPIC :: b256 where
  "INITIATE_CHANGE_TOPIC = 0x55252fa6eee4741b4e24a74a70e9c11fd2c2281df8d6ea13126ff845f7825c89"

definition is_initiate_change :: "address \<Rightarrow> log \<Rightarrow> bool" where
  "is_initiate_change contract l \<longleftrightarrow>
     log_address l = contract \<and> log_topics l \<noteq> [] \<and> hd (log_topics l) = INITIATE_CHANGE_TOPIC"

definition push_request ::
  "u8 \<Rightarrow> bytes \<Rightarrow> requests_entry list \<Rightarrow> requests_entry list" where
  "push_request ty data rqs = (if data \<noteq> [] then rqs @ [\<lparr>rq_type = ty, rq_data = data\<rparr>] else rqs)"

text \<open>The request types of EIP-6110, EIP-7002 and EIP-7251 are 0, 1 and 2.\<close>

definition collect_requests ::
  "('db, 'insp, 'pre, 'receipt) exec_env \<Rightarrow> ('db, 'insp, 'pre, 'receipt) executor
     \<Rightarrow> (BlockExecutionError fault + requests_entry list) \<times> ('db, 'insp, 'pre, 'receipt) executor" where
  "collect_requests xe ex =
     then_do (to_u64 (be_timestamp (evm_block (ex_evm ex))), ex) (\<lambda>timestamp ex.
     if is_active_at_timestamp (xe_hardforks xe) (ex_spec ex) Prague timestamp
     then
       then_do (parse_deposits (xe_block xe) (ex_spec ex) (ex_receipts ex), ex) (\<lambda>deposits ex.
       let requests = push_request 0 deposits [] in
       then_do (on_exec_state (withdrawal_requests_call (xe_block xe)) ex) (\<lambda>withdrawals ex.
       let requests = push_request 1 withdrawals requests in
       then_do (on_exec_state (consolidation_requests_call (xe_block xe)) ex) (\<lambda>consolidations ex.
       (Inr (push_request 2 consolidations requests), ex))))
     else (Inr [], ex))"

text \<open>The AuRa work after the post-block calls: \<open>InitiateChange\<close> and the push of the signer.\<close>

definition aura_post_execution ::
  "('db, 'insp, 'pre, 'receipt) exec_env \<Rightarrow> log list \<Rightarrow> ('db, 'insp, 'pre, 'receipt) executor
     \<Rightarrow> (BlockExecutionError fault + unit) \<times> ('db, 'insp, 'pre, 'receipt) executor" where
  "aura_post_execution xe reward_logs ex =
     (case ctx_aura (ex_ctx ex) of
        None \<Rightarrow> (Inr (), ex)
      | Some aura \<Rightarrow>
          then_do (to_u64 (be_number (evm_block (ex_evm ex))), ex) (\<lambda>block_num ex.
          let is_posdao = (actx_posdao_transition aura \<le> block_num);
              rf1 = (case validator_contract aura of
                  None \<Rightarrow> ex_rf ex
                | Some contract \<Rightarrow>
                    (if (\<exists>r \<in> set (ex_receipts ex). \<exists>l \<in> set (receipt_logs (xe_block xe) r).
                           is_initiate_change contract l)
                        \<or> (\<exists>l \<in> set reward_logs. is_initiate_change contract l)
                     then with_lock (ex_rf ex)
                            (if is_posdao then add_pending_transition block_num contract
                             else set_immediate_finalize (block_num + 1) contract)
                     else ex_rf ex));
              rf2 = (if is_posdao
                     then with_lock rf1 (\<lambda>rf. snd (push block_num
                            (be_beneficiary (evm_block (ex_evm ex))) rf))
                     else rf1)
          in (Inr (), ex\<lparr>ex_rf := rf2\<rparr>)))"

definition apply_increments ::
  "('db, 'insp, 'pre, 'receipt) exec_env \<Rightarrow> (address \<rightharpoonup> u128) \<Rightarrow> ('db, 'insp, 'pre, 'receipt) executor
     \<Rightarrow> (BlockExecutionError fault + unit) \<times> ('db, 'insp, 'pre, 'receipt) executor" where
  "apply_increments xe increments ex =
     (case db_increment_balances (xe_db xe) increments (evm_db (ex_evm ex)) of
        (Inl _, db) \<Rightarrow> (Inl (Err BalanceIncrementFailed), ex\<lparr>ex_evm := (ex_evm ex)\<lparr>evm_db := db\<rparr>\<rparr>)
      | (Inr _, db) \<Rightarrow>
          (let ex = ex\<lparr>ex_evm := (ex_evm ex)\<lparr>evm_db := db\<rparr>\<rparr> in
           if ex_system_caller ex = None then (Inr (), ex)
           else (case balance_increment_state (xe_block xe) increments db of
                   (Inl e, db) \<Rightarrow> (Inl e, ex\<lparr>ex_evm := (ex_evm ex)\<lparr>evm_db := db\<rparr>\<rparr>)
                 | (Inr state, db) \<Rightarrow>
                     (Inr (), ex\<lparr>ex_evm := (ex_evm ex)\<lparr>evm_db := db\<rparr>,
                        ex_system_caller := invoke_hook (BalanceIncrements, state) (ex_system_caller ex)\<rparr>))))"

definition finish ::
  "('db, 'insp, 'pre, 'receipt) exec_env \<Rightarrow> ('db, 'insp, 'pre, 'receipt) executor
     \<Rightarrow> (BlockExecutionError fault + 'receipt block_result) \<times> ('db, 'insp, 'pre, 'receipt) executor" where
  "finish xe ex =
     (case exec_deposit_contract_address (ex_spec ex) of
        None \<Rightarrow> (Inl (Panic ''Deposit contract address is not set in the chain specification''), ex)
      | Some deposit_contract \<Rightarrow>
          (let timestamp = be_timestamp (evm_block (ex_evm ex));
               beneficiary = be_beneficiary (evm_block (ex_evm ex)) in
           then_do (collect_requests xe ex) (\<lambda>requests ex.
           let reward_address = (case ctx_block_rewards_override (ex_ctx ex) of
                 None \<Rightarrow> ex_block_rewards_address ex | Some a \<Rightarrow> a) in
           then_do (to_u64 timestamp, ex) (\<lambda>ts ex.
           then_do (on_exec_state (apply_post_block_system_calls (xe_hardforks xe) (xe_evm xe) (xe_db xe)
               (xe_abi xe) (ex_spec ex) reward_address deposit_contract ts (ctx_withdrawals (ex_ctx ex))
               beneficiary) ex) (\<lambda>(increments, _, reward_logs) ex.
           then_do (aura_post_execution xe reward_logs ex) (\<lambda>_ ex.
           then_do (apply_increments xe increments ex) (\<lambda>_ ex.
           (Inr \<lparr>br_receipts = ex_receipts ex, br_requests = requests, br_gas_used = ex_gas_used ex,
              br_blob_gas_used = ex_blob_gas_used ex\<rparr>, ex))))))))"

section \<open>What the steps leave alone\<close>

definition ex_core ::
  "('db, 'insp, 'pre, 'receipt) executor
     \<Rightarrow> GnosisChainSpec \<times> GnosisBlockExecutionCtx \<times> 'receipt list \<times> u64 \<times> u64" where
  "ex_core ex = (ex_spec ex, ex_ctx ex, ex_receipts ex, ex_gas_used ex, ex_blob_gas_used ex)"

lemma ex_core_dest:
  assumes "ex_core ex = ex_core ex'"
  shows "ex_spec ex = ex_spec ex'" "ex_ctx ex = ex_ctx ex'" "ex_receipts ex = ex_receipts ex'"
    "ex_gas_used ex = ex_gas_used ex'" "ex_blob_gas_used ex = ex_blob_gas_used ex'"
  using assms by (simp_all add: ex_core_def)

lemma on_exec_state_keeps:
  "on_exec_state f ex = (r, ex') \<Longrightarrow> ex_core ex' = ex_core ex \<and> ex_rf ex' = ex_rf ex"
  by (auto simp: on_exec_state_def ex_core_def split: prod.splits)

lemma system_call_and_commit_keeps:
  "system_call_and_commit xe c d ex = (r, ex') \<Longrightarrow> ex_core ex' = ex_core ex \<and> ex_rf ex' = ex_rf ex"
  by (auto simp: system_call_and_commit_def ex_core_def split: prod.splits sum.splits)

lemma refresh_validators_Inr:
  assumes "refresh_validators xe c n ex = (Inr u, ex')"
  shows "ex_core ex' = ex_core ex
    \<and> (\<exists>g out logs ex1 vals. system_call_and_commit xe c GET_VALIDATORS ex = (Inr (Success g out logs), ex1)
         \<and> decode_address_array (into_data out) = Inr vals
         \<and> (ctx_aura (ex_ctx ex) \<noteq> None \<longrightarrow>
             (\<exists>rf. ex_rf ex = Healthy rf \<and> ex_rf ex' = Healthy (set_validators vals rf))))"
proof -
  obtain r ex1 where call: "system_call_and_commit xe c GET_VALIDATORS ex = (r, ex1)" by fastforce
  note keep = system_call_and_commit_keeps [OF call]
  then have ctx: "ex_ctx ex1 = ex_ctx ex" by (auto dest: ex_core_dest)
  from assms call obtain g out logs vals
    where r: "r = Inr (Success g out logs)" "decode_address_array (into_data out) = Inr vals"
    by (auto simp: refresh_validators_def split: sum.splits exec_result.splits fault.splits)
  show ?thesis
  proof (cases "ex_rf ex")
    case (Healthy rf)
    with assms call keep ctx r show ?thesis
      by (auto simp: refresh_validators_def ex_core_def split: option.splits)
  next
    case (Poisoned rf)
    with assms call keep ctx r show ?thesis
      by (auto simp: refresh_validators_def ex_core_def split: option.splits)
  qed
qed

lemma apply_pre_execution_dest:
  assumes "apply_pre_execution_changes xe ex = (Inr u, ex')"
  obtains n ex1 where "to_u64 (be_number (evm_block (ex_evm ex))) = (Inr n :: BlockExecutionError fault + _)"
    "aura_pre_execution xe n ex = (Inr (), ex1)" "ex_rf ex' = ex_rf ex1"
proof -
  from assms obtain n ex1 ts ex2 where step: "to_u64 (be_number (evm_block (ex_evm ex))) = (Inr n :: BlockExecutionError fault + _)"
      "aura_pre_execution xe n ex = (Inr (), ex1)"
      "on_exec_state (blockhashes_call (xe_block xe) (ctx_parent_hash (ex_ctx (balancer_activation xe ts ex1))))
         (balancer_activation xe ts ex1) = (Inr (), ex2)"
      "on_exec_state (beacon_root_call (xe_block xe) (ctx_parent_beacon_block_root (ex_ctx ex2))) ex2 = (Inr u, ex')"
    by (auto simp: apply_pre_execution_changes_def then_do_Inr_iff Let_def)
  have "ex_rf (balancer_activation xe ts ex1) = ex_rf ex1"
    by (simp add: balancer_activation_def split: option.split)
  with step on_exec_state_keeps [OF step(3)] on_exec_state_keeps [OF step(4)] show thesis
    by (intro that [of n ex1]) simp_all
qed

lemma init_validators_keeps:
  assumes "init_validators xe aura n ex = (Inr u, ex')"
  shows "ex_core ex' = ex_core ex"
  using assms refresh_validators_Inr
  by (fastforce simp: init_validators_def split: if_splits option.splits sum.splits)

lemma aura_rewrites_keeps [simp]:
  "ex_core (aura_rewrites xe aura ex) = ex_core ex" "ex_rf (aura_rewrites xe aura ex) = ex_rf ex"
  "ex_ctx (aura_rewrites xe aura ex) = ex_ctx ex"
  by (simp_all add: aura_rewrites_def ex_core_def split: option.split)

lemma pre_execution_finalizes:
  assumes "apply_pre_execution_changes xe ex = (Inr (), ex')"
    and "ctx_aura (ex_ctx ex) = Some aura" and "finalize_change_address aura = Some contract"
    and "be_number (evm_block (ex_evm ex)) = ucast (n :: u64)"
  shows "\<exists>ex0 res ex2. ex_core ex0 = ex_core ex
    \<and> system_call_and_commit xe contract FINALIZE_CHANGE ex0 = (Inr res, ex2)
    \<and> (actx_posdao_transition aura \<le> n \<longrightarrow>
        (\<exists>ex3. refresh_validators xe contract n ex2 = (Inr (), ex3) \<and> ex_rf ex' = ex_rf ex3))"
proof -
  have "try_u64 (ucast n) = Some n"
    by (simp add: try_u64_Some_iff unsigned_ucast_eq take_bit_nat_eq_self_iff less_le_trans [OF unsigned_less])
  with assms(1,4) obtain ex1 where pre: "aura_pre_execution xe n ex = (Inr (), ex1)"
      and rf: "ex_rf ex' = ex_rf ex1"
    by (elim apply_pre_execution_dest) (simp add: to_u64_def)
  from pre assms(2) obtain ex0 where init: "init_validators xe aura n ex = (Inr (), ex0)"
      and call: "call_finalize_change xe aura n (aura_rewrites xe aura ex0) = (Inr (), ex1)"
    by (auto simp: aura_pre_execution_def then_do_Inr_iff)
  from call assms(3) obtain res ex2 where
      "system_call_and_commit xe contract FINALIZE_CHANGE (aura_rewrites xe aura ex0) = (Inr res, ex2)"
      "actx_posdao_transition aura \<le> n \<Longrightarrow> refresh_validators xe contract n ex2 = (Inr (), ex1)"
    by (auto simp: call_finalize_change_def split: prod.splits sum.splits if_splits)
  moreover have "ex_core (aura_rewrites xe aura ex0) = ex_core ex"
    using init_validators_keeps [OF init] by simp
  ultimately show ?thesis using rf by blast
qed

lemma pre_execution_refreshes:
  assumes "apply_pre_execution_changes xe ex = (Inr (), ex')"
    and "ctx_aura (ex_ctx ex) = Some aura" and "finalize_change_address aura = Some contract"
    and "be_number (evm_block (ex_evm ex)) = ucast (n :: u64)" and "actx_posdao_transition aura \<le> n"
  shows "\<exists>ex1 res ex2 g out logs ex3 vals rf. ex_core ex1 = ex_core ex
    \<and> system_call_and_commit xe contract FINALIZE_CHANGE ex1 = (Inr res, ex2)
    \<and> system_call_and_commit xe contract GET_VALIDATORS ex2 = (Inr (Success g out logs), ex3)
    \<and> decode_address_array (into_data out) = Inr vals \<and> ex_rf ex' = Healthy rf
    \<and> validators rf = vals \<and> headers rf = [] \<and> sign_count rf = bt_empty"
proof -
  from pre_execution_finalizes [OF assms(1-4)] assms(5) obtain ex0 res ex2 ex1 where core: "ex_core ex0 = ex_core ex"
    and sys: "system_call_and_commit xe contract FINALIZE_CHANGE ex0 = (Inr res, ex2)"
    and refresh: "refresh_validators xe contract n ex2 = (Inr (), ex1)"
    and rf: "ex_rf ex' = ex_rf ex1" by blast
  have "ctx_aura (ex_ctx ex2) = Some aura"
    using system_call_and_commit_keeps [OF sys] core assms(2) by (simp add: ex_core_def)
  with refresh_validators_Inr [OF refresh] rf sys core show ?thesis
    by (fastforce simp: set_validators_def)
qed

text \<open>\<open>finalizeChange\<close> and the tracker agree. When a POSDAO block's pre-execution finalizes
  a validator change and succeeds, the finalizing call was made and committed, \<open>getValidators()\<close> was called
  on the state it left and succeeded, and the tracker holds exactly the decoding of what that call
  returned, sealed and with an empty window.\<close>

theorem finalize_refreshes_validators:
  assumes "apply_pre_execution_changes xe ex = (Inr (), ex')"
    and "ctx_aura (ex_ctx ex) = Some aura" and "finalize_change_address aura = Some contract"
    and "be_number (evm_block (ex_evm ex)) = ucast (n :: u64)" and "actx_posdao_transition aura \<le> n"
  shows "\<exists>ex1 res ex2 g out logs ex3 vals rf. ex_core ex1 = ex_core ex
    \<and> system_call_and_commit xe contract FINALIZE_CHANGE ex1 = (Inr res, ex2)
    \<and> system_call_and_commit xe contract GET_VALIDATORS ex2 = (Inr (Success g out logs), ex3)
    \<and> decode_address_array (into_data out) = Inr vals \<and> ex_rf ex' = Healthy rf
    \<and> validators rf = vals \<and> headers rf = [] \<and> sign_count rf = bt_empty"
  using assms by (rule pre_execution_refreshes)

section \<open>Gas\<close>

text \<open>The transactions of a block, each executed and committed before the next.\<close>

fun run_block ::
  "('db, 'insp, 'pre, 'receipt) exec_env \<Rightarrow> exec_tx list \<Rightarrow> ('db, 'insp, 'pre, 'receipt) executor
     \<Rightarrow> (BlockExecutionError fault + unit) \<times> ('db, 'insp, 'pre, 'receipt) executor" where
  "run_block xe [] ex = (Inr (), ex)"
| "run_block xe (tx # txs) ex =
     then_do (execute_transaction_without_commit xe tx ex) (\<lambda>out ex.
       run_block xe txs (snd (commit_transaction xe out ex)))"

text \<open>What revm guarantees of a run: it uses no more gas than the transaction's limit and leaves the
  block environment alone.\<close>

definition gas_ok :: "('db, 'insp, 'pre) evm_api \<Rightarrow> bool" where
  "gas_ok ea \<longleftrightarrow> (\<forall>evm tx r evm'. transact_raw ea evm tx = (r, evm') \<longrightarrow> evm_block evm' = evm_block evm
     \<and> (\<forall>rs. r = Inr rs \<longrightarrow> er_gas (rs_result rs) \<le> tx_gas_limit tx))"

lemma execute_transaction_cases:
  assumes "gas_ok (xe_evm xe)" and "et_gas_limit tx = tx_gas_limit (et_env tx)"
    and "execute_transaction_without_commit xe tx ex = (r, ex')"
  shows "ex_core ex' = ex_core ex \<and> evm_block (ex_evm ex') = evm_block (ex_evm ex)
    \<and> (\<forall>out. r = Inr out \<longrightarrow> er_gas (rs_result (tr_result out)) \<le> et_gas_limit tx
         \<and> et_gas_limit tx \<le> be_gas_limit (evm_block (ex_evm ex)) - ex_gas_used ex)"
proof (cases "et_gas_limit tx > be_gas_limit (evm_block (ex_evm ex)) - ex_gas_used ex")
  case True
  with assms(3) show ?thesis by (auto simp: execute_transaction_without_commit_def Let_def)
next
  case False
  obtain res evm' where run: "transact_raw (xe_evm xe) (ex_evm ex) (et_env tx) = (res, evm')" by fastforce
  with assms(1) have "evm_block evm' = evm_block (ex_evm ex)
      \<and> (\<forall>rs. res = Inr rs \<longrightarrow> er_gas (rs_result rs) \<le> tx_gas_limit (et_env tx))"
    unfolding gas_ok_def by blast
  moreover have "et_gas_limit tx \<le> be_gas_limit (evm_block (ex_evm ex)) - ex_gas_used ex"
    using False by simp
  ultimately show ?thesis
    using False run assms(2,3)
    by (cases res) (auto simp: execute_transaction_without_commit_def Let_def ex_core_def
        simp del: not_less)
qed

lemma commit_transaction_fields:
  "ex_gas_used (snd (commit_transaction xe out ex)) = ex_gas_used ex + er_gas (rs_result (tr_result out))"
  "length (ex_receipts (snd (commit_transaction xe out ex))) = Suc (length (ex_receipts ex))"
  "evm_block (ex_evm (snd (commit_transaction xe out ex))) = evm_block (ex_evm ex)"
  "ex_rf (snd (commit_transaction xe out ex)) = ex_rf ex"
  by (simp_all add: commit_transaction_def Let_def commit_def)

text \<open>Property C10: the block gas limit holds. However many transactions are executed and whether the
  block runs to the end or stops at an error, the gas counted never exceeds the block's limit and
  never decreases, so the unchecked 64-bit sums and differences never wrap; a completed block has one
  receipt per transaction.\<close>

theorem block_gas_bounded:
  assumes "gas_ok (xe_evm xe)" and "\<forall>tx \<in> set txs. et_gas_limit tx = tx_gas_limit (et_env tx)"
    and "ex_gas_used ex \<le> be_gas_limit (evm_block (ex_evm ex))"
    and "run_block xe txs ex = (r, ex')"
  shows "ex_gas_used ex' \<le> be_gas_limit (evm_block (ex_evm ex)) \<and> ex_gas_used ex \<le> ex_gas_used ex'
    \<and> evm_block (ex_evm ex') = evm_block (ex_evm ex)
    \<and> (r = Inr () \<longrightarrow> length (ex_receipts ex') = length (ex_receipts ex) + length txs)"
  using assms(2,3,4)
proof (induction txs arbitrary: ex)
  case (Cons tx txs)
  obtain res ex1 where exec: "execute_transaction_without_commit xe tx ex = (res, ex1)" by fastforce
  note step = execute_transaction_cases [OF assms(1) _ exec]
  have core: "ex_core ex1 = ex_core ex" and block: "evm_block (ex_evm ex1) = evm_block (ex_evm ex)"
    using step Cons.prems(1) by auto
  show ?case
  proof (cases res)
    case (Inl e)
    with exec Cons.prems core block show ?thesis by (auto simp: ex_core_def)
  next
    case (Inr out)
    define ex2 where "ex2 = snd (commit_transaction xe out ex1)"
    define g where "g = er_gas (rs_result (tr_result out))"
    have g: "g \<le> be_gas_limit (evm_block (ex_evm ex)) - ex_gas_used ex"
      using step Cons.prems(1) Inr g_def by auto
    have gas2: "ex_gas_used ex2 = ex_gas_used ex + g"
      using core by (simp add: ex2_def g_def commit_transaction_fields ex_core_def)
    have le: "ex_gas_used ex \<le> ex_gas_used ex2" "ex_gas_used ex2 \<le> be_gas_limit (evm_block (ex_evm ex))"
      using word_add_within [OF Cons.prems(2) g] by (simp_all add: gas2)
    have block2: "evm_block (ex_evm ex2) = evm_block (ex_evm ex)"
      by (simp add: ex2_def commit_transaction_fields block)
    have len2: "length (ex_receipts ex2) = Suc (length (ex_receipts ex))"
      using core by (simp add: ex2_def commit_transaction_fields ex_core_def)
    have "run_block xe txs ex2 = (r, ex')"
      using Cons.prems(3) exec Inr by (simp add: ex2_def)
    with Cons.IH [of ex2] Cons.prems(1) le block2 len2 show ?thesis by auto
  qed
qed simp

section \<open>The tracker after a block\<close>

text \<open>The library's own system calls leave the block environment alone.\<close>

definition block_calls_ok :: "('db, 'insp, 'pre, 'receipt) block_api \<Rightarrow> bool" where
  "block_calls_ok ba \<longleftrightarrow>
     (\<forall>st r st'. withdrawal_requests_call ba st = (r, st') \<longrightarrow> evm_block (fst st') = evm_block (fst st))
     \<and> (\<forall>st r st'. consolidation_requests_call ba st = (r, st') \<longrightarrow> evm_block (fst st') = evm_block (fst st))"

lemma transact_system_call_block:
  assumes "gas_ok ea" and "transact_system_call ea c t d evm = (r, evm')"
  shows "evm_block evm' = evm_block evm"
proof -
  obtain res evm2 where run: "transact_raw ea (evm\<lparr>evm_cfg :=
      fst (swap_checks (True, True, True, Some TX_GAS_LIMIT) (evm_cfg evm))\<rparr>) (system_tx c t d) = (res, evm2)"
    by fastforce
  with assms(1) have "evm_block evm2 = evm_block evm" unfolding gas_ok_def by fastforce
  with assms(2) run show ?thesis
    by (auto simp: transact_system_call_def swap_checks_def Let_def split: sum.splits)
qed

lemma withdrawals_call_block:
  "gas_ok ea \<Longrightarrow> apply_withdrawals_contract_call ea d ab c ws st = (r, st') \<Longrightarrow>
     evm_block (fst st') = evm_block (fst st)"
  by (cases st) (auto simp: apply_withdrawals_contract_call_def commit_def Let_def
      dest: transact_system_call_block split: prod.splits sum.splits exec_result.splits)

lemma rewards_call_block:
  assumes "gas_ok ea" and "apply_block_rewards_contract_call ea d ab c cb st = (r, st')"
  shows "evm_block (fst st') = evm_block (fst st)"
proof -
  obtain evm sc where st: "st = (evm, sc)" by (cases st)
  obtain res evm1 where call:
    "transact_system_call ea SYSTEM_ADDRESS c (enc_reward ab [cb] [0]) evm = (res, evm1)" by fastforce
  note block = transact_system_call_block [OF assms(1) call]
  show ?thesis
  proof (cases res)
    case (Inr rs)
    show ?thesis
    proof (cases "rs_result rs")
      case (Success g out logs)
      then show ?thesis using assms(2) Inr call st block
        by (cases "dec_reward_returns ab (into_data out)";
            cases "accumulate_rewards (zip (fst (projr (dec_reward_returns ab (into_data out))))
              (snd (projr (dec_reward_returns ab (into_data out))))) Map.empty :: BlockExecutionError fault + _")
          (auto simp: apply_block_rewards_contract_call_def Let_def commit_def split: if_splits option.splits)
    qed (use assms(2) Inr call st block in \<open>auto simp: apply_block_rewards_contract_call_def split: if_splits\<close>)
  qed (use assms(2) call st block in \<open>auto simp: apply_block_rewards_contract_call_def\<close>)
qed

lemma post_block_calls_block:
  assumes "gas_ok ea" and "apply_post_block_system_calls api ea d ab spec rc wc t ws cb st = (r, st')"
  shows "evm_block (fst st') = evm_block (fst st)"
  using assms(2) by (auto simp: apply_post_block_system_calls_def Let_def
      dest!: withdrawals_call_block [OF assms(1)] rewards_call_block [OF assms(1)]
      split: prod.splits sum.splits if_splits option.splits)

lemma on_exec_state_block:
  assumes "on_exec_state f ex = (r, ex')"
    and "\<And>r st'. f (ex_evm ex, ex_system_caller ex) = (r, st') \<Longrightarrow> evm_block (fst st') = evm_block (ex_evm ex)"
  shows "evm_block (ex_evm ex') = evm_block (ex_evm ex)"
  using assms by (auto simp: on_exec_state_def split: prod.splits)

lemma request_calls_keep:
  assumes "block_calls_ok ba"
  shows "on_exec_state (withdrawal_requests_call ba) ex = (r, ex') \<Longrightarrow>
      ex_core ex' = ex_core ex \<and> ex_rf ex' = ex_rf ex \<and> evm_block (ex_evm ex') = evm_block (ex_evm ex)"
    and "on_exec_state (consolidation_requests_call ba) ex = (r, ex') \<Longrightarrow>
      ex_core ex' = ex_core ex \<and> ex_rf ex' = ex_rf ex \<and> evm_block (ex_evm ex') = evm_block (ex_evm ex)"
proof -
  have "evm_block (fst st') = evm_block (fst st)"
    if "withdrawal_requests_call ba st = (r, st') \<or> consolidation_requests_call ba st = (r, st')" for st r st'
    using assms that unfolding block_calls_ok_def by blast
  then have block: "evm_block (fst st') = evm_block (ex_evm ex)"
    if "withdrawal_requests_call ba (ex_evm ex, ex_system_caller ex) = (r, st')
      \<or> consolidation_requests_call ba (ex_evm ex, ex_system_caller ex) = (r, st')" for r st'
    using that by (metis fst_conv)
  show "on_exec_state (withdrawal_requests_call ba) ex = (r, ex') \<Longrightarrow>
      ex_core ex' = ex_core ex \<and> ex_rf ex' = ex_rf ex \<and> evm_block (ex_evm ex') = evm_block (ex_evm ex)"
    and "on_exec_state (consolidation_requests_call ba) ex = (r, ex') \<Longrightarrow>
      ex_core ex' = ex_core ex \<and> ex_rf ex' = ex_rf ex \<and> evm_block (ex_evm ex') = evm_block (ex_evm ex)"
    using block by (auto dest: on_exec_state_keeps elim!: on_exec_state_block)
qed

lemma collect_requests_keeps:
  assumes "block_calls_ok (xe_block xe)" and "collect_requests xe ex = (Inr rqs, ex')"
  shows "ex_core ex' = ex_core ex \<and> ex_rf ex' = ex_rf ex \<and> evm_block (ex_evm ex') = evm_block (ex_evm ex)"
  using assms(2) unfolding collect_requests_def then_do_Inr_iff Let_def
  by (auto simp: then_do_Inr_iff split: if_splits dest!: request_calls_keep [OF assms(1)])

text \<open>Whether the receipts or the reward logs announce a change of validators.\<close>

definition announces_change ::
  "('db, 'insp, 'pre, 'receipt) block_api \<Rightarrow> 'receipt list \<Rightarrow> log list \<Rightarrow> address option \<Rightarrow> bool" where
  "announces_change ba receipts reward_logs contract =
     (case contract of
        None \<Rightarrow> False
      | Some c \<Rightarrow> (\<exists>r \<in> set receipts. \<exists>l \<in> set (receipt_logs ba r). is_initiate_change c l)
               \<or> (\<exists>l \<in> set reward_logs. is_initiate_change c l))"

definition tracker_after ::
  "AuraExecutionCtx \<Rightarrow> u64 \<Rightarrow> address \<Rightarrow> bool \<Rightarrow> RollingFinality \<Rightarrow> RollingFinality" where
  "tracker_after aura n signer announced rf =
     (let c = the (validator_contract aura) in
      if actx_posdao_transition aura \<le> n
      then snd (push n signer (if announced then add_pending_transition n c rf else rf))
      else if announced then set_immediate_finalize (n + 1) c rf else rf)"

lemma try_u64_ucast [simp]: "try_u64 (ucast n) = Some n"
  by (simp add: try_u64_Some_iff unsigned_ucast_eq take_bit_nat_eq_self_iff less_le_trans [OF unsigned_less])

lemma aura_post_execution_tracker:
  assumes "aura_post_execution xe logs ex = (Inr u, ex')" and "ctx_aura (ex_ctx ex) = Some aura"
    and "be_number (evm_block (ex_evm ex)) = ucast n" and "ex_rf ex = Healthy rf"
  shows "ex_rf ex' = Healthy (tracker_after aura n (be_beneficiary (evm_block (ex_evm ex)))
      (announces_change (xe_block xe) (ex_receipts ex) logs (validator_contract aura)) rf)
    \<and> ex_core ex' = ex_core ex"
  using assms
  by (cases "validator_contract aura")
    (auto simp: aura_post_execution_def to_u64_def Let_def tracker_after_def announces_change_def
      ex_core_def)

lemma apply_increments_keeps:
  "apply_increments xe incs ex = (r, ex') \<Longrightarrow> ex_core ex' = ex_core ex \<and> ex_rf ex' = ex_rf ex"
  by (auto simp: apply_increments_def Let_def ex_core_def split: prod.splits sum.splits if_splits)

lemma finish_tracker:
  assumes "gas_ok (xe_evm xe)" and "block_calls_ok (xe_block xe)"
    and "finish xe ex = (Inr res, ex')" and "ctx_aura (ex_ctx ex) = Some aura"
    and "be_number (evm_block (ex_evm ex)) = ucast n" and "ex_rf ex = Healthy rf"
  shows "\<exists>ex1 ra dc ts ws incs out reward_logs ex2. ex_core ex1 = ex_core ex
    \<and> on_exec_state (apply_post_block_system_calls (xe_hardforks xe) (xe_evm xe) (xe_db xe)
         (xe_abi xe) (ex_spec ex1) ra dc ts ws (be_beneficiary (evm_block (ex_evm ex)))) ex1
       = (Inr (incs, out, reward_logs), ex2)
    \<and> ex_rf ex' = Healthy (tracker_after aura n (be_beneficiary (evm_block (ex_evm ex)))
      (announces_change (xe_block xe) (ex_receipts ex) reward_logs (validator_contract aura)) rf)
    \<and> br_receipts res = ex_receipts ex \<and> br_gas_used res = ex_gas_used ex
    \<and> br_blob_gas_used res = ex_blob_gas_used ex"
proof -
  from assms(3) obtain dc rqs ex1 ts ra incs out logs ex2 ex3 u v where steps:
      "collect_requests xe ex = (Inr rqs, ex1)"
      "on_exec_state (apply_post_block_system_calls (xe_hardforks xe) (xe_evm xe) (xe_db xe)
         (xe_abi xe) (ex_spec ex1) ra dc ts (ctx_withdrawals (ex_ctx ex1))
         (be_beneficiary (evm_block (ex_evm ex)))) ex1 = (Inr (incs, out, logs), ex2)"
      "aura_post_execution xe logs ex2 = (Inr u, ex3)"
      "apply_increments xe incs ex3 = (Inr v, ex')"
      "res = \<lparr>br_receipts = ex_receipts ex', br_requests = rqs, br_gas_used = ex_gas_used ex',
          br_blob_gas_used = ex_blob_gas_used ex'\<rparr>"
    by (auto simp: finish_def Let_def then_do_Inr_iff split: option.splits)
  note k1 = collect_requests_keeps [OF assms(2) steps(1)]
  have block2: "evm_block (ex_evm ex2) = evm_block (ex_evm ex1)"
    using post_block_calls_block [OF assms(1)] by (fastforce intro: on_exec_state_block [OF steps(2)])
  note k2 = on_exec_state_keeps [OF steps(2)]
  note k4 = apply_increments_keeps [OF steps(4)]
  have ctx2: "ctx_aura (ex_ctx ex2) = Some aura" and rf2: "ex_rf ex2 = Healthy rf"
    and n2: "be_number (evm_block (ex_evm ex2)) = ucast n"
    and rc2: "ex_receipts ex2 = ex_receipts ex"
    using k1 k2 block2 assms by (simp_all add: ex_core_def)
  note k3 = aura_post_execution_tracker [OF steps(3) ctx2 n2 rf2]
  have "ex_rf ex' = Healthy (tracker_after aura n (be_beneficiary (evm_block (ex_evm ex)))
      (announces_change (xe_block xe) (ex_receipts ex) logs (validator_contract aura)) rf)
    \<and> br_receipts res = ex_receipts ex \<and> br_gas_used res = ex_gas_used ex
    \<and> br_blob_gas_used res = ex_blob_gas_used ex"
    using k1 k2 k3 k4 steps(5) block2 rc2 by (auto simp: ex_core_def)
  moreover have "ex_core ex1 = ex_core ex" using k1 by blast
  ultimately show ?thesis using steps(2) by blast
qed

text \<open>Property C17: what a finished AuRa block does to the tracker. The post-block calls have run and their
  reward call left some logs. A POSDAO block first records a pending change if its receipts or those
  logs announce one for the validator contract, and then counts its beneficiary as signer; before
  POSDAO an announcement schedules \<open>finalizeChange\<close> for the very next block and no signer is counted.
  The block's receipts and gas are those of its transactions.\<close>

theorem finish_updates_tracker:
  assumes "gas_ok (xe_evm xe)" and "block_calls_ok (xe_block xe)"
    and "finish xe ex = (Inr res, ex')" and "ctx_aura (ex_ctx ex) = Some aura"
    and "be_number (evm_block (ex_evm ex)) = ucast n" and "ex_rf ex = Healthy rf"
  shows "\<exists>ex1 ra dc ts ws incs out reward_logs ex2. ex_core ex1 = ex_core ex
    \<and> on_exec_state (apply_post_block_system_calls (xe_hardforks xe) (xe_evm xe) (xe_db xe)
         (xe_abi xe) (ex_spec ex1) ra dc ts ws (be_beneficiary (evm_block (ex_evm ex)))) ex1
       = (Inr (incs, out, reward_logs), ex2)
    \<and> (let signer = be_beneficiary (evm_block (ex_evm ex));
           announced = announces_change (xe_block xe) (ex_receipts ex) reward_logs (validator_contract aura);
           contract = the (validator_contract aura) in
       ex_rf ex' = Healthy
         (if actx_posdao_transition aura \<le> n
          then snd (push n signer (if announced then add_pending_transition n contract rf else rf))
          else if announced then set_immediate_finalize (n + 1) contract rf else rf))
    \<and> br_receipts res = ex_receipts ex \<and> br_gas_used res = ex_gas_used ex
    \<and> br_blob_gas_used res = ex_blob_gas_used ex"
  using finish_tracker [OF assms] by (simp add: tracker_after_def Let_def)

section \<open>Samples\<close>

definition sample_block_api :: "(address \<rightharpoonup> account_info, unit, unit, log list) block_api" where
  "sample_block_api = \<lparr>blockhashes_call = (\<lambda>_ st. (Inr (), st)), beacon_root_call = (\<lambda>_ st. (Inr (), st)),
     withdrawal_requests_call = (\<lambda>st. (Inr [], st)), consolidation_requests_call = (\<lambda>st. (Inr [], st)),
     parse_deposits = (\<lambda>_ _. Inr []),
     build_receipt = (\<lambda>_ res _ _. case res of Success _ _ logs \<Rightarrow> logs | _ \<Rightarrow> []),
     receipt_logs = (\<lambda>r. r), balance_increment_state = (\<lambda>_ db. (Inr Map.empty, db))\<rparr>"

definition sample_exec_env ::
  "exec_output \<Rightarrow> (address \<rightharpoonup> account_info, unit, unit, log list) exec_env" where
  "sample_exec_env out = \<lparr>xe_hardforks = sample_hardforks_api, xe_evm = calls_evm_api out,
     xe_db = sample_db_api, xe_abi = sample_abi, xe_block = sample_block_api\<rparr>"

lemma sample_env_ok: "gas_ok (xe_evm (sample_exec_env out))" "block_calls_ok (xe_block (sample_exec_env out))"
  using calls_evm_api_gas
  by (fastforce simp: gas_ok_def sample_exec_env_def, auto simp: block_calls_ok_def sample_exec_env_def sample_block_api_def)

text \<open>An executor for block 1 of an AuRa chain whose validator contract is 17.\<close>

definition sample_aura_ctx :: "address option \<Rightarrow> u64 \<Rightarrow> AuraExecutionCtx" where
  "sample_aura_ctx finalize posdao = \<lparr>finalize_change_address = finalize, validator_contract = Some 17,
     actx_posdao_transition = posdao, aura_bytecode_rewrites = None\<rparr>"

definition sample_executor ::
  "AuraExecutionCtx \<Rightarrow> log list list \<Rightarrow> (address \<rightharpoonup> account_info, unit, unit, log list) executor" where
  "sample_executor aura receipts = \<lparr>ex_spec = (sample_spec [])\<lparr>spec_deposit_contract :=
       Some \<lparr>dc_address = 18, dc_block = 0, dc_topic = 0\<rparr>\<rparr>,
     ex_ctx = \<lparr>ctx_parent_hash = 0, ctx_parent_beacon_block_root = None, ctx_withdrawals = None,
       ctx_parent_timestamp = 0, ctx_aura = Some aura, ctx_block_rewards_override = None\<rparr>,
     ex_evm = calls_evm, ex_system_caller = None, ex_receipts = receipts, ex_gas_used = 0,
     ex_blob_gas_used = 0, ex_block_rewards_address = 17,
     ex_rf = Healthy (rf_new [1, 2, 3])\<rparr>"

lemma calls_evm_system_call:
  "\<exists>rs evm'. transact_system_call (calls_evm_api out) c t d evm = (Inr rs, evm')
     \<and> rs_result rs = Success 1 out [] \<and> evm_block evm' = evm_block evm" if "\<not> evm_inspect evm"
  using that
  by (simp add: transact_system_call_def transact_raw_def swap_checks_def calls_evm_api_def system_tx_def
      TX_GAS_LIMIT_def)

lemma sample_block_fields:
  "be_number (evm_block calls_evm) = ucast (1 :: u64)" "be_timestamp (evm_block calls_evm) = ucast (5 :: u64)"
  "evm_inspect calls_evm = False" "be_beneficiary (evm_block calls_evm) = 9"
  "be_gas_limit (evm_block calls_evm) = 30000000" "evm_fee_collector calls_evm = 8"
  by (simp_all add: calls_evm_def sample_block_env_def)

theorem block_gas_bounded_witness:
  "ex_gas_used (snd (run_block (sample_exec_env (CallOutput [])) [\<lparr>et_env = system_tx 1 2 [],
       et_gas_limit = TX_GAS_LIMIT, et_blob_gas_used = None, et_type = 0, et_hash = 0\<rparr>]
     (sample_executor (sample_aura_ctx None 0) []))) \<le> 30000000"
proof -
  let ?tx = "\<lparr>et_env = system_tx 1 2 [], et_gas_limit = TX_GAS_LIMIT, et_blob_gas_used = None,
    et_type = 0, et_hash = 0\<rparr>"
  obtain r ex' where run: "run_block (sample_exec_env (CallOutput [])) [?tx]
      (sample_executor (sample_aura_ctx None 0) []) = (r, ex')"
    by fastforce
  have limits: "\<forall>tx \<in> set [?tx]. et_gas_limit tx = tx_gas_limit (et_env tx)"
    by (simp add: system_tx_def)
  have block: "be_gas_limit (evm_block (ex_evm (sample_executor (sample_aura_ctx None 0) []))) = 30000000"
    "ex_gas_used (sample_executor (sample_aura_ctx None 0) []) = 0"
    by (simp_all add: sample_executor_def sample_block_fields)
  from block_gas_bounded [OF sample_env_ok(1) limits _ run] show ?thesis
    unfolding run block by simp
qed

lemma sample_finish_runs:
  "\<exists>res ex'. finish (sample_exec_env (CallOutput [3, 4])) (sample_executor (sample_aura_ctx None 10)
     [[\<lparr>log_address = 17, log_topics = [INITIATE_CHANGE_TOPIC], log_data = []\<rparr>]]) = (Inr res, ex')"
  by (simp add: try_u64_def finish_def Let_def exec_deposit_contract_address_def collect_requests_def to_u64_def
      sample_executor_def sample_block_fields is_active_at_timestamp_def fork_activation_def
      sample_exec_env_def sample_hardforks_api_def on_exec_state_def apply_post_block_system_calls_def
      apply_block_rewards_contract_call_def transact_system_call_def transact_raw_def swap_checks_def
      calls_evm_api_def system_tx_def TX_GAS_LIMIT_def clean_system_state_at SYSTEM_ADDRESS_def
      sample_account_def sample_info_def sample_abi_def sample_db_api_def commit_def
      aura_post_execution_def sample_aura_ctx_def apply_increments_def invoke_hook_def)

theorem finish_updates_tracker_witness:
  "\<exists>res ex' rf. finish (sample_exec_env (CallOutput [3, 4])) (sample_executor (sample_aura_ctx None 10)
       [[\<lparr>log_address = 17, log_topics = [INITIATE_CHANGE_TOPIC], log_data = []\<rparr>]]) = (Inr res, ex')
     \<and> ex_rf ex' = Healthy rf \<and> finalize_change_at rf = Some (2, 17)"
proof -
  let ?xe = "sample_exec_env (CallOutput [3, 4])"
  let ?ex = "sample_executor (sample_aura_ctx None 10)
    [[\<lparr>log_address = 17, log_topics = [INITIATE_CHANGE_TOPIC], log_data = []\<rparr>]]"
  obtain res ex' where run: "finish ?xe ?ex = (Inr res, ex')" using sample_finish_runs by blast
  have "ctx_aura (ex_ctx ?ex) = Some (sample_aura_ctx None 10)"
    "be_number (evm_block (ex_evm ?ex)) = ucast (1 :: u64)" "ex_rf ?ex = Healthy (rf_new [1, 2, 3])"
    by (simp_all add: sample_executor_def sample_block_fields)
  from finish_updates_tracker [OF sample_env_ok run this] run show ?thesis
    by (auto simp: Let_def sample_aura_ctx_def word_le_nat_alt announces_change_def
        sample_executor_def sample_exec_env_def sample_block_api_def is_initiate_change_def
        set_immediate_finalize_def)
qed

theorem finalize_refreshes_validators_witness:
  "\<exists>ex' rf. apply_pre_execution_changes (sample_exec_env (CallOutput (encode_address_array [5, 6, 7])))
       (sample_executor (sample_aura_ctx (Some 17) 0) []) = (Inr (), ex')
     \<and> ex_rf ex' = Healthy rf \<and> headers rf = []"
proof -
  let ?xe = "sample_exec_env (CallOutput (encode_address_array [5, 6, 7]))"
  let ?ex = "sample_executor (sample_aura_ctx (Some 17) 0) []"
  have "\<exists>ex'. apply_pre_execution_changes ?xe ?ex = (Inr (), ex')"
    by (simp add: try_u64_def apply_pre_execution_changes_def aura_pre_execution_def init_validators_def Let_def to_u64_def
        sample_executor_def sample_block_fields sample_aura_ctx_def validator_count_def rf_new_def
        aura_rewrites_def call_finalize_change_def refresh_validators_def system_call_and_commit_def
        sample_exec_env_def transact_system_call_def transact_raw_def swap_checks_def
        calls_evm_api_def system_tx_def TX_GAS_LIMIT_def decode_encode on_exec_state_def
        sample_block_api_def balancer_activation_def commit_def
        is_balancer_hardfork_active_at_timestamp_def sample_hardforks_api_def)
  then obtain ex' where run: "apply_pre_execution_changes ?xe ?ex = (Inr (), ex')" by blast
  have "ctx_aura (ex_ctx ?ex) = Some (sample_aura_ctx (Some 17) 0)"
    "finalize_change_address (sample_aura_ctx (Some 17) 0) = Some 17"
    "be_number (evm_block (ex_evm ?ex)) = ucast (1 :: u64)"
    "actx_posdao_transition (sample_aura_ctx (Some 17) 0) \<le> 1"
    by (simp_all add: sample_executor_def sample_block_fields sample_aura_ctx_def)
  from finalize_refreshes_validators [OF run this] run show ?thesis by blast
qed

end
