(* ===== verification/EvmConfig.thy ===== *)
theory EvmConfig
  imports BlockExecutor
begin

text \<open>
  The EVM configuration of \<open>src/evm_config.rs\<close>: the revm specification of a header, the configuration
  environment with the Gnosis deviations, the environments of a block, a next block and an engine
  payload, and the execution contexts, where a scheduled \<open>finalizeChange\<close> is taken out of the shared
  rolling-finality tracker. The configuration owns the shared cell (\<open>ec_rolling_finality\<close>);
  \<open>context_for_block\<close> returns it updated.
\<close>

section \<open>Library values\<close>

record config_api =
  hdr_is_pre_merge :: "GnosisHeader \<Rightarrow> bool"
  cfg_with_mainnet_gas :: "u64 \<Rightarrow> SpecId \<Rightarrow> cfg_env"
  gid_sstore_static :: nat
  gid_sstore_set_without_load_cost :: nat
  gid_sstore_reset_without_cold_load_cost :: nat
  gid_sstore_set_refund :: nat
  gid_sstore_reset_refund :: nat
  revm_spec :: "GnosisChainSpec \<Rightarrow> GnosisHeader \<Rightarrow> SpecId"
  revm_spec_by_timestamp_and_block_number :: "GnosisChainSpec \<Rightarrow> u64 \<Rightarrow> u64 \<Rightarrow> SpecId"
  blob_params_at_timestamp :: "GnosisChainSpec \<Rightarrow> u64 \<Rightarrow> BlobParams option"
  calc_blob_fee :: "BlobParams \<Rightarrow> u64 \<Rightarrow> u128"
  maybe_next_block_excess_blob_gas :: "GnosisHeader \<Rightarrow> BlobParams option \<Rightarrow> u64 option"
  next_block_base_fee :: "GnosisChainSpec \<Rightarrow> GnosisHeader \<Rightarrow> u64 \<Rightarrow> u64 option"
  hdr_slot_number :: "GnosisHeader \<Rightarrow> u64 option"
  max_tx_gas_limit_osaka :: u64
  json_to_address :: "json \<Rightarrow> unit + address"

section \<open>The specification of a header\<close>

definition gnosis_revm_spec ::
  "hardforks_api \<Rightarrow> config_api \<Rightarrow> GnosisChainSpec \<Rightarrow> GnosisHeader \<Rightarrow> SpecId" where
  "gnosis_revm_spec api c spec header =
     (if hdr_is_pre_merge c header
      then let n = h_number header in
           if is_active_at_block api spec London n then LONDON
           else if is_active_at_block api spec Berlin n then BERLIN
           else if is_active_at_block api spec Istanbul n then ISTANBUL
           else if is_active_at_block api spec Petersburg n then PETERSBURG
           else if is_active_at_block api spec Constantinople n then CONSTANTINOPLE
           else if is_active_at_block api spec Byzantium n then BYZANTIUM
           else if is_active_at_block api spec SpuriousDragon n then SPURIOUS_DRAGON
           else if is_active_at_block api spec Tangerine n then TANGERINE
           else if is_active_at_block api spec Homestead n then HOMESTEAD
           else FRONTIER
      else revm_spec c spec header)"

definition get_cfg_env ::
  "hardforks_api \<Rightarrow> config_api \<Rightarrow> GnosisChainSpec \<Rightarrow> SpecId \<Rightarrow> u64 \<Rightarrow> bool \<Rightarrow> cfg_env" where
  "get_cfg_env api c spec s timestamp is_pre_merge =
     (let cfg = cfg_with_mainnet_gas c (spec_chain spec) s;
          cfg = (if \<not> is_active_at_timestamp api spec Shanghai timestamp
                 then cfg\<lparr>limit_contract_code_size := Some (- 1)\<rparr> else cfg);
          cfg = (if is_pre_merge \<and> LONDON \<le> s then cfg\<lparr>disable_base_fee := True\<rparr> else cfg)
      in if s = CONSTANTINOPLE \<and> is_pre_merge
         then cfg\<lparr>gas_params := (gas_params cfg)
                (gid_sstore_static c := 200,
                 gid_sstore_set_without_load_cost c := 20000 - 200,
                 gid_sstore_reset_without_cold_load_cost c := 5000 - 200,
                 gid_sstore_set_refund c := 20000 - 200,
                 gid_sstore_reset_refund c := 5000 - 200)\<rparr>
         else cfg)"

section \<open>The configuration\<close>

record GnosisEvmConfig =
  ec_fee_collector :: address
  ec_block_rewards_address :: address
  ec_chain_spec :: GnosisChainSpec
  ec_extra_data :: bytes
  ec_rolling_finality :: "RollingFinality mutex"

definition evm_config_new :: "config_api \<Rightarrow> GnosisChainSpec \<Rightarrow> bytes \<Rightarrow> 'e fault + GnosisEvmConfig" where
  "evm_config_new c spec default_extra_data =
     (let fields = extra_fields (g_config (spec_genesis spec)) in
      and_then (case fields ''eip1559collector'' of
          None \<Rightarrow> Inl (Panic ''no eip1559collector field'') | Some v \<Rightarrow> Inr v) (\<lambda>v.
      and_then (expect ''failed to parse eip1559collector field'' (json_to_address c v)) (\<lambda>collector.
      and_then (case fields ''blockRewardsContract'' of
          None \<Rightarrow> Inl (Panic ''no eip1559collector field'') | Some v \<Rightarrow> Inr v) (\<lambda>v.
      and_then (expect ''failed to parse eip1559collector field'' (json_to_address c v)) (\<lambda>rewards.
        Inr \<lparr>ec_fee_collector = collector, ec_block_rewards_address = rewards, ec_chain_spec = spec,
             ec_extra_data = default_extra_data, ec_rolling_finality = Healthy (rf_new [])\<rparr>)))))"

definition with_extra_data :: "bytes \<Rightarrow> GnosisEvmConfig \<Rightarrow> GnosisEvmConfig" where
  "with_extra_data extra ec = ec\<lparr>ec_extra_data := extra\<rparr>"

definition noop_header_lookup :: "b256 \<Rightarrow> GnosisHeader option" where
  "noop_header_lookup h = None"

text \<open>The arithmetic of the block numbers is on 64 bits; the comparisons guard the subtractions.\<close>

definition compute_finalize_change_address_from_validators :: "ValidatorSet \<Rightarrow> u64 \<Rightarrow> address option" where
  "compute_finalize_change_address_from_validators vs n =
     (if n = 0 then contract_address_at vs 0
      else case contract_address_at vs n of
             None \<Rightarrow> None
           | Some current \<Rightarrow>
               (let parent = contract_address_at vs (n - 1) in
                if parent \<noteq> Some current then None
                else if 2 \<le> n \<and> contract_address_at vs (n - 2) \<noteq> Some current
                then (let prev_was_list = (2 \<le> n \<and> contract_address_at vs (n - 2) = None)
                      in if prev_was_list then Some current else None)
                else None))"

definition compute_finalize_change_address :: "GnosisEvmConfig \<Rightarrow> u64 \<Rightarrow> address option" where
  "compute_finalize_change_address ec n =
     (case spec_aura_config (ec_chain_spec ec) of
        None \<Rightarrow> None
      | Some cfg \<Rightarrow> compute_finalize_change_address_from_validators (aura_validators cfg) n)"

section \<open>Environments\<close>

definition set_max_blobs :: "BlobParams option \<Rightarrow> cfg_env \<Rightarrow> cfg_env" where
  "set_max_blobs bp cfg =
     (case bp of None \<Rightarrow> cfg | Some p \<Rightarrow> cfg\<lparr>max_blobs_per_tx_cap := Some (max_blobs_per_tx p)\<rparr>)"

definition set_osaka_cap ::
  "hardforks_api \<Rightarrow> config_api \<Rightarrow> GnosisChainSpec \<Rightarrow> u64 \<Rightarrow> cfg_env \<Rightarrow> cfg_env" where
  "set_osaka_cap api c spec timestamp cfg =
     (if is_active_at_timestamp api spec Osaka timestamp
      then cfg\<lparr>tx_gas_limit_cap := Some (max_tx_gas_limit_osaka c)\<rparr> else cfg)"

definition blob_env :: "config_api \<Rightarrow> BlobParams \<Rightarrow> u64 \<Rightarrow> blob_excess_gas" where
  "blob_env c params excess = \<lparr>excess_blob_gas = excess, blob_gasprice = calc_blob_fee c params excess\<rparr>"

definition zip_option :: "'a option \<Rightarrow> 'b option \<Rightarrow> ('a \<times> 'b) option" where
  "zip_option a b = (case (a, b) of (Some x, Some y) \<Rightarrow> Some (x, y) | _ \<Rightarrow> None)"

definition evm_env ::
  "hardforks_api \<Rightarrow> config_api \<Rightarrow> GnosisEvmConfig \<Rightarrow> GnosisHeader \<Rightarrow> cfg_env \<times> block_env" where
  "evm_env api c ec header =
     (let spec = ec_chain_spec ec;
          blob_params = blob_params_at_timestamp c spec (h_timestamp header);
          s = gnosis_revm_spec api c spec header;
          cfg = get_cfg_env api c spec s (h_timestamp header) (hdr_is_pre_merge c header);
          cfg = set_osaka_cap api c spec (h_timestamp header) (set_max_blobs blob_params cfg)
      in (cfg,
          \<lparr>be_number = ucast (h_number header), be_beneficiary = h_beneficiary header,
           be_timestamp = ucast (h_timestamp header),
           be_difficulty = (if MERGE \<le> s then 0 else h_difficulty header),
           be_prevrandao = (if MERGE \<le> s then h_mix_hash header else None),
           be_gas_limit = h_gas_limit header,
           be_basefee = unwrap_or_default (h_base_fee_per_gas header),
           be_blob = map_option (\<lambda>(excess, params). blob_env c params excess)
             (zip_option (h_excess_blob_gas header) blob_params),
           be_slot_num = unwrap_or_default (hdr_slot_number c header)\<rparr>))"

record NextBlockEnvAttributes =
  na_timestamp :: u64
  na_suggested_fee_recipient :: address
  na_prev_randao :: b256
  na_gas_limit :: u64
  na_parent_beacon_block_root :: "b256 option"
  na_withdrawals :: "withdrawal list option"
  na_extra_data :: bytes
  na_slot_number :: "u64 option"

definition next_evm_env ::
  "hardforks_api \<Rightarrow> config_api \<Rightarrow> GnosisEvmConfig \<Rightarrow> GnosisHeader \<Rightarrow> NextBlockEnvAttributes
     \<Rightarrow> cfg_env \<times> block_env" where
  "next_evm_env api c ec parent attributes =
     (let spec = ec_chain_spec ec;
          blob_params = blob_params_at_timestamp c spec (na_timestamp attributes);
          s = revm_spec_by_timestamp_and_block_number c spec (na_timestamp attributes) (h_number parent + 1);
          cfg = get_cfg_env api c spec s (na_timestamp attributes) False;
          cfg = set_osaka_cap api c spec (na_timestamp attributes) (set_max_blobs blob_params cfg);
          excess = (case maybe_next_block_excess_blob_gas c parent blob_params of
              Some e \<Rightarrow> Some e | None \<Rightarrow> (if s = CANCUN then Some 0 else None))
      in (cfg,
          \<lparr>be_number = ucast (h_number parent + 1), be_beneficiary = na_suggested_fee_recipient attributes,
           be_timestamp = ucast (na_timestamp attributes), be_difficulty = 0,
           be_prevrandao = Some (na_prev_randao attributes), be_gas_limit = na_gas_limit attributes,
           be_basefee = unwrap_or_default (next_block_base_fee c spec parent (na_timestamp attributes)),
           be_blob = map_option (blob_env c (case blob_params of None \<Rightarrow> cancun_blob_params | Some p \<Rightarrow> p)) excess,
           be_slot_num = unwrap_or_default (na_slot_number attributes)\<rparr>))"

text \<open>An engine payload: the fields the code reads.\<close>

record ExecutionData =
  pl_timestamp :: u64
  pl_block_number :: u64
  pl_excess_blob_gas :: "u64 option"
  pl_fee_recipient :: address
  pl_prev_randao :: b256
  pl_gas_limit :: u64
  pl_saturated_base_fee :: u64
  pl_slot_number :: "u64 option"
  pl_parent_hash :: b256
  pl_parent_beacon_block_root :: "b256 option"
  pl_withdrawals :: "withdrawal list option"
  pl_transactions :: "bytes list"

definition evm_env_for_payload ::
  "hardforks_api \<Rightarrow> config_api \<Rightarrow> GnosisEvmConfig \<Rightarrow> ExecutionData \<Rightarrow> cfg_env \<times> block_env" where
  "evm_env_for_payload api c ec payload =
     (let spec = ec_chain_spec ec;
          timestamp = pl_timestamp payload;
          blob_params = blob_params_at_timestamp c spec timestamp;
          s = revm_spec_by_timestamp_and_block_number c spec timestamp (pl_block_number payload);
          cfg = get_cfg_env api c spec s timestamp False;
          cfg = set_osaka_cap api c spec timestamp (set_max_blobs blob_params cfg)
      in (cfg,
          \<lparr>be_number = ucast (pl_block_number payload), be_beneficiary = pl_fee_recipient payload,
           be_timestamp = ucast timestamp,
           be_difficulty = (if MERGE \<le> s then 0 else pl_prev_randao payload),
           be_prevrandao = (if MERGE \<le> s then Some (pl_prev_randao payload) else None),
           be_gas_limit = pl_gas_limit payload, be_basefee = pl_saturated_base_fee payload,
           be_blob = map_option (\<lambda>(excess, params). blob_env c params excess)
             (zip_option (pl_excess_blob_gas payload) blob_params),
           be_slot_num = unwrap_or_default (pl_slot_number payload)\<rparr>))"

text \<open>The conversion of each payload transaction: decode, then recover the signer.\<close>

definition tx_iterator_for_payload ::
  "(bytes \<Rightarrow> string + 'tx) \<Rightarrow> ('tx \<Rightarrow> string + address) \<Rightarrow> ExecutionData
     \<Rightarrow> bytes list \<times> (bytes \<Rightarrow> string + ('tx \<times> address))" where
  "tx_iterator_for_payload decode_2718 try_recover payload =
     (pl_transactions payload,
      \<lambda>raw. and_then (decode_2718 raw) (\<lambda>tx. and_then (try_recover tx) (\<lambda>signer. Inr (tx, signer))))"

section \<open>Execution contexts\<close>

text \<open>The block a context is made for: its number, parent hash, beacon root and withdrawals.\<close>

record block_info =
  bi_number :: u64
  bi_parent_hash :: b256
  bi_parent_beacon_block_root :: "b256 option"
  bi_withdrawals :: "withdrawal list option"

definition parent_timestamp_of :: "(b256 \<Rightarrow> GnosisHeader option) \<Rightarrow> b256 \<Rightarrow> u64" where
  "parent_timestamp_of header_by_hash parent =
     (case header_by_hash parent of None \<Rightarrow> 0 | Some h \<Rightarrow> h_timestamp h)"

definition rewards_override_at :: "GnosisEvmConfig \<Rightarrow> u64 \<Rightarrow> address option" where
  "rewards_override_at ec n =
     (case spec_aura_config (ec_chain_spec ec) of
        None \<Rightarrow> None
      | Some cfg \<Rightarrow> map_option snd (bt_floor (block_reward_contract_transitions cfg) n))"

definition aura_ctx :: "AuraConfig \<Rightarrow> u64 \<Rightarrow> address option \<Rightarrow> AuraExecutionCtx" where
  "aura_ctx cfg n finalize =
     \<lparr>finalize_change_address = finalize,
      validator_contract = contract_address_at (aura_validators cfg) n,
      actx_posdao_transition = posdao_transition cfg,
      aura_bytecode_rewrites = bt_get (rewrite_bytecode cfg) n\<rparr>"

text \<open>\<open>take_finalize_change\<close> under the lock; a poisoned mutex is skipped.\<close>

definition take_scheduled ::
  "u64 \<Rightarrow> RollingFinality mutex \<Rightarrow> address option \<times> RollingFinality mutex" where
  "take_scheduled n cell =
     (case lock cell of
        Inl _ \<Rightarrow> (None, cell)
      | Inr rf \<Rightarrow> (case take_finalize_change n rf of (a, rf') \<Rightarrow> (a, mutex_write cell rf')))"

definition context_for_block ::
  "hardforks_api \<Rightarrow> (b256 \<Rightarrow> GnosisHeader option) \<Rightarrow> GnosisEvmConfig \<Rightarrow> block_info
     \<Rightarrow> GnosisBlockExecutionCtx \<times> GnosisEvmConfig" where
  "context_for_block api header_by_hash ec block =
     (let n = bi_number block;
          parent_timestamp = parent_timestamp_of header_by_hash (bi_parent_hash block);
          (aura, cell) =
            (case spec_aura_config (ec_chain_spec ec) of
               None \<Rightarrow> (None, ec_rolling_finality ec)
             | Some cfg \<Rightarrow>
                 (if is_active_at_block api (ec_chain_spec ec) Paris n
                  then (None, ec_rolling_finality ec)
                  else
                    (let (finalize, cell) =
                       (case compute_finalize_change_address ec n of
                          Some a \<Rightarrow> (Some a, ec_rolling_finality ec)
                        | None \<Rightarrow> take_scheduled n (ec_rolling_finality ec))
                     in (Some (aura_ctx cfg n finalize), cell))))
      in (\<lparr>ctx_parent_hash = bi_parent_hash block,
           ctx_parent_beacon_block_root = bi_parent_beacon_block_root block,
           ctx_withdrawals = bi_withdrawals block, ctx_parent_timestamp = parent_timestamp,
           ctx_aura = aura, ctx_block_rewards_override = rewards_override_at ec n\<rparr>,
          ec\<lparr>ec_rolling_finality := cell\<rparr>))"

definition context_for_next_block ::
  "hardforks_api \<Rightarrow> GnosisEvmConfig \<Rightarrow> GnosisHeader \<Rightarrow> b256 \<Rightarrow> NextBlockEnvAttributes
     \<Rightarrow> GnosisBlockExecutionCtx" where
  "context_for_next_block api ec parent parent_hash attributes =
     (let next_block = h_number parent + 1;
          aura =
            (case spec_aura_config (ec_chain_spec ec) of
               None \<Rightarrow> None
             | Some cfg \<Rightarrow>
                 (if is_active_at_block api (ec_chain_spec ec) Paris next_block then None
                  else Some (aura_ctx cfg next_block (compute_finalize_change_address ec next_block))))
      in \<lparr>ctx_parent_hash = parent_hash,
          ctx_parent_beacon_block_root = na_parent_beacon_block_root attributes,
          ctx_withdrawals = na_withdrawals attributes, ctx_parent_timestamp = h_timestamp parent,
          ctx_aura = aura, ctx_block_rewards_override = rewards_override_at ec next_block\<rparr>)"

definition context_for_payload ::
  "(b256 \<Rightarrow> GnosisHeader option) \<Rightarrow> ExecutionData \<Rightarrow> GnosisBlockExecutionCtx" where
  "context_for_payload header_by_hash payload =
     \<lparr>ctx_parent_hash = pl_parent_hash payload,
      ctx_parent_beacon_block_root = pl_parent_beacon_block_root payload,
      ctx_withdrawals = pl_withdrawals payload,
      ctx_parent_timestamp = parent_timestamp_of header_by_hash (pl_parent_hash payload),
      ctx_aura = None, ctx_block_rewards_override = None\<rparr>"

section \<open>When the boundary rule finalizes\<close>

lemma word_two_le_iff: "(2 :: u64) \<le> n \<longleftrightarrow> n \<noteq> 0 \<and> n \<noteq> 1"
proof -
  have "n = 0 \<longleftrightarrow> unat n = 0" and "n = 1 \<longleftrightarrow> unat n = 1"
    using word_unat_eq_iff [of n 0] word_unat_eq_iff [of n 1] by simp_all
  moreover have "(2 :: u64) \<le> n \<longleftrightarrow> 2 \<le> unat n" by (simp add: word_le_nat_alt)
  ultimately show ?thesis by linarith
qed

lemma compute_finalize_iff:
  "compute_finalize_change_address_from_validators vs n = Some a \<longleftrightarrow>
     contract_address_at vs n = Some a
     \<and> (n = 0 \<or> (n \<noteq> 1 \<and> contract_address_at vs (n - 1) = Some a \<and> contract_address_at vs (n - 2) = None))"
  by (auto simp: compute_finalize_change_address_from_validators_def Let_def word_two_le_iff
      split: option.splits)

lemma contract_constant:
  assumes "vs_wf vs" and "bt_get (sets vs) j = Some (Contract a)" and "j \<le> n"
    and "\<forall>i. j < i \<and> i \<le> n \<longrightarrow> bt_get (sets vs) i = None"
  shows "contract_address_at vs n = Some a"
proof -
  have "kind_at vs n = kind_at vs j"
    using assms by (intro kind_at_constant) (auto simp: vs_wf_def)
  also have "\<dots> = Some (Contract a)"
    using assms by (intro kind_at_transition) (auto simp: vs_wf_def)
  finally show ?thesis by (simp add: contract_address_at_def)
qed

text \<open>Property C23: the boundary rule fires once per change from a list of validators to a contract, at
  the block after the activation block, and at no other block until the next change of the table. (The
  documentation of the function says it fires at the activation block itself.)\<close>

theorem boundary_finalizes_once:
  assumes "vs_wf vs" and "bt_get (sets vs) j = Some (Contract a)" and "0 < j"
    and "contract_address_at vs (j - 1) = None"
    and "\<forall>i. j < i \<and> i \<le> m \<longrightarrow> bt_get (sets vs) i = None"
    and "j \<le> n" and "n \<le> m"
  shows "compute_finalize_change_address_from_validators vs n = (if n = j + 1 then Some a else None)"
proof -
  have at: "contract_address_at vs k = Some a" if "j \<le> k" "k \<le> m" for k
    using assms(1,2) that(1) by (rule contract_constant) (use assms(5) that(2) in \<open>auto intro: order_trans\<close>)
  have n: "contract_address_at vs n = Some a" "n \<noteq> 0" using at assms by auto
  show ?thesis
  proof (cases "n = j")
    case True
    moreover have "j \<noteq> j + 1" by simp
    ultimately show ?thesis
      using n assms(4) compute_finalize_iff [of vs n]
      by (cases "compute_finalize_change_address_from_validators vs n") auto
  next
    case False
    with assms(6) have "j < n" by simp
    then have nat: "unat j < unat n" by (simp add: word_less_nat_alt)
    have ge1: "(1 :: u64) \<le> n" using nat by (simp add: word_le_nat_alt)
    have u1: "unat (n - 1) = unat n - 1" using ge1 by (simp add: unat_sub)
    have prev: "contract_address_at vs (n - 1) = Some a"
      using nat u1 assms(7) by (intro at) (auto simp: word_le_nat_alt)
    have ne1: "n \<noteq> 1" using nat assms(3) by (auto simp: word_less_nat_alt)
    then have "(2 :: u64) \<le> n" using n(2) by (simp add: word_two_le_iff)
    then have u2: "unat (n - 2) = unat n - 2" by (simp add: unat_sub)
    show ?thesis
    proof (cases "n = j + 1")
      case True
      then have "n - 2 = j - 1" by simp
      with True n prev ne1 assms(4) compute_finalize_iff [of vs n a] show ?thesis by simp
    next
      case ne: False
      have "unat n \<noteq> unat j + 1"
      proof
        assume "unat n = unat j + 1"
        then have "unat n = unat (j + 1)"
          using unsigned_less [of n, where ?'a = nat] by (simp add: unat_word_ariths)
        with ne show False by (simp add: word_unat_eq_iff)
      qed
      with nat u2 assms(7) have "contract_address_at vs (n - 2) = Some a"
        by (intro at) (auto simp: word_le_nat_alt)
      with n ne compute_finalize_iff [of vs n] show ?thesis
        by (cases "compute_finalize_change_address_from_validators vs n") auto
    qed
  qed
qed

theorem boundary_finalizes_once_witness:
  "compute_finalize_change_address_from_validators \<lparr>sets = [(0, List [1, 2]), (1300, Contract 170)]\<rparr> 1300 = None
   \<and> compute_finalize_change_address_from_validators \<lparr>sets = [(0, List [1, 2]), (1300, Contract 170)]\<rparr> 1301 = Some 170
   \<and> compute_finalize_change_address_from_validators \<lparr>sets = [(0, List [1, 2]), (1300, Contract 170)]\<rparr> 1302 = None"
proof -
  let ?vs = "\<lparr>sets = [(0, List [1, 2]), (1300, Contract 170)]\<rparr>"
  have wf: "vs_wf ?vs" by (simp add: vs_wf_def)
  have act: "bt_get (sets ?vs) 1300 = Some (Contract 170)" by simp
  have before: "contract_address_at ?vs (1300 - 1) = None"
    by (simp add: contract_address_at_def kind_at_def word_le_nat_alt)
  have later: "\<forall>i. 1300 < i \<and> i \<le> 1400 \<longrightarrow> bt_get (sets ?vs) i = None"
    by (auto simp: word_less_nat_alt)
  show ?thesis
    using boundary_finalizes_once [OF wf act _ before later]
    by (simp add: word_le_nat_alt word_less_nat_alt)
qed

section \<open>The specification of a pre-merge header\<close>

lemma is_active_mono:
  "hardforks_ok api \<Longrightarrow> n \<le> m \<Longrightarrow> is_active_at_block api spec f n \<Longrightarrow> is_active_at_block api spec f m"
  by (auto simp: is_active_at_block_def hardforks_ok_def split: ForkCondition.splits)

lemma is_active_mono_contra:
  "hardforks_ok api \<Longrightarrow> n \<le> m \<Longrightarrow> \<not> is_active_at_block api spec f m \<Longrightarrow> \<not> is_active_at_block api spec f n"
  using is_active_mono by blast

text \<open>A pre-merge header is never executed under the merge rules, whatever the
  specification says about Paris, and the rules never go back: a later pre-merge block runs under the
  same or a later specification.\<close>

theorem pre_merge_spec_monotone:
  assumes "hardforks_ok api" and "hdr_is_pre_merge c h" and "hdr_is_pre_merge c h'"
    and "h_number h \<le> h_number h'"
  shows "gnosis_revm_spec api c spec h \<le> LONDON
    \<and> gnosis_revm_spec api c spec h \<le> gnosis_revm_spec api c spec h'"
proof
  show "gnosis_revm_spec api c spec h \<le> LONDON"
    using assms(2) by (simp add: gnosis_revm_spec_def Let_def less_eq_SpecId_def)
  note mono = is_active_mono [OF assms(1,4), of spec]
  show "gnosis_revm_spec api c spec h \<le> gnosis_revm_spec api c spec h'"
    unfolding gnosis_revm_spec_def Let_def less_eq_SpecId_def
    using assms(2,3) mono [of London] mono [of Berlin] mono [of Istanbul] mono [of Petersburg]
      mono [of Constantinople] mono [of Byzantium] mono [of SpuriousDragon] mono [of Tangerine]
      mono [of Homestead]
    by simp
qed

definition sample_config_api :: config_api where
  "sample_config_api = \<lparr>hdr_is_pre_merge = (\<lambda>h. h_aura_step h \<noteq> None),
     cfg_with_mainnet_gas = (\<lambda>id s. \<lparr>cfg_chain_id = id, cfg_spec = s, disable_nonce_check = False,
       disable_block_gas_limit = False, disable_base_fee = False, tx_gas_limit_cap = None,
       limit_contract_code_size = None, max_blobs_per_tx_cap = None, gas_params = (\<lambda>_. 5000)\<rparr>),
     gid_sstore_static = 1, gid_sstore_set_without_load_cost = 2,
     gid_sstore_reset_without_cold_load_cost = 3, gid_sstore_set_refund = 4, gid_sstore_reset_refund = 5,
     revm_spec = (\<lambda>_ _. MERGE), revm_spec_by_timestamp_and_block_number = (\<lambda>_ _ _. MERGE),
     blob_params_at_timestamp = (\<lambda>_ _. None), calc_blob_fee = (\<lambda>_ _. 1),
     maybe_next_block_excess_blob_gas = (\<lambda>_ _. None), next_block_base_fee = (\<lambda>_ _ _. None),
     hdr_slot_number = (\<lambda>_. None), max_tx_gas_limit_osaka = 16777216,
     json_to_address = (\<lambda>_. Inr 7)\<rparr>"

theorem pre_merge_spec_monotone_witness:
  "gnosis_revm_spec sample_hardforks_api sample_config_api
     (sample_spec [(Byzantium, Block 10), (Constantinople, Block 20), (Paris, TTD 0 None 1)])
     (blank_header\<lparr>h_number := 15, h_aura_step := Some 3\<rparr>) \<le> LONDON"
  using pre_merge_spec_monotone [OF sample_hardforks_ok, of sample_config_api
      "blank_header\<lparr>h_number := 15, h_aura_step := Some 3\<rparr>"
      "blank_header\<lparr>h_number := 25, h_aura_step := Some 4\<rparr>"
      "sample_spec [(Byzantium, Block 10), (Constantinople, Block 20), (Paris, TTD 0 None 1)]"]
  by (simp add: sample_config_api_def word_le_nat_alt)

section \<open>The configuration environment\<close>

definition gas_ids :: "config_api \<Rightarrow> nat list" where
  "gas_ids c = [gid_sstore_static c, gid_sstore_set_without_load_cost c,
     gid_sstore_reset_without_cold_load_cost c, gid_sstore_set_refund c, gid_sstore_reset_refund c]"

text \<open>The deviations from mainnet. Relative to revm's configuration for the specification,
  the base fee check is off exactly additionally for pre-merge blocks from London on, the code size
  limit is lifted exactly before Shanghai, and the storage gas of pre-merge Constantinople is
  EIP-1283's: 200 for the static part, 20000 and 5000 for setting and resetting a slot in all, with
  matching refunds; every other gas parameter and every other specification is untouched.\<close>

theorem cfg_env_deviations:
  assumes "distinct (gas_ids c)"
  shows "(let cfg = get_cfg_env api c spec s t pm; base = cfg_with_mainnet_gas c (spec_chain spec) s in
      (disable_base_fee cfg \<longleftrightarrow> disable_base_fee base \<or> pm \<and> LONDON \<le> s)
      \<and> limit_contract_code_size cfg =
          (if is_active_at_timestamp api spec Shanghai t then limit_contract_code_size base else Some (- 1))
      \<and> (if s = CONSTANTINOPLE \<and> pm
         then gas_params cfg (gid_sstore_static c) = 200
            \<and> gas_params cfg (gid_sstore_static c) + gas_params cfg (gid_sstore_set_without_load_cost c) = 20000
            \<and> gas_params cfg (gid_sstore_static c) + gas_params cfg (gid_sstore_reset_without_cold_load_cost c) = 5000
            \<and> gas_params cfg (gid_sstore_set_refund c) = gas_params cfg (gid_sstore_set_without_load_cost c)
            \<and> gas_params cfg (gid_sstore_reset_refund c) = gas_params cfg (gid_sstore_reset_without_cold_load_cost c)
            \<and> (\<forall>i. i \<notin> set (gas_ids c) \<longrightarrow> gas_params cfg i = gas_params base i)
         else gas_params cfg = gas_params base))"
  using assms by (auto simp: get_cfg_env_def Let_def gas_ids_def less_eq_SpecId_def)

theorem cfg_env_deviations_witness:
  "gas_params (get_cfg_env sample_hardforks_api sample_config_api (sample_spec []) CONSTANTINOPLE 5 True) 1 = 200
   \<and> limit_contract_code_size (get_cfg_env sample_hardforks_api sample_config_api (sample_spec []) LONDON 5 True) = Some (- 1)"
proof -
  have ids: "distinct (gas_ids sample_config_api)"
    by (simp add: gas_ids_def sample_config_api_def)
  have "\<not> is_active_at_timestamp sample_hardforks_api (sample_spec []) Shanghai 5"
    by (simp add: is_active_at_timestamp_def fork_activation_def sample_hardforks_api_def)
  moreover have "gid_sstore_static sample_config_api = 1" by (simp add: sample_config_api_def)
  ultimately show ?thesis
    using cfg_env_deviations [OF ids, of sample_hardforks_api "sample_spec []" CONSTANTINOPLE 5 True]
      cfg_env_deviations [OF ids, of sample_hardforks_api "sample_spec []" LONDON 5 True]
    by (simp add: Let_def)
qed

section \<open>Contexts and the shared tracker\<close>

lemma context_for_block_aura:
  assumes "spec_aura_config (ec_chain_spec ec) = Some cfg"
    and "\<not> is_active_at_block api (ec_chain_spec ec) Paris (bi_number b)"
    and "compute_finalize_change_address ec (bi_number b) = None"
    and "ec_rolling_finality ec = Healthy rf"
  shows "ctx_aura (fst (context_for_block api hl ec b)) =
      Some (aura_ctx cfg (bi_number b) (fst (take_finalize_change (bi_number b) rf)))"
    and "snd (context_for_block api hl ec b) =
      ec\<lparr>ec_rolling_finality := Healthy (snd (take_finalize_change (bi_number b) rf))\<rparr>"
  using assms by (simp_all add: context_for_block_def Let_def take_scheduled_def split: prod.split)

text \<open>Property C24: a scheduled \<open>finalizeChange\<close> is delivered to exactly one context. The first AuRa
  block at or above the target whose boundary rule does not fire gets it and empties the tracker's
  schedule and window; asking again, for the same block or any other, gives a context without it (so
  preparing the same block a second time does not reproduce its first execution).\<close>

theorem scheduled_change_delivered_once:
  assumes "spec_aura_config (ec_chain_spec ec) = Some cfg"
    and "\<not> is_active_at_block api (ec_chain_spec ec) Paris (bi_number b)"
    and "compute_finalize_change_address ec (bi_number b) = None"
    and "ec_rolling_finality ec = Healthy rf" and "finalize_change_at rf = Some (target, a)"
    and "target \<le> bi_number b"
    and "\<not> is_active_at_block api (ec_chain_spec ec) Paris (bi_number b')"
    and "compute_finalize_change_address ec (bi_number b') = None"
  shows "ctx_aura (fst (context_for_block api hl ec b)) = Some (aura_ctx cfg (bi_number b) (Some a))
    \<and> ctx_aura (fst (context_for_block api hl (snd (context_for_block api hl ec b)) b')) =
        Some (aura_ctx cfg (bi_number b') None)"
proof -
  note first = context_for_block_aura [OF assms(1-4)]
  define ec' where "ec' = snd (context_for_block api hl ec b)"
  have ec': "ec' = ec\<lparr>ec_rolling_finality := Healthy (snd (take_finalize_change (bi_number b) rf))\<rparr>"
    by (simp add: ec'_def first)
  have same: "compute_finalize_change_address ec' = compute_finalize_change_address ec"
    by (simp add: ec' compute_finalize_change_address_def fun_eq_iff)
  have none: "fst (take_finalize_change n (snd (take_finalize_change (bi_number b) rf))) = None" for n
    using assms(5,6) by (simp add: take_finalize_change_def)
  have "ctx_aura (fst (context_for_block api hl ec' b')) = Some (aura_ctx cfg (bi_number b') None)"
    using context_for_block_aura(1) [of ec' cfg api b' "snd (take_finalize_change (bi_number b) rf)" hl]
      assms(1,7,8) by (simp add: same none) (simp add: ec' none)
  moreover have "fst (take_finalize_change (bi_number b) rf) = Some a"
    using assms(5,6) by (simp add: take_finalize_change_def)
  ultimately show ?thesis
    using first(1) unfolding ec'_def [symmetric] by simp
qed

definition sample_ec :: GnosisEvmConfig where
  "sample_ec = \<lparr>ec_fee_collector = 8, ec_block_rewards_address = 17,
     ec_chain_spec = (sample_spec [(Paris, TTD 1000 None 1)])\<lparr>spec_aura_config := Some
       \<lparr>step_duration = 5, aura_validators = \<lparr>sets = [(0, Contract 170)]\<rparr>,
        block_reward_contract_transitions = [(0, 21), (900, 22)], posdao_transition = 50,
        rewrite_bytecode = []\<rparr>\<rparr>,
     ec_extra_data = [],
     ec_rolling_finality = Healthy ((rf_new [1, 2, 3])\<lparr>finalize_change_at := Some (101, 170)\<rparr>)\<rparr>"

definition sample_block_info :: "u64 \<Rightarrow> block_info" where
  "sample_block_info n = \<lparr>bi_number = n, bi_parent_hash = 0, bi_parent_beacon_block_root = None,
     bi_withdrawals = None\<rparr>"

theorem scheduled_change_delivered_once_witness:
  "map_option finalize_change_address (ctx_aura (fst (context_for_block sample_hardforks_api noop_header_lookup
      sample_ec (sample_block_info 101)))) = Some (Some 170)
   \<and> map_option finalize_change_address (ctx_aura (fst (context_for_block sample_hardforks_api noop_header_lookup
      (snd (context_for_block sample_hardforks_api noop_header_lookup sample_ec (sample_block_info 101)))
      (sample_block_info 101)))) = Some None"
proof -
  obtain cfg where cfg: "spec_aura_config (ec_chain_spec sample_ec) = Some cfg"
    by (simp add: sample_ec_def)
  have n: "bi_number (sample_block_info 101) = 101" by (simp add: sample_block_info_def)
  have pre: "\<not> is_active_at_block sample_hardforks_api (ec_chain_spec sample_ec) Paris (bi_number (sample_block_info 101))"
    by (simp add: n is_active_at_block_def fork_activation_def sample_ec_def sample_hardforks_api_def word_le_nat_alt)
  have none: "compute_finalize_change_address sample_ec (bi_number (sample_block_info 101)) = None"
    by (simp add: n compute_finalize_change_address_def sample_ec_def
        compute_finalize_change_address_from_validators_def contract_address_at_def kind_at_def
        word_le_nat_alt)
  have rf: "ec_rolling_finality sample_ec = Healthy ((rf_new [1, 2, 3])\<lparr>finalize_change_at := Some (101, 170)\<rparr>)"
    by (simp add: sample_ec_def)
  from scheduled_change_delivered_once [OF cfg pre none rf _ _ pre none, of 101 170 noop_header_lookup]
  show ?thesis by (simp add: n aura_ctx_def)
qed

text \<open>Property C39: the reward contract of a block depends on how the block arrives. For a block of a
  chain with an AuRa section the context names the contract of the greatest transition not above the
  block, before and after the merge; for the same block arriving as an engine payload the context
  names none, and execution falls back to the configured default.\<close>

theorem payload_drops_rewards_override:
  assumes "spec_aura_config (ec_chain_spec ec) = Some cfg"
    and "bt_wf (block_reward_contract_transitions cfg)"
    and "bt_get (block_reward_contract_transitions cfg) j = Some a" and "j \<le> bi_number b"
    and "\<forall>i. j < i \<and> i \<le> bi_number b \<longrightarrow> bt_get (block_reward_contract_transitions cfg) i = None"
    and "pl_block_number p = bi_number b"
  shows "ctx_block_rewards_override (fst (context_for_block api hl ec b)) = Some a
    \<and> ctx_block_rewards_override (context_for_payload hl p) = None"
proof -
  have "bt_floor (block_reward_contract_transitions cfg) (bi_number b) = Some (j, a)"
    using assms(2-5) by (simp add: bt.floor_Some)
  with assms(1) show ?thesis
    by (simp add: context_for_block_def context_for_payload_def Let_def rewards_override_at_def
        split: prod.split)
qed

definition sample_payload :: "u64 \<Rightarrow> ExecutionData" where
  "sample_payload n = \<lparr>pl_timestamp = 5, pl_block_number = n, pl_excess_blob_gas = None,
     pl_fee_recipient = 9, pl_prev_randao = 0, pl_gas_limit = 30000000, pl_saturated_base_fee = 7,
     pl_slot_number = None, pl_parent_hash = 0, pl_parent_beacon_block_root = None,
     pl_withdrawals = None, pl_transactions = []\<rparr>"

theorem payload_drops_rewards_override_witness:
  "ctx_block_rewards_override (fst (context_for_block sample_hardforks_api noop_header_lookup sample_ec
      (sample_block_info 2000))) = Some 22
   \<and> ctx_block_rewards_override (context_for_payload noop_header_lookup (sample_payload 2000)) = None"
proof -
  obtain cfg where cfg: "spec_aura_config (ec_chain_spec sample_ec) = Some cfg"
    and tr: "block_reward_contract_transitions cfg = [(0, 21), (900, 22)]"
    by (simp add: sample_ec_def)
  have "bt_wf (block_reward_contract_transitions cfg)"
    "bt_get (block_reward_contract_transitions cfg) 900 = Some 22"
    "900 \<le> bi_number (sample_block_info 2000)"
    "\<forall>i. 900 < i \<and> i \<le> bi_number (sample_block_info 2000) \<longrightarrow>
       bt_get (block_reward_contract_transitions cfg) i = None"
    by (auto simp: tr sample_block_info_def word_le_nat_alt word_less_nat_alt)
  from payload_drops_rewards_override [OF cfg this, of "sample_payload 2000" sample_hardforks_api
      noop_header_lookup]
  show ?thesis by (simp add: sample_payload_def sample_block_info_def)
qed

end
