(* ===== verification/Recovery.thy ===== *)
theory Recovery
  imports EvmConfig
begin

text \<open>
  The reconstruction of the rolling-finality tracker at startup: \<open>src/aura/recovery.rs\<close> replays the
  receipts of the last blocks through a simulated tracker, and \<open>build_evm\<close> of \<open>src/lib.rs\<close> puts the
  result into the fresh configuration. Chain access is a parameter (a header and the receipts of a
  number, or none).
\<close>

record 'receipt chain_scanner =
  header_by_number :: "u64 \<Rightarrow> GnosisHeader option"
  receipts_by_block_number :: "u64 \<Rightarrow> 'receipt list option"

definition reconstruction_lookback :: u64 where
  "reconstruction_lookback = 32"

definition receipts_contain_initiate_change ::
  "('receipt \<Rightarrow> log list) \<Rightarrow> 'receipt list \<Rightarrow> address \<Rightarrow> bool" where
  "receipts_contain_initiate_change logs_of receipts contract \<longleftrightarrow>
     (\<exists>r \<in> set receipts. \<exists>l \<in> set (logs_of r). is_initiate_change contract l)"

text \<open>The numbers of \<open>start..=last\<close>.\<close>

definition block_range :: "u64 \<Rightarrow> u64 \<Rightarrow> u64 list" where
  "block_range first last_block =
     (if first \<le> last_block
      then map (\<lambda>i. first + of_nat i) [0..<unat last_block - unat first + 1] else [])"

text \<open>The two passes, each a loop over the range.\<close>

fun discover_signers :: "'receipt chain_scanner \<Rightarrow> u64 list \<Rightarrow> address list \<Rightarrow> address list" where
  "discover_signers sc [] discovered = discovered"
| "discover_signers sc (n # ns) discovered =
     discover_signers sc ns
       (case header_by_number sc n of
          None \<Rightarrow> discovered
        | Some h \<Rightarrow> (if h_beneficiary h \<in> set discovered then discovered
                    else discovered @ [h_beneficiary h]))"

definition replay_block ::
  "'receipt chain_scanner \<Rightarrow> ('receipt \<Rightarrow> log list) \<Rightarrow> address \<Rightarrow> u64 \<Rightarrow> u64 \<Rightarrow> RollingFinality
     \<Rightarrow> RollingFinality" where
  "replay_block sc logs_of contract posdao n sim =
     (let sim = snd (take_finalize_change n sim) in
      case header_by_number sc n of
        None \<Rightarrow> sim
      | Some header \<Rightarrow>
          (let receipts = (case receipts_by_block_number sc n of None \<Rightarrow> [] | Some rs \<Rightarrow> rs);
               sim = (if receipts_contain_initiate_change logs_of receipts contract
                      then (if posdao \<le> n then add_pending_transition n contract sim
                            else set_immediate_finalize (n + 1) contract sim)
                      else sim)
           in snd (push n (h_beneficiary header) sim)))"

fun replay ::
  "'receipt chain_scanner \<Rightarrow> ('receipt \<Rightarrow> log list) \<Rightarrow> address \<Rightarrow> u64 \<Rightarrow> u64 list \<Rightarrow> RollingFinality
     \<Rightarrow> RollingFinality" where
  "replay sc logs_of contract posdao [] sim = sim"
| "replay sc logs_of contract posdao (n # ns) sim =
     replay sc logs_of contract posdao ns (replay_block sc logs_of contract posdao n sim)"

definition reconstruct_finality_state ::
  "'receipt chain_scanner \<Rightarrow> ('receipt \<Rightarrow> log list) \<Rightarrow> u64 \<Rightarrow> address option \<Rightarrow> u64 \<Rightarrow> RollingFinality" where
  "reconstruct_finality_state sc logs_of head_block contract_opt posdao =
     (case contract_opt of
        None \<Rightarrow> from_recovered bt_empty None
      | Some contract \<Rightarrow>
          (let first = saturating_sub head_block (reconstruction_lookback - 1);
               range = block_range first head_block;
               discovered = discover_signers sc range [];
               sim = set_validators discovered (rf_new discovered);
               sim = replay sc logs_of contract posdao range sim
           in from_recovered (pending_transitions sim) (finalize_change_at sim)))"

text \<open>The executor builder: the recovered tracker replaces the fresh one when it holds anything.\<close>

datatype build_error = PanicWhileBuilding string | ProviderFailed string | MutexPoisoned

definition build_evm ::
  "hardforks_api \<Rightarrow> config_api \<Rightarrow> (string + u64) \<Rightarrow> 'receipt chain_scanner \<Rightarrow> ('receipt \<Rightarrow> log list)
     \<Rightarrow> GnosisChainSpec \<Rightarrow> bytes \<Rightarrow> build_error + GnosisEvmConfig" where
  "build_evm api c best_block_number sc logs_of spec default_extra =
     (case (evm_config_new c spec default_extra :: unit fault + GnosisEvmConfig) of
        Inl (Panic m) \<Rightarrow> Inl (PanicWhileBuilding m)
      | Inl (Err _) \<Rightarrow> Inl (PanicWhileBuilding [])
      | Inr ec \<Rightarrow>
          (case spec_aura_config spec of
             None \<Rightarrow> Inr ec
           | Some cfg \<Rightarrow>
               (case best_block_number of
                  Inl e \<Rightarrow> Inl (ProviderFailed e)
                | Inr head_block \<Rightarrow>
                    (if is_active_at_block api spec Paris head_block then Inr ec
                     else
                       (let recovered = reconstruct_finality_state sc logs_of head_block
                              (contract_address_at (aura_validators cfg) head_block) (posdao_transition cfg)
                        in if pending_transitions recovered \<noteq> bt_empty \<or> finalize_change_at recovered \<noteq> None
                           then (case lock (ec_rolling_finality ec) of
                                   Inl _ \<Rightarrow> Inl MutexPoisoned
                                 | Inr _ \<Rightarrow> Inr (ec\<lparr>ec_rolling_finality :=
                                     mutex_write (ec_rolling_finality ec) recovered\<rparr>))
                           else Inr ec)))))"

section \<open>The replay only recovers what receipts announced\<close>

definition announced_at ::
  "'receipt chain_scanner \<Rightarrow> ('receipt \<Rightarrow> log list) \<Rightarrow> address \<Rightarrow> u64 \<Rightarrow> bool" where
  "announced_at sc logs_of contract n \<longleftrightarrow>
     (\<exists>rs. receipts_by_block_number sc n = Some rs \<and> receipts_contain_initiate_change logs_of rs contract)"

text \<open>What the simulated tracker holds after some blocks.\<close>

definition sim_sound ::
  "'receipt chain_scanner \<Rightarrow> ('receipt \<Rightarrow> log list) \<Rightarrow> address \<Rightarrow> u64 \<Rightarrow> u64 set \<Rightarrow> RollingFinality \<Rightarrow> bool" where
  "sim_sound sc logs_of contract posdao ns rf \<longleftrightarrow>
     bt_wf (pending_transitions rf)
     \<and> (\<forall>p c. bt_get (pending_transitions rf) p = Some c \<longrightarrow>
          c = contract \<and> p \<in> ns \<and> posdao \<le> p \<and> announced_at sc logs_of contract p)
     \<and> (\<forall>t c. finalize_change_at rf = Some (t, c) \<longrightarrow>
          c = contract \<and> (\<exists>p \<in> ns. announced_at sc logs_of contract p))"

lemma settle_pending_sources:
  "settle_pending n fin pt fca = (pt', Some (t, c)) \<Longrightarrow> bt_wf pt \<Longrightarrow>
     fca = Some (t, c) \<or> (\<exists>p. bt_get pt p = Some c)"
proof (induction n fin pt fca rule: settle_pending.induct)
  case (2 n num a fin pt fca)
  then show ?case
    by (auto simp: bt_wf_remove bt_get_remove split: option.splits if_splits)
qed simp

lemma sim_sound_push:
  assumes "sim_sound sc l contract posdao ns rf"
  shows "sim_sound sc l contract posdao ns (snd (push n s rf))"
proof (cases "accepts s rf")
  case True
  obtain fin rf' where p: "push n s rf = (fin, rf')" by fastforce
  obtain pt fca where q: "settle_pending n fin (pending_transitions rf) (finalize_change_at rf) = (pt, fca)"
      "pending_transitions rf' = pt" "finalize_change_at rf' = fca"
    by (rule push_accepted [OF True p]) simp
  have wf: "bt_wf (pending_transitions rf)" using assms by (simp add: sim_sound_def)
  show ?thesis
    using assms settle_pending_wf [OF wf q(1)] settle_pending_get [OF wf q(1)]
      settle_pending_sources [of n fin "pending_transitions rf" "finalize_change_at rf" pt] q wf
    by (fastforce simp: sim_sound_def p split: if_splits)
qed (simp add: assms push_rejected)

lemma sim_sound_take:
  "sim_sound sc l contract posdao ns rf \<Longrightarrow> sim_sound sc l contract posdao ns (snd (take_finalize_change n rf))"
  by (cases rule: take_finalize_change_cases [of rf n]) (auto simp: sim_sound_def)

lemma sim_sound_mono:
  "sim_sound sc l contract posdao ns rf \<Longrightarrow> ns \<subseteq> ns' \<Longrightarrow> sim_sound sc l contract posdao ns' rf"
  unfolding sim_sound_def by blast

lemma replay_block_sound:
  assumes "sim_sound sc l contract posdao ns rf"
  shows "sim_sound sc l contract posdao (insert n ns) (replay_block sc l contract posdao n rf)"
proof -
  define rf1 where "rf1 = snd (take_finalize_change n rf)"
  have rf1: "sim_sound sc l contract posdao (insert n ns) rf1"
    unfolding rf1_def by (rule sim_sound_mono [OF sim_sound_take [OF assms] subset_insertI])
  have noted: "sim_sound sc l contract posdao (insert n ns)
      (if posdao \<le> n then add_pending_transition n contract rf1 else set_immediate_finalize (n + 1) contract rf1)"
    if "announced_at sc l contract n"
    using rf1 that by (auto simp: sim_sound_def add_pending_transition_def set_immediate_finalize_def
        bt_get_insert bt_wf_insert split: if_splits)
  show ?thesis
  proof (cases "header_by_number sc n")
    case None
    with rf1 show ?thesis by (simp add: replay_block_def rf1_def)
  next
    case (Some h)
    show ?thesis
    proof (cases "receipts_contain_initiate_change l
        (case receipts_by_block_number sc n of None \<Rightarrow> [] | Some rs \<Rightarrow> rs) contract")
      case True
      then have "announced_at sc l contract n"
        by (cases "receipts_by_block_number sc n")
          (auto simp: announced_at_def receipts_contain_initiate_change_def)
      from sim_sound_push [OF noted [OF this], of n "h_beneficiary h"] Some True show ?thesis
        by (simp add: replay_block_def rf1_def [symmetric] Let_def)
    next
      case False
      with Some rf1 sim_sound_push show ?thesis
        by (simp add: replay_block_def rf1_def [symmetric] Let_def)
    qed
  qed
qed

lemma replay_sound:
  "sim_sound sc l contract posdao ns rf \<Longrightarrow>
     sim_sound sc l contract posdao (ns \<union> set bs) (replay sc l contract posdao bs rf)"
proof (induction bs arbitrary: ns rf)
  case (Cons n bs)
  from Cons.IH [OF replay_block_sound [OF Cons.prems, of n]] show ?case by simp
qed simp

lemma reconstruct_sound:
  assumes "reconstruct_finality_state sc l head_block (Some contract) posdao = rf"
  shows "sim_sound sc l contract posdao
      (set (block_range (saturating_sub head_block 31) head_block)) rf
    \<and> headers rf = [] \<and> validators rf = [] \<and> \<not> validators_sealed rf"
proof -
  define range where "range = block_range (saturating_sub head_block 31) head_block"
  define d where "d = discover_signers sc range []"
  have "sim_sound sc l contract posdao {} (set_validators d (rf_new d))"
    by (simp add: sim_sound_def set_validators_def rf_new_def bt.wf_empty bt.get_empty)
  from replay_sound [OF this, of range] assms show ?thesis
    by (auto simp: reconstruct_finality_state_def Let_def reconstruction_lookback_def
        range_def [symmetric] d_def [symmetric] sim_sound_def from_recovered_def)
qed

lemma block_range_le: "n \<in> set (block_range first last_block) \<Longrightarrow> first \<le> n \<and> n \<le> last_block"
proof -
  assume "n \<in> set (block_range first last_block)"
  then obtain i where i: "first \<le> last_block" "n = first + of_nat i" "i \<le> unat last_block - unat first"
    by (auto simp: block_range_def split: if_splits)
  have le: "unat first + i \<le> unat last_block" using i by (simp add: word_le_nat_alt)
  then have "unat first + i < 2 ^ 64"
    using unsigned_less [of last_block, where ?'a = nat] by simp
  then have "unat n = unat first + i" by (simp add: i(2) unat_word_ariths unat_of_nat)
  with le show ?thesis by (simp add: word_le_nat_alt)
qed

text \<open>Property C29: recovery invents nothing. Every pending change of the recovered tracker was announced
  by the validator contract in the receipts of a POSDAO block among the last 32, and a scheduled
  \<open>finalizeChange\<close> is for that contract and goes back to an announcement in one of these blocks; the tracker has no
  validators, so the next block asks the contract for them.\<close>

theorem recovery_is_sound:
  "(let rf = reconstruct_finality_state sc logs_of head_block (Some contract) posdao in
     (\<forall>p c. bt_get (pending_transitions rf) p = Some c \<longrightarrow>
        c = contract \<and> posdao \<le> p \<and> p \<le> head_block \<and> saturating_sub head_block 31 \<le> p
        \<and> announced_at sc logs_of contract p)
     \<and> (\<forall>t c. finalize_change_at rf = Some (t, c) \<longrightarrow>
        c = contract \<and> (\<exists>p \<le> head_block. saturating_sub head_block 31 \<le> p \<and> announced_at sc logs_of contract p))
     \<and> validator_count rf = 0)"
  using reconstruct_sound [of sc logs_of head_block contract posdao, OF refl] block_range_le
  unfolding Let_def sim_sound_def validator_count_def by (metis list.size(3))

text \<open>A chain of two blocks whose second announces a change.\<close>

definition sample_scanner :: "log list chain_scanner" where
  "sample_scanner = \<lparr>header_by_number = (\<lambda>n. Some (blank_header\<lparr>h_number := n, h_beneficiary := ucast n + 1\<rparr>)),
     receipts_by_block_number = (\<lambda>n. if n = 1
       then Some [[\<lparr>log_address = 17, log_topics = [INITIATE_CHANGE_TOPIC], log_data = []\<rparr>]] else Some [])\<rparr>"

lemma sample_reconstruct:
  "reconstruct_finality_state sample_scanner (\<lambda>r. r) 1 (Some 17) 0 = from_recovered [(1, 17)] None"
  by (simp add: reconstruct_finality_state_def saturating_sub_def reconstruction_lookback_def block_range_def
      Let_def sample_scanner_def replay_block_def receipts_contain_initiate_change_def is_initiate_change_def
      set_validators_def rf_new_def take_finalize_change_def add_pending_transition_def push_def
      is_finalized_def inc_signer_def dec_signer_def bt_empty_def word_less_nat_alt)

theorem recovery_is_sound_witness:
  "bt_get (pending_transitions (reconstruct_finality_state sample_scanner (\<lambda>r. r) 1 (Some 17) 0)) 1 = Some 17
   \<and> announced_at sample_scanner (\<lambda>r. r) 17 1"
  using recovery_is_sound [of sample_scanner "\<lambda>r. r" 1 17 0]
  by (simp add: sample_reconstruct from_recovered_def)

section \<open>What recovery loses\<close>

text \<open>Property C30: a recovered pending change can never be finalized. The recovered tracker has an empty
  window, a pending change is only settled when its own block leaves the window, and that block is not
  pushed again: whatever the later blocks do, the change stays pending. (A tracker that had not been
  restarted would have finalized it.)\<close>

theorem recovered_change_never_finalizes:
  assumes "bt_get (pending_transitions (reconstruct_finality_state sc logs_of head_block (Some contract) posdao)) p
      = Some c"
    and "\<forall>e \<in> set es. \<not> touches_block p e"
  shows "bt_get (pending_transitions (rf_run es
      (reconstruct_finality_state sc logs_of head_block (Some contract) posdao))) p = Some c"
proof -
  let ?rf = "reconstruct_finality_state sc logs_of head_block (Some contract) posdao"
  note sound = reconstruct_sound [of sc logs_of head_block contract posdao, OF refl]
  then have "bt_wf (pending_transitions ?rf)" "not_in_window p ?rf"
    by (simp_all add: sim_sound_def not_in_window_def)
  from pending_outside_window_run [OF this assms(2)] assms(1) show ?thesis by simp
qed

theorem recovered_change_never_finalizes_witness:
  "bt_get (pending_transitions (rf_run [SetValidators [1, 2], Push 2 1, Push 3 2, Push 4 1]
     (reconstruct_finality_state sample_scanner (\<lambda>r. r) 1 (Some 17) 0))) 1 = Some 17"
  by (rule recovered_change_never_finalizes) (simp_all add: sample_reconstruct from_recovered_def)

text \<open>Changes announced by the reward call are lost on restart. The executor looks for
  announcements in the receipts and in the reward call's logs, recovery in the receipts only: when no
  receipt of the scanned blocks announces a change, the builder starts with an empty tracker.\<close>

theorem recovery_needs_receipts:
  assumes "\<forall>n. saturating_sub head_block 31 \<le> n \<and> n \<le> head_block \<longrightarrow> \<not> announced_at sc logs_of contract n"
  shows "reconstruct_finality_state sc logs_of head_block (Some contract) posdao = from_recovered bt_empty None"
proof -
  let ?rf = "reconstruct_finality_state sc logs_of head_block (Some contract) posdao"
  have sound: "sim_sound sc logs_of contract posdao
      (set (block_range (saturating_sub head_block 31) head_block)) ?rf"
    using reconstruct_sound [OF refl] by blast
  have none: "\<not> announced_at sc logs_of contract n"
    if "n \<in> set (block_range (saturating_sub head_block 31) head_block)" for n
    using assms block_range_le [OF that] by blast
  have "finalize_change_at ?rf = None"
    using sound none unfolding sim_sound_def by (metis not_None_eq surj_pair)
  moreover have "bt_get (pending_transitions ?rf) p = None" for p
    using sound none unfolding sim_sound_def by (metis not_None_eq)
  then have "pending_transitions ?rf = []"
    by (cases "pending_transitions ?rf") (auto split: if_splits, metis (full_types) option.distinct(1))
  ultimately show ?thesis
    by (auto simp: reconstruct_finality_state_def Let_def from_recovered_def bt_empty_def)
qed

theorem recovery_needs_receipts_witness:
  "reconstruct_finality_state \<lparr>header_by_number = (\<lambda>n. Some blank_header),
     receipts_by_block_number = (\<lambda>n. Some [])\<rparr> (\<lambda>r. r :: log list) 5000 (Some 17) 0 = from_recovered bt_empty None"
  by (rule recovery_needs_receipts) (simp add: announced_at_def receipts_contain_initiate_change_def)

end
