(* ===== verification/Handover.thy ===== *)
theory Handover
  imports EvmConfig
begin

text \<open>
  From one block to the next: the executor of a block (\<open>src/block.rs\<close>), the tracker it shares with the EVM
  configuration (\<open>src/aura/finality.rs\<close>), the context the configuration makes for the next block
  (\<open>src/evm_config.rs\<close>) and the executor of that block. The executor and the configuration hold the same
  mutex; here the cell one leaves is the cell the other finds.
\<close>

lemma announced_in_receipts:
  "r \<in> set receipts \<Longrightarrow> l \<in> set (receipt_logs ba r) \<Longrightarrow> is_initiate_change c l \<Longrightarrow>
     announces_change ba receipts logs (Some c)"
  by (auto simp: announces_change_def)

lemma announced_change_is_scheduled:
  assumes "gas_ok (xe_evm xe)" and "block_calls_ok (xe_block xe)" and "finish xe ex = (Inr res, ex')"
    and "ctx_aura (ex_ctx ex) = Some aura" and "be_number (evm_block (ex_evm ex)) = ucast n"
    and "ex_rf ex = Healthy rf" and "n < actx_posdao_transition aura" and "validator_contract aura = Some c"
    and "r \<in> set (ex_receipts ex)" and "l \<in> set (receipt_logs (xe_block xe) r)" and "is_initiate_change c l"
  shows "ex_rf ex' = Healthy (set_immediate_finalize (n + 1) c rf)"
  using finish_tracker [OF assms(1-6)] announced_in_receipts [OF assms(9-11)] assms(7,8)
  by (auto simp: tracker_after_def Let_def not_le)

lemma scheduled_change_is_taken:
  "fst (take_finalize_change n (set_immediate_finalize n c rf)) = Some c"
  by (simp add: take_finalize_change_def set_immediate_finalize_def)

text \<open>The steps of a pre-execution that carries out a change, each on the executor the one before left.\<close>

lemma pre_execution_with_change:
  assumes "apply_pre_execution_changes xe ex = (Inr (), ex')"
    and "ctx_aura (ex_ctx ex) = Some aura" and "finalize_change_address aura = Some c"
    and "be_number (evm_block (ex_evm ex)) = ucast (n :: u64)"
  shows "\<exists>ex0 rs evm1 ex3 t ex4. init_validators xe aura n ex = (Inr (), ex0)
    \<and> transact_system_call (xe_evm xe) SYSTEM_ADDRESS c FINALIZE_CHANGE (ex_evm (aura_rewrites xe aura ex0)) = (Inr rs, evm1)
    \<and> (let ex2 = (aura_rewrites xe aura ex0)\<lparr>ex_evm := evm1\<lparr>evm_db := db_commit (xe_db xe) (rs_state rs) (evm_db evm1)\<rparr>\<rparr>
       in if actx_posdao_transition aura \<le> n then refresh_validators xe c n ex2 = (Inr (), ex3) else ex3 = ex2)
    \<and> be_timestamp (evm_block (ex_evm ex3)) = ucast t
    \<and> on_exec_state (blockhashes_call (xe_block xe) (ctx_parent_hash (ex_ctx ex))) (balancer_activation xe t ex3) = (Inr (), ex4)
    \<and> on_exec_state (beacon_root_call (xe_block xe) (ctx_parent_beacon_block_root (ex_ctx ex))) ex4 = (Inr (), ex')"
proof -
  have "try_u64 (ucast n) = Some n"
    by (simp add: try_u64_Some_iff unsigned_ucast_eq take_bit_nat_eq_self_iff less_le_trans [OF unsigned_less])
  with assms(1,4) obtain ex3 t ex4 where pre: "aura_pre_execution xe n ex = (Inr (), ex3)"
    and t: "to_u64 (be_timestamp (evm_block (ex_evm ex3))) = (Inr t :: BlockExecutionError fault + _)"
    and hashes: "on_exec_state (blockhashes_call (xe_block xe) (ctx_parent_hash (ex_ctx (balancer_activation xe t ex3))))
        (balancer_activation xe t ex3) = (Inr (), ex4)"
    and root: "on_exec_state (beacon_root_call (xe_block xe) (ctx_parent_beacon_block_root (ex_ctx ex4))) ex4 = (Inr (), ex')"
    by (auto simp: apply_pre_execution_changes_def then_do_Inr_iff Let_def to_u64_def)
  from pre assms(2) obtain ex0 where init: "init_validators xe aura n ex = (Inr (), ex0)"
      and call: "call_finalize_change xe aura n (aura_rewrites xe aura ex0) = (Inr (), ex3)"
    by (auto simp: aura_pre_execution_def then_do_Inr_iff)
  from call assms(3) obtain rs evm1 where run:
      "transact_system_call (xe_evm xe) SYSTEM_ADDRESS c FINALIZE_CHANGE (ex_evm (aura_rewrites xe aura ex0)) = (Inr rs, evm1)"
    and refresh: "let ex2 = (aura_rewrites xe aura ex0)\<lparr>ex_evm := evm1\<lparr>evm_db := db_commit (xe_db xe) (rs_state rs) (evm_db evm1)\<rparr>\<rparr>
       in if actx_posdao_transition aura \<le> n then refresh_validators xe c n ex2 = (Inr (), ex3) else ex3 = ex2"
    by (auto simp: call_finalize_change_def system_call_and_commit_def commit_def Let_def
        split: prod.splits sum.splits if_splits)
  have "ex_core (aura_rewrites xe aura ex0) = ex_core ex"
    using init_validators_keeps [OF init] by simp
  then have "ex_core ex3 = ex_core ex"
    using refresh refresh_validators_Inr by (fastforce simp: Let_def ex_core_def split: if_splits)
  moreover have "ex_core (balancer_activation xe t ex3) = ex_core ex3"
    by (simp add: balancer_activation_def ex_core_def split: option.split)
  ultimately have "ex_ctx (balancer_activation xe t ex3) = ex_ctx ex" "ex_ctx ex4 = ex_ctx ex"
    using on_exec_state_keeps [OF hashes] by (simp_all add: ex_core_def)
  moreover have "take_bit 256 (unat t) = unat t"
    by (rule take_bit_nat_eq_self, rule less_le_trans [OF unsigned_less]) simp
  then have "be_timestamp (evm_block (ex_evm ex3)) = ucast t"
    using t by (auto simp: to_u64_def try_u64_Some_iff word_unat_eq_iff unsigned_ucast_eq split: option.splits)
  ultimately show ?thesis using init run refresh hashes root
    by (intro exI [of _ ex0] exI [of _ rs] exI [of _ evm1] exI [of _ ex3] exI [of _ t] exI [of _ ex4] conjI) simp_all
qed

text \<open>Property C18: an announced change is finalized in the next block. Before POSDAO, when a block finishes whose
  receipts hold an \<open>InitiateChange\<close> event of the validator contract, the context made for the following
  block (before the merge, and when the list-to-contract boundary rule does not fire there) names that
  contract, whatever change was scheduled before. And if the pre-execution of that block with this
  context succeeds, \<open>finalizeChange\<close> was called on the contract by the system, on the state with the
  bytecode rewrites, and its changes were committed: the executor the pre-execution leaves is what the
  remaining steps (the refresh of the list when POSDAO starts with this block, the Balancer rewrite, the block
  hash and beacon root calls) make of exactly that state.\<close>

theorem announced_change_is_finalized_next:
  assumes "gas_ok (xe_evm xe)" and "block_calls_ok (xe_block xe)" and "finish xe ex = (Inr res, ex')"
    and "ctx_aura (ex_ctx ex) = Some aura" and "be_number (evm_block (ex_evm ex)) = ucast n"
    and "ex_rf ex = Healthy rf" and "n < actx_posdao_transition aura" and "validator_contract aura = Some c"
    and "r \<in> set (ex_receipts ex)" and "l \<in> set (receipt_logs (xe_block xe) r)" and "is_initiate_change c l"
    and "ec_rolling_finality ec = ex_rf ex'" and "spec_aura_config (ec_chain_spec ec) = Some cfg"
    and "bi_number b = n + 1" and "\<not> is_active_at_block api (ec_chain_spec ec) Paris (n + 1)"
    and "compute_finalize_change_address ec (n + 1) = None"
    and "ex_ctx next = fst (context_for_block api hl ec b)" and "be_number (evm_block (ex_evm next)) = ucast (n + 1)"
    and "apply_pre_execution_changes xe' next = (Inr (), next')"
  defines "aura' \<equiv> aura_ctx cfg (n + 1) (Some c)"
  shows "ctx_aura (ex_ctx next) = Some aura'
    \<and> (\<exists>ex0 rs evm1 ex3 t ex4. init_validators xe' aura' (n + 1) next = (Inr (), ex0)
         \<and> transact_system_call (xe_evm xe') SYSTEM_ADDRESS c FINALIZE_CHANGE (ex_evm (aura_rewrites xe' aura' ex0)) = (Inr rs, evm1)
         \<and> (let ex2 = (aura_rewrites xe' aura' ex0)\<lparr>ex_evm := evm1\<lparr>evm_db := db_commit (xe_db xe') (rs_state rs) (evm_db evm1)\<rparr>\<rparr>
            in if posdao_transition cfg \<le> n + 1 then refresh_validators xe' c (n + 1) ex2 = (Inr (), ex3) else ex3 = ex2)
         \<and> be_timestamp (evm_block (ex_evm ex3)) = ucast t
         \<and> on_exec_state (blockhashes_call (xe_block xe') (ctx_parent_hash (ex_ctx next))) (balancer_activation xe' t ex3) = (Inr (), ex4)
         \<and> on_exec_state (beacon_root_call (xe_block xe') (ctx_parent_beacon_block_root (ex_ctx next))) ex4 = (Inr (), next'))"
proof -
  have cell: "ec_rolling_finality ec = Healthy (set_immediate_finalize (n + 1) c rf)"
    using announced_change_is_scheduled [OF assms(1-11)] assms(12) by simp
  have ctx: "ctx_aura (ex_ctx next) = Some aura'"
    using context_for_block_aura(1) [of ec cfg api b "set_immediate_finalize (n + 1) c rf" hl] cell assms(13-17)
    by (simp add: scheduled_change_is_taken aura'_def)
  have fields: "finalize_change_address aura' = Some c" "actx_posdao_transition aura' = posdao_transition cfg"
    by (simp_all add: aura'_def aura_ctx_def)
  from ctx pre_execution_with_change [OF assms(19) ctx fields(1) assms(18)] show ?thesis
    unfolding fields(2) by blast
qed

section \<open>After POSDAO\<close>

lemma push_schedules_common:
  assumes "push n s rf = (fin, rf')" and "bt_wf (pending_transitions rf)"
    and "\<forall>k v. bt_get (pending_transitions rf) k = Some v \<longrightarrow> v = c"
    and "m \<in> fst ` set fin" and "bt_get (pending_transitions rf) m = Some c"
  shows "finalize_change_at rf' = Some (n + 1, c)"
proof -
  have acc: "accepts s rf" using assms(1,4) push_rejected [of s rf n] by (cases fin) auto
  obtain pt where "settle_pending n fin (pending_transitions rf) (finalize_change_at rf) = (pt, finalize_change_at rf')"
    by (rule push_accepted [OF acc assms(1)]) simp
  with settle_pending_same [OF assms(2,3), of n fin "finalize_change_at rf"] assms(4,5) show ?thesis by force
qed

lemma push_pops_window:
  "fst (push n s (add_pending_transition k c rf)) = fst (push n s rf)"
  by (simp add: push_def add_pending_transition_def Let_def split: prod.split)

lemma finalized_change_is_scheduled:
  assumes "gas_ok (xe_evm xe)" and "block_calls_ok (xe_block xe)" and "finish xe ex = (Inr res, ex')"
    and "ctx_aura (ex_ctx ex) = Some aura" and "be_number (evm_block (ex_evm ex)) = ucast n"
    and "ex_rf ex = Healthy rf" and "actx_posdao_transition aura \<le> n" and "validator_contract aura = Some c"
    and "bt_wf (pending_transitions rf)" and "\<forall>k v. bt_get (pending_transitions rf) k = Some v \<longrightarrow> v = c"
    and "bt_get (pending_transitions rf) m = Some c"
    and "m \<in> fst ` set (fst (push n (be_beneficiary (evm_block (ex_evm ex))) rf))"
  obtains rf' where "ex_rf ex' = Healthy rf'" "finalize_change_at rf' = Some (n + 1, c)"
proof -
  let ?s = "be_beneficiary (evm_block (ex_evm ex))"
  from finish_tracker [OF assms(1-6)] obtain announced where
    "ex_rf ex' = Healthy (tracker_after aura n ?s announced rf)" by blast
  with assms(7,8) have
    tracker: "ex_rf ex' = Healthy (snd (push n ?s (if announced then add_pending_transition n c rf else rf)))"
    by (simp add: tracker_after_def)
  have "finalize_change_at (snd (push n ?s rf0)) = Some (n + 1, c)"
    if rf0: "rf0 = rf \<or> rf0 = add_pending_transition n c rf" for rf0
  proof (rule push_schedules_common [OF prod.collapse [symmetric]])
    show "bt_wf (pending_transitions rf0)"
      using rf0 assms(9) by (auto simp: add_pending_transition_def bt_wf_insert)
    have entry: "bt_get (pending_transitions rf0) k = (if rf0 \<noteq> rf \<and> k = n then Some c else bt_get (pending_transitions rf) k)" for k
      using rf0 by (cases "rf0 = rf") (simp_all add: add_pending_transition_def bt_get_insert)
    then show "bt_get (pending_transitions rf0) m = Some c" using assms(11) by simp
    from entry assms(10) show "\<forall>k v. bt_get (pending_transitions rf0) k = Some v \<longrightarrow> v = c"
      by (metis option.inject)
    show "m \<in> fst ` set (fst (push n ?s rf0))" using rf0 assms(12) by (auto simp: push_pops_window)
  qed
  with tracker that show thesis by (cases announced) simp_all
qed

text \<open>Property C19: the cycle of a validator change under POSDAO. When a block finishes whose push into the
  tracker finalizes a block with a pending change (all pending changes being of the one validator
  contract), the context made for the next block names that contract; and if the pre-execution of the
  next block with this context succeeds, \<open>finalizeChange\<close> was called on the contract and committed,
  \<open>getValidators()\<close> was called on the resulting state, and the tracker now holds exactly the list that
  call returned, with an empty window.\<close>

theorem posdao_change_replaces_validators:
  assumes "gas_ok (xe_evm xe)" and "block_calls_ok (xe_block xe)" and "finish xe ex = (Inr res, ex')"
    and "ctx_aura (ex_ctx ex) = Some aura" and "be_number (evm_block (ex_evm ex)) = ucast n"
    and "ex_rf ex = Healthy rf" and "actx_posdao_transition aura \<le> n" and "validator_contract aura = Some c"
    and "bt_wf (pending_transitions rf)" and "\<forall>k v. bt_get (pending_transitions rf) k = Some v \<longrightarrow> v = c"
    and "bt_get (pending_transitions rf) m = Some c"
    and "m \<in> fst ` set (fst (push n (be_beneficiary (evm_block (ex_evm ex))) rf))"
    and "ec_rolling_finality ec = ex_rf ex'" and "spec_aura_config (ec_chain_spec ec) = Some cfg"
    and "posdao_transition cfg \<le> n + 1" and "bi_number b = n + 1"
    and "\<not> is_active_at_block api (ec_chain_spec ec) Paris (n + 1)"
    and "compute_finalize_change_address ec (n + 1) = None"
    and "ex_ctx next = fst (context_for_block api hl ec b)" and "be_number (evm_block (ex_evm next)) = ucast (n + 1)"
    and "apply_pre_execution_changes xe' next = (Inr (), next')"
  shows "ctx_aura (ex_ctx next) = Some (aura_ctx cfg (n + 1) (Some c))
    \<and> (\<exists>ex1 result ex2 g out logs ex3 rf'. ex_core ex1 = ex_core next
         \<and> system_call_and_commit xe' c FINALIZE_CHANGE ex1 = (Inr result, ex2)
         \<and> system_call_and_commit xe' c GET_VALIDATORS ex2 = (Inr (Success g out logs), ex3)
         \<and> ex_rf next' = Healthy rf' \<and> decode_address_array (into_data out) = Inr (validators rf')
         \<and> headers rf' = [] \<and> sign_count rf' = bt_empty)"
proof -
  obtain rf' where cell: "ec_rolling_finality ec = Healthy rf'" "finalize_change_at rf' = Some (n + 1, c)"
    using finalized_change_is_scheduled [OF assms(1-12)] assms(13) by metis
  have ctx: "ctx_aura (ex_ctx next) = Some (aura_ctx cfg (n + 1) (Some c))"
    using context_for_block_aura(1) [of ec cfg api b rf' hl] cell assms(14-19)
    by (simp add: take_finalize_change_def)
  have "finalize_change_address (aura_ctx cfg (n + 1) (Some c)) = Some c"
    "actx_posdao_transition (aura_ctx cfg (n + 1) (Some c)) \<le> n + 1"
    using assms(15) by (simp_all add: aura_ctx_def)
  from pre_execution_refreshes [OF assms(21) ctx this(1) assms(20) this(2)] ctx show ?thesis by blast
qed

section \<open>Samples\<close>

text \<open>Block 2 of the sample chain, with a context of its own.\<close>

definition sample_next_executor ::
  "GnosisBlockExecutionCtx \<Rightarrow> (address \<rightharpoonup> account_info, unit, unit, log list) executor" where
  "sample_next_executor ctx = (sample_executor (sample_aura_ctx None 0) [])\<lparr>ex_ctx := ctx,
     ex_evm := calls_evm\<lparr>evm_block := (evm_block calls_evm)\<lparr>be_number := 2\<rparr>\<rparr>\<rparr>"

lemma sample_next_runs:
  assumes "ctx_aura ctx = Some \<lparr>finalize_change_address = Some 17, validator_contract = v,
     actx_posdao_transition = 50, aura_bytecode_rewrites = None\<rparr>"
  shows "\<exists>next'. apply_pre_execution_changes (sample_exec_env (CallOutput [])) (sample_next_executor ctx) = (Inr (), next')"
  using assms
  by (simp add: try_u64_def apply_pre_execution_changes_def aura_pre_execution_def init_validators_def Let_def to_u64_def
      sample_next_executor_def sample_executor_def sample_block_fields validator_count_def rf_new_def
      aura_rewrites_def call_finalize_change_def system_call_and_commit_def
      sample_exec_env_def transact_system_call_def transact_raw_def swap_checks_def
      calls_evm_api_def system_tx_def TX_GAS_LIMIT_def on_exec_state_def
      sample_block_api_def balancer_activation_def commit_def
      is_balancer_hardfork_active_at_timestamp_def sample_hardforks_api_def)

theorem announced_change_is_finalized_next_witness:
  "\<exists>res ex' ec next next'.
     finish (sample_exec_env (CallOutput [3, 4])) (sample_executor (sample_aura_ctx None 10)
       [[\<lparr>log_address = 17, log_topics = [INITIATE_CHANGE_TOPIC], log_data = []\<rparr>]]) = (Inr res, ex')
   \<and> ec_rolling_finality ec = ex_rf ex'
   \<and> ex_ctx next = fst (context_for_block sample_hardforks_api noop_header_lookup ec (sample_block_info 2))
   \<and> apply_pre_execution_changes (sample_exec_env (CallOutput [])) next = (Inr (), next')
   \<and> (\<exists>rs evm0 evm1. transact_system_call (xe_evm (sample_exec_env (CallOutput []))) SYSTEM_ADDRESS 17 FINALIZE_CHANGE evm0 = (Inr rs, evm1)
       \<and> evm_db (ex_evm next') = db_commit sample_db_api (rs_state rs) (evm_db evm1))"
proof -
  let ?log = "\<lparr>log_address = 17, log_topics = [INITIATE_CHANGE_TOPIC], log_data = []\<rparr>"
  let ?ex = "sample_executor (sample_aura_ctx None 10) [[?log]]"
  obtain res ex' where run: "finish (sample_exec_env (CallOutput [3, 4])) ?ex = (Inr res, ex')"
    using sample_finish_runs by blast
  let ?ec = "sample_ec\<lparr>ec_rolling_finality := ex_rf ex'\<rparr>"
  obtain cfg where cfg: "spec_aura_config (ec_chain_spec ?ec) = Some cfg"
    and fields: "posdao_transition cfg = 50" "rewrite_bytecode cfg = []" by (simp add: sample_ec_def)
  have block: "ctx_aura (ex_ctx ?ex) = Some (sample_aura_ctx None 10)" "be_number (evm_block (ex_evm ?ex)) = ucast (1 :: u64)"
    "ex_rf ?ex = Healthy (rf_new [1, 2, 3])" "1 < actx_posdao_transition (sample_aura_ctx None 10)"
    "validator_contract (sample_aura_ctx None 10) = Some 17" "[?log] \<in> set (ex_receipts ?ex)"
    "?log \<in> set (receipt_logs (xe_block (sample_exec_env (CallOutput [3, 4]))) [?log])" "is_initiate_change 17 ?log"
    by (simp_all add: sample_executor_def sample_block_fields sample_aura_ctx_def sample_exec_env_def
        sample_block_api_def is_initiate_change_def word_less_nat_alt)
  have pre: "\<not> is_active_at_block sample_hardforks_api (ec_chain_spec ?ec) Paris (1 + 1)"
    by (simp add: is_active_at_block_def fork_activation_def sample_ec_def sample_hardforks_api_def word_le_nat_alt)
  have none: "compute_finalize_change_address ?ec (1 + 1) = None"
    by (simp add: compute_finalize_change_address_def sample_ec_def
        compute_finalize_change_address_from_validators_def contract_address_at_def kind_at_def word_le_nat_alt)
  have info: "bi_number (sample_block_info 2) = 1 + 1" by (simp add: sample_block_info_def)
  let ?next = "sample_next_executor (fst (context_for_block sample_hardforks_api noop_header_lookup ?ec (sample_block_info 2)))"
  have nxt: "ex_ctx ?next = fst (context_for_block sample_hardforks_api noop_header_lookup ?ec (sample_block_info 2))"
    "be_number (evm_block (ex_evm ?next)) = ucast (1 + 1 :: u64)"
    by (simp_all add: sample_next_executor_def)
  have cell: "ex_rf ex' = Healthy (set_immediate_finalize (1 + 1) 17 (rf_new [1, 2, 3]))"
    by (rule announced_change_is_scheduled [OF sample_env_ok run block])
  have "ctx_aura (ex_ctx ?next) = Some (aura_ctx cfg (1 + 1) (Some 17))"
    using context_for_block_aura(1) [of ?ec cfg sample_hardforks_api "sample_block_info 2"] cfg pre none cell
    unfolding nxt(1) info by (simp add: scheduled_change_is_taken)
  then obtain next' where pre_run: "apply_pre_execution_changes (sample_exec_env (CallOutput [])) ?next = (Inr (), next')"
    using sample_next_runs by (auto simp: aura_ctx_def fields nxt(1))
  have same: "ec_rolling_finality ?ec = ex_rf ex'" by simp
  have posdao: "\<not> posdao_transition cfg \<le> 1 + 1" by (simp add: fields word_le_nat_alt)
  have hooks: "blockhashes_call (xe_block (sample_exec_env (CallOutput []))) = (\<lambda>_ st. (Inr (), st))"
    "beacon_root_call (xe_block (sample_exec_env (CallOutput []))) = (\<lambda>_ st. (Inr (), st))"
    "xe_db (sample_exec_env (CallOutput [])) = sample_db_api"
    by (simp_all add: sample_exec_env_def sample_block_api_def)
  let ?aura = "aura_ctx cfg 2 (Some 17)" and ?xe = "sample_exec_env (CallOutput [])"
  have start: "init_validators ?xe ?aura 2 ?next = (Inr (), ?next)" "aura_rewrites ?xe ?aura ?next = ?next"
    using posdao by (simp_all add: init_validators_def aura_rewrites_def aura_ctx_def fields)
  have balancer: "balancer_activation ?xe t (?next\<lparr>ex_evm := evm\<rparr>) = ?next\<lparr>ex_evm := evm\<rparr>" for t evm
    by (simp add: balancer_activation_def sample_next_executor_def sample_executor_def sample_spec_def)
  from announced_change_is_finalized_next [OF sample_env_ok run block same cfg info pre none nxt pre_run]
  have "\<exists>rs evm0 evm1. transact_system_call (xe_evm (sample_exec_env (CallOutput []))) SYSTEM_ADDRESS 17 FINALIZE_CHANGE evm0 = (Inr rs, evm1)
      \<and> evm_db (ex_evm next') = db_commit sample_db_api (rs_state rs) (evm_db evm1)"
    unfolding hooks Let_def if_not_P [OF posdao] by (elim conjE exE) (auto simp: start balancer on_exec_state_def, blast)
  with run same nxt(1) pre_run show ?thesis by blast
qed

text \<open>Under POSDAO: block 1 is sealed by 9, the second of two validators, and finalizes block 0.\<close>

definition posdao_tracker :: RollingFinality where
  "posdao_tracker = snd (push 0 8 (add_pending_transition 0 17 (set_validators [8, 9] (rf_new []))))"

definition posdao_executor :: "(address \<rightharpoonup> account_info, unit, unit, log list) executor" where
  "posdao_executor = (sample_executor (sample_aura_ctx None 0) [])\<lparr>ex_rf := Healthy posdao_tracker\<rparr>"

definition posdao_cfg :: AuraConfig where
  "posdao_cfg = \<lparr>step_duration = 5, aura_validators = \<lparr>sets = [(0, Contract 17)]\<rparr>,
     block_reward_contract_transitions = [], posdao_transition = 0, rewrite_bytecode = []\<rparr>"

definition posdao_ec :: "RollingFinality mutex \<Rightarrow> GnosisEvmConfig" where
  "posdao_ec cell = sample_ec\<lparr>ec_chain_spec := (sample_spec [(Paris, TTD 1000 None 1)])\<lparr>spec_aura_config := Some posdao_cfg\<rparr>,
     ec_rolling_finality := cell\<rparr>"

lemma posdao_tracker_simps:
  "pending_transitions posdao_tracker = [(0, 17)]" "fst ` set (fst (push 1 9 posdao_tracker)) = {0}"
  by (code_simp, simp only: image_set list.map) code_simp

lemma posdao_finish_runs: "\<exists>res ex'. finish (sample_exec_env (CallOutput [3, 4])) posdao_executor = (Inr res, ex')"
  by (simp add: posdao_executor_def try_u64_def finish_def Let_def exec_deposit_contract_address_def collect_requests_def to_u64_def
      sample_executor_def sample_block_fields is_active_at_timestamp_def fork_activation_def
      sample_exec_env_def sample_hardforks_api_def on_exec_state_def apply_post_block_system_calls_def
      apply_block_rewards_contract_call_def transact_system_call_def transact_raw_def swap_checks_def
      calls_evm_api_def system_tx_def TX_GAS_LIMIT_def clean_system_state_at SYSTEM_ADDRESS_def
      sample_account_def sample_info_def sample_abi_def sample_db_api_def commit_def
      aura_post_execution_def sample_aura_ctx_def apply_increments_def invoke_hook_def)

lemma posdao_next_runs:
  assumes "ctx_aura ctx = Some (aura_ctx posdao_cfg 2 (Some 17))"
  shows "\<exists>next'. apply_pre_execution_changes (sample_exec_env (CallOutput (encode_address_array [5, 6, 7])))
    (sample_next_executor ctx) = (Inr (), next')"
  using assms
  by (simp add: try_u64_def apply_pre_execution_changes_def aura_pre_execution_def init_validators_def Let_def to_u64_def
      sample_next_executor_def sample_executor_def sample_block_fields validator_count_def rf_new_def
      aura_ctx_def posdao_cfg_def contract_address_at_def kind_at_def
      aura_rewrites_def call_finalize_change_def refresh_validators_def system_call_and_commit_def decode_encode
      sample_exec_env_def transact_system_call_def transact_raw_def swap_checks_def
      calls_evm_api_def system_tx_def TX_GAS_LIMIT_def on_exec_state_def
      sample_block_api_def balancer_activation_def commit_def
      is_balancer_hardfork_active_at_timestamp_def sample_hardforks_api_def)

theorem posdao_change_replaces_validators_witness:
  "\<exists>res ex' next next' out rf'.
     finish (sample_exec_env (CallOutput [3, 4])) posdao_executor = (Inr res, ex')
   \<and> ex_ctx next = fst (context_for_block sample_hardforks_api noop_header_lookup (posdao_ec (ex_rf ex')) (sample_block_info 2))
   \<and> apply_pre_execution_changes (sample_exec_env (CallOutput (encode_address_array [5, 6, 7]))) next = (Inr (), next')
   \<and> ex_rf next' = Healthy rf' \<and> decode_address_array (into_data out) = Inr (validators rf')"
proof -
  obtain res ex' where run: "finish (sample_exec_env (CallOutput [3, 4])) posdao_executor = (Inr res, ex')"
    using posdao_finish_runs by blast
  have fields: "ctx_aura (ex_ctx posdao_executor) = Some (sample_aura_ctx None 0)"
    "be_number (evm_block (ex_evm posdao_executor)) = ucast (1 :: u64)" "ex_rf posdao_executor = Healthy posdao_tracker"
    "actx_posdao_transition (sample_aura_ctx None 0) \<le> 1" "validator_contract (sample_aura_ctx None 0) = Some 17"
    "bt_wf (pending_transitions posdao_tracker)" "\<forall>k v. bt_get (pending_transitions posdao_tracker) k = Some v \<longrightarrow> v = 17"
    "bt_get (pending_transitions posdao_tracker) 0 = Some 17"
    "0 \<in> fst ` set (fst (push 1 (be_beneficiary (evm_block (ex_evm posdao_executor))) posdao_tracker))"
    by (simp_all add: posdao_executor_def sample_executor_def sample_block_fields sample_aura_ctx_def
        posdao_tracker_simps bt_wf_def)
  let ?ec = "posdao_ec (ex_rf ex')"
  have ec: "ec_rolling_finality ?ec = ex_rf ex'" "spec_aura_config (ec_chain_spec ?ec) = Some posdao_cfg"
    "posdao_transition posdao_cfg \<le> 1 + 1" "bi_number (sample_block_info 2) = 1 + 1"
    by (simp_all add: posdao_ec_def posdao_cfg_def sample_block_info_def)
  have pre: "\<not> is_active_at_block sample_hardforks_api (ec_chain_spec ?ec) Paris (1 + 1)"
    by (simp add: is_active_at_block_def fork_activation_def posdao_ec_def sample_hardforks_api_def word_le_nat_alt)
  have none: "compute_finalize_change_address ?ec (1 + 1) = None"
    by (simp add: compute_finalize_change_address_def posdao_ec_def posdao_cfg_def
        compute_finalize_change_address_from_validators_def contract_address_at_def kind_at_def word_le_nat_alt)
  let ?next = "sample_next_executor (fst (context_for_block sample_hardforks_api noop_header_lookup ?ec (sample_block_info 2)))"
  have nxt: "ex_ctx ?next = fst (context_for_block sample_hardforks_api noop_header_lookup ?ec (sample_block_info 2))"
    "be_number (evm_block (ex_evm ?next)) = ucast (1 + 1 :: u64)"
    by (simp_all add: sample_next_executor_def)
  obtain rf1 where cell: "ex_rf ex' = Healthy rf1" "finalize_change_at rf1 = Some (1 + 1, 17)"
    by (rule finalized_change_is_scheduled [OF sample_env_ok run fields])
  have "ctx_aura (ex_ctx ?next) = Some (aura_ctx posdao_cfg 2 (Some 17))"
    using context_for_block_aura(1) [of ?ec posdao_cfg sample_hardforks_api "sample_block_info 2"] ec pre none cell
    unfolding nxt(1) by (simp add: take_finalize_change_def)
  then obtain next' where pre_run:
    "apply_pre_execution_changes (sample_exec_env (CallOutput (encode_address_array [5, 6, 7]))) ?next = (Inr (), next')"
    using posdao_next_runs unfolding nxt(1) by blast
  from posdao_change_replaces_validators [OF sample_env_ok run fields ec pre none nxt pre_run] run nxt(1) pre_run
  show ?thesis by blast
qed

end
