(* ===== verification/BlockTracker.thy ===== *)
theory BlockTracker
  imports EvmConfig
begin

text \<open>
  The tracker under the blocks: which operations of \<open>src/aura/finality.rs\<close> the context of a block
  (\<open>src/evm_config.rs\<close>) and the two halves of its execution (\<open>src/block.rs\<close>) perform on the shared cell, on
  every path, the failing ones included; and that the tracker is well formed at every moment of every
  sequence of blocks, also when blocks fail half way or a thread dies with the lock.
\<close>

section \<open>A few operations on the cell\<close>

definition tracker_ops :: "nat \<Rightarrow> RollingFinality mutex \<Rightarrow> RollingFinality mutex \<Rightarrow> bool" where
  "tracker_ops k cell cell' \<longleftrightarrow> cell' = cell
     \<or> (\<exists>rf es. cell = Healthy rf \<and> cell' = Healthy (rf_run es rf) \<and> length es \<le> k)"

lemma tracker_ops_refl [simp, intro]: "tracker_ops k cell cell"
  by (simp add: tracker_ops_def)

lemma tracker_ops_0 [simp]: "tracker_ops 0 cell cell' \<longleftrightarrow> cell' = cell"
  by (auto simp: tracker_ops_def)

lemma rf_run_append: "rf_run (es @ es') rf = rf_run es' (rf_run es rf)"
  by (induction es arbitrary: rf) simp_all

lemma tracker_ops_trans:
  assumes "tracker_ops j a b" and "tracker_ops k b c"
  shows "tracker_ops (j + k) a c"
proof -
  have "\<exists>es. c = Healthy (rf_run es rf) \<and> length es \<le> j + k"
    if "a = Healthy rf" "b = Healthy (rf_run es1 rf)" "length es1 \<le> j"
      "c = Healthy (rf_run es2 (rf_run es1 rf))" "length es2 \<le> k" for rf es1 es2
    using that by (intro exI [of _ "es1 @ es2"]) (simp add: rf_run_append)
  with assms show ?thesis by (fastforce simp: tracker_ops_def)
qed

lemma tracker_ops_one:
  "cell = Healthy rf \<Longrightarrow> cell' = Healthy (rf_apply e rf) \<Longrightarrow> tracker_ops (Suc k) cell cell'"
  unfolding tracker_ops_def by (rule disjI2, rule exI [of _ rf], rule exI [of _ "[e]"]) simp

lemma tracker_ops_then_do:
  assumes "tracker_ops j cell (ex_rf (snd m))"
    and "\<And>a. fst m = Inr a \<Longrightarrow> tracker_ops k (ex_rf (snd m)) (ex_rf (snd (f a (snd m))))"
  shows "tracker_ops (j + k) cell (ex_rf (snd (then_do m f)))"
proof (cases m)
  case (Pair r ex)
  show ?thesis
  proof (cases r)
    case (Inl e)
    with Pair assms(1) tracker_ops_trans [of j cell "ex_rf ex" k "ex_rf ex"] show ?thesis by simp
  next
    case (Inr a)
    with Pair assms tracker_ops_trans [of j cell "ex_rf ex" k] show ?thesis by simp
  qed
qed

section \<open>The steps of a block\<close>

lemma system_call_tracker [simp]: "ex_rf (snd (system_call_and_commit xe c d ex)) = ex_rf ex"
  using system_call_and_commit_keeps [of xe c d ex] by (metis prod.collapse)

lemma on_exec_state_tracker [simp]: "ex_rf (snd (on_exec_state f ex)) = ex_rf ex"
  using on_exec_state_keeps [of f ex] by (metis prod.collapse)

lemma refresh_validators_tracker:
  "tracker_ops 1 (ex_rf ex) (ex_rf (snd (refresh_validators xe c n ex)))"
proof -
  obtain r ex1 where call: "system_call_and_commit xe c GET_VALIDATORS ex = (r, ex1)" by fastforce
  have cell: "ex_rf ex1 = ex_rf ex" using system_call_and_commit_keeps [OF call] by simp
  have set: "tracker_ops 1 (Healthy rf) (Healthy (set_validators vals rf))" for vals rf
    unfolding One_nat_def by (rule tracker_ops_one [where e = "SetValidators vals"]) simp_all
  show ?thesis
    using set by (cases "ex_rf ex")
      (simp_all add: refresh_validators_def call cell split: sum.split exec_result.split fault.split option.split)
qed

lemma init_validators_tracker: "tracker_ops 1 (ex_rf ex) (ex_rf (snd (init_validators xe aura n ex)))"
  using refresh_validators_tracker
  by (auto simp: init_validators_def split: option.split sum.split)

lemma call_finalize_change_tracker:
  "tracker_ops 1 (ex_rf ex) (ex_rf (snd (call_finalize_change xe aura n ex)))"
proof (cases "finalize_change_address aura")
  case (Some contract)
  obtain r ex1 where call: "system_call_and_commit xe contract FINALIZE_CHANGE ex = (r, ex1)" by fastforce
  then have "ex_rf ex1 = ex_rf ex" using system_call_and_commit_keeps [OF call] by simp
  with Some call refresh_validators_tracker [of ex1 xe contract n] show ?thesis
    by (cases r) (simp_all add: call_finalize_change_def)
qed (simp add: call_finalize_change_def)

lemma aura_pre_execution_tracker: "tracker_ops 2 (ex_rf ex) (ex_rf (snd (aura_pre_execution xe n ex)))"
proof (cases "ctx_aura (ex_ctx ex)")
  case (Some aura)
  have "tracker_ops (1 + 1) (ex_rf ex) (ex_rf (snd (then_do (init_validators xe aura n ex)
      (\<lambda>_ ex. call_finalize_change xe aura n (aura_rewrites xe aura ex)))))"
    using call_finalize_change_tracker [of "aura_rewrites xe aura ex1" for ex1]
    by (intro tracker_ops_then_do init_validators_tracker) simp
  with Some show ?thesis by (simp add: aura_pre_execution_def numeral_2_eq_2)
qed (simp add: aura_pre_execution_def)

lemma balancer_activation_tracker [simp]: "ex_rf (balancer_activation xe ts ex) = ex_rf ex"
  by (simp add: balancer_activation_def split: option.split)

lemma apply_pre_execution_tracker:
  "tracker_ops 2 (ex_rf ex) (ex_rf (snd (apply_pre_execution_changes xe ex)))"
proof -
  have "tracker_ops (0 + (2 + (0 + (0 + 0)))) (ex_rf ex) (ex_rf (snd (apply_pre_execution_changes xe ex)))"
    unfolding apply_pre_execution_changes_def Let_def
    by (intro tracker_ops_then_do aura_pre_execution_tracker) simp_all
  then show ?thesis by (simp add: numeral_2_eq_2)
qed

lemma with_lock_tracker:
  "(\<And>rf. f rf = rf_apply e rf) \<Longrightarrow> tracker_ops (Suc k) cell (with_lock cell f)"
  by (cases cell) (auto intro: tracker_ops_one)

lemma aura_post_execution_ops:
  "tracker_ops 2 (ex_rf ex) (ex_rf (snd (aura_post_execution xe logs ex)))"
proof (cases "ctx_aura (ex_ctx ex)")
  case (Some aura)
  define announce where "announce n contract = (if actx_posdao_transition aura \<le> n
    then add_pending_transition n contract else set_immediate_finalize (n + 1) contract)" for n contract
  have announce: "tracker_ops 1 cell (with_lock cell (announce n contract))" for cell n contract
    using with_lock_tracker [of "announce n contract" "AddPending n contract" 0 cell]
      with_lock_tracker [of "announce n contract" "SetImmediate (n + 1) contract" 0 cell]
    by (auto simp: announce_def split: if_splits)
  have signed: "tracker_ops 1 cell (if p then with_lock cell (\<lambda>rf. snd (push n s rf)) else cell)" for cell n s p
    using with_lock_tracker [of "\<lambda>rf. snd (push n s rf)" "Push n s" 0 cell] by auto
  define rf1 where "rf1 n = (case validator_contract aura of
      None \<Rightarrow> ex_rf ex
    | Some contract \<Rightarrow>
        (if (\<exists>r \<in> set (ex_receipts ex). \<exists>l \<in> set (receipt_logs (xe_block xe) r). is_initiate_change contract l)
            \<or> (\<exists>l \<in> set logs. is_initiate_change contract l)
         then with_lock (ex_rf ex) (announce n contract) else ex_rf ex))" for n
  have first: "tracker_ops 1 (ex_rf ex) (rf1 n)" for n
    using announce by (simp add: rf1_def split: option.split)
  have both: "tracker_ops (1 + 1) (ex_rf ex) (if actx_posdao_transition aura \<le> n
      then with_lock (rf1 n) (\<lambda>rf. snd (push n (be_beneficiary (evm_block (ex_evm ex))) rf)) else rf1 n)" for n
    by (rule tracker_ops_trans [OF first signed])
  show ?thesis
  proof (cases "to_u64 (be_number (evm_block (ex_evm ex))) :: BlockExecutionError fault + u64")
    case (Inr n)
    then have "ex_rf (snd (aura_post_execution xe logs ex)) = (if actx_posdao_transition aura \<le> n
        then with_lock (rf1 n) (\<lambda>rf. snd (push n (be_beneficiary (evm_block (ex_evm ex))) rf)) else rf1 n)"
      by (simp add: aura_post_execution_def Some Let_def rf1_def announce_def split: option.split)
    with both [of n] show ?thesis by (simp add: numeral_2_eq_2)
  qed (simp add: aura_post_execution_def Some)
qed (simp add: aura_post_execution_def)

lemma apply_increments_tracker [simp]: "ex_rf (snd (apply_increments xe incs ex)) = ex_rf ex"
  by (simp add: apply_increments_def Let_def split: prod.split sum.split)

lemma collect_requests_tracker [simp]: "ex_rf (snd (collect_requests xe ex)) = ex_rf ex"
proof -
  have "tracker_ops (0 + (0 + (0 + (0 + 0)))) (ex_rf ex) (ex_rf (snd (collect_requests xe ex)))"
    unfolding collect_requests_def Let_def
    by (rule tracker_ops_then_do, simp, split if_split, intro conjI impI tracker_ops_then_do) simp_all
  then show ?thesis by simp
qed

lemma finish_tracker_ops:
  fixes ex :: "('a, 'b, 'c, 'd) executor"
  shows "tracker_ops 2 (ex_rf ex) (ex_rf (snd (finish xe ex)))"
proof (cases "exec_deposit_contract_address (ex_spec ex)")
  case (Some deposit)
  have tail: "tracker_ops 2 cell (ex_rf (snd (then_do (aura_post_execution xe logs ex)
      (\<lambda>_ ex. then_do (apply_increments xe incs ex) (\<lambda>_ ex. (Inr (result ex), ex))))))"
    if "ex_rf ex = cell"
    for ex :: "('a, 'b, 'c, 'd) executor" and cell logs incs and result :: "('a, 'b, 'c, 'd) executor \<Rightarrow> 'd block_result"
  proof -
    have "tracker_ops (2 + (0 + 0)) (ex_rf ex) (ex_rf (snd (then_do (aura_post_execution xe logs ex)
        (\<lambda>_ ex. then_do (apply_increments xe incs ex) (\<lambda>_ ex. (Inr (result ex), ex))))))"
      by (intro tracker_ops_then_do aura_post_execution_ops) simp_all
    with that show ?thesis by simp
  qed
  have "tracker_ops (0 + (0 + (0 + 2))) (ex_rf ex) (ex_rf (snd (finish xe ex)))"
    unfolding finish_def Some option.case Let_def
    by (intro tracker_ops_then_do) (auto intro!: tail split: prod.split)
  then show ?thesis by (simp add: numeral_2_eq_2)
qed (simp add: finish_def)

lemma context_for_block_tracker:
  "tracker_ops 1 (ec_rolling_finality ec) (ec_rolling_finality (snd (context_for_block api hl ec b)))"
proof -
  have "tracker_ops 1 cell (snd (take_scheduled n cell))" for n cell
  proof (cases cell)
    case (Healthy rf)
    then show ?thesis unfolding One_nat_def
      by (intro tracker_ops_one [OF Healthy, where e = "Take n"]) (simp add: take_scheduled_def split: prod.split)
  qed (simp add: take_scheduled_def)
  then show ?thesis
    by (auto simp: context_for_block_def Let_def split: prod.split option.split) (metis snd_conv)+
qed

section \<open>Every sequence of blocks\<close>

text \<open>
  What may happen to the cell of a node, counting operations of the tracker: it starts from a new
  configuration or from a recovered tracker, a context is made for a block, the first half or the second
  half of a block runs on it (with whatever result), or a thread panics while it holds the lock, which
  poisons the cell and may leave anything in it.
\<close>

inductive node_tracker ::
  "hardforks_api \<Rightarrow> ('db, 'insp, 'pre, 'receipt) exec_env \<Rightarrow> nat \<Rightarrow> RollingFinality mutex \<Rightarrow> bool"
  for api and xe where
  fresh: "evm_config_new c spec extra = (Inr ec :: unit fault + _) \<Longrightarrow> node_tracker api xe 0 (ec_rolling_finality ec)"
| from_receipts: "bt_wf pending \<Longrightarrow> node_tracker api xe 0 (Healthy (from_recovered pending fca))"
| made_context: "node_tracker api xe k (ec_rolling_finality ec) \<Longrightarrow> context_for_block api hl ec b = (ctx, ec') \<Longrightarrow>
    node_tracker api xe (k + 1) (ec_rolling_finality ec')"
| began: "node_tracker api xe k (ex_rf ex) \<Longrightarrow> apply_pre_execution_changes xe ex = (r, ex') \<Longrightarrow>
    node_tracker api xe (k + 2) (ex_rf ex')"
| finished: "node_tracker api xe k (ex_rf ex) \<Longrightarrow> finish xe ex = (r', ex') \<Longrightarrow>
    node_tracker api xe (k + 2) (ex_rf ex')"
| poisoned: "node_tracker api xe k cell \<Longrightarrow> node_tracker api xe k (Poisoned rf)"

lemma rf_reachable_more: "rf_reachable k rf \<Longrightarrow> rf_reachable (k + j) rf"
proof (induction rule: rf_reachable.induct)
  case (operated k rf e)
  then show ?case using rf_reachable.operated [of "k + j" rf e] by simp
qed (auto intro: rf_reachable.intros)

lemma rf_reachable_run: "rf_reachable k rf \<Longrightarrow> rf_reachable (k + length es) (rf_run es rf)"
proof (induction es arbitrary: k rf)
  case (Cons e es)
  from Cons.IH [OF rf_reachable.operated [OF Cons.prems(1)]] show ?case by simp
qed simp

lemma tracker_ops_reachable:
  assumes "tracker_ops j cell (Healthy rf')" and "\<And>rf. cell = Healthy rf \<Longrightarrow> rf_reachable k rf"
  shows "rf_reachable (k + j) rf'"
proof -
  from assms(1) consider "cell = Healthy rf'"
    | rf es where "cell = Healthy rf" "rf' = rf_run es rf" "length es \<le> j"
    by (auto simp: tracker_ops_def)
  then show ?thesis
  proof cases
    case 2
    with rf_reachable_more [OF rf_reachable_run [OF assms(2) [OF 2(1)], of es], of "j - length es"]
    show ?thesis by simp
  qed (use assms(2) rf_reachable_more in blast)
qed

lemma node_tracker_reachable:
  assumes "node_tracker api xe k cell" and "cell = Healthy rf"
  shows "rf_reachable k rf"
  using assms
proof (induction arbitrary: rf rule: node_tracker.induct)
  case (fresh c spec extra ec)
  then show ?case
    by (auto simp: evm_config_new_def Let_def and_then_Inr_iff intro: rf_reachable.created)
next
  case (made_context k ec hl b ctx ec')
  then show ?case
    using context_for_block_tracker [of ec api hl b] tracker_ops_reachable [of 1] by auto
next
  case (began k ex r ex')
  then show ?case
    using apply_pre_execution_tracker [of ex xe] tracker_ops_reachable [of 2] by auto
next
  case (finished k ex r' ex')
  then show ?case
    using finish_tracker_ops [of ex xe] tracker_ops_reachable [of 2] by auto
qed (auto intro: rf_reachable.recovered)

text \<open>Property C5: the shared tracker is well formed at every moment. Whatever blocks are executed, in
  whatever order contexts are made and executors run, and whether they succeed or fail half way, a
  tracker that can be locked has exact signer counts, a window without a finalizable block and only
  validators in it, and its table of pending transitions is well formed. A cell poisoned by a panic is
  never written again, so a half-done operation is never seen. (The bound says that the 64-bit counters
  cannot wrap.)\<close>

theorem node_tracker_well_formed:
  assumes "node_tracker api xe k cell" and "k < 2 ^ 64"
  shows "(\<forall>rf. cell = Healthy rf \<longrightarrow> rf_inv rf)
    \<and> (\<forall>rf ec hl b. cell = Poisoned rf \<longrightarrow> ec_rolling_finality ec = cell \<longrightarrow>
        ec_rolling_finality (snd (context_for_block api hl ec b)) = cell)
    \<and> (\<forall>rf ex. cell = Poisoned rf \<longrightarrow> ex_rf ex = cell \<longrightarrow>
        ex_rf (snd (apply_pre_execution_changes xe ex)) = cell \<and> ex_rf (snd (finish xe ex)) = cell)"
proof -
  have "rf_inv rf" if "cell = Healthy rf" for rf
    using rf_reachable_keeps_inv [OF node_tracker_reachable [OF assms(1) that] assms(2)] .
  moreover have "cell' = Poisoned rf" if "tracker_ops j (Poisoned rf) cell'" for cell' rf j
    using that by (auto simp: tracker_ops_def)
  ultimately show ?thesis
    using context_for_block_tracker apply_pre_execution_tracker finish_tracker_ops by metis
qed

text \<open>A node starts, makes the context of block 1 and executes the first half of a block in which
  \<open>finalizeChange\<close> is called.\<close>

definition tracker_config :: GnosisEvmConfig where
  "tracker_config = \<lparr>ec_fee_collector = 8, ec_block_rewards_address = 17, ec_chain_spec = sample_spec [],
     ec_extra_data = [], ec_rolling_finality = Healthy (from_recovered [] (Some (1, 17)))\<rparr>"

definition tracker_executor :: "(address \<rightharpoonup> account_info, unit, unit, log list) executor" where
  "tracker_executor = (sample_executor (sample_aura_ctx (Some 17) 0) [])\<lparr>ex_rf := ec_rolling_finality
     (snd (context_for_block sample_hardforks_api noop_header_lookup tracker_config
       \<lparr>bi_number = 1, bi_parent_hash = 0, bi_parent_beacon_block_root = None, bi_withdrawals = None\<rparr>))\<rparr>"

theorem node_tracker_well_formed_witness:
  "\<exists>rf. ex_rf (snd (apply_pre_execution_changes (sample_exec_env (CallOutput (encode_address_array [5, 6, 7])))
       tracker_executor)) = Healthy rf \<and> rf_inv rf"
proof -
  let ?xe = "sample_exec_env (CallOutput (encode_address_array [5, 6, 7]))"
  have "node_tracker sample_hardforks_api ?xe 0 (ec_rolling_finality tracker_config)"
    by (simp add: tracker_config_def from_receipts bt.wf_empty)
  from made_context [OF this prod.collapse [symmetric]]
  have "node_tracker sample_hardforks_api ?xe (0 + 1) (ex_rf tracker_executor)"
    by (simp add: tracker_executor_def)
  note reached = began [OF this prod.collapse [symmetric]]
  have "ex_rf tracker_executor = Healthy (from_recovered [] (Some (1, 17)))"
    by (simp add: tracker_executor_def tracker_config_def context_for_block_def Let_def sample_spec_def)
  with apply_pre_execution_tracker [of tracker_executor ?xe]
  obtain rf where "ex_rf (snd (apply_pre_execution_changes ?xe tracker_executor)) = Healthy rf"
    by (auto simp: tracker_ops_def)
  with node_tracker_well_formed [OF reached] show ?thesis by simp
qed

end
