(* ===== verification/Liveness.thy ===== *)
theory Liveness
  imports Finality Validators
begin

text \<open>
  Progress of the rolling-finality tracker: a pending validator change is finalized once enough of the
  sealed validators have signed, and within half a rotation of the proposers of
  \<open>src/aura/validators.rs\<close> when no step is missed.
\<close>

section \<open>A run of blocks\<close>

text \<open>The tracker after a run of blocks, each the number of the block and its signer.\<close>

fun push_all :: "(u64 \<times> address) list \<Rightarrow> RollingFinality \<Rightarrow> RollingFinality" where
  "push_all [] rf = rf"
| "push_all ((n, s) # bs) rf = push_all bs (snd (push n s rf))"

text \<open>The one pending change is at block \<open>m\<close>, for contract \<open>c\<close>.\<close>

definition only_pending :: "u64 \<Rightarrow> address \<Rightarrow> RollingFinality \<Rightarrow> bool" where
  "only_pending m c rf \<longleftrightarrow> bt_get (pending_transitions rf) m = Some c
     \<and> (\<forall>k. k \<noteq> m \<longrightarrow> bt_get (pending_transitions rf) k = None)"

lemma push_sealed_member:
  assumes "rf_inv rf" and "s \<in> set (validators rf)" and "length (headers rf) < 2 ^ 64 - 1"
    and "push n s rf = (fin, rf')"
  shows "headers rf @ [(n, s)] = fin @ headers rf'" "validators rf' = validators rf"
    "validators_sealed rf' = validators_sealed rf" "rf_inv rf'"
    "settle_pending n fin (pending_transitions rf) (finalize_change_at rf)
       = (pending_transitions rf', finalize_change_at rf')"
proof -
  have acc: "accepts s rf" using assms(2) by (simp add: accepts_def)
  note w = push_window [OF acc assms(4) rf_inv_dest(1) [OF assms(1)] assms(3)]
  show "headers rf @ [(n, s)] = fin @ headers rf'" by (rule split_final_append [OF w(1)])
  show "validators rf' = validators rf" using w(3) assms(2) by (simp add: push_validators_def)
  from push_accepted [OF acc assms(4)] obtain sc' hs' pt fca where p:
    "settle_pending n fin (pending_transitions rf) (finalize_change_at rf) = (pt, fca)"
    "rf' = rf\<lparr>validators := push_validators s rf, headers := hs', sign_count := sc',
              pending_transitions := pt, finalize_change_at := fca\<rparr>" by metis
  then show "validators_sealed rf' = validators_sealed rf"
    "settle_pending n fin (pending_transitions rf) (finalize_change_at rf)
       = (pending_transitions rf', finalize_change_at rf')" by simp_all
  show "rf_inv rf'" using rf_inv_push [of rf n s] assms by simp
qed

lemma suffix_keeps:
  "before @ x # ys = fin @ zs \<Longrightarrow> x \<notin> set fin \<Longrightarrow> \<exists>before'. zs = before' @ x # ys"
  by (auto simp: append_eq_append_conv2 Cons_eq_append_conv)

text \<open>One block: either it finalizes the pending change, or the change stays and the block at it is still in
  the window, with the new block behind it.\<close>

lemma push_pending_cases:
  assumes "rf_inv rf" and "s \<in> set (validators rf)" and "length (headers rf) < 2 ^ 64 - 1"
    and "only_pending m c rf" and "headers rf = before @ (m, s0) # after" and "push n s rf = (fin, rf')"
  shows "(finalize_change_at rf' = Some (n + 1, c) \<and> bt_get (pending_transitions rf') m = None)
    \<or> (only_pending m c rf' \<and> (\<exists>before'. headers rf' = before' @ (m, s0) # after @ [(n, s)]))"
proof -
  note p = push_sealed_member [OF assms(1-3,6)]
  have wf: "bt_wf (pending_transitions rf)" by (rule rf_inv_dest(2) [OF assms(1)])
  show ?thesis
  proof (cases "m \<in> fst ` set fin")
    case True
    have "\<forall>x \<in> set fin. fst x \<noteq> m \<longrightarrow> bt_get (pending_transitions rf) (fst x) = None"
      using assms(4) by (simp add: only_pending_def)
    with settle_pending_single [OF wf _ True, of c n] assms(4) p(5)
    have "pending_transitions rf' = bt_remove m (pending_transitions rf)" "finalize_change_at rf' = Some (n + 1, c)"
      by (auto simp: only_pending_def)
    then show ?thesis by (simp add: bt_get_remove [OF wf])
  next
    case False
    then have none: "\<forall>x \<in> set fin. bt_get (pending_transitions rf) (fst x) = None"
      using assms(4) by (force simp: only_pending_def)
    with settle_pending_none [OF none] p(5) have "pending_transitions rf' = pending_transitions rf" by simp
    moreover from p(1) assms(5) have "before @ (m, s0) # after @ [(n, s)] = fin @ headers rf'" by simp
    from suffix_keeps [OF this] False obtain before' where "headers rf' = before' @ (m, s0) # after @ [(n, s)]"
      by force
    ultimately show ?thesis using assms(4) by (auto simp: only_pending_def)
  qed
qed

lemma window_length:
  assumes "headers rf @ [(n, s)] = fin @ headers rf'"
  shows "length (headers rf') \<le> Suc (length (headers rf))"
  using arg_cong [OF assms, of length] by simp

lemma pending_change_progress:
  assumes "rf_inv rf" and "only_pending m c rf" and "headers rf = before @ (m, s0) # after"
    and "snd ` set bs \<subseteq> set (validators rf)" and "has_majority (validators rf) (after @ bs)"
    and "length (headers rf) + length bs < 2 ^ 64 - 1"
  shows "\<exists>k < length bs. finalize_change_at (push_all (take (Suc k) bs) rf) = Some (fst (bs ! k) + 1, c)
    \<and> bt_get (pending_transitions (push_all (take (Suc k) bs) rf)) m = None"
  using assms
proof (induction bs arbitrary: rf before after)
  case Nil
  have "signers after \<subseteq> signers (headers rf)" using Nil.prems(3) by auto
  with Nil.prems(1,5) has_majority_mono [of after "headers rf"] show ?case by (auto simp: rf_inv_def)
next
  case (Cons b bs)
  obtain n s where b: "b = (n, s)" by force
  obtain fin rf' where push: "push n s rf = (fin, rf')" by force
  have member: "s \<in> set (validators rf)" and room: "length (headers rf) < 2 ^ 64 - 1"
    using Cons.prems(4,6) b by simp_all
  note p = push_sealed_member [OF Cons.prems(1) member room push]
  from push_pending_cases [OF Cons.prems(1) member room Cons.prems(2,3) push] show ?case
  proof
    assume "finalize_change_at rf' = Some (n + 1, c) \<and> bt_get (pending_transitions rf') m = None"
    then show ?thesis by (intro exI [of _ 0]) (simp add: b push)
  next
    assume "only_pending m c rf' \<and> (\<exists>before'. headers rf' = before' @ (m, s0) # after @ [(n, s)])"
    then obtain before' where rest: "only_pending m c rf'" "headers rf' = before' @ (m, s0) # after @ [(n, s)]"
      by blast
    have "length (headers rf') + length bs < 2 ^ 64 - 1"
      using window_length [OF p(1)] Cons.prems(6) by simp
    with Cons.IH [OF p(4) rest] Cons.prems(4,5) b obtain k where "k < length bs"
      "finalize_change_at (push_all (take (Suc k) bs) rf') = Some (fst (bs ! k) + 1, c)"
      "bt_get (pending_transitions (push_all (take (Suc k) bs) rf')) m = None"
      by (auto simp: p(2))
    then show ?thesis by (intro exI [of _ "Suc k"]) (simp add: b push)
  qed
qed

section \<open>Schedules of proposers\<close>

text \<open>What progress needs of a schedule of signers, for the validator lists it is made for: within a rotation
  no two steps have the same signer, and every signer is a validator.\<close>

locale rotation =
  fixes signer :: "address list \<Rightarrow> nat \<Rightarrow> address" and fits :: "address list \<Rightarrow> bool"
  assumes signer_member: "fits vs \<Longrightarrow> signer vs i \<in> set vs"
    and signer_distinct: "fits vs \<Longrightarrow> i < length vs \<Longrightarrow> j < length vs \<Longrightarrow> signer vs i = signer vs j \<Longrightarrow> i = j"
begin

lemma card_signers: "fits vs \<Longrightarrow> k \<le> length vs \<Longrightarrow> card (signer vs ` {..<k}) = k"
  by (subst card_image) (auto simp: inj_on_def intro: signer_distinct)

text \<open>More than half a rotation is a majority.\<close>

lemma half_rotation_majority:
  assumes "fits vs" and "map snd bs = map (signer vs) [0..<length bs]"
    and "length vs < 2 * length bs" and "length bs \<le> length vs"
  shows "snd ` set bs \<subseteq> set vs" "length vs < 2 * card (snd ` set bs)"
proof -
  have "snd ` set bs = signer vs ` {..<length bs}"
    using arg_cong [OF assms(2), of set] by (simp add: lessThan_atLeast0)
  with assms card_signers signer_member
  show "snd ` set bs \<subseteq> set vs" "length vs < 2 * card (snd ` set bs)" by auto
qed

end

text \<open>The proposers of consecutive steps from \<open>start\<close> on; the step counter must not wrap in a rotation.\<close>

definition proposer_from :: "u64 \<Rightarrow> address list \<Rightarrow> nat \<Rightarrow> address" where
  "proposer_from start vs i = the (expected_proposer (start + of_nat (i mod length vs)) vs)"

definition steps_fit :: "u64 \<Rightarrow> address list \<Rightarrow> bool" where
  "steps_fit start vs \<longleftrightarrow> vs \<noteq> [] \<and> distinct vs \<and> unat start + length vs < 2 ^ 64"

lemma proposer_from_nth:
  assumes "steps_fit start vs"
  shows "proposer_from start vs i = vs ! ((unat start + i mod length vs) mod length vs)"
proof -
  have "i mod length vs < length vs" using assms by (simp add: steps_fit_def)
  moreover have "unat start + length vs < 2 ^ 64" using assms by (simp add: steps_fit_def)
  ultimately have "i mod length vs < 2 ^ 64" "unat start + i mod length vs < 2 ^ 64" by linarith+
  then have "unat (start + of_nat (i mod length vs)) = unat start + i mod length vs"
    by (simp add: unat_word_ariths unat_of_nat)
  with assms expected_proposer_nth [of vs "start + of_nat (i mod length vs)"] show ?thesis
    by (simp add: steps_fit_def proposer_from_def)
qed

interpretation rot: rotation "proposer_from start" "steps_fit start"
proof
  fix vs i assume "steps_fit start vs"
  then show "proposer_from start vs i \<in> set vs"
    by (simp add: proposer_from_nth) (simp add: steps_fit_def)
next
  fix vs i j
  assume fits: "steps_fit start vs" and "i < length vs" "j < length vs"
    and same: "proposer_from start vs i = proposer_from start vs j"
  then have "(unat start + i) mod length vs = (unat start + j) mod length vs"
    by (simp add: proposer_from_nth steps_fit_def nth_eq_iff_index_eq)
  with mod_offset_unique [of "(unat start + i) mod length vs" "length vs" "unat start"]
    \<open>i < length vs\<close> \<open>j < length vs\<close> show "i = j" by (metis mod_less_divisor less_nat_zero_code not_gr_zero)
qed

section \<open>The properties\<close>

lemma pending_in_window_progress:
  assumes "rf_inv rf" and "only_pending m c rf" and "m \<in> fst ` set (headers rf)"
    and "snd ` set bs \<subseteq> set (validators rf)" and "length (validators rf) < 2 * card (snd ` set bs)"
    and "length (headers rf) + length bs < 2 ^ 64 - 1"
  shows "\<exists>k < length bs. finalize_change_at (push_all (take (Suc k) bs) rf) = Some (fst (bs ! k) + 1, c)
    \<and> bt_get (pending_transitions (push_all (take (Suc k) bs) rf)) m = None"
proof -
  from assms(3) obtain before s0 after where w: "headers rf = before @ (m, s0) # after"
    by (auto dest!: split_list)
  have "has_majority (validators rf) bs" using assms(5) by (simp add: has_majority_def signers_def)
  then have "has_majority (validators rf) (after @ bs)" by (rule has_majority_mono [rotated]) simp
  from pending_change_progress [OF assms(1,2) w assms(4) this assms(6)] show ?thesis .
qed

text \<open>A sealed tracker of three validators with one block and a change pending at it.\<close>

definition sample_pending :: RollingFinality where
  "sample_pending = snd (push 10 1 (add_pending_transition 10 77 (set_validators [1, 2, 3] (rf_new []))))"

lemma sample_pending_ok:
  "rf_inv sample_pending" "only_pending 10 77 sample_pending" "10 \<in> fst ` set (headers sample_pending)"
  "validators sample_pending = [1, 2, 3]" "headers sample_pending = [(10, 1)]"
proof -
  have "rf_inv (add_pending_transition 10 77 (set_validators [1, 2, 3] (rf_new [])))"
    by (intro rf_inv_add_pending rf_inv_set_validators rf_inv_new)
  then show "rf_inv sample_pending"
    unfolding sample_pending_def
    by (rule rf_inv_push) (simp add: add_pending_transition_def set_validators_def rf_new_def)
  have tracker: "headers sample_pending = [(10, 1)]" "pending_transitions sample_pending = bt_insert 10 77 bt_empty"
    "validators sample_pending = [1, 2, 3]"
    by code_simp+
  then show "only_pending 10 77 sample_pending" "10 \<in> fst ` set (headers sample_pending)"
    "validators sample_pending = [1, 2, 3]" "headers sample_pending = [(10, 1)]"
    by (simp_all add: only_pending_def bt_get_insert bt_empty_def)
qed

text \<open>Property C6: progress of finality. Let one validator change be pending, at a block still in the window of
  a tracker that satisfies its invariant. Once validators that are more than half of the list have
  signed further blocks (in any order, any number of times), one of these blocks has finalized the
  change: at that block \<open>finalizeChange\<close> is scheduled for the next one, on the announced contract, and the
  change is no longer pending.\<close>

theorem pending_change_finalizes:
  assumes "rf_inv rf" and "only_pending m c rf" and "m \<in> fst ` set (headers rf)"
    and "snd ` set bs \<subseteq> set (validators rf)" and "length (validators rf) < 2 * card (snd ` set bs)"
    and "length (headers rf) + length bs < 2 ^ 64 - 1"
  shows "\<exists>k < length bs. finalize_change_at (push_all (take (Suc k) bs) rf) = Some (fst (bs ! k) + 1, c)
    \<and> bt_get (pending_transitions (push_all (take (Suc k) bs) rf)) m = None"
  using assms by (rule pending_in_window_progress)

theorem pending_change_finalizes_witness:
  "\<exists>k < length [(11 :: u64, 3 :: address), (12, 2)]. finalize_change_at (push_all (take (Suc k) [(11, 3), (12, 2)]) sample_pending)
     = Some (fst ([(11, 3), (12, 2 :: address)] ! k) + 1, 77)
   \<and> bt_get (pending_transitions (push_all (take (Suc k) [(11, 3), (12, 2)]) sample_pending)) 10 = None"
  by (rule pending_change_finalizes [OF sample_pending_ok(1-3)]) (simp_all add: sample_pending_ok(4,5))

text \<open>Property C7: a pending change is finalized within half a rotation. When the blocks after it are those of
  consecutive steps, each signed by the proposer the schedule expects from a list without duplicates,
  then at the latest the block number \<open>length / 2 + 1\<close> of them finalizes the change.\<close>

theorem change_finalizes_within_half_rotation:
  assumes "rf_inv rf" and "only_pending m c rf" and "m \<in> fst ` set (headers rf)"
    and "steps_fit start (validators rf)"
    and "\<forall>i < length bs. expected_proposer (start + of_nat i) (validators rf) = Some (snd (bs ! i))"
    and "length bs = length (validators rf) div 2 + 1" and "2 \<le> length (validators rf)"
    and "length (headers rf) + length bs < 2 ^ 64 - 1"
  shows "\<exists>k \<le> length (validators rf) div 2.
      finalize_change_at (push_all (take (Suc k) bs) rf) = Some (fst (bs ! k) + 1, c)
    \<and> bt_get (pending_transitions (push_all (take (Suc k) bs) rf)) m = None"
proof -
  have size: "length bs \<le> length (validators rf)" "length (validators rf) < 2 * length bs"
    using assms(6,7) by linarith+
  have "map snd bs = map (proposer_from start (validators rf)) [0..<length bs]"
    using assms(5) size(1) by (intro nth_equalityI) (simp_all add: proposer_from_def)
  note majority = rot.half_rotation_majority [OF assms(4) this size(2,1)]
  from pending_in_window_progress [OF assms(1-3) majority assms(8)] show ?thesis
    unfolding assms(6) less_Suc_eq_le [symmetric] by simp
qed

theorem change_finalizes_within_half_rotation_witness:
  "\<exists>k \<le> length (validators sample_pending) div 2.
     finalize_change_at (push_all (take (Suc k) [(11, 2), (12, 3)]) sample_pending)
       = Some (fst ([(11, 2), (12, 3 :: address)] ! k) + 1, 77)
   \<and> bt_get (pending_transitions (push_all (take (Suc k) [(11, 2), (12, 3)]) sample_pending)) 10 = None"
proof (rule change_finalizes_within_half_rotation [OF sample_pending_ok(1-3)])
  show "steps_fit 1 (validators sample_pending)" by (simp add: steps_fit_def sample_pending_ok(4))
  show "\<forall>i < length [(11 :: u64, 2 :: address), (12, 3)].
      expected_proposer (1 + of_nat i) (validators sample_pending) = Some (snd ([(11, 2), (12, 3)] ! i))"
    by (simp add: sample_pending_ok(4) less_Suc_eq expected_proposer_def all_conj_distrib imp_disjL)
qed (simp_all add: sample_pending_ok(4,5))

end
