(* ===== verification/FinalityRuns.thy ===== *)
theory FinalityRuns
  imports Liveness "HOL-Library.Sublist"
begin

text \<open>
  The rolling-finality tracker of \<open>src/aura/finality.rs\<close> over whole runs of blocks. However the blocks are
  spread over calls of \<open>push\<close>, what has been finalized is what the finality rule of AuRa says about the
  whole chain; and a block of an orphaned branch, which the tracker cannot take back, can only make the
  blocks of the chain final earlier.
\<close>

section \<open>The blocks a run finalizes\<close>

text \<open>The batches of a run, one after the other, and the tracker after it.\<close>

fun push_run ::
  "(u64 \<times> address) list \<Rightarrow> RollingFinality \<Rightarrow> (u64 \<times> address) list \<times> RollingFinality" where
  "push_run [] rf = ([], rf)"
| "push_run ((n, s) # bs) rf =
     (let (finalized, rf) = push n s rf; (later, rf) = push_run bs rf in (finalized @ later, rf))"

lemma push_run_push_all: "snd (push_run bs rf) = push_all bs rf"
proof (induction bs arbitrary: rf)
  case (Cons b bs)
  then show ?case by (cases b) (simp add: case_prod_beta Let_def)
qed simp

text \<open>The blocks the window is made of: a sealed tracker ignores blocks of unknown signers.\<close>

definition known_blocks :: "address list \<Rightarrow> (u64 \<times> address) list \<Rightarrow> (u64 \<times> address) list" where
  "known_blocks vs bs = filter (\<lambda>b. snd b \<in> set vs) bs"

lemma known_blocks_simps [simp]:
  "known_blocks vs [] = []"
  "known_blocks vs (b # bs) = (if snd b \<in> set vs then b # known_blocks vs bs else known_blocks vs bs)"
  "known_blocks vs (bs @ cs) = known_blocks vs bs @ known_blocks vs cs"
  by (simp_all add: known_blocks_def)

lemma split_final_none: "\<not> has_majority vs w \<Longrightarrow> split_final vs w = ([], w)"
  by (cases w) simp_all

text \<open>What is final stays final when the chain grows, so the rule can be applied piecewise.\<close>

lemma split_final_extend:
  "split_final vs w = (f, r) \<Longrightarrow> split_final vs (r @ xs) = (g, r') \<Longrightarrow>
     split_final vs (w @ xs) = (f @ g, r')"
proof (induction vs w arbitrary: f rule: split_final.induct)
  case (2 vs x w)
  show ?case
  proof (cases "has_majority vs (x # w)")
    case True
    then obtain f' where f': "split_final vs w = (f', r)" "f = x # f'"
      using "2.prems"(1) by (auto split: prod.splits)
    have "has_majority vs (x # w @ xs)"
      using True by (rule has_majority_mono [rotated]) auto
    with "2.IH" [OF True f'(1) "2.prems"(2)] f'(2) show ?thesis by simp
  next
    case False
    with "2.prems" show ?thesis by simp
  qed
qed simp

lemma push_run_split_final:
  assumes "rf_inv rf" and "validators_sealed rf" and "length (headers rf) + length bs < 2 ^ 64 - 1"
    and "push_run bs rf = (fin, rf')"
  shows "split_final (validators rf) (headers rf @ known_blocks (validators rf) bs) = (fin, headers rf')"
  using assms
proof (induction bs arbitrary: rf fin)
  case Nil
  then show ?case by (simp add: split_final_none rf_inv_dest)
next
  case (Cons b bs)
  obtain n s where b: "b = (n, s)" by force
  show ?case
  proof (cases "s \<in> set (validators rf)")
    case True
    obtain fin1 rf1 where push: "push n s rf = (fin1, rf1)" by force
    obtain fin2 where rest: "push_run bs rf1 = (fin2, rf')" and fin: "fin = fin1 @ fin2"
      using Cons.prems(4) by (auto simp: b push split: prod.splits)
    have room: "length (headers rf) < 2 ^ 64 - 1" using Cons.prems(3) by simp
    note p = push_sealed_member [OF Cons.prems(1) True room push]
    have acc: "accepts s rf" using True by (simp add: accepts_def)
    note w = push_window(1) [OF acc push rf_inv_dest(1) [OF Cons.prems(1)] room]
    have "length (headers rf1) + length bs < 2 ^ 64 - 1"
      using window_length [OF p(1)] Cons.prems(3) by simp
    with Cons.IH [OF p(4) _ _ rest] Cons.prems(2)
    have "split_final (validators rf) (headers rf1 @ known_blocks (validators rf) bs) = (fin2, headers rf')"
      by (simp add: p(2,3))
    from split_final_extend [OF _ this, of "headers rf @ [(n, s)]" fin1] w True
    show ?thesis by (simp add: b fin push_validators_def)
  next
    case False
    then have "push n s rf = ([], rf)"
      using Cons.prems(2) by (intro push_rejected) (simp add: accepts_def)
    with Cons False show ?thesis by (simp add: b)
  qed
qed

section \<open>The rule for whole chains\<close>

text \<open>Property C3: the tracker computes AuRa finality. Over any run of blocks from a tracker with a sealed
  validator list, the blocks handed out as finalized, batch after batch, are the front of the chain (the
  window and the blocks of known signers, in order), the window is the rest, and a block is among the
  finalized ones exactly when more than half of the validators signed it or one of its descendants.
  However many blocks the calls finalize at a time, none is finalized twice, skipped or out of order.\<close>

theorem finality_is_descendant_majority:
  assumes "rf_inv rf" and "validators_sealed rf" and "length (headers rf) + length bs < 2 ^ 64 - 1"
    and "push_run bs rf = (fin, rf')"
  shows "let chain = headers rf @ filter (\<lambda>b. snd b \<in> set (validators rf)) bs in
      chain = fin @ headers rf'
    \<and> (\<forall>i < length chain. i < length fin \<longleftrightarrow>
         length (validators rf) < 2 * card (snd ` set (drop i chain)))"
proof -
  note run = push_run_split_final [OF assms, unfolded known_blocks_def]
  show ?thesis
    using split_final_append [OF run] split_final_position [OF run]
    by (simp add: has_majority_def signers_def)
qed

text \<open>Four validators; three of them and a stranger sign.\<close>

definition sample_sealed :: RollingFinality where
  "sample_sealed = set_validators [1, 2, 3, 4] (rf_new [])"

lemma sample_sealed_ok:
  "rf_inv sample_sealed" "validators_sealed sample_sealed" "headers sample_sealed = []"
  "validators sample_sealed = [1, 2, 3, 4]"
  using rf_inv_set_validators [OF rf_inv_new, of "[1, 2, 3, 4]" "[]"]
  by (simp_all add: sample_sealed_def set_validators_def)

theorem finality_is_descendant_majority_witness:
  "fst (push_run [(1, 1), (2, 9), (3, 2), (4, 3)] sample_sealed) = [(1, 1)]"
proof -
  obtain fin rf' where run: "push_run [(1, 1), (2, 9), (3, 2), (4, 3)] sample_sealed = (fin, rf')" by force
  have room: "length (headers sample_sealed) + length [(1 :: u64, 1 :: address), (2, 9), (3, 2), (4, 3)] < 2 ^ 64 - 1"
    by (simp add: sample_sealed_ok)
  have chain: "filter (\<lambda>b. snd b \<in> set [1, 2, 3, 4]) [(1 :: u64, 1 :: address), (2, 9), (3, 2), (4, 3)]
      = [(1, 1), (3, 2), (4, 3)]" by simp
  have spec: "[(1, 1), (3, 2), (4, 3)] = fin @ headers rf'
    \<and> (\<forall>i < length [(1 :: u64, 1 :: address), (3, 2), (4, 3)]. i < length fin \<longleftrightarrow>
        length [1, 2, 3, 4 :: address] < 2 * card (snd ` set (drop i [(1 :: u64, 1 :: address), (3, 2), (4, 3)])))"
    using finality_is_descendant_majority [OF sample_sealed_ok(1,2) room run]
    unfolding sample_sealed_ok(3,4) Let_def append_Nil chain .
  have "0 < length fin" "\<not> 1 < length fin"
    using spec [THEN conjunct2, rule_format, of 0] spec [THEN conjunct2, rule_format, of 1] by simp_all
  then have "length fin = 1" by linarith
  with spec run show ?thesis by (cases fin) auto
qed

section \<open>Orphaned blocks\<close>

text \<open>The finalized blocks of a chain are, in order, among those of the same chain with one more block.\<close>

lemma split_final_insert:
  "split_final vs (xs @ ys) = (f, r) \<Longrightarrow> split_final vs (xs @ y # ys) = (f', r') \<Longrightarrow> subseq f f'"
proof (induction xs arbitrary: f f')
  case Nil
  show ?case
  proof (cases "has_majority vs (y # ys)")
    case True
    with Nil show ?thesis by (auto split: prod.splits)
  next
    case False
    with has_majority_mono [of ys "y # ys"] have "\<not> has_majority vs ys" by auto
    with split_final_none Nil(1) show ?thesis by simp
  qed
next
  case (Cons x xs)
  show ?case
  proof (cases "has_majority vs (x # xs @ ys)")
    case True
    then have "has_majority vs (x # xs @ y # ys)"
      by (rule has_majority_mono [rotated]) auto
    with True Cons show ?thesis by (auto split: prod.splits)
  next
    case False
    with Cons.prems(1) show ?thesis by simp
  qed
qed

lemma push_run_append:
  "push_run (xs @ ys) rf =
     (let (fin, rf1) = push_run xs rf; (fin', rf2) = push_run ys rf1 in (fin @ fin', rf2))"
proof (induction xs arbitrary: rf)
  case (Cons b bs)
  then show ?case by (cases b) (simp add: case_prod_beta Let_def)
qed (simp add: case_prod_beta)

lemma push_run_keeps:
  "rf_inv rf \<Longrightarrow> validators_sealed rf \<Longrightarrow> length (headers rf) + length bs < 2 ^ 64 - 1 \<Longrightarrow>
     push_run bs rf = (fin, rf') \<Longrightarrow>
     rf_inv rf' \<and> validators rf' = validators rf \<and> length (headers rf') \<le> length (headers rf) + length bs"
proof (induction bs arbitrary: rf fin)
  case (Cons b bs)
  obtain n s where b: "b = (n, s)" by force
  obtain fin1 rf1 where push: "push n s rf = (fin1, rf1)" by force
  obtain fin2 where rest: "push_run bs rf1 = (fin2, rf')"
    using Cons.prems(4) by (auto simp: b push split: prod.splits)
  have room: "length (headers rf) < 2 ^ 64 - 1" using Cons.prems(3) by simp
  have one: "rf_inv rf1 \<and> validators rf1 = validators rf \<and> validators_sealed rf1
      \<and> length (headers rf1) \<le> Suc (length (headers rf))"
  proof (cases "s \<in> set (validators rf)")
    case True
    note p = push_sealed_member [OF Cons.prems(1) True room push]
    with Cons.prems(2) window_length [OF p(1)] show ?thesis by simp
  next
    case False
    with Cons.prems push push_rejected [of s rf n] show ?thesis by (simp add: accepts_def)
  qed
  with Cons.IH [OF _ _ _ rest] Cons.prems(3) show ?case by simp
qed simp

text \<open>One vote short of a majority, a block by a validator who has not signed in the window finalizes its
  first block.\<close>

lemma push_completes_majority:
  assumes "rf_inv rf" and "s \<in> set (validators rf)" and "length (headers rf) < 2 ^ 64 - 1"
    and "headers rf = b # w" and "s \<notin> signers (b # w)"
    and "length (validators rf) < 2 * (card (signers (b # w)) + 1)"
  shows "\<exists>later. fst (push n s rf) = b # later"
proof -
  obtain fin rf' where push: "push n s rf = (fin, rf')" by force
  have acc: "accepts s rf" using assms(2) by (simp add: accepts_def)
  note window = push_window(1) [OF acc push rf_inv_dest(1) [OF assms(1)] assms(3)]
  have "signers (b # w @ [(n, s)]) = insert s (signers (b # w))" by auto
  then have "has_majority (validators rf) (b # w @ [(n, s)])"
    using assms(5,6) unfolding has_majority_def by (metis card_insert_disjoint finite_signers Suc_eq_plus1)
  with window assms(2,4) show ?thesis
    by (auto simp: push push_validators_def split: prod.splits)
qed

text \<open>Property C28: orphaned blocks hasten finality. The tracker cannot take a block back, so a block of an
  orphaned branch (or a block executed twice) stays in the window. A chain with one such block by a
  validator finalizes, in order, at least the blocks the chain alone finalizes; and where the window is one vote
  short of a majority and the orphan's signer is not in it, its first block is finalized at the orphan,
  before the chain itself gives it a majority. The comment of the tracker says that the threshold
  shifts; it never delays a block.\<close>

theorem orphans_hasten_finality:
  assumes "rf_inv rf" and "validators_sealed rf" and "s \<in> set (validators rf)"
    and "length (headers rf) + length xs + length ys + 1 < 2 ^ 64 - 1"
    and "push_run xs rf = (fin, rf1)"
  shows "subseq (fst (push_run (xs @ ys) rf)) (fst (push_run (xs @ (n, s) # ys) rf))
    \<and> (\<forall>b w. headers rf1 = b # w \<longrightarrow> s \<notin> snd ` set (b # w) \<longrightarrow>
         length (validators rf) < 2 * (card (snd ` set (b # w)) + 1) \<longrightarrow>
         prefix (fin @ [b]) (fst (push_run (xs @ (n, s) # ys) rf)))"
proof -
  let ?vs = "validators rf"
  have alone: "split_final ?vs (headers rf @ known_blocks ?vs xs @ known_blocks ?vs ys)
      = (fst (push_run (xs @ ys) rf), headers (snd (push_run (xs @ ys) rf)))"
    using push_run_split_final [OF assms(1,2), of "xs @ ys"] assms(4) by simp
  have orphan: "split_final ?vs (headers rf @ known_blocks ?vs xs @ (n, s) # known_blocks ?vs ys)
      = (fst (push_run (xs @ (n, s) # ys) rf), headers (snd (push_run (xs @ (n, s) # ys) rf)))"
    using push_run_split_final [OF assms(1,2), of "xs @ (n, s) # ys"] assms(3,4) by simp
  have "subseq (fst (push_run (xs @ ys) rf)) (fst (push_run (xs @ (n, s) # ys) rf))"
    using split_final_insert [of ?vs "headers rf @ known_blocks ?vs xs" "known_blocks ?vs ys" _ _ "(n, s)"]
      alone orphan by simp
  moreover have "prefix (fin @ [b]) (fst (push_run (xs @ (n, s) # ys) rf))"
    if w: "headers rf1 = b # w" "s \<notin> snd ` set (b # w)" "length ?vs < 2 * (card (snd ` set (b # w)) + 1)" for b w
  proof -
    have keeps: "rf_inv rf1" "validators rf1 = ?vs" "length (headers rf1) < 2 ^ 64 - 1"
      using push_run_keeps [OF assms(1,2) _ assms(5)] assms(4) by simp_all
    obtain later where "fst (push n s rf1) = b # later"
      using push_completes_majority [OF keeps(1) assms(3) [folded keeps(2)] keeps(3) w(1)] w(2,3)
      unfolding keeps(2) signers_def by blast
    then show ?thesis by (auto simp: push_run_append assms(5) case_prod_beta Let_def)
  qed
  ultimately show ?thesis by blast
qed

theorem orphans_hasten_finality_witness:
  "prefix [(1, 1)] (fst (push_run [(1, 1), (2, 2), (2, 3), (3, 2)] sample_sealed))
   \<and> subseq (fst (push_run [(1, 1), (2, 2), (3, 2)] sample_sealed))
       (fst (push_run [(1, 1), (2, 2), (2, 3), (3, 2)] sample_sealed))"
proof -
  have run: "push_run [(1, 1), (2, 2)] sample_sealed = ([], push_all [(1, 1), (2, 2)] sample_sealed)"
    "headers (push_all [(1, 1), (2, 2)] sample_sealed) = [(1, 1), (2, 2)]"
    by code_simp+
  from orphans_hasten_finality [OF sample_sealed_ok(1,2) _ _ run(1), of 3 "[(3, 2)]" 2]
  show ?thesis by (simp add: sample_sealed_ok(3,4) run(2) del: push_run.simps push_all.simps)
qed

end
