(* ===== verification/PosdaoChain.thy ===== *)
theory PosdaoChain
  imports Handover FinalityRuns
begin

text \<open>
  Whole chains of executed blocks: the EVM configuration makes the context of a block
  (\<open>src/evm_config.rs\<close>), the executor runs it (\<open>src/block.rs\<close>) and leaves the tracker
  (\<open>src/aura/finality.rs\<close>) to the next one. Between two validator changes the tracker of the executed chain
  computes the finality of its blocks.
\<close>

section \<open>Executed blocks\<close>

text \<open>
  A chain of POSDAO blocks that execute without an error and of which none is given a \<open>finalizeChange\<close>: each
  with its number and the beneficiary its executor reads, from the tracker the chain starts with to the one it
  leaves. Nothing is assumed of what the blocks contain; they may announce changes.
\<close>

inductive executed_chain ::
  "hardforks_api \<Rightarrow> ('db, 'insp, 'pre, 'receipt) exec_env \<Rightarrow> RollingFinality mutex
     \<Rightarrow> (u64 \<times> address) list \<Rightarrow> RollingFinality mutex \<Rightarrow> bool"
  for api and xe and cell where
  no_block: "executed_chain api xe cell [] cell"
| next_block: "executed_chain api xe cell bs (ec_rolling_finality ec) \<Longrightarrow>
    context_for_block api hl ec b = (ctx, ec') \<Longrightarrow> ctx_aura ctx = Some aura \<Longrightarrow>
    finalize_change_address aura = None \<Longrightarrow> actx_posdao_transition aura \<le> bi_number b \<Longrightarrow>
    ex_ctx ex = ctx \<Longrightarrow> ex_rf ex = ec_rolling_finality ec' \<Longrightarrow>
    be_number (evm_block (ex_evm ex)) = ucast (bi_number b) \<Longrightarrow>
    apply_pre_execution_changes xe ex = (Inr (), ex1) \<Longrightarrow> run_block xe txs ex1 = (Inr (), ex2) \<Longrightarrow>
    finish xe ex2 = (Inr res, ex3) \<Longrightarrow>
    executed_chain api xe cell (bs @ [(bi_number b, be_beneficiary (evm_block (ex_evm ex)))]) (ex_rf ex3)"

text \<open>The two calls before the transactions leave the block environment alone.\<close>

definition pre_calls_ok :: "('db, 'insp, 'pre, 'receipt) block_api \<Rightarrow> bool" where
  "pre_calls_ok ba \<longleftrightarrow>
     (\<forall>h st r st'. blockhashes_call ba h st = (r, st') \<longrightarrow> evm_block (fst st') = evm_block (fst st))
   \<and> (\<forall>h st r st'. beacon_root_call ba h st = (r, st') \<longrightarrow> evm_block (fst st') = evm_block (fst st))"

lemma quiet_context:
  assumes "context_for_block api hl ec b = (ctx, ec')" and "ctx_aura ctx = Some aura"
    and "finalize_change_address aura = None"
  shows "ec_rolling_finality ec' = ec_rolling_finality ec"
proof -
  have idle: "cell' = cell" if "take_scheduled n cell = (None, cell')" for n cell cell'
  proof (cases cell)
    case (Healthy rf)
    with that show ?thesis
      by (cases rule: take_finalize_change_cases [of rf n]) (simp_all add: take_scheduled_def)
  qed (use that in \<open>simp add: take_scheduled_def\<close>)
  with assms show ?thesis
    by (auto simp: context_for_block_def Let_def aura_ctx_def dest: idle split: option.splits if_splits prod.splits)
qed

lemma on_exec_state_block_kept:
  assumes "on_exec_state f ex = (r, ex')"
    and "\<And>st r st'. f st = (r, st') \<Longrightarrow> evm_block (fst st') = evm_block (fst st)"
  shows "evm_block (ex_evm ex') = evm_block (ex_evm ex)"
  using assms by (fastforce simp: on_exec_state_def split: prod.splits)

lemma balancer_activation_keeps:
  "ex_ctx (balancer_activation xe ts ex) = ex_ctx ex"
  "evm_block (ex_evm (balancer_activation xe ts ex)) = evm_block (ex_evm ex)"
  by (simp_all add: balancer_activation_def rewrite_bytecodes_def commit_def split: option.split prod.split)

text \<open>Without a change to finalize and with a known validator list, the first half of a block leaves the
  context, the tracker and the block environment as they are.\<close>

lemma quiet_pre_execution:
  assumes "apply_pre_execution_changes xe ex = (Inr (), ex')" and "pre_calls_ok (xe_block xe)"
    and "ctx_aura (ex_ctx ex) = Some aura" and "finalize_change_address aura = None"
    and "ex_rf ex = Healthy rf" and "validators rf \<noteq> []"
  shows "ex_rf ex' = Healthy rf \<and> ex_ctx ex' = ex_ctx ex \<and> evm_block (ex_evm ex') = evm_block (ex_evm ex)"
proof -
  have init: "init_validators xe aura n ex = (Inr (), ex)" for n
    using assms(5,6) by (simp add: init_validators_def validator_count_def split: option.split)
  have pre: "aura_pre_execution xe n ex = (Inr (), aura_rewrites xe aura ex)" for n
    using assms(3,4) by (simp add: aura_pre_execution_def init call_finalize_change_def)
  have rewritten: "ex_rf (aura_rewrites xe aura ex) = ex_rf ex" "ex_ctx (aura_rewrites xe aura ex) = ex_ctx ex"
    "evm_block (ex_evm (aura_rewrites xe aura ex)) = evm_block (ex_evm ex)"
    by (simp_all add: aura_rewrites_def rewrite_aura_bytecodes_def commit_def split: option.split prod.split)
  from assms(1) obtain n ts ex2 where steps:
      "on_exec_state (blockhashes_call (xe_block xe) (ctx_parent_hash (ex_ctx (balancer_activation xe ts (aura_rewrites xe aura ex)))))
         (balancer_activation xe ts (aura_rewrites xe aura ex)) = (Inr (), ex2)"
      "on_exec_state (beacon_root_call (xe_block xe) (ctx_parent_beacon_block_root (ex_ctx ex2))) ex2 = (Inr (), ex')"
    by (auto simp: apply_pre_execution_changes_def then_do_Inr_iff Let_def pre)
  have "ex_rf (balancer_activation xe ts ex0) = ex_rf ex0" for ex0
    by (simp add: balancer_activation_def split: option.split)
  moreover have "evm_block (ex_evm ex2) = evm_block (ex_evm (balancer_activation xe ts (aura_rewrites xe aura ex)))"
    "evm_block (ex_evm ex') = evm_block (ex_evm ex2)"
    using assms(2) on_exec_state_block_kept [OF steps(1)] on_exec_state_block_kept [OF steps(2)]
    unfolding pre_calls_ok_def by blast+
  ultimately show ?thesis
    using on_exec_state_keeps [OF steps(1)] on_exec_state_keeps [OF steps(2)] rewritten assms(5)
    by (simp add: ex_core_def balancer_activation_keeps)
qed

lemma run_block_keeps:
  "gas_ok (xe_evm xe) \<Longrightarrow> run_block xe txs ex = (r, ex') \<Longrightarrow>
     ex_rf ex' = ex_rf ex \<and> ex_ctx ex' = ex_ctx ex \<and> evm_block (ex_evm ex') = evm_block (ex_evm ex)"
proof (induction txs arbitrary: ex)
  case (Cons tx txs)
  obtain out ex1 where exec: "execute_transaction_without_commit xe tx ex = (out, ex1)" by force
  have one: "ex_rf ex1 = ex_rf ex" "ex_ctx ex1 = ex_ctx ex" "evm_block (ex_evm ex1) = evm_block (ex_evm ex)"
    using exec Cons.prems(1) unfolding gas_ok_def
    by (auto simp: execute_transaction_without_commit_def Let_def split: if_splits prod.splits sum.splits)
  have commit: "ex_rf (snd (commit_transaction xe tr ex1)) = ex_rf ex1"
    "ex_ctx (snd (commit_transaction xe tr ex1)) = ex_ctx ex1"
    "evm_block (ex_evm (snd (commit_transaction xe tr ex1))) = evm_block (ex_evm ex1)" for tr
    by (simp_all add: commit_transaction_def Let_def commit_def)
  show ?case
  proof (cases out)
    case (Inr tr)
    with Cons.IH [OF Cons.prems(1), of "snd (commit_transaction xe tr ex1)"] Cons.prems(2) exec one commit
    show ?thesis by simp
  qed (use Cons.prems(2) exec one in simp)
qed simp

section \<open>The window of an executed chain\<close>

text \<open>The parts of the tracker finality depends on; pending and scheduled changes are not among them.\<close>

definition same_window :: "RollingFinality \<Rightarrow> RollingFinality \<Rightarrow> bool" where
  "same_window rf rf' \<longleftrightarrow> validators rf = validators rf' \<and> validators_sealed rf = validators_sealed rf'
     \<and> headers rf = headers rf' \<and> sign_count rf = sign_count rf'"

lemma push_same_window:
  "same_window rf rf' \<Longrightarrow> same_window (snd (push n s rf)) (snd (push n s rf'))"
  by (auto simp: same_window_def push_def Let_def split: prod.split)

lemma announced_same_window:
  "same_window rf rf' \<Longrightarrow> same_window (add_pending_transition n c rf) rf'"
  by (simp add: same_window_def add_pending_transition_def)

text \<open>One block pushes its signer.\<close>

lemma executed_block_pushes:
  assumes "gas_ok (xe_evm xe)" and "block_calls_ok (xe_block xe)" and "pre_calls_ok (xe_block xe)"
    and "ctx_aura (ex_ctx ex) = Some aura" and "finalize_change_address aura = None"
    and "actx_posdao_transition aura \<le> n" and "ex_rf ex = Healthy rf" and "validators rf \<noteq> []"
    and "be_number (evm_block (ex_evm ex)) = ucast n"
    and "apply_pre_execution_changes xe ex = (Inr (), ex1)" and "run_block xe txs ex1 = (Inr (), ex2)"
    and "finish xe ex2 = (Inr res, ex3)"
  shows "\<exists>announced. ex_rf ex3 = Healthy (snd (push n (be_beneficiary (evm_block (ex_evm ex)))
    (if announced then add_pending_transition n (the (validator_contract aura)) rf else rf)))"
proof -
  note pre = quiet_pre_execution [OF assms(10,3,4,5,7,8)] and txs = run_block_keeps [OF assms(1,11)]
  have "ctx_aura (ex_ctx ex2) = Some aura" "be_number (evm_block (ex_evm ex2)) = ucast n" "ex_rf ex2 = Healthy rf"
    using pre txs assms(4,9) by simp_all
  from finish_tracker [OF assms(1,2,12) this] obtain announced where
    "ex_rf ex3 = Healthy (tracker_after aura n (be_beneficiary (evm_block (ex_evm ex2))) announced rf)" by blast
  with assms(6) pre txs show ?thesis by (auto simp: tracker_after_def Let_def)
qed

lemma executed_chain_window:
  assumes "executed_chain api xe (Healthy rf) bs cell'"
    and "gas_ok (xe_evm xe)" and "block_calls_ok (xe_block xe)" and "pre_calls_ok (xe_block xe)"
    and "rf_inv rf" and "validators_sealed rf" and "validators rf \<noteq> []"
    and "length (headers rf) + length bs < 2 ^ 64 - 1"
  shows "\<exists>rf'. cell' = Healthy rf' \<and> same_window rf' (snd (push_run bs rf))"
  using assms
proof (induction rule: executed_chain.induct)
  case no_block
  then show ?case by (simp add: same_window_def)
next
  case (next_block bs ec hl b ctx ec' aura ex ex1 txs ex2 res ex3)
  let ?s = "be_beneficiary (evm_block (ex_evm ex))"
  have room: "length (headers rf) + length bs < 2 ^ 64 - 1" using next_block.prems(7) by simp
  with next_block.IH next_block.prems obtain rf1 where rf1: "ec_rolling_finality ec = Healthy rf1"
    "same_window rf1 (snd (push_run bs rf))" by blast
  have "validators rf1 \<noteq> []"
    using rf1(2) push_run_keeps [OF next_block.prems(4,5) room prod.collapse [symmetric]] next_block.prems(6)
    by (simp add: same_window_def)
  moreover have "ex_rf ex = Healthy rf1"
    using quiet_context [OF next_block.hyps(2-4)] next_block.hyps(7) rf1(1) by simp
  ultimately obtain announced where "ex_rf ex3 = Healthy (snd (push (bi_number b) ?s
      (if announced then add_pending_transition (bi_number b) (the (validator_contract aura)) rf1 else rf1)))"
    using executed_block_pushes [OF next_block.prems(1-3) _ next_block.hyps(4,5) _ _ next_block.hyps(8-11)]
      next_block.hyps(3,6) by blast
  moreover have "snd (push_run (bs @ [(bi_number b, ?s)]) rf) = snd (push (bi_number b) ?s (snd (push_run bs rf)))"
    by (simp add: push_run_append case_prod_beta Let_def)
  ultimately show ?case
    using push_same_window rf1(2) announced_same_window by auto
qed

text \<open>Property C2: executed blocks become final by the rule of AuRa. Along a chain of POSDAO blocks executed without
  an error and without a validator change (from a tracker whose list is known), whatever the blocks
  contain or announce, the tracker the last executor leaves is in working order, its window and the blocks
  it has finalized are together the blocks of the chain sealed by validators, in order, and a block is
  final exactly when more than half of the validators sealed it or a later block.\<close>

theorem executed_chain_finality:
  assumes "executed_chain api xe (Healthy rf) bs cell'"
    and "gas_ok (xe_evm xe)" and "block_calls_ok (xe_block xe)" and "pre_calls_ok (xe_block xe)"
    and "rf_inv rf" and "validators_sealed rf" and "validators rf \<noteq> []"
    and "length (headers rf) + length bs < 2 ^ 64 - 1"
  shows "\<exists>rf' fin. cell' = Healthy rf' \<and> validators rf' = validators rf
    \<and> (let chain = headers rf @ filter (\<lambda>b. snd b \<in> set (validators rf)) bs in
        chain = fin @ headers rf'
      \<and> (\<forall>i < length chain. i < length fin \<longleftrightarrow>
           length (validators rf) < 2 * card (snd ` set (drop i chain))))"
proof -
  obtain rf' where rf': "cell' = Healthy rf'" "same_window rf' (snd (push_run bs rf))"
    using executed_chain_window [OF assms] by blast
  obtain fin rf2 where run: "push_run bs rf = (fin, rf2)" by (rule prod.exhaust)
  note split = push_run_split_final [OF assms(5,6,8) run, unfolded known_blocks_def]
  have "headers rf' = headers rf2" "validators rf' = validators rf"
    using rf'(2) run push_run_keeps [OF assms(5,6,8) run] by (simp_all add: same_window_def)
  moreover note split_final_append [OF split] split_final_position [OF split]
  ultimately show ?thesis
    using rf'(1) by (intro exI [of _ rf'] exI [of _ fin]) (simp add: has_majority_def signers_def)
qed

text \<open>Block 1 of the sample chain: it is sealed by 9 and finalizes block 0, sealed by 8.\<close>

lemma sample_pre_calls_ok: "pre_calls_ok (xe_block (sample_exec_env out))"
  by (simp add: pre_calls_ok_def sample_exec_env_def sample_block_api_def)

lemma posdao_tracker_fields:
  "validators posdao_tracker = [8, 9]" "validators_sealed posdao_tracker" "headers posdao_tracker = [(0, 8)]"
  "finalize_change_at posdao_tracker = None"
  by code_simp+

lemma posdao_tracker_inv: "rf_inv posdao_tracker"
proof -
  have eq: "posdao_tracker = rf_run [SetValidators [8, 9], AddPending 0 17, Push 0 8] (rf_new [])"
    by (simp add: posdao_tracker_def)
  show ?thesis
    unfolding eq by (rule rf_run_inv [OF rf_inv_new]) (simp add: rf_new_def)
qed

lemma posdao_context:
  "context_for_block sample_hardforks_api noop_header_lookup (posdao_ec (Healthy posdao_tracker)) (sample_block_info 1)
     = (ex_ctx posdao_executor, posdao_ec (Healthy posdao_tracker))"
proof -
  have "ctx_aura (ex_ctx posdao_executor) = Some (aura_ctx posdao_cfg 1 None)"
    by (simp add: posdao_executor_def sample_executor_def sample_aura_ctx_def aura_ctx_def posdao_cfg_def
        contract_address_at_def kind_at_def)
  moreover have "compute_finalize_change_address (posdao_ec cell) 1 = None" for cell
    by (simp add: compute_finalize_change_address_def posdao_ec_def posdao_cfg_def
        compute_finalize_change_address_from_validators_def contract_address_at_def kind_at_def word_le_nat_alt)
  moreover have "take_scheduled 1 (Healthy posdao_tracker) = (None, Healthy posdao_tracker)"
    by (simp add: take_scheduled_def take_finalize_change_def posdao_tracker_fields)
  ultimately show ?thesis
    by (simp add: context_for_block_def Let_def sample_block_info_def posdao_ec_def posdao_executor_def
        sample_executor_def is_active_at_block_def fork_activation_def sample_hardforks_api_def word_le_nat_alt
        parent_timestamp_of_def noop_header_lookup_def rewards_override_at_def posdao_cfg_def)
qed

lemma posdao_pre_runs: "apply_pre_execution_changes (sample_exec_env (CallOutput [3, 4])) posdao_executor = (Inr (), posdao_executor)"
  by (simp add: try_u64_def apply_pre_execution_changes_def aura_pre_execution_def init_validators_def Let_def to_u64_def
      posdao_executor_def sample_executor_def sample_block_fields sample_aura_ctx_def validator_count_def posdao_tracker_fields
      aura_rewrites_def call_finalize_change_def sample_exec_env_def on_exec_state_def
      sample_block_api_def balancer_activation_def is_balancer_hardfork_active_at_timestamp_def sample_hardforks_api_def)

lemma posdao_sealer: "be_beneficiary (evm_block (ex_evm posdao_executor)) = 9"
  by (simp add: posdao_executor_def sample_executor_def sample_block_fields)

theorem executed_chain_finality_witness:
  "\<exists>cell' rf' fin. executed_chain sample_hardforks_api (sample_exec_env (CallOutput [3, 4]))
      (Healthy posdao_tracker) [(1, 9)] cell'
    \<and> cell' = Healthy rf' \<and> [(0, 8), (1, 9)] = fin @ headers rf' \<and> 0 < length fin"
proof -
  let ?xe = "sample_exec_env (CallOutput [3, 4])"
  obtain res ex' where run: "finish ?xe posdao_executor = (Inr res, ex')" using posdao_finish_runs by blast
  have fields: "ctx_aura (ex_ctx posdao_executor) = Some (sample_aura_ctx None 0)"
    "finalize_change_address (sample_aura_ctx None 0) = None"
    "actx_posdao_transition (sample_aura_ctx None 0) \<le> bi_number (sample_block_info 1)"
    "ex_rf posdao_executor = ec_rolling_finality (posdao_ec (Healthy posdao_tracker))"
    "be_number (evm_block (ex_evm posdao_executor)) = ucast (bi_number (sample_block_info 1))"
    "run_block ?xe [] posdao_executor = (Inr (), posdao_executor)"
    by (simp_all add: posdao_executor_def sample_executor_def sample_block_fields sample_aura_ctx_def
        sample_block_info_def posdao_ec_def)
  have "executed_chain sample_hardforks_api ?xe (Healthy posdao_tracker) []
      (ec_rolling_finality (posdao_ec (Healthy posdao_tracker)))"
    by (simp add: posdao_ec_def no_block)
  from next_block [OF this posdao_context fields(1-3) refl fields(4,5) posdao_pre_runs fields(6) run]
  have chain: "executed_chain sample_hardforks_api ?xe (Healthy posdao_tracker) [(1, 9)] (ex_rf ex')"
    by (simp add: sample_block_info_def posdao_sealer)
  have both: "filter (\<lambda>b. snd b \<in> set [8, 9 :: address]) [(1 :: 64 word, 9)] = [(1, 9)]" by simp
  have "validators posdao_tracker \<noteq> []" "length (headers posdao_tracker) + length [(1 :: 64 word, 9 :: address)] < 2 ^ 64 - 1"
    by (simp_all add: posdao_tracker_fields)
  from executed_chain_finality [OF chain sample_env_ok sample_pre_calls_ok posdao_tracker_inv posdao_tracker_fields(2) this]
  obtain rf' fin where rf': "ex_rf ex' = Healthy rf'" and split: "[(0, 8)] @ [(1, 9)] = fin @ headers rf'"
    "\<forall>i < length ([(0 :: 64 word, 8 :: address)] @ [(1, 9)]). i < length fin \<longleftrightarrow>
       length [8, 9 :: address] < 2 * card (snd ` set (drop i ([(0 :: 64 word, 8 :: address)] @ [(1, 9)])))"
    unfolding posdao_tracker_fields Let_def both by (elim exE conjE) (rule that)
  have "0 < length fin" using split(2) [THEN spec, of 0] by simp
  with chain rf' split(1) show ?thesis by auto
qed

end
