(* ===== verification/BlockBuild.thy ===== *)
theory BlockBuild
  imports EvmConfig
begin

text \<open>
  The blocks of the node (\<open>src/primitives/block.rs\<close>) with the two conversions from Ethereum blocks, and
  the block assembler of \<open>src/build.rs\<close>, which turns the outcome of an execution into a header and a
  body. The roots, the bloom filter and the hash of the requests are parameters, as is the conversion
  of a header. The main lemmas relate the environment a block is built in to the environment it is
  imported in.
\<close>

section \<open>Blocks\<close>

record 'tx gnosis_block =
  gb_header :: GnosisHeader
  gb_transactions :: "'tx list"
  gb_ommers :: "GnosisHeader list"
  gb_withdrawals :: "withdrawal list option"

record 'tx eth_block =
  eb_header :: EthHeader
  eb_transactions :: "'tx list"
  eb_ommers :: "EthHeader list"
  eb_withdrawals :: "withdrawal list option"

definition into_gnosis_block :: "(EthHeader \<Rightarrow> GnosisHeader) \<Rightarrow> 'tx eth_block \<Rightarrow> 'tx gnosis_block" where
  "into_gnosis_block from_eth b =
     \<lparr>gb_header = from_eth (eb_header b), gb_transactions = eb_transactions b,
      gb_ommers = map from_eth (eb_ommers b), gb_withdrawals = eb_withdrawals b\<rparr>"

text \<open>The debug client's conversion; the library turns the RPC block into an Ethereum block first.\<close>

definition rpc_to_primitive_block ::
  "('rpc \<Rightarrow> 'tx eth_block) \<Rightarrow> (EthHeader \<Rightarrow> GnosisHeader) \<Rightarrow> 'rpc \<Rightarrow> 'tx gnosis_block" where
  "rpc_to_primitive_block into_consensus from_eth rpc_block =
     (let block = into_consensus rpc_block in
      \<lparr>gb_header = from_eth (eb_header block), gb_transactions = eb_transactions block,
       gb_ommers = map from_eth (eb_ommers block), gb_withdrawals = eb_withdrawals block\<rparr>)"

section \<open>The assembler\<close>

record ('tx, 'receipt) proofs_api =
  calculate_transaction_root :: "'tx list \<Rightarrow> b256"
  calculate_receipt_root :: "'receipt list \<Rightarrow> b256"
  logs_bloom_of :: "log list \<Rightarrow> 2048 word"
  calculate_withdrawals_root :: "withdrawal list \<Rightarrow> b256"
  requests_hash_of :: "requests_entry list \<Rightarrow> b256"
  logs_of :: "'receipt \<Rightarrow> log list"
  empty_ommer_root :: b256
  next_excess_of_zero :: u64

text \<open>\<open>next_excess_of_zero\<close> is \<open>BlobParams::cancun().next_block_excess_blob_gas_osaka(0, 0, 0)\<close>.\<close>

record ('tx, 'receipt) assembler_input =
  ai_evm_env :: "cfg_env \<times> block_env"
  ai_ctx :: GnosisBlockExecutionCtx
  ai_parent :: GnosisHeader
  ai_transactions :: "'tx list"
  ai_output :: "'receipt block_result"
  ai_state_root :: b256

definition assembled_excess_blob_gas ::
  "hardforks_api \<Rightarrow> config_api \<Rightarrow> GnosisChainSpec \<Rightarrow> u64 \<Rightarrow> u64 \<Rightarrow> GnosisHeader \<Rightarrow> u64 option" where
  "assembled_excess_blob_gas api c spec excess_of_zero timestamp parent =
     (if is_active_at_timestamp api spec Cancun timestamp
      then if is_active_at_timestamp api spec Cancun (h_timestamp parent)
           then maybe_next_block_excess_blob_gas c parent (blob_params_at_timestamp c spec timestamp)
           else Some excess_of_zero
      else None)"

definition assemble_block ::
  "hardforks_api \<Rightarrow> config_api \<Rightarrow> (EthHeader \<Rightarrow> GnosisHeader) \<Rightarrow> ('tx, 'receipt) proofs_api
     \<Rightarrow> GnosisChainSpec \<Rightarrow> bytes \<Rightarrow> ('tx, 'receipt) assembler_input \<Rightarrow> 'tx gnosis_block" where
  "assemble_block api c from_eth pf spec extra_data input =
     (let env = snd (ai_evm_env input);
          ctx = ai_ctx input;
          out = ai_output input;
          timestamp = saturating_to_u64 (be_timestamp env);
          withdrawals = (if is_active_at_timestamp api spec Shanghai timestamp
             then Some (case ctx_withdrawals ctx of None \<Rightarrow> [] | Some w \<Rightarrow> w) else None);
          requests_hash = (if is_active_at_timestamp api spec Prague timestamp
             then Some (requests_hash_of pf (br_requests out)) else None);
          block_blob_gas_used = (if is_active_at_timestamp api spec Cancun timestamp
             then Some (br_blob_gas_used out) else None);
          header =
            \<lparr>eth_parent_hash = ctx_parent_hash ctx, eth_ommers_hash = empty_ommer_root pf,
             eth_beneficiary = be_beneficiary env, eth_state_root = ai_state_root input,
             eth_transactions_root = calculate_transaction_root pf (ai_transactions input),
             eth_receipts_root = calculate_receipt_root pf (br_receipts out),
             eth_logs_bloom = logs_bloom_of pf (concat (map (logs_of pf) (br_receipts out))),
             eth_difficulty = be_difficulty env, eth_number = saturating_to_u64 (be_number env),
             eth_gas_limit = be_gas_limit env, eth_gas_used = br_gas_used out,
             eth_timestamp = timestamp, eth_extra_data = extra_data,
             eth_mix_hash = unwrap_or_default (be_prevrandao env), eth_nonce = 0,
             eth_base_fee_per_gas = Some (be_basefee env),
             eth_withdrawals_root = map_option (calculate_withdrawals_root pf) withdrawals,
             eth_blob_gas_used = block_blob_gas_used,
             eth_excess_blob_gas = assembled_excess_blob_gas api c spec (next_excess_of_zero pf)
               timestamp (ai_parent input),
             eth_parent_beacon_block_root = ctx_parent_beacon_block_root ctx,
             eth_requests_hash = requests_hash\<rparr>
      in \<lparr>gb_header = from_eth header, gb_transactions = ai_transactions input, gb_ommers = [],
          gb_withdrawals = withdrawals\<rparr>)"

text \<open>What the conversion of a header is relied on for: it copies the fields, sets the mix hash and
  the nonce, and the result is a post-merge header without a slot number.\<close>

definition header_from_ok :: "config_api \<Rightarrow> (EthHeader \<Rightarrow> GnosisHeader) \<Rightarrow> bool" where
  "header_from_ok c from_eth \<longleftrightarrow> (\<forall>h.
     h_parent_hash (from_eth h) = eth_parent_hash h \<and> h_beneficiary (from_eth h) = eth_beneficiary h
     \<and> h_difficulty (from_eth h) = eth_difficulty h \<and> h_number (from_eth h) = eth_number h
     \<and> h_gas_limit (from_eth h) = eth_gas_limit h \<and> h_gas_used (from_eth h) = eth_gas_used h
     \<and> h_timestamp (from_eth h) = eth_timestamp h \<and> h_mix_hash (from_eth h) = Some (eth_mix_hash h)
     \<and> h_base_fee_per_gas (from_eth h) = eth_base_fee_per_gas h
     \<and> h_withdrawals_root (from_eth h) = eth_withdrawals_root h
     \<and> h_blob_gas_used (from_eth h) = eth_blob_gas_used h
     \<and> h_excess_blob_gas (from_eth h) = eth_excess_blob_gas h
     \<and> h_parent_beacon_block_root (from_eth h) = eth_parent_beacon_block_root h
     \<and> h_requests_hash (from_eth h) = eth_requests_hash h
     \<and> \<not> hdr_is_pre_merge c (from_eth h) \<and> hdr_slot_number c (from_eth h) = None)"

lemma header_from_ok_dest:
  assumes "header_from_ok c from_eth"
  shows "h_parent_hash (from_eth h) = eth_parent_hash h" "h_beneficiary (from_eth h) = eth_beneficiary h"
    "h_difficulty (from_eth h) = eth_difficulty h" "h_number (from_eth h) = eth_number h"
    "h_gas_limit (from_eth h) = eth_gas_limit h" "h_gas_used (from_eth h) = eth_gas_used h"
    "h_timestamp (from_eth h) = eth_timestamp h" "h_mix_hash (from_eth h) = Some (eth_mix_hash h)"
    "h_base_fee_per_gas (from_eth h) = eth_base_fee_per_gas h"
    "h_withdrawals_root (from_eth h) = eth_withdrawals_root h"
    "h_blob_gas_used (from_eth h) = eth_blob_gas_used h"
    "h_excess_blob_gas (from_eth h) = eth_excess_blob_gas h"
    "h_parent_beacon_block_root (from_eth h) = eth_parent_beacon_block_root h"
    "h_requests_hash (from_eth h) = eth_requests_hash h"
    "\<not> hdr_is_pre_merge c (from_eth h)" "hdr_slot_number c (from_eth h) = None"
  using assms by (simp_all add: header_from_ok_def)

lemma saturating_to_u64_ucast [simp]: "saturating_to_u64 (ucast (n :: u64)) = n"
  by (simp add: saturating_to_u64_def)

section \<open>Build and import\<close>

text \<open>The input the payload builder assembles: the environment of the next block and its context.\<close>

definition next_block_input ::
  "hardforks_api \<Rightarrow> config_api \<Rightarrow> GnosisEvmConfig \<Rightarrow> GnosisHeader \<Rightarrow> b256 \<Rightarrow> NextBlockEnvAttributes
     \<Rightarrow> 'tx list \<Rightarrow> 'receipt block_result \<Rightarrow> b256 \<Rightarrow> ('tx, 'receipt) assembler_input" where
  "next_block_input api c ec parent parent_hash attributes txs out root =
     \<lparr>ai_evm_env = next_evm_env api c ec parent attributes,
      ai_ctx = context_for_next_block api ec parent parent_hash attributes, ai_parent = parent,
      ai_transactions = txs, ai_output = out, ai_state_root = root\<rparr>"

text \<open>revm's specification of a header is that of its timestamp and number; the blob fields of the
  parent follow Cancun: from Cancun on there are blob parameters and a next excess, before there is
  none, and the excess after an empty parent is zero.\<close>

definition revm_spec_ok :: "config_api \<Rightarrow> GnosisChainSpec \<Rightarrow> bool" where
  "revm_spec_ok c spec \<longleftrightarrow>
     (\<forall>h. revm_spec c spec h = revm_spec_by_timestamp_and_block_number c spec (h_timestamp h) (h_number h))"

definition blob_fields_ok ::
  "hardforks_api \<Rightarrow> config_api \<Rightarrow> GnosisChainSpec \<Rightarrow> GnosisHeader \<Rightarrow> u64 \<Rightarrow> bool" where
  "blob_fields_ok api c spec parent t \<longleftrightarrow>
     (is_active_at_timestamp api spec Cancun t \<longrightarrow> blob_params_at_timestamp c spec t \<noteq> None)
     \<and> (maybe_next_block_excess_blob_gas c parent (blob_params_at_timestamp c spec t) \<noteq> None \<longleftrightarrow>
          is_active_at_timestamp api spec Cancun t
          \<and> is_active_at_timestamp api spec Cancun (h_timestamp parent))"

lemma next_evm_env_fields:
  "be_timestamp (snd (next_evm_env api c ec parent attrs)) = ucast (na_timestamp attrs)"
  "be_number (snd (next_evm_env api c ec parent attrs)) = ucast (h_number parent + 1)"
  by (simp_all add: next_evm_env_def Let_def)

lemma assembled_header_fields:
  fixes input :: "('tx, 'receipt) assembler_input"
  assumes "header_from_ok c from_eth" and "b = assemble_block api c from_eth pf spec extra input"
  shows "h_timestamp (gb_header b) = saturating_to_u64 (be_timestamp (snd (ai_evm_env input)))"
    "h_number (gb_header b) = saturating_to_u64 (be_number (snd (ai_evm_env input)))"
    "h_beneficiary (gb_header b) = be_beneficiary (snd (ai_evm_env input))"
    "h_difficulty (gb_header b) = be_difficulty (snd (ai_evm_env input))"
    "h_mix_hash (gb_header b) = Some (unwrap_or_default (be_prevrandao (snd (ai_evm_env input))))"
    "h_gas_limit (gb_header b) = be_gas_limit (snd (ai_evm_env input))"
    "h_base_fee_per_gas (gb_header b) = Some (be_basefee (snd (ai_evm_env input)))"
    "h_excess_blob_gas (gb_header b) = assembled_excess_blob_gas api c spec (next_excess_of_zero pf)
       (saturating_to_u64 (be_timestamp (snd (ai_evm_env input)))) (ai_parent input)"
    "\<not> hdr_is_pre_merge c (gb_header b)" "hdr_slot_number c (gb_header b) = None"
  by (simp_all add: assms(2) assemble_block_def Let_def header_from_ok_dest [OF assms(1)])

lemma zip_option_simps [simp]:
  "zip_option None y = None" "zip_option x None = None" "zip_option (Some a) (Some b) = Some (a, b)"
  by (simp_all add: zip_option_def split: option.split)

lemma imported_env:
  fixes pf :: "('tx, 'receipt) proofs_api"
  assumes "header_from_ok c from_eth" and "revm_spec_ok c (ec_chain_spec ec)"
    and "s = revm_spec_by_timestamp_and_block_number c (ec_chain_spec ec) (na_timestamp attrs) (h_number parent + 1)"
    and "MERGE \<le> s" and "na_slot_number attrs = None"
    and "b = assemble_block api c from_eth pf (ec_chain_spec ec) extra
           (next_block_input api c ec parent parent_hash attrs txs out root)"
  shows "evm_env api c ec (gb_header b) = (fst (next_evm_env api c ec parent attrs),
    (snd (next_evm_env api c ec parent attrs))\<lparr>be_blob :=
       map_option (\<lambda>(excess, params). blob_env c params excess)
         (zip_option (assembled_excess_blob_gas api c (ec_chain_spec ec) (next_excess_of_zero pf)
              (na_timestamp attrs) parent)
            (blob_params_at_timestamp c (ec_chain_spec ec) (na_timestamp attrs)))\<rparr>)"
proof -
  note h = assembled_header_fields [OF assms(1,6)]
  have input: "ai_evm_env (next_block_input api c ec parent parent_hash attrs txs out root) = next_evm_env api c ec parent attrs"
    "ai_parent (next_block_input api c ec parent parent_hash attrs txs out root) = parent"
    by (simp_all add: next_block_input_def)
  have spec: "gnosis_revm_spec api c (ec_chain_spec ec) (gb_header b) = s"
    using assms(2,3) h(1,2,9) by (simp add: gnosis_revm_spec_def revm_spec_ok_def input next_evm_env_fields)
  show ?thesis
    using assms(3,4,5)
    by (simp add: evm_env_def Let_def h input spec next_evm_env_fields)
      (simp add: next_evm_env_def Let_def unwrap_or_default_def)
qed

lemma next_env_blob:
  "be_blob (snd (next_evm_env api c ec parent attrs)) =
     map_option (blob_env c (case blob_params_at_timestamp c (ec_chain_spec ec) (na_timestamp attrs) of
         None \<Rightarrow> cancun_blob_params | Some p \<Rightarrow> p))
       (case maybe_next_block_excess_blob_gas c parent
            (blob_params_at_timestamp c (ec_chain_spec ec) (na_timestamp attrs)) of
          Some e \<Rightarrow> Some e
        | None \<Rightarrow> (if revm_spec_by_timestamp_and_block_number c (ec_chain_spec ec) (na_timestamp attrs)
                     (h_number parent + 1) = CANCUN then Some 0 else None))"
  by (simp add: next_evm_env_def Let_def)

text \<open>The blob price of the imported block, relative to the environment it was built in.\<close>

lemma assembled_blob:
  assumes ok: "blob_fields_ok api c spec parent t" and zero: "excess_of_zero = 0"
    and cancun: "s = CANCUN \<longrightarrow> is_active_at_timestamp api spec Cancun t"
    and first: "is_active_at_timestamp api spec Cancun t
      \<and> \<not> is_active_at_timestamp api spec Cancun (h_timestamp parent) \<longrightarrow> s = CANCUN"
  shows "map_option (\<lambda>(excess, params). blob_env c params excess)
       (zip_option (assembled_excess_blob_gas api c spec excess_of_zero t parent) (blob_params_at_timestamp c spec t))
     = map_option (blob_env c (case blob_params_at_timestamp c spec t of None \<Rightarrow> cancun_blob_params | Some p \<Rightarrow> p))
       (case maybe_next_block_excess_blob_gas c parent (blob_params_at_timestamp c spec t) of
          Some e \<Rightarrow> Some e | None \<Rightarrow> (if s = CANCUN then Some 0 else None))"
proof (cases "is_active_at_timestamp api spec Cancun t")
  case True
  with ok obtain p where p: "blob_params_at_timestamp c spec t = Some p"
    by (auto simp: blob_fields_ok_def)
  show ?thesis
  proof (cases "is_active_at_timestamp api spec Cancun (h_timestamp parent)")
    case parent: True
    with True ok p obtain e where "maybe_next_block_excess_blob_gas c parent (Some p) = Some e"
      by (auto simp: blob_fields_ok_def)
    with True parent p show ?thesis by (simp add: assembled_excess_blob_gas_def)
  next
    case False
    with True ok p have "maybe_next_block_excess_blob_gas c parent (Some p) = None"
      by (auto simp: blob_fields_ok_def)
    with True False p first zero show ?thesis by (simp add: assembled_excess_blob_gas_def)
  qed
next
  case False
  with ok have "maybe_next_block_excess_blob_gas c parent (blob_params_at_timestamp c spec t) = None"
    by (auto simp: blob_fields_ok_def)
  with False cancun show ?thesis by (simp add: assembled_excess_blob_gas_def)
qed

text \<open>Property C15: building and importing agree. The block the assembler makes from the environment
  and the context of a next block is imported in exactly the environment it was built in (number,
  beneficiary, randomness, base fee, gas limit, blob price, configuration), so its transactions run
  alike. The conditions are the documented ones of the library, a post-merge block without a slot
  number, and that the first block with blobs runs under Cancun.\<close>

theorem built_block_env_roundtrip:
  fixes pf :: "('tx, 'receipt) proofs_api"
  assumes "header_from_ok c from_eth" and "revm_spec_ok c (ec_chain_spec ec)"
    and "blob_fields_ok api c (ec_chain_spec ec) parent (na_timestamp attrs)"
    and "next_excess_of_zero pf = 0" and "na_slot_number attrs = None"
    and "s = revm_spec_by_timestamp_and_block_number c (ec_chain_spec ec) (na_timestamp attrs) (h_number parent + 1)"
    and "MERGE \<le> s"
    and "s = CANCUN \<longrightarrow> is_active_at_timestamp api (ec_chain_spec ec) Cancun (na_timestamp attrs)"
    and "is_active_at_timestamp api (ec_chain_spec ec) Cancun (na_timestamp attrs)
      \<and> \<not> is_active_at_timestamp api (ec_chain_spec ec) Cancun (h_timestamp parent) \<longrightarrow> s = CANCUN"
  shows "evm_env api c ec (gb_header (assemble_block api c from_eth pf (ec_chain_spec ec) (ec_extra_data ec)
      (next_block_input api c ec parent parent_hash attrs txs out root))) = next_evm_env api c ec parent attrs"
proof -
  note env = imported_env [OF assms(1,2,6,7,5) refl]
  note blob = assembled_blob [OF assms(3,4,8,9)]
  show ?thesis
    unfolding env blob using assms(6) next_env_blob [of api c ec parent attrs]
    by (simp add: prod_eq_iff)
qed

text \<open>Property C16: when a chain activates a later fork together with Cancun, its first block with blobs
  is built without a blob price and imported with one: the builder falls back to a zero excess only
  under the specification \<open>CANCUN\<close> itself, the assembler whenever Cancun is active.\<close>

theorem first_blob_block_diverges:
  fixes pf :: "('tx, 'receipt) proofs_api"
  assumes "header_from_ok c from_eth" and "revm_spec_ok c (ec_chain_spec ec)"
    and "blob_fields_ok api c (ec_chain_spec ec) parent (na_timestamp attrs)"
    and "na_slot_number attrs = None"
    and "s = revm_spec_by_timestamp_and_block_number c (ec_chain_spec ec) (na_timestamp attrs) (h_number parent + 1)"
    and "CANCUN < s"
    and "is_active_at_timestamp api (ec_chain_spec ec) Cancun (na_timestamp attrs)"
    and "\<not> is_active_at_timestamp api (ec_chain_spec ec) Cancun (h_timestamp parent)"
  shows "be_blob (snd (next_evm_env api c ec parent attrs)) = None
    \<and> (\<exists>blob. be_blob (snd (evm_env api c ec (gb_header (assemble_block api c from_eth pf (ec_chain_spec ec)
          (ec_extra_data ec) (next_block_input api c ec parent parent_hash attrs txs out root))))) = Some blob)"
proof -
  have "MERGE \<le> s" using assms(6) by (simp add: less_eq_SpecId_def less_SpecId_def)
  note env = imported_env [OF assms(1,2,5) this assms(4) refl]
  from assms(3,7) obtain p where p: "blob_params_at_timestamp c (ec_chain_spec ec) (na_timestamp attrs) = Some p"
    by (auto simp: blob_fields_ok_def)
  have "maybe_next_block_excess_blob_gas c parent (Some p) = None"
    using assms(3,8) p by (auto simp: blob_fields_ok_def)
  with p assms(5-8) show ?thesis
    unfolding env next_env_blob by (auto simp: assembled_excess_blob_gas_def less_SpecId_def)
qed

section \<open>Samples\<close>

definition sample_from_eth :: "EthHeader \<Rightarrow> GnosisHeader" where
  "sample_from_eth h = \<lparr>h_parent_hash = eth_parent_hash h, h_ommers_hash = eth_ommers_hash h,
     h_beneficiary = eth_beneficiary h, h_state_root = eth_state_root h,
     h_transactions_root = eth_transactions_root h, h_receipts_root = eth_receipts_root h,
     h_logs_bloom = eth_logs_bloom h, h_difficulty = eth_difficulty h, h_number = eth_number h,
     h_gas_limit = eth_gas_limit h, h_gas_used = eth_gas_used h, h_timestamp = eth_timestamp h,
     h_extra_data = eth_extra_data h, h_mix_hash = Some (eth_mix_hash h), h_nonce = Some (eth_nonce h),
     h_aura_step = None, h_aura_seal = None, h_base_fee_per_gas = eth_base_fee_per_gas h,
     h_withdrawals_root = eth_withdrawals_root h, h_blob_gas_used = eth_blob_gas_used h,
     h_excess_blob_gas = eth_excess_blob_gas h,
     h_parent_beacon_block_root = eth_parent_beacon_block_root h, h_requests_hash = eth_requests_hash h\<rparr>"

definition sample_proofs :: "(unit, log list) proofs_api" where
  "sample_proofs = \<lparr>calculate_transaction_root = (\<lambda>_. 1), calculate_receipt_root = (\<lambda>_. 2),
     logs_bloom_of = (\<lambda>_. 0), calculate_withdrawals_root = (\<lambda>_. 3), requests_hash_of = (\<lambda>_. 4),
     logs_of = (\<lambda>r. r), empty_ommer_root = 5, next_excess_of_zero = 0\<rparr>"

text \<open>A chain with Cancun at time 100, and one with Cancun and Prague at time 100.\<close>

definition sample_blob_config :: "SpecId \<Rightarrow> config_api" where
  "sample_blob_config s = sample_config_api\<lparr>revm_spec := (\<lambda>_ h. if 100 \<le> h_timestamp h then s else MERGE),
     revm_spec_by_timestamp_and_block_number := (\<lambda>_ t _. if 100 \<le> t then s else MERGE),
     blob_params_at_timestamp := (\<lambda>_ t. if 100 \<le> t then Some cancun_blob_params else None)\<rparr>"

definition sample_blob_ec :: GnosisEvmConfig where
  "sample_blob_ec = sample_ec\<lparr>ec_chain_spec := sample_spec [(Cancun, Timestamp 100)]\<rparr>"

definition sample_attributes :: "u64 \<Rightarrow> NextBlockEnvAttributes" where
  "sample_attributes t = \<lparr>na_timestamp = t, na_suggested_fee_recipient = 9, na_prev_randao = 6,
     na_gas_limit = 17000000, na_parent_beacon_block_root = None, na_withdrawals = Some [], na_extra_data = [],
     na_slot_number = None\<rparr>"

definition sample_result :: "log list block_result" where
  "sample_result = \<lparr>br_receipts = [], br_requests = [], br_gas_used = 0, br_blob_gas_used = 0\<rparr>"

lemma sample_blob_ok:
  "header_from_ok (sample_blob_config s) sample_from_eth"
  "revm_spec_ok (sample_blob_config s) spec"
  "blob_fields_ok sample_hardforks_api (sample_blob_config s) (ec_chain_spec sample_blob_ec)
     (blank_header\<lparr>h_timestamp := 95\<rparr>) 100"
  by (simp_all add: header_from_ok_def revm_spec_ok_def blob_fields_ok_def sample_blob_config_def
      sample_from_eth_def sample_config_api_def is_active_at_timestamp_def fork_activation_def
      sample_hardforks_api_def sample_blob_ec_def)

lemma sample_blob_cancun:
  "is_active_at_timestamp sample_hardforks_api (ec_chain_spec sample_blob_ec) Cancun 100"
  "\<not> is_active_at_timestamp sample_hardforks_api (ec_chain_spec sample_blob_ec) Cancun 95"
  by (simp_all add: is_active_at_timestamp_def fork_activation_def sample_hardforks_api_def
      sample_blob_ec_def word_le_nat_alt)

lemma sample_blob_spec [simp]:
  "revm_spec_by_timestamp_and_block_number (sample_blob_config s) spec 100 n = s"
  "na_timestamp (sample_attributes t) = t" "na_slot_number (sample_attributes t) = None"
  "next_excess_of_zero sample_proofs = 0"
  by (simp_all add: sample_blob_config_def sample_attributes_def sample_proofs_def)

theorem built_block_env_roundtrip_witness:
  "evm_env sample_hardforks_api (sample_blob_config CANCUN) sample_blob_ec
      (gb_header (assemble_block sample_hardforks_api (sample_blob_config CANCUN) sample_from_eth sample_proofs
        (ec_chain_spec sample_blob_ec) (ec_extra_data sample_blob_ec)
        (next_block_input sample_hardforks_api (sample_blob_config CANCUN) sample_blob_ec
          (blank_header\<lparr>h_timestamp := 95\<rparr>) 77 (sample_attributes 100) [()] sample_result 55)))
    = next_evm_env sample_hardforks_api (sample_blob_config CANCUN) sample_blob_ec
        (blank_header\<lparr>h_timestamp := 95\<rparr>) (sample_attributes 100)"
  by (rule built_block_env_roundtrip [OF sample_blob_ok(1,2)])
    (simp_all add: sample_blob_ok(3) sample_blob_cancun less_eq_SpecId_def)

theorem first_blob_block_diverges_witness:
  "be_blob (snd (next_evm_env sample_hardforks_api (sample_blob_config PRAGUE) sample_blob_ec
      (blank_header\<lparr>h_timestamp := 95\<rparr>) (sample_attributes 100))) = None"
proof -
  have "CANCUN < PRAGUE" by (simp add: less_SpecId_def)
  with first_blob_block_diverges [where c = "sample_blob_config PRAGUE" and ec = sample_blob_ec
      and parent = "blank_header\<lparr>h_timestamp := 95\<rparr>" and attrs = "sample_attributes 100"
      and api = sample_hardforks_api and pf = sample_proofs, OF sample_blob_ok(1,2)]
  show ?thesis
    by (simp add: sample_blob_ok(3) sample_blob_cancun)
qed

end
