(* ===== verification/Payload.thy ===== *)
theory Payload
  imports BlockBuild
begin

text \<open>
  The payload builder of \<open>src/payload.rs\<close> and \<open>src/payload_builder.rs\<close>: the loop that fills a block
  from the transaction pool under the gas, blob and size limits, the decision whether the block is
  worth building, the built payload and its conversions to the engine's envelopes. The pool's
  iterator, the blob store, the job's cancellation flag and reth's block builder are parameters; the
  interface \<open>block_builder\<close> states what the loop relies on of the latter, and the block executor
  provides it.
\<close>

section \<open>Transactions, sidecars and errors\<close>

record pool_tx =
  pt_hash :: b256
  pt_gas_limit :: u64
  pt_rlp_length :: u64
  pt_blob_hashes :: "b256 list option"
  pt_effective_tip :: "u64 \<Rightarrow> u128 option"

datatype pool_error =
    ExceedsGasLimit u64 u64
  | OversizedData u64 u64
  | TooManyEip4844Blobs u64 u64
  | MissingEip4844BlobSidecar
  | UnexpectedEip4844SidecarAfterOsaka
  | UnexpectedEip7594SidecarBeforeOsaka
  | TxTypeNotSupported

datatype 'side BlobSidecars = EmptySidecars | Eip4844 "'side list" | Eip7594 "'side list"

datatype exec_failure = InvalidTx (nonce_too_low: bool) | FatalError "BlockExecutionError fault"

datatype payload_error =
    PayloadOther string
  | PayloadInternal BlockExecutionError
  | PayloadEvm BlockExecutionError
  | BlockTooLarge u64 u64
  | MissingPayload

datatype build_exit = Cancelled | Failed "payload_error fault"

section \<open>The loop over the pool\<close>

text \<open>
  The environment of a build: the block builder of type \<open>'b\<close>, and the outside world of type \<open>'it\<close>,
  which holds the pool's iterator and the cancellation flag.
\<close>

record ('b, 'it, 'side) payload_api =
  bd_execute :: "pool_tx \<Rightarrow> 'b \<Rightarrow> (exec_failure + u64) \<times> 'b"
  it_next :: "'it \<Rightarrow> pool_tx option \<times> 'it"
  it_mark_invalid :: "pool_tx \<Rightarrow> pool_error \<Rightarrow> 'it \<Rightarrow> 'it"
  it_skip_blobs :: "'it \<Rightarrow> 'it"
  job_cancelled :: "'it \<Rightarrow> bool"
  pool_get_blob :: "b256 \<Rightarrow> string + 'side option"
  is_eip7594 :: "'side \<Rightarrow> bool"
  is_eip4844 :: "'side \<Rightarrow> bool"
  push_sidecar :: "'side \<Rightarrow> 'side BlobSidecars \<Rightarrow> 'side BlobSidecars"
  max_rlp_block_size :: u64

text \<open>The values fixed before the loop.\<close>

record build_params =
  bp_gas_limit :: u64
  bp_base_fee :: u64
  bp_max_blobs :: u64
  bp_is_osaka :: bool
  bp_withdrawals_rlp :: u64

text \<open>The locals of the loop; the last field is the builder's list of executed transactions, with the
  gas each used.\<close>

record ('b, 'it, 'side) build_state =
  bs_builder :: 'b
  bs_iter :: 'it
  bs_gas :: u64
  bs_fees :: u256
  bs_blobs :: u64
  bs_rlp :: u64
  bs_sidecars :: "'side BlobSidecars"
  bs_included :: "(pool_tx \<times> u64) list"

definition initial_state :: "'b \<Rightarrow> 'it \<Rightarrow> ('b, 'it, 'side) build_state" where
  "initial_state b it = \<lparr>bs_builder = b, bs_iter = it, bs_gas = 0, bs_fees = 0, bs_blobs = 0,
     bs_rlp = 0, bs_sidecars = EmptySidecars, bs_included = []\<rparr>"

definition skip_tx ::
  "('b, 'it, 'side) payload_api \<Rightarrow> pool_tx \<Rightarrow> pool_error \<Rightarrow> ('b, 'it, 'side) build_state
     \<Rightarrow> ('b, 'it, 'side) build_state" where
  "skip_tx pa tx err st = st\<lparr>bs_iter := it_mark_invalid pa tx err (bs_iter st)\<rparr>"

text \<open>The check of a blob transaction: the blob count, then the sidecar from the pool and its kind. A
  rejection is on the inner left, a failure of the blob store on the outer left.\<close>

definition blob_sidecar_for ::
  "('b, 'it, 'side) payload_api \<Rightarrow> build_params \<Rightarrow> pool_tx \<Rightarrow> u64
     \<Rightarrow> payload_error fault + (pool_error + 'side option)" where
  "blob_sidecar_for pa bp tx block_blob_count =
     (case pt_blob_hashes tx of
        None \<Rightarrow> Inr (Inr None)
      | Some hashes \<Rightarrow>
          (let tx_blob_count = of_nat (length hashes) in
           if block_blob_count + tx_blob_count > bp_max_blobs bp
           then Inr (Inl (TooManyEip4844Blobs (block_blob_count + tx_blob_count) (bp_max_blobs bp)))
           else (case pool_get_blob pa (pt_hash tx) of
                   Inl e \<Rightarrow> Inl (Err (PayloadOther e))
                 | Inr None \<Rightarrow> Inr (Inl MissingEip4844BlobSidecar)
                 | Inr (Some sidecar) \<Rightarrow>
                     Inr (if bp_is_osaka bp
                          then if is_eip7594 pa sidecar then Inr (Some sidecar)
                               else Inl UnexpectedEip4844SidecarAfterOsaka
                          else if is_eip4844 pa sidecar then Inr (Some sidecar)
                               else Inl UnexpectedEip7594SidecarBeforeOsaka))))"

text \<open>The accounting of an executed transaction.\<close>

definition include_tx ::
  "('b, 'it, 'side) payload_api \<Rightarrow> build_params \<Rightarrow> pool_tx \<Rightarrow> 'side option \<Rightarrow> u64
     \<Rightarrow> ('b, 'it, 'side) build_state \<Rightarrow> build_exit + ('b, 'it, 'side) build_state" where
  "include_tx pa bp tx sidecar gas_used st =
     (let st1 = (case pt_blob_hashes tx of
            None \<Rightarrow> st
          | Some hashes \<Rightarrow>
              (let n = bs_blobs st + of_nat (length hashes) in
               st\<lparr>bs_blobs := n,
                  bs_iter := (if n = bp_max_blobs bp then it_skip_blobs pa (bs_iter st) else bs_iter st)\<rparr>))
      in (case pt_effective_tip tx (bp_base_fee bp) of
            None \<Rightarrow> Inl (Failed (Panic ''fee is always valid; execution succeeded''))
          | Some miner_fee \<Rightarrow>
              Inr (st1\<lparr>bs_rlp := bs_rlp st + pt_rlp_length tx,
                bs_fees := bs_fees st + ucast miner_fee * ucast gas_used,
                bs_gas := bs_gas st + gas_used,
                bs_sidecars := (case sidecar of None \<Rightarrow> bs_sidecars st
                   | Some s \<Rightarrow> push_sidecar pa s (bs_sidecars st)),
                bs_included := bs_included st @ [(tx, gas_used)]\<rparr>)))"

text \<open>One iteration: an early return is on the left; \<open>continue\<close> and the end of the body on the right.\<close>

definition payload_step ::
  "('b, 'it, 'side) payload_api \<Rightarrow> build_params \<Rightarrow> pool_tx \<Rightarrow> ('b, 'it, 'side) build_state
     \<Rightarrow> build_exit + ('b, 'it, 'side) build_state" where
  "payload_step pa bp tx st =
     (if bs_gas st + pt_gas_limit tx > bp_gas_limit bp
      then Inr (skip_tx pa tx (ExceedsGasLimit (pt_gas_limit tx) (bp_gas_limit bp)) st)
      else if job_cancelled pa (bs_iter st) then Inl Cancelled
      else let size = bs_rlp st + pt_rlp_length tx + bp_withdrawals_rlp bp + 1024 in
        if bp_is_osaka bp \<and> size > max_rlp_block_size pa
        then Inr (skip_tx pa tx (OversizedData size (max_rlp_block_size pa)) st)
        else (case blob_sidecar_for pa bp tx (bs_blobs st) of
                Inl e \<Rightarrow> Inl (Failed e)
              | Inr (Inl err) \<Rightarrow> Inr (skip_tx pa tx err st)
              | Inr (Inr sidecar) \<Rightarrow>
                  (case bd_execute pa tx (bs_builder st) of
                     (Inl (InvalidTx low), b) \<Rightarrow>
                       Inr ((if low then (\<lambda>st. st) else skip_tx pa tx TxTypeNotSupported)
                              (st\<lparr>bs_builder := b\<rparr>))
                   | (Inl (FatalError e), b) \<Rightarrow> Inl (Failed (map_fault PayloadEvm e))
                   | (Inr gas_used, b) \<Rightarrow> include_tx pa bp tx sidecar gas_used (st\<lparr>bs_builder := b\<rparr>))))"

text \<open>The loop ends when the iterator is empty; a pool that never runs dry is the value \<open>None\<close>.\<close>

partial_function (option) payload_loop ::
  "('b, 'it, 'side) payload_api \<Rightarrow> build_params \<Rightarrow> ('b, 'it, 'side) build_state
     \<Rightarrow> (build_exit + ('b, 'it, 'side) build_state) option" where
  "payload_loop pa bp st =
     (case it_next pa (bs_iter st) of
        (None, it) \<Rightarrow> Some (Inr (st\<lparr>bs_iter := it\<rparr>))
      | (Some tx, it) \<Rightarrow>
          (case payload_step pa bp tx (st\<lparr>bs_iter := it\<rparr>) of
             Inl exit \<Rightarrow> Some (Inl exit)
           | Inr st' \<Rightarrow> payload_loop pa bp st'))"

section \<open>Reasoning about the loop\<close>

text \<open>An invariant of the body holds when the loop runs dry, and at the iteration that leaves it.\<close>

lemma payload_loop_rule:
  assumes "payload_loop pa bp st = Some r" and "I st"
    and step: "\<And>st tx it st'. I st \<Longrightarrow> it_next pa (bs_iter st) = (Some tx, it) \<Longrightarrow>
      payload_step pa bp tx (st\<lparr>bs_iter := it\<rparr>) = Inr st' \<Longrightarrow> I st'"
    and iter: "\<And>st it. I st \<Longrightarrow> I (st\<lparr>bs_iter := it\<rparr>)"
  shows "case r of
      Inr st' \<Rightarrow> I st'
    | Inl exit \<Rightarrow> (\<exists>st1 tx it. I st1 \<and> it_next pa (bs_iter st1) = (Some tx, it)
        \<and> payload_step pa bp tx (st1\<lparr>bs_iter := it\<rparr>) = Inl exit)"
proof -
  let ?Q = "\<lambda>r. case r of
      Inr st' \<Rightarrow> I st'
    | Inl exit \<Rightarrow> (\<exists>st1 tx it. I st1 \<and> it_next pa (bs_iter st1) = (Some tx, it)
        \<and> payload_step pa bp tx (st1\<lparr>bs_iter := it\<rparr>) = Inl exit)"
  have "pa' = pa \<longrightarrow> bp' = bp \<longrightarrow> I st \<longrightarrow> ?Q r" if "payload_loop pa' bp' st = Some r" for pa' bp' st r
  proof (rule payload_loop.raw_induct [where P = "\<lambda>pa' bp' st r. pa' = pa \<longrightarrow> bp' = bp \<longrightarrow> I st \<longrightarrow> ?Q r",
        OF _ that])
    fix loop pa' bp' st r
    assume IH: "\<And>pa' bp' st r. loop pa' bp' st = Some r \<Longrightarrow>
        pa' = pa \<longrightarrow> bp' = bp \<longrightarrow> I st \<longrightarrow> ?Q r"
      and eq: "(case it_next pa' (bs_iter st) of
          (None, it) \<Rightarrow> Some (Inr (st\<lparr>bs_iter := it\<rparr>))
        | (Some tx, it) \<Rightarrow>
            (case payload_step pa' bp' tx (st\<lparr>bs_iter := it\<rparr>) of
               Inl exit \<Rightarrow> Some (Inl exit)
             | Inr st' \<Rightarrow> loop pa' bp' st')) = Some r"
    show "pa' = pa \<longrightarrow> bp' = bp \<longrightarrow> I st \<longrightarrow> ?Q r"
    proof (intro impI)
      assume [simp]: "pa' = pa" "bp' = bp" and I: "I st"
      obtain nx it where nxt: "it_next pa (bs_iter st) = (nx, it)" by fastforce
      show "?Q r"
      proof (cases nx)
        case None
        with nxt eq iter [OF I, of it] show ?thesis by auto
      next
        case (Some tx)
        show ?thesis
        proof (cases "payload_step pa bp tx (st\<lparr>bs_iter := it\<rparr>)")
          case (Inl exit)
          with nxt Some eq have "r = Inl exit" by simp
          with I nxt Some Inl show ?thesis by (simp, intro exI [of _ st] conjI exI) simp_all
        next
          case (Inr st')
          with nxt Some eq have "loop pa bp st' = Some r" by simp
          from IH [OF this] step [OF I _ Inr] nxt Some show ?thesis by simp
        qed
      qed
    qed
  qed
  with assms(1,2) show ?thesis by blast
qed

lemma payload_step_Inr:
  assumes "payload_step pa bp tx st = Inr st'"
  obtains (skipped) err where "st' = skip_tx pa tx err st"
    | (refused) low b where "bd_execute pa tx (bs_builder st) = (Inl (InvalidTx low), b)"
      "st' = (if low then (\<lambda>st. st) else skip_tx pa tx TxTypeNotSupported) (st\<lparr>bs_builder := b\<rparr>)"
    | (included) sidecar gas b where
      "\<not> bs_gas st + pt_gas_limit tx > bp_gas_limit bp"
      "bp_is_osaka bp \<Longrightarrow> bs_rlp st + pt_rlp_length tx + bp_withdrawals_rlp bp + 1024 \<le> max_rlp_block_size pa"
      "blob_sidecar_for pa bp tx (bs_blobs st) = Inr (Inr sidecar)"
      "bd_execute pa tx (bs_builder st) = (Inr gas, b)"
      "include_tx pa bp tx sidecar gas (st\<lparr>bs_builder := b\<rparr>) = Inr st'"
  using assms that
  by (auto simp: payload_step_def Let_def not_less
      split: if_splits sum.splits prod.splits exec_failure.splits)

lemma include_tx_Inr:
  assumes "include_tx pa bp tx sidecar gas st = Inr st'"
  obtains tip it where "pt_effective_tip tx (bp_base_fee bp) = Some tip"
    "st' = st\<lparr>bs_iter := it,
       bs_blobs := bs_blobs st + of_nat (length (case pt_blob_hashes tx of None \<Rightarrow> [] | Some hs \<Rightarrow> hs)),
       bs_rlp := bs_rlp st + pt_rlp_length tx, bs_fees := bs_fees st + ucast tip * ucast gas,
       bs_gas := bs_gas st + gas,
       bs_sidecars := (case sidecar of None \<Rightarrow> bs_sidecars st | Some s \<Rightarrow> push_sidecar pa s (bs_sidecars st)),
       bs_included := bs_included st @ [(tx, gas)]\<rparr>"
proof -
  from assms obtain tip where "pt_effective_tip tx (bp_base_fee bp) = Some tip"
    by (auto simp: include_tx_def Let_def split: option.splits)
  with assms show thesis
    by (intro that [of tip "bs_iter st'"])
      (auto simp: include_tx_def Let_def split: option.splits)
qed

section \<open>What is in the block\<close>

definition blob_count_of :: "pool_tx \<Rightarrow> u64" where
  "blob_count_of tx = of_nat (length (case pt_blob_hashes tx of None \<Rightarrow> [] | Some hs \<Rightarrow> hs))"

definition fee_of :: "build_params \<Rightarrow> pool_tx \<times> u64 \<Rightarrow> u256" where
  "fee_of bp = (\<lambda>(tx, gas). (case pt_effective_tip tx (bp_base_fee bp) of None \<Rightarrow> 0 | Some tip \<Rightarrow> ucast tip) * ucast gas)"

text \<open>The locals are the sums over the transactions in the block, and the limits hold.\<close>

definition accounts_ok :: "build_params \<Rightarrow> ('b, 'it, 'side) build_state \<Rightarrow> bool" where
  "accounts_ok bp st \<longleftrightarrow>
     bs_gas st = sum_list (map snd (bs_included st))
     \<and> bs_blobs st = sum_list (map (blob_count_of \<circ> fst) (bs_included st))
     \<and> bs_rlp st = sum_list (map (pt_rlp_length \<circ> fst) (bs_included st))
     \<and> bs_fees st = sum_list (map (fee_of bp) (bs_included st))"

definition limits_ok ::
  "('b, 'it, 'side) payload_api \<Rightarrow> build_params \<Rightarrow> ('b, 'it, 'side) build_state \<Rightarrow> bool" where
  "limits_ok pa bp st \<longleftrightarrow> bs_blobs st \<le> bp_max_blobs bp
     \<and> (bp_is_osaka bp \<and> bs_included st \<noteq> [] \<longrightarrow>
          bs_rlp st + bp_withdrawals_rlp bp + 1024 \<le> max_rlp_block_size pa)"

text \<open>After Osaka only EIP-7594 sidecars are collected, before only EIP-4844 ones; \<open>push_sidecar\<close> keeps
  the kind of a collection of the sidecar's kind.\<close>

definition push_ok :: "('b, 'it, 'side) payload_api \<Rightarrow> bool" where
  "push_ok pa \<longleftrightarrow>
     (\<forall>s c. is_eip7594 pa s \<and> (\<forall>l. c \<noteq> Eip4844 l) \<longrightarrow> (\<forall>l. push_sidecar pa s c \<noteq> Eip4844 l))
     \<and> (\<forall>s c. is_eip4844 pa s \<and> (\<forall>l. c \<noteq> Eip7594 l) \<longrightarrow> (\<forall>l. push_sidecar pa s c \<noteq> Eip7594 l))"

definition kind_ok :: "bool \<Rightarrow> 'side BlobSidecars \<Rightarrow> bool" where
  "kind_ok osaka c \<longleftrightarrow> (if osaka then \<forall>l. c \<noteq> Eip4844 l else \<forall>l. c \<noteq> Eip7594 l)"

lemma skip_tx_simps [simp]:
  "bs_builder (skip_tx pa tx err st) = bs_builder st" "bs_gas (skip_tx pa tx err st) = bs_gas st"
  "accounts_ok bp (skip_tx pa tx err st) = accounts_ok bp st"
  "limits_ok pa bp (skip_tx pa tx err st) = limits_ok pa bp st"
  "bs_sidecars (skip_tx pa tx err st) = bs_sidecars st"
  by (simp_all add: skip_tx_def accounts_ok_def limits_ok_def)

lemma record_updates_ok [simp]:
  "accounts_ok bp (st\<lparr>bs_builder := b\<rparr>) = accounts_ok bp st"
  "accounts_ok bp (st\<lparr>bs_iter := it\<rparr>) = accounts_ok bp st"
  "limits_ok pa bp (st\<lparr>bs_builder := b\<rparr>) = limits_ok pa bp st"
  "limits_ok pa bp (st\<lparr>bs_iter := it\<rparr>) = limits_ok pa bp st"
  by (simp_all add: accounts_ok_def limits_ok_def)

lemma blob_sidecar_for_Inr:
  assumes "blob_sidecar_for pa bp tx n = Inr (Inr sidecar)"
  shows "(pt_blob_hashes tx = None \<or> n + blob_count_of tx \<le> bp_max_blobs bp)
    \<and> (\<forall>s. sidecar = Some s \<longrightarrow> (if bp_is_osaka bp then is_eip7594 pa s else is_eip4844 pa s))"
  using assms
  by (auto simp: blob_sidecar_for_def blob_count_of_def Let_def not_less
      split: option.splits if_splits sum.splits)

lemma payload_step_keeps_limits:
  assumes "payload_step pa bp tx st = Inr st'" and "accounts_ok bp st" and "limits_ok pa bp st"
  shows "accounts_ok bp st' \<and> limits_ok pa bp st'"
  using assms(1)
proof (cases rule: payload_step_Inr)
  case (included sidecar gas b)
  from included(5) obtain tip it where tip: "pt_effective_tip tx (bp_base_fee bp) = Some tip"
    and st': "st' = (st\<lparr>bs_builder := b\<rparr>)\<lparr>bs_iter := it,
       bs_blobs := bs_blobs st + blob_count_of tx, bs_rlp := bs_rlp st + pt_rlp_length tx,
       bs_fees := bs_fees st + ucast tip * ucast gas, bs_gas := bs_gas st + gas,
       bs_sidecars := (case sidecar of None \<Rightarrow> bs_sidecars st | Some s \<Rightarrow> push_sidecar pa s (bs_sidecars st)),
       bs_included := bs_included st @ [(tx, gas)]\<rparr>"
    by (elim include_tx_Inr) (simp add: blob_count_of_def cong: option.case_cong)
  have "bs_blobs st + blob_count_of tx \<le> bp_max_blobs bp"
    using blob_sidecar_for_Inr [OF included(3)] assms(3)
    by (auto simp: limits_ok_def blob_count_of_def)
  with assms(2) included(2) tip show ?thesis
    by (simp add: st' accounts_ok_def limits_ok_def fee_of_def)
qed (use assms(2,3) in auto)

lemma payload_step_keeps_kind:
  assumes "payload_step pa bp tx st = Inr st'" and "push_ok pa" and "kind_ok (bp_is_osaka bp) (bs_sidecars st)"
  shows "kind_ok (bp_is_osaka bp) (bs_sidecars st')"
  using assms(1)
proof (cases rule: payload_step_Inr)
  case (included sidecar gas b)
  then have "bs_sidecars st' = (case sidecar of None \<Rightarrow> bs_sidecars st | Some s \<Rightarrow> push_sidecar pa s (bs_sidecars st))"
    by (elim include_tx_Inr) (simp cong: option.case_cong)
  with blob_sidecar_for_Inr [OF included(3)] assms(2,3) show ?thesis
    by (auto simp: kind_ok_def push_ok_def split: option.split if_splits)
qed (use assms(3) in \<open>auto split: if_splits\<close>)

section \<open>The block builder behind the loop\<close>

lemma map_fault_Err_iff: "map_fault f e = Err x \<longleftrightarrow> (\<exists>y. e = Err y \<and> x = f y)"
  by (cases e) auto

text \<open>What the loop relies on: executing a transaction in a valid builder adds the gas it reports, within
  the block's limit, a failed execution adds none, and the builder refuses a transaction for its gas
  limit only when the block has not that much left.\<close>

locale block_builder =
  fixes execute :: "pool_tx \<Rightarrow> 'b \<Rightarrow> (exec_failure + u64) \<times> 'b"
    and gas_of :: "'b \<Rightarrow> u64"
    and limit_of :: "'b \<Rightarrow> u64"
    and valid :: "'b \<Rightarrow> bool"
  assumes valid_within: "valid b \<Longrightarrow> gas_of b \<le> limit_of b"
    and execute_gas: "valid b \<Longrightarrow> execute tx b = (Inr g, b') \<Longrightarrow>
      valid b' \<and> gas_of b' = gas_of b + g \<and> limit_of b' = limit_of b"
    and execute_fail: "valid b \<Longrightarrow> execute tx b = (Inl e, b') \<Longrightarrow>
      valid b' \<and> gas_of b' = gas_of b \<and> limit_of b' = limit_of b"
    and gas_refusal: "valid b \<Longrightarrow>
      execute tx b = (Inl (FatalError (Err (TransactionGasLimitTooHigh x y))), b') \<Longrightarrow>
      pt_gas_limit tx > limit_of b - gas_of b"
begin

definition in_step :: "build_params \<Rightarrow> ('b, 'it, 'side) build_state \<Rightarrow> bool" where
  "in_step bp st \<longleftrightarrow> valid (bs_builder st) \<and> bs_gas st = gas_of (bs_builder st)
     \<and> limit_of (bs_builder st) = bp_gas_limit bp"

lemma in_step_updates [simp]:
  "in_step bp (st\<lparr>bs_iter := it\<rparr>) = in_step bp st"
  "in_step bp (skip_tx pa tx err st) = in_step bp st"
  by (simp_all add: in_step_def skip_tx_def)

lemma step_keeps:
  assumes "bd_execute pa = execute" and "payload_step pa bp tx st = Inr st'" and "in_step bp st"
  shows "in_step bp st'"
  using assms(2)
proof (cases rule: payload_step_Inr)
  case (refused low b)
  with execute_fail [of "bs_builder st" tx "InvalidTx low" b] assms(1,3)
  have "in_step bp (st\<lparr>bs_builder := b\<rparr>)" by (simp add: in_step_def)
  with refused(2) show ?thesis by simp
next
  case (included sidecar gas b)
  with execute_gas [of "bs_builder st" tx gas b] assms(1,3) show ?thesis
    by (elim include_tx_Inr) (auto simp: in_step_def)
qed (use assms(3) in simp)

lemma loop_keeps:
  assumes "bd_execute pa = execute" and "payload_loop pa bp st = Some (Inr st')" and "in_step bp st"
  shows "in_step bp st' \<and> bs_gas st' \<le> bp_gas_limit bp"
proof -
  have "in_step bp st'"
    using payload_loop_rule [OF assms(2), of "in_step bp"] assms(3)
      step_keeps [OF assms(1)] by fastforce
  with valid_within [of "bs_builder st'"] show ?thesis by (simp add: in_step_def)
qed

lemma no_gas_refusal:
  assumes exec: "bd_execute pa = execute"
    and loop: "payload_loop pa bp st = Some (Inl (Failed (Err (PayloadEvm e))))"
    and inv: "in_step bp st"
    and offered: "\<And>it tx it'. it_next pa it = (Some tx, it') \<Longrightarrow>
      unat (pt_gas_limit tx) + unat (bp_gas_limit bp) < 2 ^ 64"
  shows "e \<noteq> TransactionGasLimitTooHigh x y"
proof
  assume e: "e = TransactionGasLimitTooHigh x y"
  obtain st1 tx it where st1: "in_step bp st1" "it_next pa (bs_iter st1) = (Some tx, it)"
      and step: "payload_step pa bp tx (st1\<lparr>bs_iter := it\<rparr>) = Inl (Failed (Err (PayloadEvm e)))"
    using payload_loop_rule [OF loop, of "in_step bp"] inv step_keeps [OF exec] by fastforce
  let ?b = "bs_builder st1"
  have fits: "\<not> bs_gas st1 + pt_gas_limit tx > bp_gas_limit bp"
    using step by (auto simp: payload_step_def)
  from step obtain b' where "execute tx ?b = (Inl (FatalError (Err e)), b')"
    by (auto simp: payload_step_def Let_def exec map_fault_Err_iff blob_sidecar_for_def include_tx_def
        split: if_splits sum.splits prod.splits exec_failure.splits option.splits)
  with gas_refusal [of ?b tx x y b'] st1(1) e have "pt_gas_limit tx > limit_of ?b - gas_of ?b"
    by (simp add: in_step_def)
  moreover have le: "gas_of ?b \<le> limit_of ?b" using st1(1) valid_within [of ?b] by (simp add: in_step_def)
  moreover have "unat (gas_of ?b + pt_gas_limit tx) = unat (gas_of ?b) + unat (pt_gas_limit tx)"
  proof -
    have "unat (gas_of ?b) + unat (pt_gas_limit tx) < 2 ^ 64"
      using offered [OF st1(2)] st1(1) le by (simp add: in_step_def word_le_nat_alt)
    then show ?thesis by (simp add: unat_word_ariths)
  qed
  ultimately show False
    using fits st1(1) by (simp add: in_step_def word_le_nat_alt word_less_nat_alt unat_sub)
qed

end

section \<open>The executor as block builder\<close>

text \<open>reth's block builder executes a transaction by the executor's two steps. An EVM error that is an
  invalid-transaction error is told apart by the library; the answer is a parameter.\<close>

definition executor_execute ::
  "('db, 'insp, 'pre, 'receipt) exec_env \<Rightarrow> (pool_tx \<Rightarrow> exec_tx) \<Rightarrow> (string \<Rightarrow> bool option) \<Rightarrow> pool_tx
     \<Rightarrow> ('db, 'insp, 'pre, 'receipt) executor
     \<Rightarrow> (exec_failure + u64) \<times> ('db, 'insp, 'pre, 'receipt) executor" where
  "executor_execute xe to_exec invalid_tx tx ex =
     (case execute_transaction_without_commit xe (to_exec tx) ex of
        (Inr out, ex) \<Rightarrow> (case commit_transaction xe out ex of (gas, ex) \<Rightarrow> (Inr gas, ex))
      | (Inl (Err (EvmFailure h e)), ex) \<Rightarrow>
          (Inl (case invalid_tx e of
                  Some low \<Rightarrow> InvalidTx low | None \<Rightarrow> FatalError (Err (EvmFailure h e))), ex)
      | (Inl e, ex) \<Rightarrow> (Inl (FatalError e), ex))"

definition executor_limit :: "('db, 'insp, 'pre, 'receipt) executor \<Rightarrow> u64" where
  "executor_limit ex = be_gas_limit (evm_block (ex_evm ex))"

definition executor_valid ::
  "('db, 'insp, 'pre, 'receipt) exec_env \<Rightarrow> (pool_tx \<Rightarrow> exec_tx)
     \<Rightarrow> ('db, 'insp, 'pre, 'receipt) executor \<Rightarrow> bool" where
  "executor_valid xe to_exec ex \<longleftrightarrow> gas_ok (xe_evm xe)
     \<and> (\<forall>tx. et_gas_limit (to_exec tx) = pt_gas_limit tx \<and> tx_gas_limit (et_env (to_exec tx)) = pt_gas_limit tx)
     \<and> ex_gas_used ex \<le> executor_limit ex"

lemma executor_execute_Inl:
  assumes "executor_valid xe to_exec ex" and "executor_execute xe to_exec inv_tx tx ex = (Inl e, ex')"
  shows "executor_valid xe to_exec ex' \<and> ex_gas_used ex' = ex_gas_used ex \<and> executor_limit ex' = executor_limit ex"
proof -
  obtain r where exec: "execute_transaction_without_commit xe (to_exec tx) ex = (r, ex')"
    using assms(2) by (auto simp: executor_execute_def split: prod.splits sum.splits fault.splits
        BlockExecutionError.splits)
  with execute_transaction_cases [OF _ _ exec] assms(1) show ?thesis
    by (auto simp: executor_valid_def executor_limit_def ex_core_def)
qed

lemma executor_execute_Inr:
  assumes "executor_valid xe to_exec ex" and "executor_execute xe to_exec inv_tx tx ex = (Inr g, ex')"
  shows "executor_valid xe to_exec ex' \<and> ex_gas_used ex' = ex_gas_used ex + g \<and> executor_limit ex' = executor_limit ex"
proof -
  obtain out ex1 where exec: "execute_transaction_without_commit xe (to_exec tx) ex = (Inr out, ex1)"
    and c: "commit_transaction xe out ex1 = (g, ex')"
    using assms(2) by (auto simp: executor_execute_def split: prod.splits sum.splits fault.splits
        BlockExecutionError.splits)
  have g: "g = er_gas (rs_result (tr_result out))" and ex': "ex' = snd (commit_transaction xe out ex1)"
    using c by (auto simp: commit_transaction_def Let_def)
  note step = execute_transaction_cases [OF _ _ exec]
  have le: "g \<le> executor_limit ex - ex_gas_used ex"
    using step assms(1) by (fastforce simp: executor_valid_def executor_limit_def g)
  show ?thesis
    using step assms(1) word_add_within [OF _ le]
    by (auto simp: executor_valid_def executor_limit_def ex' commit_transaction_fields ex_core_def g)
qed

interpretation bb: block_builder "executor_execute xe to_exec inv_tx" ex_gas_used executor_limit
  "executor_valid xe to_exec"
proof
  fix ex ex' tx x y
  assume "executor_execute xe to_exec inv_tx tx ex =
    (Inl (FatalError (Err (TransactionGasLimitTooHigh x y))), ex')" and "executor_valid xe to_exec ex"
  then show "pt_gas_limit tx > executor_limit ex - ex_gas_used ex"
    by (auto simp: executor_execute_def executor_valid_def executor_limit_def
        execute_transaction_without_commit_def Let_def
        split: prod.splits sum.splits fault.splits BlockExecutionError.splits if_splits option.splits)
next
  show "ex_gas_used ex \<le> executor_limit ex" if "executor_valid xe to_exec ex" for ex
    using that by (simp add: executor_valid_def)
next
  fix ex ex' tx g
  assume "executor_valid xe to_exec ex" and "executor_execute xe to_exec inv_tx tx ex = (Inr g, ex')"
  then show "executor_valid xe to_exec ex' \<and> ex_gas_used ex' = ex_gas_used ex + g
      \<and> executor_limit ex' = executor_limit ex"
    by (rule executor_execute_Inr)
next
  fix ex ex' tx e
  assume "executor_valid xe to_exec ex" and "executor_execute xe to_exec inv_tx tx ex = (Inl e, ex')"
  then show "executor_valid xe to_exec ex' \<and> ex_gas_used ex' = ex_gas_used ex
      \<and> executor_limit ex' = executor_limit ex"
    by (rule executor_execute_Inl)
qed

section \<open>Properties of the loop\<close>

lemma initial_ok:
  "accounts_ok bp (initial_state b it)" "limits_ok pa bp (initial_state b it)"
  "kind_ok osaka (bs_sidecars (initial_state b it))"
  by (simp_all add: accounts_ok_def limits_ok_def kind_ok_def initial_state_def)

lemma payload_loop_limits:
  assumes "payload_loop pa bp (initial_state b it) = Some (Inr st')"
  shows "accounts_ok bp st' \<and> limits_ok pa bp st'"
  using payload_loop_rule [OF assms, of "\<lambda>st. accounts_ok bp st \<and> limits_ok pa bp st"]
    payload_step_keeps_limits [of pa bp] by (fastforce simp: initial_ok)

text \<open>Property C11: a filled block respects its limits. When the loop ends, the gas it counted is the
  executor's gas counter, is the sum over the included transactions and is within the block's gas
  limit; the blob count is the sum over the included transactions and within the maximum; after
  Osaka the transactions, the withdrawals and the allowance for the header fit into the size limit;
  the fees are the sum of tip times gas.\<close>

theorem payload_within_limits:
  assumes "bd_execute pa = executor_execute xe to_exec invalid_tx" and "executor_valid xe to_exec ex"
    and "ex_gas_used ex = 0" and "executor_limit ex = bp_gas_limit bp"
    and "payload_loop pa bp (initial_state ex it) = Some (Inr st)"
  shows "bs_gas st = ex_gas_used (bs_builder st) \<and> bs_gas st \<le> bp_gas_limit bp
    \<and> bs_gas st = sum_list (map snd (bs_included st))
    \<and> bs_blobs st = sum_list (map (blob_count_of \<circ> fst) (bs_included st)) \<and> bs_blobs st \<le> bp_max_blobs bp
    \<and> (bp_is_osaka bp \<and> bs_included st \<noteq> [] \<longrightarrow>
         sum_list (map (pt_rlp_length \<circ> fst) (bs_included st)) + bp_withdrawals_rlp bp + 1024 \<le> max_rlp_block_size pa)
    \<and> bs_fees st = sum_list (map (fee_of bp) (bs_included st))"
proof -
  have "bb.in_step xe to_exec bp (initial_state ex it)"
    using assms(2-4) by (simp add: bb.in_step_def initial_state_def)
  from bb.loop_keeps [OF assms(1,5) this] payload_loop_limits [OF assms(5)] show ?thesis
    by (auto simp: bb.in_step_def accounts_ok_def limits_ok_def)
qed

text \<open>The executor's own gas check is never what stops a build. If no transaction the pool
  offers has a gas limit that overflows with the block's, the loop's test and the executor's test are
  the same test, so a build that fails fails for another reason.\<close>

theorem payload_gas_check_agrees:
  assumes "bd_execute pa = executor_execute xe to_exec invalid_tx" and "executor_valid xe to_exec ex"
    and "ex_gas_used ex = 0" and "executor_limit ex = bp_gas_limit bp"
    and "\<And>it tx it'. it_next pa it = (Some tx, it') \<Longrightarrow>
      unat (pt_gas_limit tx) + unat (bp_gas_limit bp) < 2 ^ 64"
    and "payload_loop pa bp (initial_state ex it) = Some (Inl (Failed (Err (PayloadEvm e))))"
  shows "e \<noteq> TransactionGasLimitTooHigh x y"
proof -
  have "bb.in_step xe to_exec bp (initial_state ex it)"
    using assms(2-4) by (simp add: bb.in_step_def initial_state_def)
  from bb.no_gas_refusal [OF assms(1,6) this assms(5)] show ?thesis .
qed

text \<open>A pool that holds finitely many transactions: taking one makes it smaller, the other operations do
  not make it larger.\<close>

definition pool_finite :: "('b, 'it, 'side) payload_api \<Rightarrow> ('it \<Rightarrow> nat) \<Rightarrow> bool" where
  "pool_finite pa size_of \<longleftrightarrow>
     (\<forall>it tx it'. it_next pa it = (Some tx, it') \<longrightarrow> size_of it' < size_of it)
     \<and> (\<forall>it tx err. size_of (it_mark_invalid pa tx err it) \<le> size_of it)
     \<and> (\<forall>it. size_of (it_skip_blobs pa it) \<le> size_of it)"

lemma payload_step_size:
  assumes "pool_finite pa size_of" and "payload_step pa bp tx st = Inr st'"
  shows "size_of (bs_iter st') \<le> size_of (bs_iter st)"
  using assms
  by (auto simp: payload_step_def pool_finite_def skip_tx_def include_tx_def Let_def
      split: if_splits sum.splits prod.splits exec_failure.splits option.splits)

text \<open>Over a pool that holds finitely many transactions the loop ends, whatever the transactions do.\<close>

lemma payload_loop_returns:
  assumes "pool_finite pa size_of"
  shows "\<exists>r. payload_loop pa bp st = Some r"
proof (induction "size_of (bs_iter st)" arbitrary: st rule: less_induct)
  case less
  obtain nx it where nxt: "it_next pa (bs_iter st) = (nx, it)" by fastforce
  show ?case
  proof (cases nx)
    case None
    with nxt show ?thesis by (subst payload_loop.simps) simp
  next
    case (Some tx)
    with nxt assms have lt: "size_of it < size_of (bs_iter st)" by (simp add: pool_finite_def)
    show ?thesis
    proof (cases "payload_step pa bp tx (st\<lparr>bs_iter := it\<rparr>)")
      case (Inl exit)
      with nxt Some show ?thesis by (subst payload_loop.simps) simp
    next
      case (Inr st')
      with payload_step_size [OF assms Inr] lt have "size_of (bs_iter st') < size_of (bs_iter st)" by simp
      from less [OF this] obtain r where "payload_loop pa bp st' = Some r" ..
      with nxt Some Inr show ?thesis by (subst payload_loop.simps) simp
    qed
  qed
qed

lemma payload_loop_kind:
  assumes "push_ok pa" and "payload_loop pa bp (initial_state b it) = Some (Inr st')"
  shows "kind_ok (bp_is_osaka bp) (bs_sidecars st')"
  using payload_loop_rule [OF assms(2), of "\<lambda>st. kind_ok (bp_is_osaka bp) (bs_sidecars st)"]
    payload_step_keeps_kind [OF _ assms(1)] by (fastforce simp: initial_ok)

section \<open>Samples\<close>

definition sample_to_exec :: "pool_tx \<Rightarrow> exec_tx" where
  "sample_to_exec tx = \<lparr>et_env = (system_tx 3 4 [])\<lparr>tx_gas_limit := pt_gas_limit tx\<rparr>,
     et_gas_limit = pt_gas_limit tx, et_blob_gas_used = None, et_type = 2, et_hash = pt_hash tx\<rparr>"

text \<open>The pool is a list of transactions, a sidecar is its kind.\<close>

definition sample_payload_api ::
  "((address \<rightharpoonup> account_info, unit, unit, log list) executor, pool_tx list, bool) payload_api" where
  "sample_payload_api = \<lparr>
     bd_execute = executor_execute (sample_exec_env (CallOutput [])) sample_to_exec (\<lambda>_. None),
     it_next = (\<lambda>it. case it of [] \<Rightarrow> (None, []) | tx # txs \<Rightarrow>
       (if unat (pt_gas_limit tx) \<le> 40000000 then (Some tx, txs) else (None, []))),
     it_mark_invalid = (\<lambda>tx err it. it), it_skip_blobs = (\<lambda>it. it), job_cancelled = (\<lambda>_. False),
     pool_get_blob = (\<lambda>_. Inr None), is_eip7594 = (\<lambda>s. s), is_eip4844 = (\<lambda>s. \<not> s),
     push_sidecar = (\<lambda>s c. case c of
         EmptySidecars \<Rightarrow> (if s then Eip7594 [s] else Eip4844 [s])
       | Eip4844 l \<Rightarrow> (if s then Eip4844 l else Eip4844 (l @ [s]))
       | Eip7594 l \<Rightarrow> (if s then Eip7594 (l @ [s]) else Eip7594 l)),
     max_rlp_block_size = 8388608\<rparr>"

definition sample_pool_tx :: "u64 \<Rightarrow> pool_tx" where
  "sample_pool_tx limit = \<lparr>pt_hash = 1, pt_gas_limit = limit, pt_rlp_length = 100,
     pt_blob_hashes = None, pt_effective_tip = (\<lambda>_. Some 2)\<rparr>"

definition sample_params :: build_params where
  "sample_params = \<lparr>bp_gas_limit = 30000000, bp_base_fee = 7, bp_max_blobs = 2, bp_is_osaka = True,
     bp_withdrawals_rlp = 0\<rparr>"

definition sample_build_executor :: "(address \<rightharpoonup> account_info, unit, unit, log list) executor" where
  "sample_build_executor = sample_executor (sample_aura_ctx None 0) []"

lemma sample_builder_ok:
  "bd_execute sample_payload_api = executor_execute (sample_exec_env (CallOutput [])) sample_to_exec (\<lambda>_. None)"
  "executor_valid (sample_exec_env (CallOutput [])) sample_to_exec sample_build_executor"
  "ex_gas_used sample_build_executor = 0"
  "executor_limit sample_build_executor = bp_gas_limit sample_params"
  by (simp_all add: sample_payload_api_def executor_valid_def sample_env_ok sample_to_exec_def
      executor_limit_def sample_build_executor_def sample_executor_def sample_block_fields sample_params_def)

lemma sample_pool_finite: "pool_finite sample_payload_api length"
  by (auto simp: pool_finite_def sample_payload_api_def split: list.splits if_splits)

lemma sample_executor_execute:
  assumes "ex_evm ex = calls_evm" and "ex_gas_used ex = 0"
  shows "\<exists>ex'. executor_execute (sample_exec_env (CallOutput [])) sample_to_exec (\<lambda>_. None) (sample_pool_tx 21000) ex
    = (Inr 1, ex')"
  using assms
  by (simp add: executor_execute_def execute_transaction_without_commit_def sample_to_exec_def
      sample_pool_tx_def sample_block_fields transact_raw_def sample_exec_env_def calls_evm_api_def
      commit_transaction_def Let_def word_less_nat_alt)

lemma sample_first_step:
  "\<exists>st. payload_step sample_payload_api sample_params (sample_pool_tx 21000)
       ((initial_state sample_build_executor [])\<lparr>bs_iter := [sample_pool_tx 31000000]\<rparr>) = Inr st
     \<and> bs_iter st = [sample_pool_tx 31000000] \<and> bs_gas st = 1 \<and> bs_included st = [(sample_pool_tx 21000, 1)]"
proof -
  obtain ex' where "executor_execute (sample_exec_env (CallOutput [])) sample_to_exec (\<lambda>_. None)
      (sample_pool_tx 21000) sample_build_executor = (Inr 1, ex')"
    using sample_executor_execute [of sample_build_executor]
    by (auto simp: sample_build_executor_def sample_executor_def)
  then show ?thesis
    by (simp add: payload_step_def initial_state_def sample_payload_api_def sample_params_def Let_def
        blob_sidecar_for_def include_tx_def word_less_nat_alt sample_pool_tx_def)
qed

lemma sample_loop:
  "\<exists>st. payload_loop sample_payload_api sample_params
       (initial_state sample_build_executor [sample_pool_tx 21000, sample_pool_tx 31000000]) = Some (Inr st)
     \<and> bs_included st = [(sample_pool_tx 21000, 1)]"
proof -
  let ?pa = sample_payload_api
  obtain st where st: "payload_step ?pa sample_params (sample_pool_tx 21000)
        ((initial_state sample_build_executor [])\<lparr>bs_iter := [sample_pool_tx 31000000]\<rparr>) = Inr st"
      "bs_iter st = [sample_pool_tx 31000000]" "bs_gas st = 1" "bs_included st = [(sample_pool_tx 21000, 1)]"
    using sample_first_step by blast
  have nxt: "it_next ?pa [sample_pool_tx 21000, sample_pool_tx 31000000] = (Some (sample_pool_tx 21000), [sample_pool_tx 31000000])"
    "it_next ?pa [sample_pool_tx 31000000] = (Some (sample_pool_tx 31000000), [])" "it_next ?pa [] = (None, [])"
    by (simp_all add: sample_payload_api_def sample_pool_tx_def)
  have second: "payload_step ?pa sample_params (sample_pool_tx 31000000) (st\<lparr>bs_iter := []\<rparr>)
      = Inr (st\<lparr>bs_iter := []\<rparr>)"
    using st(3) by (simp add: payload_step_def sample_params_def sample_pool_tx_def skip_tx_def
        sample_payload_api_def word_less_nat_alt)
  have "payload_loop ?pa sample_params st = Some (Inr (st\<lparr>bs_iter := []\<rparr>))"
    by (subst payload_loop.simps) (simp add: st(2) nxt second payload_loop.simps)
  then show ?thesis
    using st(1,4) by (subst payload_loop.simps) (simp add: initial_state_def nxt)
qed

theorem payload_within_limits_witness:
  "\<exists>st. payload_loop sample_payload_api sample_params
       (initial_state sample_build_executor [sample_pool_tx 21000, sample_pool_tx 31000000]) = Some (Inr st)
     \<and> bs_gas st = 1 \<and> bs_fees st = 2"
proof -
  obtain st where run: "payload_loop sample_payload_api sample_params
       (initial_state sample_build_executor [sample_pool_tx 21000, sample_pool_tx 31000000]) = Some (Inr st)"
    and incl: "bs_included st = [(sample_pool_tx 21000, 1)]"
    using sample_loop by blast
  from payload_within_limits [OF sample_builder_ok run] run show ?thesis
    by (auto simp: incl fee_of_def sample_pool_tx_def)
qed

text \<open>An executor whose EVM fails every transaction.\<close>

definition failing_executor :: "(address \<rightharpoonup> account_info, unit, unit, log list) executor" where
  "failing_executor = sample_build_executor\<lparr>ex_evm := calls_evm\<lparr>evm_inspect := True\<rparr>\<rparr>"

lemma failing_run:
  "payload_loop sample_payload_api sample_params (initial_state failing_executor [sample_pool_tx 21000]) =
     Some (Inl (Failed (Err (PayloadEvm (EvmFailure 1 ''no inspector'')))))"
  by (subst payload_loop.simps)
    (simp add: initial_state_def sample_payload_api_def sample_pool_tx_def payload_step_def
      sample_params_def Let_def blob_sidecar_for_def executor_execute_def
      execute_transaction_without_commit_def failing_executor_def sample_build_executor_def
      sample_executor_def sample_block_fields transact_raw_def sample_exec_env_def calls_evm_api_def
      sample_to_exec_def word_less_nat_alt)

theorem payload_gas_check_agrees_witness:
  "\<exists>e. payload_loop sample_payload_api sample_params (initial_state failing_executor [sample_pool_tx 21000]) =
       Some (Inl (Failed (Err (PayloadEvm e)))) \<and> e \<noteq> TransactionGasLimitTooHigh 21000 0"
proof -
  have valid: "executor_valid (sample_exec_env (CallOutput [])) sample_to_exec failing_executor"
    "ex_gas_used failing_executor = 0" "executor_limit failing_executor = bp_gas_limit sample_params"
    by (simp_all add: executor_valid_def sample_env_ok sample_to_exec_def executor_limit_def
        failing_executor_def sample_build_executor_def sample_executor_def sample_block_fields sample_params_def)
  have offered: "unat (pt_gas_limit tx) + unat (bp_gas_limit sample_params) < 2 ^ 64"
    if "it_next sample_payload_api it = (Some tx, it')" for it tx it'
    using that by (auto simp: sample_payload_api_def sample_params_def split: list.splits if_splits)
  from payload_gas_check_agrees [OF sample_builder_ok(1) valid offered failing_run] failing_run
  show ?thesis by blast
qed

end
