(* ===== verification/BuiltPayload.thy ===== *)
theory BuiltPayload
  imports Payload
begin

text \<open>
  The build of a payload around the loop of \<open>Payload\<close> (\<open>default_ethereum_payload\<close> of
  \<open>src/payload.rs\<close>): preparing the builder, the limits of the block, the decision whether the result is
  better than the best payload so far, the final size check; and the built payload with its
  conversions to the engine's envelopes. The state provider, the block builder of reth and the
  library's envelopes are parameters; the read cache a build hands on is left out.
\<close>

section \<open>The built payload\<close>

record ('blk, 'side) built_payload =
  gp_id :: u64
  gp_block :: 'blk
  gp_fees :: u256
  gp_sidecars :: "'side BlobSidecars"
  gp_requests :: "requests_entry list option"

definition built_payload_new ::
  "u64 \<Rightarrow> 'blk \<Rightarrow> u256 \<Rightarrow> requests_entry list option \<Rightarrow> ('blk, 'side) built_payload" where
  "built_payload_new i blk fees requests = \<lparr>gp_id = i, gp_block = blk, gp_fees = fees,
     gp_sidecars = EmptySidecars, gp_requests = requests\<rparr>"

definition with_sidecars ::
  "'side BlobSidecars \<Rightarrow> ('blk, 'side) built_payload \<Rightarrow> ('blk, 'side) built_payload" where
  "with_sidecars sidecars p = p\<lparr>gp_sidecars := sidecars\<rparr>"

datatype conversion_error = UnexpectedEip7594Sidecars | UnexpectedEip4844Sidecars

text \<open>The library's payloads and blob bundles.\<close>

record ('blk, 'v1, 'v2, 'v3, 'side, 'b1, 'b2) conv_api =
  blk_hash :: "'blk \<Rightarrow> b256"
  v1_from_block_unchecked :: "b256 \<Rightarrow> 'blk \<Rightarrow> 'v1"
  v2_from_block_unchecked :: "b256 \<Rightarrow> 'blk \<Rightarrow> 'v2"
  v3_from_block_unchecked :: "b256 \<Rightarrow> 'blk \<Rightarrow> 'v3"
  bundle_v1_empty :: 'b1
  bundle_v1_from :: "'side list \<Rightarrow> 'b1"
  bundle_v2_empty :: 'b2
  bundle_v2_from :: "'side list \<Rightarrow> 'b2"

record 'v2 envelope_v2 =
  e2_block_value :: u256
  e2_execution_payload :: 'v2

record ('v3, 'b1) envelope_v3 =
  e3_execution_payload :: 'v3
  e3_block_value :: u256
  e3_should_override_builder :: bool
  e3_blobs_bundle :: 'b1

record ('v3, 'b1) envelope_v4 =
  e4_execution_requests :: "requests_entry list"
  e4_envelope_inner :: "('v3, 'b1) envelope_v3"

record ('v3, 'b2) envelope_v5 =
  e5_execution_payload :: 'v3
  e5_block_value :: u256
  e5_should_override_builder :: bool
  e5_blobs_bundle :: 'b2
  e5_execution_requests :: "requests_entry list"

definition requests_or_default :: "requests_entry list option \<Rightarrow> requests_entry list" where
  "requests_or_default r = (case r of None \<Rightarrow> [] | Some rs \<Rightarrow> rs)"

definition into_v1 ::
  "('blk, 'v1, 'v2, 'v3, 'side, 'b1, 'b2) conv_api \<Rightarrow> ('blk, 'side) built_payload \<Rightarrow> 'v1" where
  "into_v1 cv p = v1_from_block_unchecked cv (blk_hash cv (gp_block p)) (gp_block p)"

definition into_v2 ::
  "('blk, 'v1, 'v2, 'v3, 'side, 'b1, 'b2) conv_api \<Rightarrow> ('blk, 'side) built_payload \<Rightarrow> 'v2 envelope_v2" where
  "into_v2 cv p = \<lparr>e2_block_value = gp_fees p,
     e2_execution_payload = v2_from_block_unchecked cv (blk_hash cv (gp_block p)) (gp_block p)\<rparr>"

definition try_into_v3 ::
  "('blk, 'v1, 'v2, 'v3, 'side, 'b1, 'b2) conv_api \<Rightarrow> ('blk, 'side) built_payload
     \<Rightarrow> conversion_error + ('v3, 'b1) envelope_v3" where
  "try_into_v3 cv p =
     and_then (case gp_sidecars p of
         EmptySidecars \<Rightarrow> Inr (bundle_v1_empty cv)
       | Eip4844 sidecars \<Rightarrow> Inr (bundle_v1_from cv sidecars)
       | Eip7594 _ \<Rightarrow> Inl UnexpectedEip7594Sidecars) (\<lambda>bundle.
     Inr \<lparr>e3_execution_payload = v3_from_block_unchecked cv (blk_hash cv (gp_block p)) (gp_block p),
       e3_block_value = gp_fees p, e3_should_override_builder = False, e3_blobs_bundle = bundle\<rparr>)"

definition try_into_v4 ::
  "('blk, 'v1, 'v2, 'v3, 'side, 'b1, 'b2) conv_api \<Rightarrow> ('blk, 'side) built_payload
     \<Rightarrow> conversion_error + ('v3, 'b1) envelope_v4" where
  "try_into_v4 cv p = and_then (try_into_v3 cv p) (\<lambda>inner.
     Inr \<lparr>e4_execution_requests = requests_or_default (gp_requests p), e4_envelope_inner = inner\<rparr>)"

definition try_into_v5 ::
  "('blk, 'v1, 'v2, 'v3, 'side, 'b1, 'b2) conv_api \<Rightarrow> ('blk, 'side) built_payload
     \<Rightarrow> conversion_error + ('v3, 'b2) envelope_v5" where
  "try_into_v5 cv p =
     and_then (case gp_sidecars p of
         EmptySidecars \<Rightarrow> Inr (bundle_v2_empty cv)
       | Eip7594 sidecars \<Rightarrow> Inr (bundle_v2_from cv sidecars)
       | Eip4844 _ \<Rightarrow> Inl UnexpectedEip4844Sidecars) (\<lambda>bundle.
     Inr \<lparr>e5_execution_payload = v3_from_block_unchecked cv (blk_hash cv (gp_block p)) (gp_block p),
       e5_block_value = gp_fees p, e5_should_override_builder = False, e5_blobs_bundle = bundle,
       e5_execution_requests = requests_or_default (gp_requests p)\<rparr>)"

definition try_into_v6 :: "('blk, 'side) built_payload \<Rightarrow> 'e fault + 'v6" where
  "try_into_v6 p = Inl (Panic ''ExecutionPayloadEnvelopeV6 not yet supported'')"

section \<open>A build job\<close>

record payload_attributes =
  at_timestamp :: u64
  at_suggested_fee_recipient :: address
  at_prev_randao :: b256
  at_withdrawals :: "withdrawal list option"
  at_parent_beacon_block_root :: "b256 option"
  at_slot_number :: "u64 option"

record builder_config =
  bc_gas_limit :: "u64 \<Rightarrow> u64"
  bc_extra_data :: bytes
  bc_max_blobs_per_block :: "u64 option"

text \<open>The surroundings of a build: the client's state, reth's block builder for our configuration, the
  pool and the comparison with the best payload.\<close>

record ('db, 'b, 'it, 'blk, 'side) build_env =
  pe_state_by_block_hash :: "b256 \<Rightarrow> string + 'db"
  pe_builder_for_next_block :: "'db \<Rightarrow> GnosisHeader \<Rightarrow> NextBlockEnvAttributes \<Rightarrow> string + 'b"
  pe_block_env :: "'b \<Rightarrow> block_env"
  pe_apply_pre_execution :: "'b \<Rightarrow> (BlockExecutionError fault + unit) \<times> 'b"
  pe_best_transactions :: "u64 \<Rightarrow> u64 option \<Rightarrow> 'it"
  pe_withdrawals_length :: "withdrawal list \<Rightarrow> u64"
  pe_is_better_payload :: "('blk, 'side) built_payload option \<Rightarrow> u256 \<Rightarrow> bool"
  pe_finish :: "'b \<Rightarrow> BlockExecutionError fault + ('blk \<times> requests_entry list)"
  pe_rlp_length :: "'blk \<Rightarrow> u64"

datatype 'p build_outcome = Better 'p | Aborted u256 | CancelledJob

definition max_blob_count_for :: "u64 option \<Rightarrow> BlobParams option \<Rightarrow> u64" where
  "max_blob_count_for user_limit blob_params =
     (let protocol = (case blob_params of None \<Rightarrow> 0 | Some p \<Rightarrow> max_blob_count p)
      in (case user_limit of None \<Rightarrow> protocol | Some u \<Rightarrow> max (min u protocol) 1))"

definition next_block_attributes ::
  "builder_config \<Rightarrow> GnosisHeader \<Rightarrow> payload_attributes \<Rightarrow> NextBlockEnvAttributes" where
  "next_block_attributes cfg parent attributes =
     \<lparr>na_timestamp = at_timestamp attributes,
      na_suggested_fee_recipient = at_suggested_fee_recipient attributes,
      na_prev_randao = at_prev_randao attributes,
      na_gas_limit = bc_gas_limit cfg (h_gas_limit parent),
      na_parent_beacon_block_root = at_parent_beacon_block_root attributes,
      na_withdrawals = at_withdrawals attributes, na_extra_data = bc_extra_data cfg,
      na_slot_number = at_slot_number attributes\<rparr>"

definition build_params_for ::
  "hardforks_api \<Rightarrow> config_api \<Rightarrow> ('db, 'b, 'it, 'blk, 'side) build_env \<Rightarrow> GnosisChainSpec
     \<Rightarrow> builder_config \<Rightarrow> payload_attributes \<Rightarrow> block_env \<Rightarrow> build_params" where
  "build_params_for api c pe spec cfg attributes env =
     \<lparr>bp_gas_limit = be_gas_limit env, bp_base_fee = be_basefee env,
      bp_max_blobs = max_blob_count_for (bc_max_blobs_per_block cfg)
        (blob_params_at_timestamp c spec (at_timestamp attributes)),
      bp_is_osaka = is_active_at_timestamp api spec Osaka (at_timestamp attributes),
      bp_withdrawals_rlp = (case at_withdrawals attributes of None \<Rightarrow> 0 | Some w \<Rightarrow> pe_withdrawals_length pe w)\<rparr>"

text \<open>After the loop.\<close>

definition seal_payload ::
  "hardforks_api \<Rightarrow> ('db, 'b, 'it, 'blk, 'side) build_env \<Rightarrow> ('b, 'it, 'side) payload_api
     \<Rightarrow> GnosisChainSpec \<Rightarrow> payload_attributes \<Rightarrow> u64 \<Rightarrow> ('blk, 'side) built_payload option
     \<Rightarrow> ('b, 'it, 'side) build_state \<Rightarrow> payload_error fault + ('blk, 'side) built_payload build_outcome" where
  "seal_payload api pe pa spec attributes payload_id best_payload st =
     (if \<not> pe_is_better_payload pe best_payload (bs_fees st) then Inr (Aborted (bs_fees st))
      else and_then (map_err (map_fault PayloadInternal) (pe_finish pe (bs_builder st))) (\<lambda>(blk, reqs).
        let requests = (if is_active_at_timestamp api spec Prague (at_timestamp attributes)
              then Some reqs else None)
        in if is_active_at_timestamp api spec Osaka (at_timestamp attributes)
              \<and> pe_rlp_length pe blk > max_rlp_block_size pa
           then Inl (Err (BlockTooLarge (pe_rlp_length pe blk) (max_rlp_block_size pa)))
           else Inr (Better (with_sidecars (bs_sidecars st)
                  (built_payload_new payload_id blk (bs_fees st) requests)))))"

definition default_ethereum_payload ::
  "hardforks_api \<Rightarrow> config_api \<Rightarrow> ('db, 'b, 'it, 'blk, 'side) build_env \<Rightarrow> ('b, 'it, 'side) payload_api
     \<Rightarrow> GnosisChainSpec \<Rightarrow> builder_config \<Rightarrow> GnosisHeader \<Rightarrow> b256 \<Rightarrow> payload_attributes \<Rightarrow> u64
     \<Rightarrow> ('blk, 'side) built_payload option
     \<Rightarrow> (payload_error fault + ('blk, 'side) built_payload build_outcome) option" where
  "default_ethereum_payload api c pe pa spec cfg parent parent_hash attributes payload_id best_payload =
     (case pe_state_by_block_hash pe parent_hash of
        Inl e \<Rightarrow> Some (Inl (Err (PayloadOther e)))
      | Inr db \<Rightarrow>
          (case pe_builder_for_next_block pe db parent (next_block_attributes cfg parent attributes) of
             Inl e \<Rightarrow> Some (Inl (Err (PayloadOther e)))
           | Inr builder \<Rightarrow>
               (let env = pe_block_env pe builder;
                    best_txs = pe_best_transactions pe (be_basefee env)
                      (map_option (\<lambda>blob. ucast (blob_gasprice blob)) (be_blob env))
                in (case pe_apply_pre_execution pe builder of
                      (Inl e, builder) \<Rightarrow> Some (Inl (map_fault PayloadInternal e))
                    | (Inr _, builder) \<Rightarrow>
                        (case payload_loop pa (build_params_for api c pe spec cfg attributes env)
                            (initial_state builder best_txs) of
                           None \<Rightarrow> None
                         | Some (Inl Cancelled) \<Rightarrow> Some (Inr CancelledJob)
                         | Some (Inl (Failed e)) \<Rightarrow> Some (Inl e)
                         | Some (Inr st) \<Rightarrow>
                             Some (seal_payload api pe pa spec attributes payload_id best_payload st))))))"

definition try_build ::
  "hardforks_api \<Rightarrow> config_api \<Rightarrow> ('db, 'b, 'it, 'blk, 'side) build_env \<Rightarrow> ('b, 'it, 'side) payload_api
     \<Rightarrow> GnosisChainSpec \<Rightarrow> builder_config \<Rightarrow> GnosisHeader \<Rightarrow> b256 \<Rightarrow> payload_attributes \<Rightarrow> u64
     \<Rightarrow> ('blk, 'side) built_payload option
     \<Rightarrow> (payload_error fault + ('blk, 'side) built_payload build_outcome) option" where
  "try_build = default_ethereum_payload"

text \<open>The empty payload runs the same build, with a fresh cancellation flag (\<open>pa\<close>'s) and no best payload;
  only a built payload counts.\<close>

fun into_payload :: "'p build_outcome \<Rightarrow> 'p option" where
  "into_payload (Better p) = Some p"
| "into_payload (Aborted fees) = None"
| "into_payload CancelledJob = None"

definition build_empty_payload ::
  "hardforks_api \<Rightarrow> config_api \<Rightarrow> ('db, 'b, 'it, 'blk, 'side) build_env \<Rightarrow> ('b, 'it, 'side) payload_api
     \<Rightarrow> GnosisChainSpec \<Rightarrow> builder_config \<Rightarrow> GnosisHeader \<Rightarrow> b256 \<Rightarrow> payload_attributes \<Rightarrow> u64
     \<Rightarrow> (payload_error fault + ('blk, 'side) built_payload) option" where
  "build_empty_payload api c pe pa spec cfg parent parent_hash attributes payload_id =
     map_option (\<lambda>r. and_then r (\<lambda>outcome. ok_or (Err MissingPayload) (into_payload outcome)))
       (default_ethereum_payload api c pe (pa\<lparr>job_cancelled := (\<lambda>_. False)\<rparr>) spec cfg parent parent_hash
          attributes payload_id None)"

section \<open>What a build delivers\<close>

lemma conversions:
  "\<forall>l. gp_sidecars p \<noteq> Eip4844 l \<Longrightarrow> (\<exists>env. try_into_v5 cv p = Inr env)
     \<and> (try_into_v3 cv p = Inl UnexpectedEip7594Sidecars \<longleftrightarrow> gp_sidecars p \<noteq> EmptySidecars)"
  "\<forall>l. gp_sidecars p \<noteq> Eip7594 l \<Longrightarrow> (\<exists>env. try_into_v3 cv p = Inr env) \<and> (\<exists>env. try_into_v4 cv p = Inr env)
     \<and> (try_into_v5 cv p = Inl UnexpectedEip4844Sidecars \<longleftrightarrow> gp_sidecars p \<noteq> EmptySidecars)"
  by (cases "gp_sidecars p"; simp add: try_into_v3_def try_into_v4_def try_into_v5_def)+

lemma seal_payload_Better:
  assumes "seal_payload api pe pa spec attributes i best st = Inr (Better p)"
  shows "gp_fees p = bs_fees st \<and> gp_sidecars p = bs_sidecars st \<and> gp_id p = i
    \<and> pe_is_better_payload pe best (bs_fees st)
    \<and> (gp_requests p \<noteq> None \<longleftrightarrow> is_active_at_timestamp api spec Prague (at_timestamp attributes))
    \<and> (is_active_at_timestamp api spec Osaka (at_timestamp attributes) \<longrightarrow>
         pe_rlp_length pe (gp_block p) \<le> max_rlp_block_size pa)"
  using assms
  by (auto simp: seal_payload_def and_then_Inr_iff map_err_Inr_iff Let_def with_sidecars_def
      built_payload_new_def not_less split: if_splits prod.splits)

lemma default_ethereum_payload_Better:
  assumes "default_ethereum_payload api c pe pa spec cfg parent parent_hash attributes i best = Some (Inr (Better p))"
  obtains db b b' st where "pe_state_by_block_hash pe parent_hash = Inr db"
    "pe_builder_for_next_block pe db parent (next_block_attributes cfg parent attributes) = Inr b"
    "pe_apply_pre_execution pe b = (Inr (), b')"
    "payload_loop pa (build_params_for api c pe spec cfg attributes (pe_block_env pe b))
       (initial_state b' (pe_best_transactions pe (be_basefee (pe_block_env pe b))
          (map_option (\<lambda>blob. ucast (blob_gasprice blob)) (be_blob (pe_block_env pe b))))) = Some (Inr st)"
    "seal_payload api pe pa spec attributes i best st = Inr (Better p)"
  using assms that
  by (auto simp: default_ethereum_payload_def Let_def
      split: sum.splits prod.splits option.splits build_exit.splits)

text \<open>Property C13: a built payload is one the engine accepts. It is better than the best payload so far,
  it lists requests exactly from Prague on, after Osaka its block is within the size limit, and the
  envelope of its fork can be made from it: version 5 after Osaka, versions 3 and 4 before. The wrong
  version is refused exactly when there are sidecars of the other kind.\<close>

theorem built_payload_delivers:
  assumes "push_ok pa"
    and "default_ethereum_payload api c pe pa spec cfg parent parent_hash attributes i best = Some (Inr (Better p))"
  shows "pe_is_better_payload pe best (gp_fees p)
    \<and> (gp_requests p \<noteq> None \<longleftrightarrow> is_active_at_timestamp api spec Prague (at_timestamp attributes))
    \<and> (if is_active_at_timestamp api spec Osaka (at_timestamp attributes)
       then pe_rlp_length pe (gp_block p) \<le> max_rlp_block_size pa \<and> (\<exists>env. try_into_v5 cv p = Inr env)
         \<and> (try_into_v3 cv p = Inl UnexpectedEip7594Sidecars \<longleftrightarrow> gp_sidecars p \<noteq> EmptySidecars)
       else (\<exists>env. try_into_v3 cv p = Inr env) \<and> (\<exists>env. try_into_v4 cv p = Inr env)
         \<and> (try_into_v5 cv p = Inl UnexpectedEip4844Sidecars \<longleftrightarrow> gp_sidecars p \<noteq> EmptySidecars))"
proof -
  from assms(2) obtain db b b' st where
      run: "payload_loop pa (build_params_for api c pe spec cfg attributes (pe_block_env pe b))
       (initial_state b' (pe_best_transactions pe (be_basefee (pe_block_env pe b))
          (map_option (\<lambda>blob. ucast (blob_gasprice blob)) (be_blob (pe_block_env pe b))))) = Some (Inr st)"
    and sealed: "seal_payload api pe pa spec attributes i best st = Inr (Better p)"
    by (rule default_ethereum_payload_Better)
  note p = seal_payload_Better [OF sealed]
  have kind: "kind_ok (is_active_at_timestamp api spec Osaka (at_timestamp attributes)) (gp_sidecars p)"
    using payload_loop_kind [OF assms(1) run] p by (simp add: build_params_for_def)
  have better: "pe_is_better_payload pe best (gp_fees p)" using p by simp
  show ?thesis
  proof (cases "is_active_at_timestamp api spec Osaka (at_timestamp attributes)")
    case True
    with kind have "\<forall>l. gp_sidecars p \<noteq> Eip4844 l" by (simp add: kind_ok_def)
    with True p better show ?thesis by (simp add: conversions)
  next
    case False
    with kind have "\<forall>l. gp_sidecars p \<noteq> Eip7594 l" by (simp add: kind_ok_def)
    with False p better show ?thesis by (simp add: conversions)
  qed
qed

text \<open>Property C12: a build job returns. Over a pool of finitely many transactions it ends with a payload,
  an abort, a cancellation or an error, and so does the build of an empty payload, which is never
  cancelled.\<close>

theorem build_returns:
  assumes "pool_finite pa size_of"
  shows "(\<exists>r. default_ethereum_payload api c pe pa spec cfg parent parent_hash attributes i best = Some r)
    \<and> (\<exists>r. build_empty_payload api c pe pa spec cfg parent parent_hash attributes i = Some r)"
proof -
  have build: "\<exists>r. default_ethereum_payload api c pe pa' spec cfg parent parent_hash attributes i best' = Some r"
    if "pool_finite pa' size_of" for pa' best'
  proof -
    have total: "payload_loop pa' bp st \<noteq> None" for bp st
      using payload_loop_returns [OF that, of bp st] by auto
    show ?thesis
      by (simp add: total default_ethereum_payload_def Let_def
          split: sum.split prod.split option.split build_exit.split)
  qed
  have "pool_finite (pa\<lparr>job_cancelled := \<lambda>_. False\<rparr>) size_of"
    using assms by (simp add: pool_finite_def)
  from build [OF assms] build [OF this] show ?thesis by (auto simp: build_empty_payload_def)
qed

text \<open>The blob limit of EIP-7872. Without a user limit it is the protocol's maximum; with one
  it is at least one blob and never more than either limit, except that it is one where a limit is
  zero: with a user limit one blob is allowed even before Cancun, when the protocol allows none.\<close>

theorem max_blob_count_bounds:
  "max_blob_count_for None bp = (case bp of None \<Rightarrow> 0 | Some p \<Rightarrow> max_blob_count p)
   \<and> 1 \<le> max_blob_count_for (Some u) bp
   \<and> max_blob_count_for (Some u) (Some p) \<le> max (max_blob_count p) 1
   \<and> max_blob_count_for (Some u) bp \<le> max u 1
   \<and> max_blob_count_for (Some u) None = 1"
  by (auto simp: max_blob_count_for_def Let_def max_def min_def word_le_nat_alt split: option.split)

section \<open>Samples\<close>

text \<open>Builds over a list of transactions whose block is the number of the transactions; the block
  builder is the executor of the samples.\<close>

definition sample_build_env ::
  "pool_tx list \<Rightarrow> (unit, (address \<rightharpoonup> account_info, unit, unit, log list) executor, pool_tx list, u64, bool) build_env" where
  "sample_build_env txs = \<lparr>pe_state_by_block_hash = (\<lambda>_. Inr ()),
     pe_builder_for_next_block = (\<lambda>_ _ _. Inr sample_build_executor),
     pe_block_env = (\<lambda>ex. evm_block (ex_evm ex)), pe_apply_pre_execution = (\<lambda>ex. (Inr (), ex)),
     pe_best_transactions = (\<lambda>_ _. txs), pe_withdrawals_length = (\<lambda>_. 1),
     pe_is_better_payload = (\<lambda>best fees. True),
     pe_finish = (\<lambda>ex. Inr (of_nat (length (ex_receipts ex)), [])), pe_rlp_length = (\<lambda>_. 600)\<rparr>"

definition sample_payload_attributes :: payload_attributes where
  "sample_payload_attributes = \<lparr>at_timestamp = 5, at_suggested_fee_recipient = 9, at_prev_randao = 6,
     at_withdrawals = Some [], at_parent_beacon_block_root = None, at_slot_number = None\<rparr>"

definition sample_builder_config :: builder_config where
  "sample_builder_config = \<lparr>bc_gas_limit = (\<lambda>g. g), bc_extra_data = [], bc_max_blobs_per_block = None\<rparr>"

definition sample_conv :: "(u64, u64, u64, u64, bool, nat, nat) conv_api" where
  "sample_conv = \<lparr>blk_hash = (\<lambda>_. 0), v1_from_block_unchecked = (\<lambda>_ b. b),
     v2_from_block_unchecked = (\<lambda>_ b. b), v3_from_block_unchecked = (\<lambda>_ b. b), bundle_v1_empty = 0,
     bundle_v1_from = length, bundle_v2_empty = 0, bundle_v2_from = length\<rparr>"

lemma sample_push_ok: "push_ok sample_payload_api"
  by (auto simp: push_ok_def sample_payload_api_def split: BlobSidecars.split)

theorem build_returns_witness:
  "\<exists>r. default_ethereum_payload sample_hardforks_api sample_config_api
     (sample_build_env [sample_pool_tx 21000, sample_pool_tx 31000000]) sample_payload_api (sample_spec [])
     sample_builder_config blank_header 0 sample_payload_attributes 1 None = Some r"
  using build_returns [OF sample_pool_finite] by blast

lemma sample_empty_build:
  "\<exists>p. default_ethereum_payload sample_hardforks_api sample_config_api (sample_build_env [])
     sample_payload_api (sample_spec [(Osaka, Timestamp 0)]) sample_builder_config blank_header 0
     sample_payload_attributes 1 None = Some (Inr (Better p))"
proof -
  have osaka: "is_active_at_timestamp sample_hardforks_api (sample_spec [(Osaka, Timestamp 0)]) Osaka 5"
    "\<not> is_active_at_timestamp sample_hardforks_api (sample_spec [(Osaka, Timestamp 0)]) Prague 5"
    by (simp_all add: is_active_at_timestamp_def fork_activation_def sample_hardforks_api_def)
  have loop: "payload_loop sample_payload_api bp (initial_state ex []) = Some (Inr (initial_state ex []))" for bp ex
    by (subst payload_loop.simps) (simp add: initial_state_def sample_payload_api_def)
  show ?thesis
    by (simp add: default_ethereum_payload_def sample_build_env_def loop Let_def seal_payload_def osaka
        sample_payload_attributes_def) (simp add: sample_payload_api_def word_less_nat_alt)
qed

theorem built_payload_delivers_witness:
  "\<exists>p. default_ethereum_payload sample_hardforks_api sample_config_api (sample_build_env [])
     sample_payload_api (sample_spec [(Osaka, Timestamp 0)]) sample_builder_config blank_header 0
     sample_payload_attributes 1 None = Some (Inr (Better p))
   \<and> (\<exists>env. try_into_v5 sample_conv p = Inr env)"
proof -
  obtain p where build: "default_ethereum_payload sample_hardforks_api sample_config_api (sample_build_env [])
     sample_payload_api (sample_spec [(Osaka, Timestamp 0)]) sample_builder_config blank_header 0
     sample_payload_attributes 1 None = Some (Inr (Better p))"
    using sample_empty_build by blast
  have osaka: "is_active_at_timestamp sample_hardforks_api (sample_spec [(Osaka, Timestamp 0)]) Osaka
      (at_timestamp sample_payload_attributes)"
    by (simp add: is_active_at_timestamp_def fork_activation_def sample_hardforks_api_def)
  from built_payload_delivers [OF sample_push_ok build, of sample_conv] osaka build show ?thesis by auto
qed

end
