(* ===== verification/Effects.thy ===== *)
theory Effects
  imports Prelude
begin

text \<open>
  Fallible code that changes a state: a result paired with the state it leaves, also when it fails, and
  the sequencing of two such steps. The import of ERA files and the preparation of the initial state
  are written with it.
\<close>

definition state_then ::
  "('e + 'a) \<times> 's \<Rightarrow> ('a \<Rightarrow> 's \<Rightarrow> ('e + 'b) \<times> 's) \<Rightarrow> ('e + 'b) \<times> 's" where
  "state_then m f = (case m of (Inl e, s) \<Rightarrow> (Inl e, s) | (Inr a, s) \<Rightarrow> f a s)"

lemma state_then_simps [simp]:
  "state_then (Inl e, s) f = (Inl e, s)"
  "state_then (Inr a, s) f = f a s"
  by (simp_all add: state_then_def)

lemma state_then_Inr_iff [result_simps]:
  "state_then m f = (Inr b, s) \<longleftrightarrow> (\<exists>a s'. m = (Inr a, s') \<and> f a s' = (Inr b, s))"
  by (auto simp: state_then_def split: prod.splits sum.splits)

text \<open>A fallible computation that does not change the state.\<close>

definition pure_step :: "'e + 'a \<Rightarrow> 's \<Rightarrow> ('e + 'a) \<times> 's" where
  "pure_step r s = (r, s)"

lemma pure_step_Inr_iff [result_simps]:
  "pure_step r s = (Inr a, s') \<longleftrightarrow> r = Inr a \<and> s' = s"
  by (auto simp: pure_step_def)

end
