(* ===== verification/EraImport.thy ===== *)
theory EraImport
  imports Effects "HOL-Library.Sublist"
begin

text \<open>
  The import of ERA1 files of \<open>src/cli/era.rs\<close>: the decoding of a block, the iterator over a file, the
  loop that appends headers, bodies and receipts, and the loop over the downloaded files with its
  height limit. The storage is the log of what was written to it; whether a write fails, and the
  index a block body gets, are answers of the provider and parameters. Progress output is left out.
\<close>

section \<open>Storage and blocks\<close>

record ('h, 'b, 'r) era_store =
  st_headers :: "('h \<times> b256) list"
  st_bodies :: "(u64 \<times> 'b) list"
  st_receipts :: "(u64 \<times> 'r) list"
  st_receipt_blocks :: "u64 list"
  st_hashes :: "(b256 \<times> u64) list"
  st_checkpoints :: "(u64 \<times> u64) list"
  st_processed :: nat
  st_commits :: nat
  st_indexed :: bool

text \<open>A write and the block or transaction it is for; the provider may answer with an error.\<close>

datatype era_op =
    AppendHeader u64
  | AppendBodies u64
  | AppendReceipt u64
  | IncrementBlock u64
  | InsertHash u64
  | SaveCheckpoints u64
  | MarkProcessed
  | OpenProvider
  | OpenHeaderWriter
  | OpenReceiptWriter
  | Commit
  | BuildIndex

type_synonym ('h, 'b, 'r) era_item = "'h \<times> 'b \<times> 'r list"

record ('h, 'b, 'r) era_api =
  hdr_number :: "'h \<Rightarrow> u64"
  hdr_hash_slow :: "'h \<Rightarrow> b256"
  op_fails :: "era_op \<Rightarrow> ('h, 'b, 'r) era_store \<Rightarrow> string option"
  first_tx_num :: "u64 \<Rightarrow> ('h, 'b, 'r) era_store \<Rightarrow> string + u64 option"

definition era_write ::
  "('h, 'b, 'r) era_api \<Rightarrow> era_op \<Rightarrow> (('h, 'b, 'r) era_store \<Rightarrow> ('h, 'b, 'r) era_store)
     \<Rightarrow> ('h, 'b, 'r) era_store \<Rightarrow> (string fault + unit) \<times> ('h, 'b, 'r) era_store" where
  "era_write ea opn upd st =
     (case op_fails ea opn st of Some e \<Rightarrow> (Inl (Err e), st) | None \<Rightarrow> (Inr (), upd st))"

lemma era_write_Inr_iff [result_simps]:
  "era_write ea opn upd st = (Inr u, st') \<longleftrightarrow> op_fails ea opn st = None \<and> st' = upd st"
  by (auto simp: era_write_def split: option.splits)

text \<open>\<open>decode\<close>: the three parts of a block in order.\<close>

definition decode_block ::
  "('t \<Rightarrow> string + 'h) \<Rightarrow> ('t \<Rightarrow> string + 'b) \<Rightarrow> ('t \<Rightarrow> string + 'r list) \<Rightarrow> string + 't
     \<Rightarrow> string + ('h, 'b, 'r) era_item" where
  "decode_block header_of body_of receipts_of block =
     and_then block (\<lambda>t. and_then (header_of t) (\<lambda>h. and_then (body_of t) (\<lambda>b.
     and_then (receipts_of t) (\<lambda>r. Inr (h, b, r)))))"

section \<open>Receipts\<close>

text \<open>The receipts of a block, numbered from a transaction number on.\<close>

definition receipts_to_iter :: "'r list \<Rightarrow> u64 \<Rightarrow> (u64 \<times> 'r) list" where
  "receipts_to_iter receipts starts_from =
     map (\<lambda>(i, receipt). (starts_from + of_nat i, receipt)) (enumerate 0 receipts)"

text \<open>The loop over \<open>(first..).zip(receipts)\<close>.\<close>

fun append_receipts ::
  "('h, 'b, 'r) era_api \<Rightarrow> u64 \<Rightarrow> 'r list \<Rightarrow> ('h, 'b, 'r) era_store
     \<Rightarrow> (string fault + unit) \<times> ('h, 'b, 'r) era_store" where
  "append_receipts ea i [] st = (Inr (), st)"
| "append_receipts ea i (r # rs) st =
     state_then (era_write ea (AppendReceipt i) (\<lambda>st. st\<lparr>st_receipts := st_receipts st @ [(i, r)]\<rparr>) st)
       (\<lambda>_ st. append_receipts ea (i + 1) rs st)"

section \<open>A file\<close>

text \<open>What the loop does for one block: header, body, receipts, hash.\<close>

definition import_block ::
  "('h, 'b, 'r) era_api \<Rightarrow> ('h, 'b, 'r) era_item \<Rightarrow> ('h, 'b, 'r) era_store
     \<Rightarrow> (string fault + unit) \<times> ('h, 'b, 'r) era_store" where
  "import_block ea = (\<lambda>(header, body, receipts) st.
     let number = hdr_number ea header; hash = hdr_hash_slow ea header in
     state_then (era_write ea (AppendHeader number) (\<lambda>st. st\<lparr>st_headers := st_headers st @ [(header, hash)]\<rparr>) st) (\<lambda>_ st.
     state_then (era_write ea (AppendBodies number) (\<lambda>st. st\<lparr>st_bodies := st_bodies st @ [(number, body)]\<rparr>) st) (\<lambda>_ st.
     state_then (case first_tx_num ea number st of
         Inr (Some first) \<Rightarrow> append_receipts ea first receipts st
       | _ \<Rightarrow> (Inl (Panic ''Failed to get block body indices''), st)) (\<lambda>_ st.
     state_then (era_write ea (IncrementBlock number)
       (\<lambda>st. st\<lparr>st_receipt_blocks := st_receipt_blocks st @ [number]\<rparr>) st) (\<lambda>_ st.
     era_write ea (InsertHash number) (\<lambda>st. st\<lparr>st_hashes := st_hashes st @ [(hash, number)]\<rparr>) st)))))"

text \<open>The bounds of a range of block numbers.\<close>

datatype range_bound = Included u64 | Excluded u64 | Unbounded

fun start_of :: "range_bound \<Rightarrow> u64" where
  "start_of (Included n) = n"
| "start_of (Excluded n) = saturating_sub n 1"
| "start_of Unbounded = 0"

fun target_of :: "range_bound \<Rightarrow> u64 option" where
  "target_of (Included n) = Some n"
| "target_of (Excluded n) = Some (saturating_add n 1)"
| "target_of Unbounded = None"

text \<open>\<open>ProcessIter::next\<close>: the next block of the file; at the end the file is marked as processed, and a
  failure to do so is one more (erroneous) item.\<close>

definition process_next ::
  "('h, 'b, 'r) era_api \<Rightarrow> (string + ('h, 'b, 'r) era_item) list \<Rightarrow> ('h, 'b, 'r) era_store
     \<Rightarrow> (string + ('h, 'b, 'r) era_item) option \<times> (string + ('h, 'b, 'r) era_item) list \<times> ('h, 'b, 'r) era_store" where
  "process_next ea blocks st =
     (case blocks of
        b # bs \<Rightarrow> (Some b, bs, st)
      | [] \<Rightarrow> (case op_fails ea MarkProcessed st of
            None \<Rightarrow> (None, [], st\<lparr>st_processed := st_processed st + 1\<rparr>)
          | Some e \<Rightarrow> (Some (Inl e), [], st)))"

text \<open>The loop over the decoded blocks. The end of the iterator marks the file as processed; leaving the
  loop early does not.\<close>

fun process_blocks ::
  "('h, 'b, 'r) era_api \<Rightarrow> u64 option \<Rightarrow> (string + ('h, 'b, 'r) era_item) list \<Rightarrow> u64
     \<Rightarrow> ('h, 'b, 'r) era_store \<Rightarrow> (string fault + u64) \<times> ('h, 'b, 'r) era_store" where
  "process_blocks ea target [] last_number st =
     state_then (era_write ea MarkProcessed (\<lambda>st. st\<lparr>st_processed := st_processed st + 1\<rparr>) st) (\<lambda>_ st. (Inr last_number, st))"
| "process_blocks ea target (Inl e # blocks) last_number st = (Inl (Err e), st)"
| "process_blocks ea target (Inr item # blocks) last_number st =
     (let number = hdr_number ea (fst item) in
      if number \<le> last_number then process_blocks ea target blocks last_number st
      else if (case target of None \<Rightarrow> False | Some t \<Rightarrow> number > t) then (Inr last_number, st)
      else state_then (import_block ea item st) (\<lambda>_ st. process_blocks ea target blocks number st))"

text \<open>It is the loop over \<open>process_next\<close>.\<close>

lemma process_blocks_next:
  "process_blocks ea target blocks last_number st =
     (case process_next ea blocks st of
        (None, _, st) \<Rightarrow> (Inr last_number, st)
      | (Some (Inl e), _, st) \<Rightarrow> (Inl (Err e), st)
      | (Some (Inr item), blocks, st) \<Rightarrow>
          (let number = hdr_number ea (fst item) in
           if number \<le> last_number then process_blocks ea target blocks last_number st
           else if (case target of None \<Rightarrow> False | Some t \<Rightarrow> number > t) then (Inr last_number, st)
           else state_then (import_block ea item st) (\<lambda>_ st. process_blocks ea target blocks number st)))"
  by (cases "(ea, target, blocks, last_number, st)" rule: process_blocks.cases)
    (auto simp: process_next_def era_write_def state_then_def split: option.split)

definition process_iter ::
  "('h, 'b, 'r) era_api \<Rightarrow> (string + ('h, 'b, 'r) era_item) list \<Rightarrow> range_bound \<times> range_bound
     \<Rightarrow> ('h, 'b, 'r) era_store \<Rightarrow> (string fault + u64) \<times> ('h, 'b, 'r) era_store" where
  "process_iter ea blocks bounds st =
     process_blocks ea (target_of (snd bounds)) blocks (start_of (fst bounds)) st"

text \<open>A downloaded file is its raw blocks, or the error of opening it.\<close>

record ('t, 'h, 'b, 'r) era_decode =
  dec_header :: "'t \<Rightarrow> string + 'h"
  dec_body :: "'t \<Rightarrow> string + 'b"
  dec_receipts :: "'t \<Rightarrow> string + 'r list"

definition process_file ::
  "('h, 'b, 'r) era_api \<Rightarrow> ('t, 'h, 'b, 'r) era_decode \<Rightarrow> string + (string + 't) list
     \<Rightarrow> range_bound \<times> range_bound \<Rightarrow> ('h, 'b, 'r) era_store
     \<Rightarrow> (string fault + u64) \<times> ('h, 'b, 'r) era_store" where
  "process_file ea d file bounds st =
     (case file of
        Inl e \<Rightarrow> (Inl (Err e), st)
      | Inr raw \<Rightarrow>
          process_iter ea (map (decode_block (dec_header d) (dec_body d) (dec_receipts d)) raw) bounds st)"

section \<open>The import\<close>

definition ERA_STEP :: u64 where
  "ERA_STEP = 8192"

text \<open>The range of the next file and whether it is the last one.\<close>

definition next_range :: "u64 option \<Rightarrow> u64 \<Rightarrow> (range_bound \<times> range_bound) \<times> bool" where
  "next_range max_height height =
     (case max_height of
        Some m \<Rightarrow>
          (if height + ERA_STEP > m then ((Included height, Included m), True)
           else ((Included height, Included (height + ERA_STEP)), False))
      | None \<Rightarrow> ((Included height, Included (height + ERA_STEP)), False))"

text \<open>The messages of the download task: a file, or an error of the download. The end of the list is the
  final \<open>None\<close>.\<close>

fun import_files ::
  "('h, 'b, 'r) era_api \<Rightarrow> ('t, 'h, 'b, 'r) era_decode \<Rightarrow> u64 option
     \<Rightarrow> (string + (string + (string + 't) list)) list \<Rightarrow> u64 \<Rightarrow> ('h, 'b, 'r) era_store
     \<Rightarrow> (string fault + u64) \<times> ('h, 'b, 'r) era_store" where
  "import_files ea d max_height [] height st = (Inr height, st)"
| "import_files ea d max_height (meta # rest) height st =
     (let (bounds, stop) = next_range max_height height in
      state_then (era_write ea OpenProvider (\<lambda>st. st) st) (\<lambda>_ st.
      case meta of
        Inl e \<Rightarrow> (Inl (Err e), st)
      | Inr file \<Rightarrow>
          state_then (era_write ea OpenHeaderWriter (\<lambda>st. st) st) (\<lambda>_ st.
          state_then (era_write ea OpenReceiptWriter (\<lambda>st. st) st) (\<lambda>_ st.
          state_then (process_file ea d file bounds st) (\<lambda>height' st.
          state_then (era_write ea (SaveCheckpoints height')
            (\<lambda>st. st\<lparr>st_checkpoints := st_checkpoints st @ [(height, height')]\<rparr>) st) (\<lambda>_ st.
          state_then (era_write ea Commit (\<lambda>st. st\<lparr>st_commits := st_commits st + 1\<rparr>) st) (\<lambda>_ st.
          if stop then (Inr height', st) else import_files ea d max_height rest height' st)))))))"

definition import_era ::
  "('h, 'b, 'r) era_api \<Rightarrow> ('t, 'h, 'b, 'r) era_decode \<Rightarrow> (string + (string + (string + 't) list)) list
     \<Rightarrow> u64 option \<Rightarrow> u64 option \<Rightarrow> ('h, 'b, 'r) era_store
     \<Rightarrow> (string fault + u64) \<times> ('h, 'b, 'r) era_store" where
  "import_era ea d files highest_header max_height st =
     state_then (import_files ea d max_height files
       (case highest_header of None \<Rightarrow> 0 | Some h \<Rightarrow> h) st) (\<lambda>height st.
     state_then (era_write ea OpenProvider (\<lambda>st. st) st) (\<lambda>_ st.
     state_then (era_write ea BuildIndex (\<lambda>st. st\<lparr>st_indexed := True\<rparr>) st) (\<lambda>_ st.
     state_then (era_write ea Commit (\<lambda>st. st\<lparr>st_commits := st_commits st + 1\<rparr>) st) (\<lambda>_ st. (Inr height, st)))))"

section \<open>What an import has written\<close>

text \<open>The blocks between two states of the storage, in the order they were written: every block has its
  header with its hash, its body, a receipt count and an entry for the hash index, and all its receipts,
  numbered consecutively from the transaction number the provider gives for the body just written.\<close>

inductive appended ::
  "('h, 'b, 'r) era_api \<Rightarrow> ('h, 'b, 'r) era_store \<Rightarrow> ('h, 'b, 'r) era_item list \<Rightarrow> ('h, 'b, 'r) era_store \<Rightarrow> bool"
  for ea where
  appended_nothing: "appended ea st [] st"
| appended_block: "appended ea st xs st1 \<Longrightarrow>
    first_tx_num ea (hdr_number ea h) (st1\<lparr>st_headers := st_headers st1 @ [(h, hdr_hash_slow ea h)],
        st_bodies := st_bodies st1 @ [(hdr_number ea h, b)]\<rparr>) = Inr (Some first) \<Longrightarrow>
    st2 = st1\<lparr>st_headers := st_headers st1 @ [(h, hdr_hash_slow ea h)],
        st_bodies := st_bodies st1 @ [(hdr_number ea h, b)],
        st_receipts := st_receipts st1 @ receipts_to_iter rs first,
        st_receipt_blocks := st_receipt_blocks st1 @ [hdr_number ea h],
        st_hashes := st_hashes st1 @ [(hdr_hash_slow ea h, hdr_number ea h)]\<rparr> \<Longrightarrow>
    appended ea st (xs @ [(h, b, rs)]) st2"
| appended_marks: "appended ea st xs st1 \<Longrightarrow>
    appended ea st xs (st1\<lparr>st_processed := p, st_checkpoints := c, st_commits := k\<rparr>)"

lemma appended_trans:
  "appended ea st1 ys st2 \<Longrightarrow> appended ea st xs st1 \<Longrightarrow> appended ea st (xs @ ys) st2"
proof (induction rule: appended.induct)
  case (appended_block st1 ys st2 h b first st3 rs)
  then have "appended ea st (xs @ ys) st2" by simp
  from appended.appended_block [OF this appended_block.hyps(2,3)] show ?case by simp
qed (auto intro: appended.intros)

lemma receipts_to_iter_Cons: "receipts_to_iter (r # rs) i = (i, r) # receipts_to_iter rs (i + 1)"
proof -
  have "enumerate (Suc 0) rs = map (apfst Suc) (enumerate 0 rs)"
    by (simp add: enumerate_Suc_eq split_def apfst_def map_prod_def)
  then show ?thesis
    by (simp add: receipts_to_iter_def comp_def split_def algebra_simps)
qed

lemma append_receipts_Inr:
  "append_receipts ea i rs st = (Inr u, st') \<Longrightarrow> st' = st\<lparr>st_receipts := st_receipts st @ receipts_to_iter rs i\<rparr>"
proof (induction rs arbitrary: i st)
  case Nil
  then show ?case by (simp add: receipts_to_iter_def)
next
  case (Cons r rs)
  then have "append_receipts ea (i + 1) rs (st\<lparr>st_receipts := st_receipts st @ [(i, r)]\<rparr>) = (Inr u, st')"
    by (simp add: result_simps)
  from Cons.IH [OF this] show ?case by (simp add: receipts_to_iter_Cons)
qed

lemma import_block_Inr:
  assumes "import_block ea item st = (Inr u, st')"
  shows "appended ea st [item] st'"
proof -
  obtain h b rs where item: "item = (h, b, rs)" by (cases item)
  let ?st1 = "st\<lparr>st_headers := st_headers st @ [(h, hdr_hash_slow ea h)],
    st_bodies := st_bodies st @ [(hdr_number ea h, b)]\<rparr>"
  from assms item obtain first st2 where
      first: "first_tx_num ea (hdr_number ea h) ?st1 = Inr (Some first)"
      and "append_receipts ea first rs ?st1 = (Inr (), st2)"
      "st' = st2\<lparr>st_receipt_blocks := st_receipt_blocks st2 @ [hdr_number ea h],
         st_hashes := st_hashes st2 @ [(hdr_hash_slow ea h, hdr_number ea h)]\<rparr>"
    by (auto simp: import_block_def Let_def result_simps split: sum.splits option.splits)
  from this(2,3) append_receipts_Inr [of ea first rs ?st1]
  have "st' = st\<lparr>st_headers := st_headers st @ [(h, hdr_hash_slow ea h)],
      st_bodies := st_bodies st @ [(hdr_number ea h, b)],
      st_receipts := st_receipts st @ receipts_to_iter rs first,
      st_receipt_blocks := st_receipt_blocks st @ [hdr_number ea h],
      st_hashes := st_hashes st @ [(hdr_hash_slow ea h, hdr_number ea h)]\<rparr>"
    by simp
  from appended_block [OF appended_nothing first this] show ?thesis by (simp add: item)
qed

definition numbers :: "('h, 'b, 'r) era_api \<Rightarrow> ('h, 'b, 'r) era_item list \<Rightarrow> u64 list" where
  "numbers ea xs = map (hdr_number ea \<circ> fst) xs"

lemma process_blocks_Inr:
  assumes "process_blocks ea target blocks n st = (Inr n', st')"
  shows "\<exists>xs. appended ea st xs st' \<and> sorted_wrt (<) (n # numbers ea xs) \<and> n' = last (n # numbers ea xs)
    \<and> (\<forall>t. target = Some t \<longrightarrow> (\<forall>m \<in> set (numbers ea xs). m \<le> t)) \<and> subseq (map Inr xs) blocks"
  using assms
proof (induction ea target blocks n st rule: process_blocks.induct)
  case (1 ea target n st)
  then have "st' = st\<lparr>st_processed := st_processed st + 1, st_checkpoints := st_checkpoints st,
      st_commits := st_commits st\<rparr>" and "n' = n"
    by (auto simp: result_simps)
  with appended_marks [OF appended_nothing, where ea = ea and st = st
      and p = "st_processed st + 1" and c = "st_checkpoints st" and k = "st_commits st"] show ?case
    by (intro exI [of _ "[]"]) (simp add: numbers_def)
next
  case (3 ea target item blocks n st)
  let ?m = "hdr_number ea (fst item)"
  consider (skip) "?m \<le> n" | (beyond) "\<not> ?m \<le> n" "\<exists>t. target = Some t \<and> ?m > t"
    | (imported) "\<not> ?m \<le> n" "\<forall>t. target = Some t \<longrightarrow> ?m \<le> t"
    by (meson not_less)
  then show ?case
  proof cases
    case skip
    with 3(1) [OF refl skip] 3(3) show ?thesis by (fastforce simp: Let_def intro: list_emb_Cons)
  next
    case beyond
    with 3(3) show ?thesis
      by (intro exI [of _ "[]"]) (auto simp: numbers_def intro: appended_nothing)
  next
    case imported
    then have in_range: "\<not> (case target of None \<Rightarrow> False | Some t \<Rightarrow> ?m > t)"
      by (auto simp: not_less split: option.splits)
    with 3(3) imported(1) obtain st1 where one: "import_block ea item st = (Inr (), st1)"
      and rest: "process_blocks ea target blocks ?m st1 = (Inr n', st')"
      by (auto simp: Let_def result_simps)
    from 3(2) [OF refl imported(1) in_range rest] obtain xs where xs: "appended ea st1 xs st'"
      "sorted_wrt (<) (?m # numbers ea xs)" "n' = last (?m # numbers ea xs)"
      "\<forall>t. target = Some t \<longrightarrow> (\<forall>m \<in> set (numbers ea xs). m \<le> t)" "subseq (map Inr xs) blocks"
      by blast
    have "appended ea st (item # xs) st'"
      using appended_trans [OF xs(1) import_block_Inr [OF one]] by simp
    moreover have "sorted_wrt (<) (n # numbers ea (item # xs))"
      using xs(2) imported(1) by (auto simp: numbers_def intro: less_trans)
    ultimately show ?thesis
      using xs imported(2) by (intro exI [of _ "item # xs"]) (auto simp: numbers_def)
  qed
qed simp

text \<open>The receipts of a file with a later block index: what the log of the storage holds in terms of the
  imported blocks.\<close>

definition logged ::
  "('h, 'b, 'r) era_api \<Rightarrow> ('h, 'b, 'r) era_store \<Rightarrow> ('h, 'b, 'r) era_item list \<Rightarrow> ('h, 'b, 'r) era_store \<Rightarrow> bool" where
  "logged ea st xs st' \<longleftrightarrow>
     st_headers st' = st_headers st @ map (\<lambda>x. (fst x, hdr_hash_slow ea (fst x))) xs \<and>
     st_bodies st' = st_bodies st @ map (\<lambda>x. (hdr_number ea (fst x), fst (snd x))) xs \<and>
     map snd (st_receipts st') = map snd (st_receipts st) @ concat (map (snd \<circ> snd) xs) \<and>
     st_receipt_blocks st' = st_receipt_blocks st @ map (hdr_number ea \<circ> fst) xs \<and>
     st_hashes st' = st_hashes st @ map (\<lambda>x. (hdr_hash_slow ea (fst x), hdr_number ea (fst x))) xs"

lemma snd_receipts_to_iter: "map snd (receipts_to_iter rs first) = rs"
  by (simp add: receipts_to_iter_def comp_def split_def)

lemma appended_logged: "appended ea st xs st' \<Longrightarrow> logged ea st xs st'"
  by (induction rule: appended.induct) (simp_all add: logged_def snd_receipts_to_iter)

lemma numbers_append: "numbers ea (xs @ ys) = numbers ea xs @ numbers ea ys"
  by (simp add: numbers_def)

lemma sorted_wrt_last_append:
  fixes n :: u64
  assumes "sorted_wrt (<) (n # xs)" and "sorted_wrt (<) (last (n # xs) # ys)"
  shows "sorted_wrt (<) (n # xs @ ys)"
proof (cases xs rule: rev_cases)
  case Nil
  with assms show ?thesis by simp
next
  case (snoc zs z)
  with assms show ?thesis by (fastforce simp: sorted_wrt_append)
qed

lemma next_range_limit:
  "next_range (Some m) height = (bounds, stop) \<Longrightarrow> target_of (snd bounds) = Some t \<Longrightarrow> t \<le> m"
  by (auto simp: next_range_def split: if_splits)

lemma next_range_start [simp]: "start_of (fst (fst (next_range max_height height))) = height"
  by (simp add: next_range_def split: option.splits)

lemma next_range_target: "\<exists>t. target_of (snd (fst (next_range max_height height))) = Some t"
  by (simp add: next_range_def split: option.splits)

text \<open>The blocks of a file, in order, each decoded or an error, and those of all downloaded files.\<close>

definition decoded_items ::
  "('t, 'h, 'b, 'r) era_decode \<Rightarrow> string + (string + 't) list \<Rightarrow> (string + ('h, 'b, 'r) era_item) list" where
  "decoded_items d file =
     (case file of Inl _ \<Rightarrow> []
      | Inr raw \<Rightarrow> map (decode_block (dec_header d) (dec_body d) (dec_receipts d)) raw)"

definition downloaded_items ::
  "('t, 'h, 'b, 'r) era_decode \<Rightarrow> (string + (string + (string + 't) list)) list
     \<Rightarrow> (string + ('h, 'b, 'r) era_item) list" where
  "downloaded_items d files = concat (map (\<lambda>meta. case meta of Inl _ \<Rightarrow> [] | Inr file \<Rightarrow> decoded_items d file) files)"

lemma process_file_Inr:
  assumes "process_file ea d file (fst (next_range max_height n)) st = (Inr n', st')"
  shows "\<exists>xs. appended ea st xs st' \<and> sorted_wrt (<) (n # numbers ea xs) \<and> n' = last (n # numbers ea xs)
    \<and> (\<forall>m. max_height = Some m \<longrightarrow> (\<forall>k \<in> set (numbers ea xs). k \<le> m))
    \<and> subseq (map Inr xs) (decoded_items d file)"
proof -
  obtain t where t: "target_of (snd (fst (next_range max_height n))) = Some t"
    using next_range_target by blast
  from assms have "process_blocks ea (Some t) (decoded_items d file) n st = (Inr n', st')"
    by (auto simp: process_file_def process_iter_def decoded_items_def t split: sum.splits)
  from process_blocks_Inr [OF this] obtain xs where xs: "appended ea st xs st'"
    "sorted_wrt (<) (n # numbers ea xs)" "n' = last (n # numbers ea xs)"
    "\<forall>k \<in> set (numbers ea xs). k \<le> t" "subseq (map Inr xs) (decoded_items d file)" by auto
  moreover have "max_height = Some m \<Longrightarrow> t \<le> m" for m
    using next_range_limit [of m n] t by (metis prod.collapse)
  ultimately show ?thesis by (intro exI [of _ xs]) (auto intro: order_trans)
qed

lemma import_files_Cons_Inr:
  assumes "import_files ea d max_height (meta # rest) n st = (Inr n', st')"
  obtains raw k st1 st2 where
    "meta = Inr raw"
    and "process_file ea d raw (fst (next_range max_height n)) st = (Inr k, st1)"
    and "st2 = st1\<lparr>st_processed := st_processed st1, st_checkpoints := st_checkpoints st1 @ [(n, k)],
           st_commits := st_commits st1 + 1\<rparr>"
    and "snd (next_range max_height n) \<Longrightarrow> n' = k \<and> st' = st2"
    and "\<not> snd (next_range max_height n) \<Longrightarrow> import_files ea d max_height rest k st2 = (Inr n', st')"
  using assms
  by (cases "snd (next_range max_height n)") (auto simp: result_simps split_beta split: sum.splits)

lemma import_files_Inr:
  assumes "import_files ea d max_height files n st = (Inr n', st')"
  shows "\<exists>xs. appended ea st xs st' \<and> sorted_wrt (<) (n # numbers ea xs) \<and> n' = last (n # numbers ea xs)
    \<and> (\<forall>m. max_height = Some m \<longrightarrow> (\<forall>k \<in> set (numbers ea xs). k \<le> m))
    \<and> subseq (map Inr xs) (downloaded_items d files)"
  using assms
proof (induction files arbitrary: n st)
  case Nil
  then show ?case by (intro exI [of _ "[]"]) (auto simp: numbers_def intro: appended_nothing)
next
  case (Cons meta rest)
  from Cons.prems show ?case
  proof (rule import_files_Cons_Inr)
    fix raw k st1 st2
    assume meta: "meta = Inr raw" and "process_file ea d raw (fst (next_range max_height n)) st = (Inr k, st1)"
      and st2: "st2 = st1\<lparr>st_processed := st_processed st1, st_checkpoints := st_checkpoints st1 @ [(n, k)],
           st_commits := st_commits st1 + 1\<rparr>"
      and stop: "snd (next_range max_height n) \<Longrightarrow> n' = k \<and> st' = st2"
      and more: "\<not> snd (next_range max_height n) \<Longrightarrow> import_files ea d max_height rest k st2 = (Inr n', st')"
    from process_file_Inr [OF this(2)] obtain xs where xs: "appended ea st xs st1"
      "sorted_wrt (<) (n # numbers ea xs)" "k = last (n # numbers ea xs)"
      "\<forall>m. max_height = Some m \<longrightarrow> (\<forall>k \<in> set (numbers ea xs). k \<le> m)"
      "subseq (map Inr xs) (decoded_items d raw)" by blast
    have all: "downloaded_items d (meta # rest) = decoded_items d raw @ downloaded_items d rest"
      by (simp add: downloaded_items_def meta)
    have here: "appended ea st xs st2" unfolding st2 by (rule appended_marks [OF xs(1)])
    show ?case
    proof (cases "snd (next_range max_height n)")
      case True
      with stop here xs list_emb_append2 [OF xs(5)] show ?thesis unfolding all
        by (metis subseq_rev_drop_many)
    next
      case False
      with more Cons.IH [of k st2] obtain ys where ys: "appended ea st2 ys st'"
        "sorted_wrt (<) (k # numbers ea ys)" "n' = last (k # numbers ea ys)"
        "\<forall>m. max_height = Some m \<longrightarrow> (\<forall>k \<in> set (numbers ea ys). k \<le> m)"
        "subseq (map Inr ys) (downloaded_items d rest)" by blast
      have "subseq (map Inr (xs @ ys)) (downloaded_items d (meta # rest))"
        unfolding all map_append by (rule list_emb_append_mono [OF xs(5) ys(5)])
      moreover have "appended ea st (xs @ ys) st'" by (rule appended_trans [OF ys(1) here])
      moreover have "sorted_wrt (<) (n # numbers ea (xs @ ys))"
        using sorted_wrt_last_append [of n "numbers ea xs" "numbers ea ys"] xs(2) ys(2) xs(3)
        by (simp add: numbers_append)
      moreover have "n' = last (n # numbers ea (xs @ ys))"
        using ys(3) xs(3) by (simp add: numbers_append)
      ultimately show ?thesis
        using xs(4) ys(4) by (intro exI [of _ "xs @ ys"]) (auto simp: numbers_append)
    qed
  qed
qed

lemma logged_index [simp]:
  "logged ea st xs (st'\<lparr>st_indexed := True, st_commits := k\<rparr>) \<longleftrightarrow> logged ea st xs st'"
  by (simp add: logged_def)

section \<open>A file without failures\<close>

text \<open>A provider none of whose writes fail and that finds the indices of every appended body.\<close>

definition era_reliable :: "('h, 'b, 'r) era_api \<Rightarrow> bool" where
  "era_reliable ea \<longleftrightarrow>
     (\<forall>opn st. op_fails ea opn st = None) \<and> (\<forall>n st. \<exists>first. first_tx_num ea n st = Inr (Some first))"

lemma era_write_reliable: "era_reliable ea \<Longrightarrow> era_write ea opn upd st = (Inr (), upd st)"
  by (simp add: era_write_def era_reliable_def)

lemma append_receipts_reliable:
  "era_reliable ea \<Longrightarrow> fst (append_receipts ea i rs st) = Inr ()"
  by (induction rs arbitrary: i st) (simp_all add: state_then_def era_write_reliable)

lemma import_block_reliable:
  assumes "era_reliable ea"
  obtains st' where "import_block ea item st = (Inr (), st')"
proof -
  obtain h b rs where item: "item = (h, b, rs)" by (cases item)
  let ?st1 = "st\<lparr>st_headers := st_headers st @ [(h, hdr_hash_slow ea h)],
    st_bodies := st_bodies st @ [(hdr_number ea h, b)]\<rparr>"
  obtain first where "first_tx_num ea (hdr_number ea h) ?st1 = Inr (Some first)"
    using assms unfolding era_reliable_def by blast
  moreover obtain st2 where "append_receipts ea first rs ?st1 = (Inr (), st2)"
    using append_receipts_reliable [OF assms] by (metis prod.collapse)
  ultimately show ?thesis
    using that by (simp add: item import_block_def Let_def state_then_def era_write_reliable [OF assms])
qed

definition within :: "u64 option \<Rightarrow> u64 \<Rightarrow> u64 \<Rightarrow> bool" where
  "within target n k \<longleftrightarrow> n < k \<and> (\<forall>t. target = Some t \<longrightarrow> k \<le> t)"

lemma process_blocks_reliable:
  assumes "era_reliable ea" and "sorted_wrt (<) (numbers ea items)"
  shows "\<exists>st'. process_blocks ea target (map Inr items) n st =
      (Inr (last (n # numbers ea (filter (\<lambda>x. within target n (hdr_number ea (fst x))) items))), st')
    \<and> appended ea st (filter (\<lambda>x. within target n (hdr_number ea (fst x))) items) st'"
  using assms(2)
proof (induction items arbitrary: n st)
  case Nil
  from appended_marks [OF appended_nothing, where ea = ea and st = st and p = "st_processed st + 1"
      and c = "st_checkpoints st" and k = "st_commits st"]
  show ?case by (simp add: state_then_def era_write_reliable [OF assms(1)] numbers_def)
next
  case (Cons x xs)
  let ?m = "hdr_number ea (fst x)"
  from Cons.prems have later: "\<forall>y \<in> set xs. ?m < hdr_number ea (fst y)" and sorted: "sorted_wrt (<) (numbers ea xs)"
    by (auto simp: numbers_def)
  consider (skip) "?m \<le> n" | (beyond) t where "\<not> ?m \<le> n" "target = Some t" "t < ?m" | (imported) "within target n ?m"
    unfolding within_def by (metis not_le)
  then show ?case
  proof cases
    case skip
    with Cons.IH [OF sorted, of n st] show ?thesis by (simp add: Let_def within_def not_less [symmetric])
  next
    case beyond
    then have "filter (\<lambda>y. within target n (hdr_number ea (fst y))) (x # xs) = []"
      using later by (fastforce simp: within_def filter_empty_conv not_le)
    with beyond show ?thesis by (simp add: Let_def numbers_def appended_nothing)
  next
    case imported
    obtain st1 where one: "import_block ea x st = (Inr (), st1)"
      using import_block_reliable [OF assms(1)] .
    have same: "filter (\<lambda>y. within target ?m (hdr_number ea (fst y))) xs
        = filter (\<lambda>y. within target n (hdr_number ea (fst y))) xs"
      using later imported by (intro filter_cong) (auto simp: within_def intro: less_trans)
    from imported one have step: "process_blocks ea target (map Inr (x # xs)) n st
        = process_blocks ea target (map Inr xs) ?m st1"
      by (auto simp: Let_def within_def state_then_def split: option.splits)
    from Cons.IH [OF sorted, of ?m st1] obtain st' where rest:
      "process_blocks ea target (map Inr xs) ?m st1 =
        (Inr (last (?m # numbers ea (filter (\<lambda>y. within target n (hdr_number ea (fst y))) xs))), st')"
      "appended ea st1 (filter (\<lambda>y. within target n (hdr_number ea (fst y))) xs) st'"
      unfolding same by blast
    from appended_trans [OF rest(2) import_block_Inr [OF one]] step rest(1) imported
    show ?thesis by (simp add: numbers_def)
  qed
qed

section \<open>The properties\<close>

text \<open>A provider that accepts every write; a header is its number and hashes to itself.\<close>

definition plain_era_api :: "(u64, unit, nat) era_api" where
  "plain_era_api = \<lparr>hdr_number = (\<lambda>n. n), hdr_hash_slow = (\<lambda>n. ucast n), op_fails = (\<lambda>_ _. None),
     first_tx_num = (\<lambda>_ st. Inr (Some (of_nat (length (st_receipts st)))))\<rparr>"

definition plain_era_decode :: "(u64, u64, unit, nat) era_decode" where
  "plain_era_decode = \<lparr>dec_header = Inr, dec_body = (\<lambda>_. Inr ()), dec_receipts = (\<lambda>n. Inr [unat n])\<rparr>"

definition empty_era_store :: "('h, 'b, 'r) era_store" where
  "empty_era_store = \<lparr>st_headers = [], st_bodies = [], st_receipts = [], st_receipt_blocks = [], st_hashes = [],
     st_checkpoints = [], st_processed = 0, st_commits = 0, st_indexed = False\<rparr>"

text \<open>Property C31: an ERA import that returns has appended a run of blocks of the files, in their order, with
  strictly increasing heights, all above the highest header it started from and none above the maximum
  height asked for. The run was written block by block: the header with its hash, the body, all receipts of
  the block numbered from the transaction number the provider gave for that body, the receipt count and
  the hash-index entry, and nothing else (but checkpoints, commits and the mark on a file read to its end);
  the index is built and the height returned is that of the last
  block appended (or the starting one).\<close>

theorem era_import_bounded:
  assumes "import_era ea d files highest_header max_height st = (Inr height, st')"
  defines "start \<equiv> case highest_header of None \<Rightarrow> 0 | Some h \<Rightarrow> h"
  shows "\<exists>xs st1. subseq (map Inr xs) (downloaded_items d files)
    \<and> appended ea st xs st1 \<and> st' = st1\<lparr>st_indexed := True, st_commits := st_commits st1 + 1\<rparr>
    \<and> logged ea st xs st' \<and> sorted_wrt (<) (start # numbers ea xs)
    \<and> height = last (start # numbers ea xs)
    \<and> (\<forall>m. max_height = Some m \<longrightarrow> (\<forall>n \<in> set (numbers ea xs). n \<le> m))"
proof -
  from assms(1) obtain st1 where "import_files ea d max_height files start st = (Inr height, st1)"
    and st': "st' = st1\<lparr>st_indexed := True, st_commits := st_commits st1 + 1\<rparr>"
    by (auto simp: import_era_def start_def result_simps)
  from import_files_Inr [OF this(1)] obtain xs where xs: "appended ea st xs st1"
    "sorted_wrt (<) (start # numbers ea xs)" "height = last (start # numbers ea xs)"
    "\<forall>m. max_height = Some m \<longrightarrow> (\<forall>k \<in> set (numbers ea xs). k \<le> m)"
    "subseq (map Inr xs) (downloaded_items d files)" by blast
  from appended_logged [OF xs(1)] have "logged ea st xs st'" by (simp add: st')
  with xs st' show ?thesis by blast
qed

theorem era_import_bounded_witness:
  "\<exists>xs. subseq (map Inr xs :: (string + (u64, unit, nat) era_item) list) [Inr (0, (), [0]), Inr (1, (), [1]), Inr (2, (), [2]), Inr (3, (), [3])]
     \<and> logged plain_era_api empty_era_store xs
       (snd (import_era plain_era_api plain_era_decode [Inr (Inr [Inr 0, Inr 1, Inr 2, Inr 3])] None (Some 2) empty_era_store))
     \<and> (2 :: u64) = last (0 # numbers plain_era_api xs) \<and> (\<forall>n \<in> set (numbers plain_era_api xs). n \<le> 2)"
proof -
  have run: "import_era plain_era_api plain_era_decode [Inr (Inr [Inr 0, Inr 1, Inr 2, Inr 3])] None (Some 2) empty_era_store
    = (Inr 2, snd (import_era plain_era_api plain_era_decode [Inr (Inr [Inr 0, Inr 1, Inr 2, Inr 3])] None (Some 2) empty_era_store))"
    by code_simp
  have items: "downloaded_items plain_era_decode [Inr (Inr [Inr 0, Inr 1, Inr 2, Inr 3])]
    = [Inr (0, (), [0]), Inr (1, (), [1]), Inr (2, (), [2]), Inr (3, (), [3])]"
    by (simp add: downloaded_items_def decoded_items_def decode_block_def plain_era_decode_def)
  let ?st = "snd (import_era plain_era_api plain_era_decode [Inr (Inr [Inr 0, Inr 1, Inr 2, Inr 3])] None (Some 2) empty_era_store)"
  from era_import_bounded [OF run, unfolded items option.case] obtain xs where
    "subseq (map Inr xs :: (string + (u64, unit, nat) era_item) list) [Inr (0, (), [0]), Inr (1, (), [1]), Inr (2, (), [2]), Inr (3, (), [3])]"
    "logged plain_era_api empty_era_store xs ?st" "2 = last (0 # numbers plain_era_api xs)"
    and bound: "\<forall>m. Some 2 = Some m \<longrightarrow> (\<forall>n \<in> set (numbers plain_era_api xs). n \<le> m)"
    by (elim exE conjE) (rule that)
  with bound [rule_format, OF refl] show ?thesis by (intro exI [of _ xs] conjI ballI)
qed

text \<open>Over a reliable provider and a file with increasing block numbers, exactly the blocks
  strictly above the start and up to the target are imported, whatever the bounds: so an included start is
  itself skipped, an excluded end \<open>n\<close> lets \<open>n\<close> and \<open>n + 1\<close> in, and an excluded start \<open>n\<close> lets \<open>n\<close> in, where
  the comment says that the blocks below the start bound are skipped and those past the end bound not read.\<close>

theorem era_bounds_are_off:
  fixes lo hi :: range_bound
  assumes "era_reliable ea" and "sorted_wrt (<) (map (hdr_number ea \<circ> fst) items)"
  defines "xs \<equiv> filter (\<lambda>x. let k = hdr_number ea (fst x) in
      (case lo of Included n \<Rightarrow> n < k | Excluded n \<Rightarrow> unat n - 1 < unat k | Unbounded \<Rightarrow> 0 < k)
    \<and> (case hi of Included n \<Rightarrow> k \<le> n | Excluded n \<Rightarrow> unat k \<le> unat n + 1 | Unbounded \<Rightarrow> True)) items"
  shows "\<exists>n st'. process_iter ea (map Inr items) (lo, hi) st = (Inr n, st') \<and> logged ea st xs st'
    \<and> (xs \<noteq> [] \<longrightarrow> n = hdr_number ea (fst (last xs)))"
proof -
  have up: "unat k \<le> unat (saturating_add n (1 :: u64)) \<longleftrightarrow> unat k \<le> unat n + 1" for k n :: u64
    using unat_le_max [of k] by (auto simp: unat_saturating_add min_def)
  have xs: "filter (\<lambda>x. within (target_of hi) (start_of lo) (hdr_number ea (fst x))) items = xs"
    unfolding xs_def
    by (intro filter_cong)
      (auto simp: within_def Let_def word_less_nat_alt [of "saturating_sub _ _"] word_le_nat_alt [of _ "saturating_add _ _"]
        unat_saturating_sub up split: range_bound.splits)
  from process_blocks_reliable [OF assms(1), of items "target_of hi" "start_of lo" st] assms(2)
  obtain st' where "process_blocks ea (target_of hi) (map Inr items) (start_of lo) st
      = (Inr (last (start_of lo # numbers ea xs)), st')" and "appended ea st xs st'"
    unfolding xs by (auto simp: numbers_def)
  moreover have "xs \<noteq> [] \<longrightarrow> last (start_of lo # numbers ea xs) = hdr_number ea (fst (last xs))"
    by (simp add: numbers_def last_map)
  ultimately show ?thesis
    unfolding process_iter_def fst_conv snd_conv using appended_logged by blast
qed

theorem era_bounds_are_off_witness:
  "\<exists>n st'. process_iter plain_era_api (map Inr [(5, (), []), (6, (), []), (7, (), [])]) (Included 5, Excluded 5) empty_era_store
     = (Inr n, st') \<and> logged plain_era_api empty_era_store [(6, (), [])] st'"
proof -
  have "era_reliable plain_era_api" by (simp add: era_reliable_def plain_era_api_def)
  moreover have "sorted_wrt (<) (map (hdr_number plain_era_api \<circ> fst) [(5, (), [] :: nat list), (6, (), []), (7, (), [])])"
    by (simp add: plain_era_api_def)
  ultimately show ?thesis
    using era_bounds_are_off [of plain_era_api "[(5, (), []), (6, (), []), (7, (), [])]" "Included 5" "Excluded 5" empty_era_store]
    by (auto simp: plain_era_api_def)
qed

end
