(* ===== verification/EraComplete.thy ===== *)
theory EraComplete
  imports EraImport
begin

text \<open>
  Completeness of the ERA import of \<open>src/cli/era.rs\<close>: over a provider that accepts every write, a complete
  series of ERA files that starts where the storage ends is imported up to the height asked for. The
  height limit is only looked at before a file, so this needs the import to start at the first block of a
  file; the last section has an import that stops too early because it does not.
\<close>

section \<open>A series of files\<close>

text \<open>A decoder that succeeds on every block of the files.\<close>

definition decodes :: "('t, 'h, 'b, 'r) era_decode \<Rightarrow> ('t \<Rightarrow> ('h, 'b, 'r) era_item) \<Rightarrow> bool" where
  "decodes d item \<longleftrightarrow> (\<forall>t. dec_header d t = Inr (fst (item t)) \<and> dec_body d t = Inr (fst (snd (item t)))
     \<and> dec_receipts d t = Inr (snd (snd (item t))))"

text \<open>The messages of a download that delivers every file, every block of it readable.\<close>

definition files_of :: "'t list list \<Rightarrow> (string + (string + (string + 't) list)) list" where
  "files_of raws = map (\<lambda>raw. Inr (Inr (map Inr raw))) raws"

text \<open>Every file but the last has as many blocks as a file can have.\<close>

fun full_files :: "'t list list \<Rightarrow> bool" where
  "full_files [] \<longleftrightarrow> True"
| "full_files (f # fs) \<longleftrightarrow> length f \<le> 8192 \<and> (fs \<noteq> [] \<longrightarrow> length f = 8192) \<and> full_files fs"

definition numbered :: "('h, 'b, 'r) era_api \<Rightarrow> nat \<Rightarrow> ('h, 'b, 'r) era_item list \<Rightarrow> bool" where
  "numbered ea a xs \<longleftrightarrow> numbers ea xs = map of_nat [a..<a + length xs]"

text \<open>The next block follows the storage, or both are at the genesis block, which is in the storage already.\<close>

definition aligned :: "nat \<Rightarrow> u64 \<Rightarrow> bool" where
  "aligned a h \<longleftrightarrow> a = unat h + 1 \<or> a = 0 \<and> h = 0"

definition due ::
  "('h, 'b, 'r) era_api \<Rightarrow> u64 option \<Rightarrow> u64 \<Rightarrow> ('h, 'b, 'r) era_item list \<Rightarrow> ('h, 'b, 'r) era_item list" where
  "due ea target h xs = filter (\<lambda>x. within target h (hdr_number ea (fst x))) xs"

lemma due_simps [simp]:
  "due ea target h [] = []"
  "due ea target h (xs @ ys) = due ea target h xs @ due ea target h ys"
  by (simp_all add: due_def)

lemma decodes_map:
  "decodes d item \<Longrightarrow> map (decode_block (dec_header d) (dec_body d) (dec_receipts d)) (map Inr raw) = map Inr (map item raw)"
  by (simp add: decodes_def decode_block_def)

lemma numbered_append:
  "numbered ea a (xs @ ys) \<longleftrightarrow> numbered ea a xs \<and> numbered ea (a + length xs) ys"
proof -
  have "[a..<a + length (xs @ ys)] = [a..<a + length xs] @ [a + length xs..<a + length xs + length ys]"
    using upt_add_eq_append [of a "a + length xs" "length ys"] by (simp add: add.assoc)
  then show ?thesis by (simp add: numbered_def numbers_def)
qed

lemma numbered_range:
  assumes "numbered ea a xs" and "a + length xs < 2 ^ 64" and "x \<in> set xs"
  shows "a \<le> unat (hdr_number ea (fst x))" "unat (hdr_number ea (fst x)) < a + length xs"
proof -
  from assms(3) have "hdr_number ea (fst x) \<in> set (numbers ea xs)" by (auto simp: numbers_def)
  then obtain i where i: "hdr_number ea (fst x) = of_nat i" "a \<le> i" "i < a + length xs"
    using assms(1) by (auto simp: numbered_def)
  then have "unat (hdr_number ea (fst x)) = i" using assms(2) by (simp add: unat_of_nat)
  with i show "a \<le> unat (hdr_number ea (fst x))" "unat (hdr_number ea (fst x)) < a + length xs" by simp_all
qed

lemma numbered_sorted:
  assumes "numbered ea a xs" and "a + length xs < 2 ^ 64"
  shows "sorted_wrt (<) (numbers ea xs)"
proof -
  have "sorted_wrt (\<lambda>i j. (of_nat i :: u64) < of_nat j) [a..<a + length xs]"
    using assms(2) by (intro sorted_wrt_mono_rel [OF _ sorted_wrt_upt]) (auto simp: word_less_nat_alt unat_of_nat)
  with assms(1) show ?thesis by (simp add: numbered_def sorted_wrt_map)
qed

section \<open>One file\<close>

lemma aligned_le: "aligned a h \<Longrightarrow> unat h \<le> a"
  by (auto simp: aligned_def)

lemma target_for:
  assumes "unat h + 8192 < 2 ^ 64" and "next_range max_height h = (bounds, stop)"
  obtains t where "target_of (snd bounds) = Some t" "start_of (fst bounds) = h"
    "\<And>k. unat k \<le> unat h + 8192 \<Longrightarrow> k \<le> t \<longleftrightarrow> (\<forall>m. max_height = Some m \<longrightarrow> k \<le> m)"
    "stop \<longleftrightarrow> (\<exists>m. max_height = Some m \<and> unat m < unat h + 8192)"
proof -
  have up: "unat (h + 8192) = unat h + 8192" using assms(1) by (simp add: unat_word_ariths)
  from assms(2) that show thesis
    by (auto simp: next_range_def ERA_STEP_def word_less_nat_alt word_le_nat_alt up split: option.splits if_splits)
qed

text \<open>A file that continues the storage gives exactly its due blocks, and the height is that of its last one.\<close>

lemma process_file_complete:
  assumes "era_reliable ea" and "decodes d item" and "numbered ea a (map item raw)" and "length raw \<le> 8192"
    and "aligned a h" and "a + length raw + 8192 < 2 ^ 64" and "next_range max_height h = (bounds, stop)"
  shows "\<exists>st'. process_file ea d (Inr (map Inr raw)) bounds st
      = (Inr (last (h # numbers ea (due ea max_height h (map item raw)))), st')
    \<and> appended ea st (due ea max_height h (map item raw)) st'"
proof -
  have room: "unat h + 8192 < 2 ^ 64" using aligned_le [OF assms(5)] assms(6) by simp
  obtain t where t: "target_of (snd bounds) = Some t" "start_of (fst bounds) = h"
    "\<And>k. unat k \<le> unat h + 8192 \<Longrightarrow> k \<le> t \<longleftrightarrow> (\<forall>m. max_height = Some m \<longrightarrow> k \<le> m)"
    using target_for [OF room assms(7)] by metis
  have "unat (hdr_number ea (fst x)) \<le> unat h + 8192" if "x \<in> set (map item raw)" for x
    using numbered_range(2) [OF assms(3) _ that] assms(4-6) by (auto simp: aligned_def)
  then have "within (Some t) h (hdr_number ea (fst x)) \<longleftrightarrow> within max_height h (hdr_number ea (fst x))"
    if "x \<in> set (map item raw)" for x
    using t(3) that by (auto simp: within_def)
  then have same: "filter (\<lambda>x. within (Some t) h (hdr_number ea (fst x))) (map item raw)
      = due ea max_height h (map item raw)"
    unfolding due_def by (intro filter_cong) auto
  have "sorted_wrt (<) (numbers ea (map item raw))"
    using numbered_sorted [OF assms(3)] assms(6) by simp
  from process_blocks_reliable [OF assms(1) this, of "Some t" h st]
  show ?thesis
    by (simp only: same process_file_def sum.case decodes_map [OF assms(2)] process_iter_def t(1,2))
qed

lemma last_due:
  assumes "numbered ea a xs" and "a + length xs < 2 ^ 64" and "aligned a h" and "xs \<noteq> []"
    and "\<And>x m. x \<in> set xs \<Longrightarrow> max_height = Some m \<Longrightarrow> hdr_number ea (fst x) \<le> m"
  shows "unat (last (h # numbers ea (due ea max_height h xs))) + 1 = a + length xs"
proof -
  from assms(4) obtain ys z where xs: "xs = ys @ [z]" by (cases xs rule: rev_cases) auto
  have "numbered ea (a + length ys) [z]" using assms(1) by (simp add: xs numbered_append)
  from numbered_range [OF this, of z] have uz: "unat (hdr_number ea (fst z)) = a + length ys"
    using assms(2) xs by simp
  show ?thesis
  proof (cases "within max_height h (hdr_number ea (fst z))")
    case True
    then have "due ea max_height h xs = due ea max_height h ys @ [z]" by (simp add: xs due_def)
    then show ?thesis using uz by (simp add: numbers_def xs)
  next
    case False
    then have "\<not> h < hdr_number ea (fst z)" using assms(5) [of z] by (auto simp: within_def xs)
    then have "a + length ys \<le> unat h" using uz by (simp add: word_less_nat_alt)
    with assms(3) have here: "a = 0" "h = 0" "ys = []" by (auto simp: aligned_def)
    with False show ?thesis by (simp add: xs due_def numbers_def)
  qed
qed

section \<open>All files\<close>

lemma last_last: "last (last (h # xs) # ys) = last (h # xs @ ys)"
  by (cases ys) auto

lemma import_file_step:
  assumes "era_reliable ea" and "next_range max_height h = (bounds, stop)"
    and "process_file ea d raw bounds st = (Inr h1, st1)" and "appended ea st xs st1"
  obtains st2 where "appended ea st xs st2"
    and "import_files ea d max_height (Inr raw # rest) h st
      = (if stop then (Inr h1, st2) else import_files ea d max_height rest h1 st2)"
proof -
  let ?st2 = "st1\<lparr>st_checkpoints := st_checkpoints st1 @ [(h, h1)], st_commits := st_commits st1 + 1\<rparr>"
  have "appended ea st xs ?st2"
    using appended_marks [OF assms(4), where p = "st_processed st1" and c = "st_checkpoints st1 @ [(h, h1)]"
        and k = "st_commits st1 + 1"] by simp
  moreover have "import_files ea d max_height (Inr raw # rest) h st
      = (if stop then (Inr h1, ?st2) else import_files ea d max_height rest h1 ?st2)"
    using assms(2,3) by (simp add: state_then_def era_write_reliable [OF assms(1)])
  ultimately show thesis using that by blast
qed

text \<open>Where the import goes on after a file, the storage is continued by the next file and the rest is due as
  before; where it stops, nothing of the rest was due.\<close>

lemma due_after_file:
  assumes "numbered ea a (xs @ rest)" and "a + length (xs @ rest) + 8192 < 2 ^ 64" and "length xs \<le> 8192"
    and "aligned a h" and "\<And>m. max_height = Some m \<Longrightarrow> unat h + 8192 \<le> unat m"
  defines "h1 \<equiv> last (h # numbers ea (due ea max_height h xs))"
  shows "aligned (a + length xs) h1" "due ea max_height h1 rest = due ea max_height h rest"
proof -
  have xs: "numbered ea a xs" and rest: "numbered ea (a + length xs) rest"
    using assms(1) by (simp_all add: numbered_append)
  have below: "hdr_number ea (fst x) \<le> m" if "x \<in> set xs" "max_height = Some m" for x m
    using numbered_range(2) [OF xs _ that(1)] assms(2-4) assms(5) [OF that(2)]
    by (auto simp: aligned_def word_le_nat_alt)
  show next_aligned: "aligned (a + length xs) h1"
  proof (cases "xs = []")
    case True
    with assms(4) show ?thesis by (simp add: h1_def numbers_def)
  next
    case False
    with last_due [OF xs _ assms(4) _ below] assms(2) show ?thesis by (simp add: aligned_def h1_def)
  qed
  have "within max_height h1 (hdr_number ea (fst x)) \<longleftrightarrow> within max_height h (hdr_number ea (fst x))"
    if "x \<in> set rest" for x
  proof (cases "xs = []")
    case True
    then show ?thesis by (simp add: h1_def numbers_def)
  next
    case False
    then have "unat h1 < a + length xs" "unat h < a + length xs"
      using next_aligned assms(4) by (auto simp: aligned_def)
    moreover have "a + length xs \<le> unat (hdr_number ea (fst x))"
      using numbered_range(1) [OF rest _ that] assms(2) by simp
    ultimately show ?thesis by (auto simp: within_def word_less_nat_alt)
  qed
  then show "due ea max_height h1 rest = due ea max_height h rest"
    unfolding due_def by (intro filter_cong) auto
qed

lemma nothing_due_after_stop:
  assumes "numbered ea a rest" and "a + length rest < 2 ^ 64" and "unat h + 8192 \<le> a"
    and "max_height = Some m" and "unat m < unat h + 8192"
  shows "due ea max_height h rest = []"
proof -
  have "\<not> within max_height h (hdr_number ea (fst x))" if "x \<in> set rest" for x
    using numbered_range(1) [OF assms(1,2) that] assms(3-5) by (simp add: within_def word_le_nat_alt)
  then show ?thesis by (simp add: due_def)
qed

lemma import_files_complete:
  assumes "era_reliable ea" and "decodes d item"
  shows "numbered ea a (map item (concat raws)) \<Longrightarrow> full_files raws \<Longrightarrow>
    a + length (concat raws) + 8192 < 2 ^ 64 \<Longrightarrow> aligned a h \<Longrightarrow>
    \<exists>st'. import_files ea d max_height (files_of raws) h st
        = (Inr (last (h # numbers ea (due ea max_height h (map item (concat raws))))), st')
      \<and> appended ea st (due ea max_height h (map item (concat raws))) st'"
proof (induction raws arbitrary: a h st)
  case Nil
  then show ?case by (auto simp: files_of_def numbers_def intro: appended_nothing)
next
  case (Cons raw raws)
  let ?f = "map item raw" and ?rest = "map item (concat raws)"
  obtain bounds stop where range: "next_range max_height h = (bounds, stop)" by (rule prod.exhaust)
  have room: "unat h + 8192 < 2 ^ 64" using aligned_le [OF Cons.prems(4)] Cons.prems(3) by simp
  obtain t where stop: "stop \<longleftrightarrow> (\<exists>m. max_height = Some m \<and> unat m < unat h + 8192)"
    using target_for [OF room range] by metis
  have f: "numbered ea a ?f" and rest: "numbered ea (a + length raw) ?rest"
    using Cons.prems(1) by (simp_all add: numbered_append)
  have small: "length raw \<le> 8192" "a + length raw + 8192 < 2 ^ 64" "full_files raws"
    "a + length raw + length (concat raws) + 8192 < 2 ^ 64"
    using Cons.prems(2,3) by simp_all
  define h1 where "h1 = last (h # numbers ea (due ea max_height h ?f))"
  obtain st1 where this_file: "process_file ea d (Inr (map Inr raw)) bounds st = (Inr h1, st1)"
    and imported: "appended ea st (due ea max_height h ?f) st1"
    using process_file_complete [OF assms f small(1) Cons.prems(4) small(2) range] unfolding h1_def by blast
  obtain st2 where st2: "appended ea st (due ea max_height h ?f) st2"
    and one: "import_files ea d max_height (Inr (Inr (map Inr raw)) # files_of raws) h st
      = (if stop then (Inr h1, st2) else import_files ea d max_height (files_of raws) h1 st2)"
    by (rule import_file_step [OF assms(1) range this_file imported, of "files_of raws"])
  have step: "import_files ea d max_height (files_of (raw # raws)) h st
      = (if stop then (Inr h1, st2) else import_files ea d max_height (files_of raws) h1 st2)"
    using one by (simp only: files_of_def list.map)
  show ?case
  proof (cases stop)
    case True
    have "due ea max_height h ?rest = []"
    proof (cases "raws = []")
      case False
      with Cons.prems(2) have "unat h + 8192 \<le> a + length raw" using aligned_le [OF Cons.prems(4)] by simp
      with nothing_due_after_stop [OF rest _ this] True stop small(4) show ?thesis by auto
    qed simp
    with True step st2 show ?thesis by (simp add: h1_def)
  next
    case False
    then have "unat h + 8192 \<le> unat m" if "max_height = Some m" for m using stop that by auto
    with due_after_file [of ea a ?f ?rest h max_height] Cons.prems(1,3,4) small(1)
    have later: "aligned (a + length raw) h1" "due ea max_height h1 ?rest = due ea max_height h ?rest"
      by (simp_all add: h1_def)
    from Cons.IH [OF rest small(3,4) later(1), of st2] obtain st' where
      "import_files ea d max_height (files_of raws) h1 st2
        = (Inr (last (h1 # numbers ea (due ea max_height h ?rest))), st')"
      "appended ea st2 (due ea max_height h ?rest) st'"
      unfolding later(2) by blast
    with False step appended_trans [OF this(2) st2] show ?thesis
      by (simp add: h1_def numbers_append last_last)
  qed
qed

text \<open>Property C32: a complete download is imported completely. Over a provider that accepts every write,
  readable files of consecutive blocks (all but the last with 8192 blocks), the first of which continues
  the storage, the import returns, and it has appended exactly the blocks above the storage up to the
  maximum height: none is missing and none is written twice, and the last one's number is returned.\<close>

theorem era_import_complete:
  fixes max_height :: "u64 option"
  assumes "era_reliable ea" and "decodes d item" and "full_files raws"
    and "map (hdr_number ea \<circ> fst \<circ> item) (concat raws) = map of_nat [a..<a + length (concat raws)]"
    and "a + length (concat raws) + 8192 < 2 ^ 64"
    and "aligned a (case highest_header of None \<Rightarrow> 0 | Some h \<Rightarrow> h)"
  defines "start \<equiv> case highest_header of None \<Rightarrow> 0 | Some h \<Rightarrow> h"
  defines "xs \<equiv> filter (\<lambda>x. start < hdr_number ea (fst x)
      \<and> (\<forall>m. max_height = Some m \<longrightarrow> hdr_number ea (fst x) \<le> m)) (map item (concat raws))"
  shows "\<exists>st'. import_era ea d (files_of raws) highest_header max_height st
      = (Inr (last (start # map (hdr_number ea \<circ> fst) xs)), st')
    \<and> logged ea st xs st' \<and> st_indexed st'"
proof -
  have numbered: "numbered ea a (map item (concat raws))"
    using assms(4) by (simp add: numbered_def numbers_def comp_assoc)
  have xs: "due ea max_height start (map item (concat raws)) = xs"
    by (simp add: due_def xs_def within_def)
  from import_files_complete [OF assms(1,2) numbered assms(3,5,6) [folded start_def]]
  obtain st1 where files: "import_files ea d max_height (files_of raws) start st = (Inr (last (start # numbers ea xs)), st1)"
    and "appended ea st xs st1" unfolding xs [symmetric] by blast
  from appended_logged [OF this(2)] files show ?thesis
    by (simp add: import_era_def start_def [symmetric] state_then_def era_write_reliable [OF assms(1)] numbers_def)
qed

lemma plain_era_ok: "era_reliable plain_era_api" "decodes plain_era_decode (\<lambda>n. (n, (), [unat n]))"
  by (simp_all add: era_reliable_def plain_era_api_def decodes_def plain_era_decode_def)

theorem era_import_complete_witness:
  "\<exists>st'. import_era plain_era_api plain_era_decode (files_of [[5, 6, 7, 8]]) (Some 4) (Some 7) empty_era_store
      = (Inr 7, st') \<and> logged plain_era_api empty_era_store [(5, (), [5]), (6, (), [6]), (7, (), [7])] st'"
proof -
  have number: "hdr_number plain_era_api n = n" for n by (simp add: plain_era_api_def)
  have consecutive: "map (hdr_number plain_era_api \<circ> fst \<circ> (\<lambda>n. (n, (), [unat n]))) (concat [[5, 6, 7, 8]])
      = map of_nat [5..<5 + length (concat [[5, 6, 7, 8 :: u64]])]"
    by (simp add: number upt_rec)
  from era_import_complete [OF plain_era_ok _ consecutive, of "Some 4" "Some 7" empty_era_store]
  have "\<exists>st'. import_era plain_era_api plain_era_decode (files_of [[5, 6, 7, 8]]) (Some 4) (Some 7) empty_era_store
      = (Inr 7, st') \<and> logged plain_era_api empty_era_store [(5, (), [5]), (6, (), [6]), (7, (), [7])] st' \<and> st_indexed st'"
    by (simp add: number aligned_def)
  then show ?thesis by blast
qed

section \<open>Stopping too early\<close>

text \<open>The file after which the import stops is the first one that begins less than 8192 blocks below the
  maximum height. When the storage does not end where a file does, the blocks up to the maximum can be in
  the next file: here the storage ends at block 3, the files change at block 6 and blocks up to 8 are
  asked for, and the import returns without them.\<close>

lemma import_stops_within_step:
  "import_era plain_era_api plain_era_decode (files_of [[3, 4, 5], [6, 7, 8]]) (Some 3) (Some 8) empty_era_store
     = (Inr 5, snd (import_era plain_era_api plain_era_decode (files_of [[3, 4, 5]]) (Some 3) (Some 8) empty_era_store))"
  by code_simp

end
