(* ===== verification/InitState.thy ===== *)
theory InitState
  imports Effects
begin

text \<open>
  The initial state of a node that starts after the merge: the download of the state dump and of its
  header (\<open>src/initialize/download_init_state.rs\<close>). A directory is a map from file names to contents. The
  network, the hash function, the decompressor and the failures of the file system are parameters. The
  chunks of a body are written as one write of what was received; progress bars and messages are left
  out, and paths are valid UTF-8.
\<close>

section \<open>The directory\<close>

type_synonym dir = "string \<rightharpoonup> bytes"

datatype fs_op =
    CreateDir
  | Metadata string
  | ReadDir
  | OpenFile string
  | ReadFile string
  | CreateFile string
  | RemoveFile string
  | RenameFile string string

text \<open>The outside world. A body comes with the error that ended it, if any; so does the output of the
  decompressor. A write that fails leaves some bytes behind; the bytes a dropped buffer loses are lost
  without an error.\<close>

record world =
  fs_fails :: "fs_op \<Rightarrow> dir \<Rightarrow> string option"
  write_fails :: "string \<Rightarrow> bytes \<Rightarrow> dir \<Rightarrow> (bytes \<times> string) option"
  dropped_flush :: "string \<Rightarrow> bytes \<Rightarrow> dir \<Rightarrow> bytes"
  http_client :: "string + unit"
  http_get :: "string \<Rightarrow> bytes \<times> string option"
  blake3_hex :: "bytes \<Rightarrow> string"
  zstd_new :: "bytes \<Rightarrow> string option"
  zstd_decode :: "bytes \<Rightarrow> bytes \<times> string option"

type_synonym 'a io = "(string fault + 'a) \<times> dir"

definition fs_do :: "world \<Rightarrow> fs_op \<Rightarrow> (dir \<Rightarrow> dir) \<Rightarrow> dir \<Rightarrow> unit io" where
  "fs_do w opn upd fs = (case fs_fails w opn fs of Some e \<Rightarrow> (Inl (Err e), fs) | None \<Rightarrow> (Inr (), upd fs))"

definition write_file :: "world \<Rightarrow> string \<Rightarrow> bytes \<Rightarrow> dir \<Rightarrow> unit io" where
  "write_file w p bs fs =
     (case write_fails w p bs fs of
        Some (left, e) \<Rightarrow> (Inl (Err e), fs(p \<mapsto> left))
      | None \<Rightarrow> (Inr (), fs(p \<mapsto> bs)))"

text \<open>\<open>remove_file(..).ok()\<close>: a failure is ignored.\<close>

definition remove_ok :: "world \<Rightarrow> string \<Rightarrow> dir \<Rightarrow> dir" where
  "remove_ok w p fs = (case fs_fails w (RemoveFile p) fs of Some _ \<Rightarrow> fs | None \<Rightarrow> fs(p := None))"

definition rename_file :: "world \<Rightarrow> string \<Rightarrow> string \<Rightarrow> dir \<Rightarrow> unit io" where
  "rename_file w from_p to_p = fs_do w (RenameFile from_p to_p) (\<lambda>fs. fs(to_p := fs from_p, from_p := None))"

lemma fs_do_Inr_iff [result_simps]:
  "fs_do w opn upd fs = (Inr u, fs') \<longleftrightarrow> fs_fails w opn fs = None \<and> fs' = upd fs"
  by (auto simp: fs_do_def split: option.splits)

lemma write_file_Inr_iff [result_simps]:
  "write_file w p bs fs = (Inr u, fs') \<longleftrightarrow> write_fails w p bs fs = None \<and> fs' = fs(p \<mapsto> bs)"
  by (auto simp: write_file_def split: option.splits)

lemma remove_ok_other [simp]: "q \<noteq> p \<Longrightarrow> remove_ok w p fs q = fs q"
  by (simp add: remove_ok_def split: option.splits)

section \<open>The known chains\<close>

record download_state_spec =
  expected_state_root :: string
  block_num :: string
  total_difficulty :: string
  header_hash :: string

definition GNOSIS_DOWNLOAD_SPEC :: download_state_spec where
  "GNOSIS_DOWNLOAD_SPEC = \<lparr>
     expected_state_root = ''0x95c4ecc49287d652e956b71ef82fb34a17da87fcbd6ab64f05542ddd3b5cb44f'',
     block_num = ''26478650'',
     total_difficulty = ''8626000110427540000000000000000000000000000000'',
     header_hash = ''a133198478cb01b4585604d07f584633f1f147103b49672d2bd87a5a3ba2c06e''\<rparr>"

definition CHIADO_DOWNLOAD_SPEC :: download_state_spec where
  "CHIADO_DOWNLOAD_SPEC = \<lparr>
     expected_state_root = ''0x90b1762d6b81ea05b51aea094a071f7ec4c0742e2bb2d5d560d1833443ff40fd'',
     block_num = ''700000'',
     total_difficulty = ''231708131825107706987652208063906496124457284'',
     header_hash = ''cdc424294195555e53949b6043339a49b049b48caa8d85bc7d5f5d12a85964b6''\<rparr>"

definition R2_BASE :: string where
  "R2_BASE = ''https://initstate.gnosischain.com''"

definition unreachable :: "string fault + 'a" where
  "unreachable = Inl (Panic ''internal error: entered unreachable code'')"

text \<open>\<open>match chain\<close> with an unreachable last arm.\<close>

definition by_chain :: "string \<Rightarrow> 'a \<Rightarrow> 'a \<Rightarrow> string fault + 'a" where
  "by_chain chain g c =
     (if chain = ''gnosis'' then Inr g else if chain = ''chiado'' then Inr c else unreachable)"

definition get_state_url :: "string \<Rightarrow> string fault + string" where
  "get_state_url chain = by_chain chain (R2_BASE @ ''/gnosis/compressed_state_26478650.jsonl.zst'')
     (R2_BASE @ ''/chiado/compressed_state_700000.jsonl.zst'')"

definition get_header_url :: "string \<Rightarrow> string fault + string" where
  "get_header_url chain = by_chain chain (R2_BASE @ ''/gnosis/header_26478650.rlp'')
     (R2_BASE @ ''/chiado/header_700000.rlp'')"

definition get_compressed_state_size :: "string \<Rightarrow> string fault + nat" where
  "get_compressed_state_size chain = by_chain chain 5672943444 22468068"

definition get_decompressed_state_size :: "string \<Rightarrow> string fault + nat" where
  "get_decompressed_state_size chain = by_chain chain 27498292407 111610557"

definition get_compressed_state_hash :: "string \<Rightarrow> string fault + string" where
  "get_compressed_state_hash chain = by_chain chain
     ''68b4c88e3dc02592ec2a1e27cc0556004931a9b4712a4510c8db6aae2f0baaff''
     ''e071cb58c5975b66e0db5aea05e4371bbe08b32c41211c5dd9c0c75ca2d592f9''"

definition get_header_hash :: "string \<Rightarrow> string fault + string" where
  "get_header_hash chain = by_chain chain
     ''9ece59f2a6af4c4af200a0e2ffd19f8dcd9a215b3513171f69a2659651ffa961''
     ''b7fa17cc30104ed71791046f894704a60d72150235925240efd538de29d3036b''"

definition HEADER_FILE :: string where
  "HEADER_FILE = ''header.rlp''"

definition STATE_FILE :: string where
  "STATE_FILE = ''state.jsonl''"

definition COMPRESSED_STATE_FILE :: string where
  "COMPRESSED_STATE_FILE = ''state.jsonl.zst''"

section \<open>Checking and fetching a file\<close>

text \<open>A file that cannot be opened does not have the hash; one that cannot be read is an error.\<close>

definition verify_file_hash :: "world \<Rightarrow> string \<Rightarrow> string \<Rightarrow> dir \<Rightarrow> string fault + bool" where
  "verify_file_hash w p expected_hash fs =
     (case fs p of
        None \<Rightarrow> Inr False
      | Some bs \<Rightarrow>
          if fs_fails w (OpenFile p) fs \<noteq> None then Inr False
          else (case fs_fails w (ReadFile p) fs of
              Some e \<Rightarrow> Inl (Err e)
            | None \<Rightarrow> Inr (blake3_hex w bs = expected_hash)))"

definition file_has_size :: "world \<Rightarrow> string \<Rightarrow> nat \<Rightarrow> dir \<Rightarrow> bool" where
  "file_has_size w p expected fs =
     (case fs p of
        None \<Rightarrow> False
      | Some bs \<Rightarrow> fs_fails w (Metadata p) fs = None \<and> length bs = expected)"

text \<open>The output is written through a buffer that is dropped without being flushed.\<close>

definition decompress_zstd :: "world \<Rightarrow> string \<Rightarrow> string \<Rightarrow> dir \<Rightarrow> unit io" where
  "decompress_zstd w input_path output_path fs =
     (case fs input_path of
        None \<Rightarrow> (Inl (Err ''No such file or directory''), fs)
      | Some bs \<Rightarrow>
          state_then (fs_do w (OpenFile input_path) (\<lambda>fs. fs) fs) (\<lambda>_ fs.
          case zstd_new w bs of
            Some e \<Rightarrow> (Inl (Err e), fs)
          | None \<Rightarrow>
              state_then (fs_do w (CreateFile output_path) (\<lambda>fs. fs(output_path \<mapsto> [])) fs) (\<lambda>_ fs.
              let (out, err) = zstd_decode w bs in
              state_then (write_file w output_path out fs) (\<lambda>_ _.
              let fs = fs(output_path \<mapsto> dropped_flush w output_path out fs) in
              case err of Some e \<Rightarrow> (Inl (Err e), fs) | None \<Rightarrow> (Inr (), fs)))))"

definition download_file :: "world \<Rightarrow> string \<Rightarrow> string \<Rightarrow> string \<Rightarrow> dir \<Rightarrow> unit io" where
  "download_file w url tmp dest fs =
     state_then (fs_do w (CreateFile tmp) (\<lambda>fs. fs(tmp \<mapsto> [])) fs) (\<lambda>_ fs.
     let (body, err) = http_get w url in
     state_then (write_file w tmp body fs) (\<lambda>_ fs.
     case err of
       Some e \<Rightarrow> (Inl (Err e), fs)
     | None \<Rightarrow> rename_file w tmp dest fs))"

text \<open>\<open>.context(..)\<close>: an error gets the message, a panic does not.\<close>

fun with_context :: "string \<Rightarrow> 'a io \<Rightarrow> 'a io" where
  "with_context msg (Inl (Err e), fs) = (Inl (Err msg), fs)"
| "with_context msg r = r"

lemma with_context_Inr_iff [result_simps]: "with_context msg r = (Inr a, fs) \<longleftrightarrow> r = (Inr a, fs)"
  by (cases "(msg, r)" rule: with_context.cases) auto

section \<open>\<open>ensure_state\<close>\<close>

text \<open>Leftovers of interrupted downloads are removed.\<close>

definition ends_with :: "string \<Rightarrow> string \<Rightarrow> bool" where
  "ends_with suf s \<longleftrightarrow> drop (length s - length suf) s = suf"

definition remove_parts :: "world \<Rightarrow> dir \<Rightarrow> dir" where
  "remove_parts w fs = (\<lambda>p. if ends_with ''.part'' p then remove_ok w p fs p else fs p)"

text \<open>The check that follows a download: a file with another hash is removed.\<close>

definition verify_or_remove :: "world \<Rightarrow> string \<Rightarrow> string fault + string \<Rightarrow> string \<Rightarrow> dir \<Rightarrow> unit io" where
  "verify_or_remove w p expected msg fs =
     state_then (pure_step (and_then expected (\<lambda>h. verify_file_hash w p h fs)) fs) (\<lambda>ok fs.
     if ok then (Inr (), fs) else (Inl (Err msg), remove_ok w p fs))"

text \<open>The check before a download: a file that is not there does not have the hash.\<close>

definition already_valid :: "world \<Rightarrow> string \<Rightarrow> string fault + string \<Rightarrow> dir \<Rightarrow> string fault + bool" where
  "already_valid w p expected fs =
     (if fs p \<noteq> None then and_then expected (\<lambda>h. verify_file_hash w p h fs) else Inr False)"

lemma verify_or_remove_Inr_iff [result_simps]:
  "verify_or_remove w p expected msg fs = (Inr u, fs') \<longleftrightarrow>
     fs' = fs \<and> (\<exists>h. expected = Inr h \<and> verify_file_hash w p h fs = Inr True)"
  by (auto simp: verify_or_remove_def pure_step_def state_then_def result_simps split: if_splits sum.splits)

lemma already_valid_Inr_True:
  "already_valid w p expected fs = Inr True \<Longrightarrow> \<exists>h. expected = Inr h \<and> verify_file_hash w p h fs = Inr True"
  by (auto simp: already_valid_def result_simps split: if_splits)

text \<open>The compressed dump, downloaded unless it is there with the right hash.\<close>

definition fetch_compressed :: "world \<Rightarrow> string \<Rightarrow> dir \<Rightarrow> unit io" where
  "fetch_compressed w chain fs =
     state_then (pure_step (already_valid w COMPRESSED_STATE_FILE (get_compressed_state_hash chain) fs) fs) (\<lambda>compressed_valid fs.
     if compressed_valid then (Inr (), fs)
     else
       let fs = (if fs COMPRESSED_STATE_FILE \<noteq> None then remove_ok w COMPRESSED_STATE_FILE fs else fs) in
       state_then (pure_step (get_state_url chain) fs) (\<lambda>url fs.
       state_then (pure_step (get_compressed_state_size chain) fs) (\<lambda>_ fs.
       state_then (with_context ''failed to download compressed state''
           (download_file w url ''state.jsonl.part'' COMPRESSED_STATE_FILE fs)) (\<lambda>_ fs.
       verify_or_remove w COMPRESSED_STATE_FILE (get_compressed_state_hash chain)
         ''compressed state hash mismatch - file corrupted'' fs))))"

text \<open>The dump itself: accepted by its size, otherwise unpacked from the verified archive.\<close>

definition fetch_state :: "world \<Rightarrow> string \<Rightarrow> dir \<Rightarrow> unit io" where
  "fetch_state w chain fs =
     state_then (pure_step (get_decompressed_state_size chain) fs) (\<lambda>size fs.
     if file_has_size w STATE_FILE size fs then (Inr (), fs)
     else
       state_then (fetch_compressed w chain fs) (\<lambda>_ fs.
       state_then (decompress_zstd w COMPRESSED_STATE_FILE ''state.part'' fs) (\<lambda>_ fs.
       state_then (rename_file w ''state.part'' STATE_FILE fs) (\<lambda>_ fs.
       if \<not> file_has_size w STATE_FILE size fs then (Inl (Err ''decompressed state size mismatch''), fs)
       else (Inr (), remove_ok w COMPRESSED_STATE_FILE fs)))))"

definition whole_body :: "world \<Rightarrow> string \<Rightarrow> string fault + bytes" where
  "whole_body w url = (case http_get w url of (body, None) \<Rightarrow> Inr body | (_, Some e) \<Rightarrow> Inl (Err e))"

definition fetch_header :: "world \<Rightarrow> string \<Rightarrow> dir \<Rightarrow> unit io" where
  "fetch_header w chain fs =
     state_then (pure_step (already_valid w HEADER_FILE (get_header_hash chain) fs) fs) (\<lambda>header_valid fs.
     if header_valid then (Inr (), fs)
     else
       let fs = (if fs HEADER_FILE \<noteq> None then remove_ok w HEADER_FILE fs else fs) in
       state_then (pure_step (get_header_url chain) fs) (\<lambda>url fs.
       state_then (pure_step (whole_body w url) fs) (\<lambda>body fs.
       state_then (write_file w HEADER_FILE body fs) (\<lambda>_ fs.
       verify_or_remove w HEADER_FILE (get_header_hash chain) ''header hash mismatch - file corrupted'' fs))))"

definition ensure_state :: "world \<Rightarrow> string \<Rightarrow> dir \<Rightarrow> unit io" where
  "ensure_state w chain fs =
     state_then (fs_do w CreateDir (\<lambda>fs. fs) fs) (\<lambda>_ fs.
     state_then (fs_do w ReadDir (remove_parts w) fs) (\<lambda>_ fs.
     state_then (pure_step (map_err Err (http_client w)) fs) (\<lambda>_ fs.
     state_then (fetch_state w chain fs) (\<lambda>_ fs.
     fetch_header w chain fs))))"

section \<open>What is on disk afterwards\<close>

lemma verify_file_hash_True:
  "verify_file_hash w p h fs = Inr True \<Longrightarrow> \<exists>bs. fs p = Some bs \<and> blake3_hex w bs = h"
  by (auto simp: verify_file_hash_def split: option.splits if_splits)

lemma file_has_size_length: "file_has_size w p n fs \<Longrightarrow> \<exists>bs. fs p = Some bs \<and> length bs = n"
  by (auto simp: file_has_size_def split: option.splits)

lemma fetch_compressed_ok:
  assumes "fetch_compressed w chain fs = (Inr (), fs')"
  shows "\<exists>h zs. get_compressed_state_hash chain = Inr h \<and> fs' COMPRESSED_STATE_FILE = Some zs \<and> blake3_hex w zs = h"
  using assms unfolding fetch_compressed_def Let_def
  by (auto simp: result_simps dest!: already_valid_Inr_True verify_file_hash_True split: if_splits)

lemma decompress_zstd_ok:
  assumes "decompress_zstd w p q fs = (Inr (), fs')" and "fs p = Some zs"
  shows "\<exists>fs1. fs' q = Some (dropped_flush w q (fst (zstd_decode w zs)) fs1) \<and> snd (zstd_decode w zs) = None"
  using assms
  by (auto simp: decompress_zstd_def Let_def result_simps split: option.splits prod.splits)

lemma fetch_state_ok:
  assumes "fetch_state w chain fs = (Inr (), fs')"
  shows "\<exists>size st. get_decompressed_state_size chain = Inr size \<and> fs' STATE_FILE = Some st \<and> length st = size
    \<and> (file_has_size w STATE_FILE size fs \<longrightarrow> fs' = fs)
    \<and> (\<not> file_has_size w STATE_FILE size fs \<longrightarrow>
         (\<exists>h zs fs1. get_compressed_state_hash chain = Inr h \<and> blake3_hex w zs = h \<and> snd (zstd_decode w zs) = None
            \<and> st = dropped_flush w ''state.part'' (fst (zstd_decode w zs)) fs1))"
proof -
  from assms obtain size where size: "get_decompressed_state_size chain = Inr size"
    by (auto simp: fetch_state_def result_simps)
  show ?thesis
  proof (cases "file_has_size w STATE_FILE size fs")
    case True
    with assms size file_has_size_length show ?thesis by (fastforce simp: fetch_state_def result_simps)
  next
    case False
    with assms size obtain fs1 fs2 fs3 where
        one: "fetch_compressed w chain fs = (Inr (), fs1)"
      and two: "decompress_zstd w COMPRESSED_STATE_FILE ''state.part'' fs1 = (Inr (), fs2)"
      and three: "rename_file w ''state.part'' STATE_FILE fs2 = (Inr (), fs3)"
      and sized: "file_has_size w STATE_FILE size fs3" and fs': "fs' = remove_ok w COMPRESSED_STATE_FILE fs3"
      by (auto simp: fetch_state_def result_simps split: if_splits)
    from fetch_compressed_ok [OF one] obtain h zs where zs:
      "get_compressed_state_hash chain = Inr h" "fs1 COMPRESSED_STATE_FILE = Some zs" "blake3_hex w zs = h" by blast
    from decompress_zstd_ok [OF two zs(2)] obtain fs4 where out:
      "fs2 ''state.part'' = Some (dropped_flush w ''state.part'' (fst (zstd_decode w zs)) fs4)"
      "snd (zstd_decode w zs) = None" by blast
    from three out(1) have "fs3 STATE_FILE = Some (dropped_flush w ''state.part'' (fst (zstd_decode w zs)) fs4)"
      by (simp add: rename_file_def result_simps STATE_FILE_def)
    with sized have "length (dropped_flush w ''state.part'' (fst (zstd_decode w zs)) fs4) = size"
      and "fs' STATE_FILE = Some (dropped_flush w ''state.part'' (fst (zstd_decode w zs)) fs4)"
      using file_has_size_length [OF sized] by (simp_all add: fs' STATE_FILE_def COMPRESSED_STATE_FILE_def)
    with size zs out(2) False show ?thesis by blast
  qed
qed

lemma fetch_header_ok:
  assumes "fetch_header w chain fs = (Inr (), fs')"
  shows "\<exists>h hd. get_header_hash chain = Inr h \<and> fs' HEADER_FILE = Some hd \<and> blake3_hex w hd = h
    \<and> (\<forall>p. p \<noteq> HEADER_FILE \<longrightarrow> fs' p = fs p)"
  using assms unfolding fetch_header_def Let_def
  by (auto simp: result_simps dest!: already_valid_Inr_True verify_file_hash_True split: if_splits)

lemma by_chain_Inr: "by_chain chain g c = Inr x \<Longrightarrow> chain = ''gnosis'' \<and> x = g \<or> chain = ''chiado'' \<and> x = c"
  by (simp add: by_chain_def unreachable_def split: if_splits)

lemma remove_parts_kept [simp]: "\<not> ends_with ''.part'' p \<Longrightarrow> remove_parts w fs p = fs p"
  by (simp add: remove_parts_def)

lemma final_names_kept [simp]:
  "\<not> ends_with ''.part'' STATE_FILE" "\<not> ends_with ''.part'' HEADER_FILE"
  by (code_simp, code_simp)

lemma ensure_state_steps:
  assumes "ensure_state w chain fs = (Inr (), fs')"
  obtains fs1 where "fetch_state w chain (remove_parts w fs) = (Inr (), fs1)" "fetch_header w chain fs1 = (Inr (), fs')"
  using assms by (auto simp: ensure_state_def result_simps)

lemma ensure_state_files:
  assumes "ensure_state w chain fs = (Inr (), fs')"
  obtains st hd where "fs' STATE_FILE = Some st" "fs' HEADER_FILE = Some hd"
proof -
  from assms obtain fs1 where one: "fetch_state w chain (remove_parts w fs) = (Inr (), fs1)"
    and two: "fetch_header w chain fs1 = (Inr (), fs')" by (rule ensure_state_steps)
  from fetch_header_ok [OF two] obtain hd where "fs' HEADER_FILE = Some hd" "fs' STATE_FILE = fs1 STATE_FILE"
    by (auto simp: STATE_FILE_def HEADER_FILE_def)
  moreover from fetch_state_ok [OF one] obtain st where "fs1 STATE_FILE = Some st" by blast
  ultimately show ?thesis using that by simp
qed

text \<open>A world in which nothing fails and the verified dump of Chiado unpacks to the right size.\<close>

definition plain_world :: world where
  "plain_world = \<lparr>fs_fails = (\<lambda>_ _. None), write_fails = (\<lambda>_ _ _. None), dropped_flush = (\<lambda>_ bs _. bs),
     http_client = Inr (),
     http_get = (\<lambda>url. if Inr url = get_state_url ''chiado'' then ([1], None)
        else if Inr url = get_header_url ''chiado'' then ([2], None) else ([], Some ''404'')),
     blake3_hex = (\<lambda>bs. projr (if bs = [1] then get_compressed_state_hash ''chiado'' else get_header_hash ''chiado'')),
     zstd_new = (\<lambda>_. None), zstd_decode = (\<lambda>_. (replicate 111610557 0, None))\<rparr>"

lemma plain_world_fetches: "\<exists>fs'. ensure_state plain_world ''chiado'' Map.empty = (Inr (), fs')"
  by (simp add: ensure_state_def fetch_state_def fetch_compressed_def fetch_header_def already_valid_def
      verify_or_remove_def verify_file_hash_def download_file_def decompress_zstd_def rename_file_def write_file_def
      fs_do_def remove_ok_def remove_parts_def whole_body_def file_has_size_def pure_step_def plain_world_def
      get_decompressed_state_size_def get_compressed_state_size_def get_compressed_state_hash_def get_header_hash_def
      get_state_url_def get_header_url_def by_chain_def R2_BASE_def STATE_FILE_def HEADER_FILE_def COMPRESSED_STATE_FILE_def Let_def)

text \<open>Property C33: when the preparation of the state succeeds, the chain is one of the two known ones, the
  dump is there with the expected size and the header with the expected hash; and unless a dump of that
  size was already there (whose contents are not checked), it is what was written of the decompression of
  an archive with the expected hash.\<close>

theorem ensured_state_is_verified:
  assumes "ensure_state w chain fs = (Inr (), fs')"
  shows "\<exists>st hd. chain \<in> {''gnosis'', ''chiado''}
    \<and> fs' STATE_FILE = Some st \<and> Inr (length st) = get_decompressed_state_size chain
    \<and> fs' HEADER_FILE = Some hd \<and> Inr (blake3_hex w hd) = get_header_hash chain
    \<and> (fs STATE_FILE = Some st \<or>
        (\<exists>zs fs1. Inr (blake3_hex w zs) = get_compressed_state_hash chain \<and> snd (zstd_decode w zs) = None
           \<and> st = dropped_flush w ''state.part'' (fst (zstd_decode w zs)) fs1))"
proof -
  from assms obtain fs1 where one: "fetch_state w chain (remove_parts w fs) = (Inr (), fs1)"
    and two: "fetch_header w chain fs1 = (Inr (), fs')" by (rule ensure_state_steps)
  from fetch_state_ok [OF one] obtain size st where st: "get_decompressed_state_size chain = Inr size"
      "fs1 STATE_FILE = Some st" "length st = size"
    and kept: "file_has_size w STATE_FILE size (remove_parts w fs) \<Longrightarrow> fs1 = remove_parts w fs"
    and fetched: "\<not> file_has_size w STATE_FILE size (remove_parts w fs) \<Longrightarrow>
      (\<exists>h zs fs1. get_compressed_state_hash chain = Inr h \<and> blake3_hex w zs = h \<and> snd (zstd_decode w zs) = None
         \<and> st = dropped_flush w ''state.part'' (fst (zstd_decode w zs)) fs1)" by blast
  from fetch_header_ok [OF two] obtain hd where hd: "get_header_hash chain = Inr (blake3_hex w hd)"
    "fs' HEADER_FILE = Some hd" "\<And>p. p \<noteq> HEADER_FILE \<Longrightarrow> fs' p = fs1 p" by blast
  have "fs' STATE_FILE = Some st" using hd(3) [of STATE_FILE] st(2) by (simp add: STATE_FILE_def HEADER_FILE_def)
  moreover have "chain \<in> {''gnosis'', ''chiado''}"
    using st(1) by (auto simp: get_decompressed_state_size_def dest: by_chain_Inr)
  moreover have "fs STATE_FILE = Some st \<or> (\<exists>zs fs1. Inr (blake3_hex w zs) = get_compressed_state_hash chain
      \<and> snd (zstd_decode w zs) = None \<and> st = dropped_flush w ''state.part'' (fst (zstd_decode w zs)) fs1)"
  proof (cases "file_has_size w STATE_FILE size (remove_parts w fs)")
    case True
    with kept st(2) show ?thesis by simp
  next
    case False
    with fetched show ?thesis by metis
  qed
  ultimately show ?thesis using st hd by auto
qed

theorem ensured_state_is_verified_witness:
  "\<exists>fs' st. ensure_state plain_world ''chiado'' Map.empty = (Inr (), fs') \<and> fs' STATE_FILE = Some st
     \<and> length st = 111610557"
  using plain_world_fetches ensured_state_is_verified [of plain_world "''chiado''" Map.empty]
  by (fastforce simp: get_decompressed_state_size_def by_chain_def)

text \<open>Preparing the state again after a success needs no network: with the same hash
  function, a usable file system and any answers of the servers, it succeeds and changes neither file,
  only leftovers of downloads being removed.\<close>

theorem ensured_state_is_kept:
  assumes "ensure_state w chain fs = (Inr (), fs')"
    and "blake3_hex w' = blake3_hex w" and "\<And>opn d. fs_fails w' opn d = None" and "http_client w' = Inr ()"
  shows "ensure_state w' chain fs' = (Inr (), remove_parts w' fs')
    \<and> remove_parts w' fs' STATE_FILE = fs' STATE_FILE \<and> remove_parts w' fs' HEADER_FILE = fs' HEADER_FILE"
proof -
  from assms(1) obtain fs1 where one: "fetch_state w chain (remove_parts w fs) = (Inr (), fs1)"
    and two: "fetch_header w chain fs1 = (Inr (), fs')" by (rule ensure_state_steps)
  from fetch_header_ok [OF two] obtain hd where hd: "get_header_hash chain = Inr (blake3_hex w hd)"
    "fs' HEADER_FILE = Some hd" "\<And>p. p \<noteq> HEADER_FILE \<Longrightarrow> fs' p = fs1 p" by blast
  from fetch_state_ok [OF one] obtain st where st: "get_decompressed_state_size chain = Inr (length st)"
      "fs1 STATE_FILE = Some st" by blast
  with hd(3) [of STATE_FILE] have "fs' STATE_FILE = Some st" by (simp add: STATE_FILE_def HEADER_FILE_def)
  then have "fetch_state w' chain (remove_parts w' fs') = (Inr (), remove_parts w' fs')"
    using st(1) by (simp add: fetch_state_def pure_step_def file_has_size_def assms(3))
  moreover have "fetch_header w' chain (remove_parts w' fs') = (Inr (), remove_parts w' fs')"
    using hd by (simp add: fetch_header_def already_valid_def verify_file_hash_def pure_step_def assms(2,3))
  ultimately show ?thesis
    by (simp add: ensure_state_def fs_do_def pure_step_def assms(3,4))
qed

theorem ensured_state_is_kept_witness:
  "\<exists>fs'. ensure_state plain_world ''chiado'' Map.empty = (Inr (), fs')
     \<and> ensure_state (plain_world\<lparr>http_get := (\<lambda>_. ([], Some ''offline''))\<rparr>) ''chiado'' fs'
       = (Inr (), remove_parts (plain_world\<lparr>http_get := (\<lambda>_. ([], Some ''offline''))\<rparr>) fs')"
proof -
  obtain fs' where "ensure_state plain_world ''chiado'' Map.empty = (Inr (), fs')"
    using plain_world_fetches by blast
  moreover from ensured_state_is_kept [OF this, of "plain_world\<lparr>http_get := (\<lambda>_. ([], Some ''offline''))\<rparr>"]
  have "ensure_state (plain_world\<lparr>http_get := (\<lambda>_. ([], Some ''offline''))\<rparr>) ''chiado'' fs'
      = (Inr (), remove_parts (plain_world\<lparr>http_get := (\<lambda>_. ([], Some ''offline''))\<rparr>) fs')"
    by (simp add: plain_world_def)
  ultimately show ?thesis by blast
qed

end
