(* ===== verification/ImportState.thy ===== *)
theory ImportState
  imports InitState
begin

text \<open>
  The import of the prepared state with its flag file (\<open>src/initialize/import_and_ensure_state.rs\<close>). The
  database and what reth does to it are parameters; an error leaves it as far as the steps got. What
  the flow keeps in the data directory is the state: whether the directory, its database and the flag
  exist, and the files of the state directory.
\<close>

section \<open>The database\<close>

datatype state_table =
    PlainAccountState
  | PlainStorageState
  | HashedAccounts
  | HashedStorages
  | AccountChangeSets
  | StorageChangeSets
  | AccountsHistory
  | StoragesHistory
  | Bytecodes

definition cleared_tables :: "state_table list" where
  "cleared_tables = [PlainAccountState, PlainStorageState, HashedAccounts, HashedStorages, AccountChangeSets,
     StorageChangeSets, AccountsHistory, StoragesHistory, Bytecodes]"

type_synonym ('d, 'a) db_step = "'d \<Rightarrow> (string + 'a) \<times> 'd"

record ('d, 'h) import_api =
  runtime_build :: "string + unit"
  creates_db_dir :: bool
  env_init_rw :: "('d, unit) db_step"
  write_settings_v1 :: "('d, unit) db_step"
  read_file :: "string \<Rightarrow> dir \<Rightarrow> string + bytes"
  decode_header :: "bytes \<Rightarrow> string + 'h"
  parse_b256 :: "string \<Rightarrow> string + b256"
  header_number :: "'h \<Rightarrow> u64"
  header_state_root :: "'h \<Rightarrow> string"
  last_block_number :: "'d \<Rightarrow> string + u64"
  setup_without_evm :: "'h \<Rightarrow> b256 \<Rightarrow> ('d, unit) db_step"
  commit_static_files :: "('d, unit) db_step"
  clear_table :: "state_table \<Rightarrow> ('d, unit) db_step"
  commit_provider :: "('d, unit) db_step"
  init_from_state_dump :: "bytes \<Rightarrow> ('d, b256) db_step"
  env_init_ro :: "('d, unit) db_step"
  parse_key :: "string \<Rightarrow> string + u64"
  find_header :: "u64 \<Rightarrow> 'd \<Rightarrow> string + bytes option"
  decompress_header :: "bytes \<Rightarrow> string + 'h"
  create_flag :: "string + unit"
  remove_state_dir :: "string + unit"

primrec run_all :: "('a \<Rightarrow> ('d, unit) db_step) \<Rightarrow> 'a list \<Rightarrow> ('d, unit) db_step" where
  "run_all f [] d = (Inr (), d)"
| "run_all f (x # xs) d = state_then (f x d) (\<lambda>_ d. run_all f xs d)"

definition read_header_from_file :: "('d, 'h) import_api \<Rightarrow> string \<Rightarrow> dir \<Rightarrow> string + 'h" where
  "read_header_from_file api p fs = and_then (read_file api p fs) (decode_header api)"

text \<open>A fresh database gets the header and placeholders below it; one that stands below the header is
  refused; one at or above it goes on as it is.\<close>

definition prepare_chain :: "('d, 'h) import_api \<Rightarrow> 'h \<Rightarrow> b256 \<Rightarrow> ('d, unit) db_step" where
  "prepare_chain api header hash d =
     state_then (pure_step (last_block_number api d) d) (\<lambda>last d.
     if last = 0 then
       state_then (setup_without_evm api header hash d) (\<lambda>_ d. commit_static_files api d)
     else if last > 0 \<and> last < header_number api header then
       (Inl ''Data directory should be empty when calling init-state with --without-evm-history.'', d)
     else (Inr (), d))"

definition import_state :: "('d, 'h) import_api \<Rightarrow> string \<Rightarrow> dir \<Rightarrow> ('d, unit) db_step" where
  "import_state api header_hash_text fs d =
     state_then (env_init_rw api d) (\<lambda>_ d.
     state_then (write_settings_v1 api d) (\<lambda>_ d.
     state_then (pure_step (read_header_from_file api HEADER_FILE fs) d) (\<lambda>header d.
     state_then (pure_step (parse_b256 api header_hash_text) d) (\<lambda>hash d.
     state_then (prepare_chain api header hash d) (\<lambda>_ d.
     state_then (run_all (clear_table api) cleared_tables d) (\<lambda>_ d.
     state_then (commit_provider api d) (\<lambda>_ d.
     state_then (pure_step (read_file api STATE_FILE fs) d) (\<lambda>dump d.
     state_then (init_from_state_dump api dump d) (\<lambda>_ d. (Inr (), d))))))))))"

section \<open>The flow at launch\<close>

record 'd datadir =
  dd_exists :: bool
  dd_db_exists :: bool
  dd_flag :: bool
  dd_state :: dir
  dd_database :: 'd

datatype outcome = Returned | Exited nat | Panicked

text \<open>Comparing the state root of the imported header: \<open>None\<close> when the header is not found, which is
  only reported.\<close>

definition check_state_root :: "('d, 'h) import_api \<Rightarrow> download_state_spec \<Rightarrow> 'd \<Rightarrow> outcome" where
  "check_state_root api spec d =
     (case parse_key api (block_num spec) of
        Inl _ \<Rightarrow> Panicked
      | Inr key \<Rightarrow>
          (case find_header api key d of
             Inl _ \<Rightarrow> Panicked
           | Inr None \<Rightarrow> Returned
           | Inr (Some content) \<Rightarrow>
               (case decompress_header api content of
                  Inl _ \<Rightarrow> Panicked
                | Inr header \<Rightarrow>
                    if header_state_root api header \<noteq> expected_state_root spec then Exited 1 else Returned)))"

text \<open>From the verified files on: import, check, flag, removal of the state directory. Opening the database
  creates its directory, so it exists even when the import fails later; when opening it fails, the directory
  is there if that came so far (\<open>creates_db_dir\<close>).\<close>

definition db_dir_after :: "('d, 'h) import_api \<Rightarrow> 'd datadir \<Rightarrow> bool" where
  "db_dir_after api dd =
     (case env_init_rw api (dd_database dd) of
        (Inl _, _) \<Rightarrow> dd_db_exists dd \<or> creates_db_dir api
      | (Inr _, _) \<Rightarrow> True)"

definition import_and_flag ::
  "('d, 'h) import_api \<Rightarrow> download_state_spec \<Rightarrow> 'd datadir \<Rightarrow> outcome \<times> 'd datadir" where
  "import_and_flag api spec dd =
     (case import_state api (header_hash spec) (dd_state dd) (dd_database dd) of
        (Inl _, d) \<Rightarrow> (Panicked, dd\<lparr>dd_db_exists := db_dir_after api dd, dd_database := d\<rparr>)
      | (Inr _, d) \<Rightarrow>
          (case env_init_ro api d of
             (Inl _, d) \<Rightarrow> (Panicked, dd\<lparr>dd_db_exists := True, dd_database := d\<rparr>)
           | (Inr _, d) \<Rightarrow>
               let dd = dd\<lparr>dd_db_exists := True, dd_database := d\<rparr> in
               (case check_state_root api spec d of
                  Returned \<Rightarrow>
                    (case create_flag api of
                       Inl _ \<Rightarrow> (Exited 1, dd)
                     | Inr _ \<Rightarrow>
                         (case remove_state_dir api of
                            Inl _ \<Rightarrow> (Exited 1, dd\<lparr>dd_flag := True\<rparr>)
                          | Inr _ \<Rightarrow> (Returned, dd\<lparr>dd_flag := True, dd_state := Map.empty\<rparr>)))
                | out \<Rightarrow> (out, dd))))"

definition download_and_import_init_state ::
  "('d, 'h) import_api \<Rightarrow> world \<Rightarrow> string \<Rightarrow> download_state_spec \<Rightarrow> 'd datadir \<Rightarrow> outcome \<times> 'd datadir" where
  "download_and_import_init_state api w chain spec dd =
     (if dd_exists dd \<and> dd_db_exists dd then (if dd_flag dd then (Returned, dd) else (Exited 1, dd))
      else case runtime_build api of
        Inl _ \<Rightarrow> (Panicked, dd)
      | Inr _ \<Rightarrow>
          (case ensure_state w chain (dd_state dd) of
             (Inl (Err _), fs) \<Rightarrow>
               (Exited 1, dd\<lparr>dd_state := fs, dd_exists := dd_exists dd \<or> fs_fails w CreateDir (dd_state dd) = None\<rparr>)
           | (Inl (Panic _), fs) \<Rightarrow> (Panicked, dd\<lparr>dd_state := fs, dd_exists := True\<rparr>)
           | (Inr _, fs) \<Rightarrow> import_and_flag api spec (dd\<lparr>dd_state := fs, dd_exists := True\<rparr>)))"

section \<open>The flag\<close>

lemma check_state_root_Returned:
  "check_state_root api spec d = Returned \<Longrightarrow>
     \<exists>key. parse_key api (block_num spec) = Inr key \<and>
       (find_header api key d = Inr None \<or>
        (\<exists>content header. find_header api key d = Inr (Some content) \<and> decompress_header api content = Inr header
           \<and> header_state_root api header = expected_state_root spec))"
  by (auto simp: check_state_root_def split: sum.splits option.splits if_splits)

lemma import_and_flag_Returned:
  assumes "import_and_flag api spec dd = (Returned, dd')"
  shows "\<exists>d1 d. import_state api (header_hash spec) (dd_state dd) (dd_database dd) = (Inr (), d1)
    \<and> env_init_ro api d1 = (Inr (), d) \<and> check_state_root api spec d = Returned
    \<and> dd' = dd\<lparr>dd_db_exists := True, dd_database := d, dd_flag := True, dd_state := Map.empty\<rparr>"
  using assms
  by (auto simp: import_and_flag_def Let_def split: prod.splits sum.splits outcome.splits)

text \<open>A sequence of steps, each on the database the one before left.\<close>

definition performed :: "('a \<Rightarrow> ('d, unit) db_step) \<Rightarrow> 'a list \<Rightarrow> 'd \<Rightarrow> 'd \<Rightarrow> bool" where
  "performed f xs d d' \<longleftrightarrow>
     (\<exists>ds. length ds = Suc (length xs) \<and> hd ds = d \<and> last ds = d'
        \<and> (\<forall>i < length xs. f (xs ! i) (ds ! i) = (Inr (), ds ! Suc i)))"

lemma run_all_performed: "run_all f xs d = (Inr (), d') \<Longrightarrow> performed f xs d d'"
proof (induction xs arbitrary: d)
  case Nil
  then show ?case by (auto simp: performed_def intro: exI [of _ "[d]"])
next
  case (Cons x xs)
  then obtain d1 where step: "f x d = (Inr (), d1)" and "run_all f xs d1 = (Inr (), d')"
    by (auto simp: result_simps)
  from Cons.IH [OF this(2)] obtain ds where ds: "length ds = Suc (length xs)" "hd ds = d1" "last ds = d'"
    "\<forall>i < length xs. f (xs ! i) (ds ! i) = (Inr (), ds ! Suc i)"
    by (auto simp: performed_def)
  then have "ds ! 0 = d1" by (cases ds) auto
  with step ds have "f ((x # xs) ! i) ((d # ds) ! i) = (Inr (), (d # ds) ! Suc i)" if "i < Suc (length xs)" for i
    using that by (cases i) auto
  with ds show ?case unfolding performed_def by (intro exI [of _ "d # ds"]) auto
qed

text \<open>A complete import leads from the first database to the last: settings, the chain up to the header, the
  nine cleared tables, the commit of the provider and then the dump.\<close>

definition completely_imported ::
  "('d, 'h) import_api \<Rightarrow> string \<Rightarrow> dir \<Rightarrow> 'd \<Rightarrow> 'd \<Rightarrow> bool" where
  "completely_imported api hash_text fs d d' \<longleftrightarrow>
     (\<exists>header hash dump root d1 d2 d3 d4 d5.
        read_header_from_file api HEADER_FILE fs = Inr header \<and> parse_b256 api hash_text = Inr hash
      \<and> read_file api STATE_FILE fs = Inr dump
      \<and> env_init_rw api d = (Inr (), d1) \<and> write_settings_v1 api d1 = (Inr (), d2)
      \<and> (\<exists>n. last_block_number api d2 = Inr n \<and>
          (if n = 0 then \<exists>d'. setup_without_evm api header hash d2 = (Inr (), d') \<and> commit_static_files api d' = (Inr (), d3)
           else header_number api header \<le> n \<and> d3 = d2))
      \<and> performed (clear_table api) [PlainAccountState, PlainStorageState, HashedAccounts, HashedStorages,
          AccountChangeSets, StorageChangeSets, AccountsHistory, StoragesHistory, Bytecodes] d3 d4
      \<and> commit_provider api d4 = (Inr (), d5)
      \<and> init_from_state_dump api dump d5 = (Inr root, d'))"

lemma prepare_chain_steps:
  assumes "prepare_chain api header hash d = (Inr (), d')"
  shows "\<exists>n. last_block_number api d = Inr n \<and>
    (if n = 0 then \<exists>d1. setup_without_evm api header hash d = (Inr (), d1) \<and> commit_static_files api d1 = (Inr (), d')
     else header_number api header \<le> n \<and> d' = d)"
  using assms by (auto simp: prepare_chain_def result_simps word_neq_0_conv not_less split: if_splits)

lemma import_state_complete:
  assumes "import_state api h fs d = (Inr (), d')"
  shows "completely_imported api h fs d d'"
proof -
  from assms obtain header hash dump root d1 d2 d3 d4 d5 where steps:
    "env_init_rw api d = (Inr (), d1)" "write_settings_v1 api d1 = (Inr (), d2)"
    "read_header_from_file api HEADER_FILE fs = Inr header" "parse_b256 api h = Inr hash"
    "prepare_chain api header hash d2 = (Inr (), d3)" "run_all (clear_table api) cleared_tables d3 = (Inr (), d4)"
    "commit_provider api d4 = (Inr (), d5)" "read_file api STATE_FILE fs = Inr dump"
    "init_from_state_dump api dump d5 = (Inr root, d')"
    by (auto simp: import_state_def result_simps)
  note cleared = run_all_performed [OF steps(6), unfolded cleared_tables_def]
  show ?thesis
    unfolding completely_imported_def
    using steps(1-4,7-9) prepare_chain_steps [OF steps(5)] cleared by blast
qed

text \<open>A database of four counters in which every step works, and one in which no header is found.\<close>

definition plain_import_api :: "(u64, u64) import_api" where
  "plain_import_api = \<lparr>runtime_build = Inr (), creates_db_dir = True, env_init_rw = Pair (Inr ()), write_settings_v1 = Pair (Inr ()),
     read_file = (\<lambda>p fs. case fs p of None \<Rightarrow> Inl ''missing'' | Some bs \<Rightarrow> Inr bs), decode_header = (\<lambda>_. Inr 700000),
     parse_b256 = (\<lambda>_. Inr 0), header_number = (\<lambda>h. h),
     header_state_root = (\<lambda>_. expected_state_root CHIADO_DOWNLOAD_SPEC),
     last_block_number = Inr, setup_without_evm = (\<lambda>h _ _. (Inr (), h)), commit_static_files = Pair (Inr ()),
     clear_table = (\<lambda>_. Pair (Inr ())), commit_provider = Pair (Inr ()),
     init_from_state_dump = (\<lambda>_. Pair (Inr 0)), env_init_ro = Pair (Inr ()), parse_key = (\<lambda>_. Inr 700000),
     find_header = (\<lambda>_ d. Inr (Some (be_bytes 8 d))), decompress_header = (\<lambda>bs. Inr (be_word bs)),
     create_flag = Inr (), remove_state_dir = Inr ()\<rparr>"

definition new_datadir :: "u64 datadir" where
  "new_datadir = \<lparr>dd_exists = False, dd_db_exists = False, dd_flag = False, dd_state = Map.empty, dd_database = 0\<rparr>"

definition plain_imported :: "u64 datadir" where
  "plain_imported = \<lparr>dd_exists = True, dd_db_exists = True, dd_flag = True, dd_state = Map.empty, dd_database = 700000\<rparr>"

lemma plain_import_state:
  assumes "ensure_state plain_world ''chiado'' Map.empty = (Inr (), fs)"
  shows "import_state (plain_import_api\<lparr>find_header := f\<rparr>) h fs 0 = (Inr (), 700000)"
proof -
  from assms obtain st hd where "fs STATE_FILE = Some st" "fs HEADER_FILE = Some hd" by (rule ensure_state_files)
  then show ?thesis
    by (simp add: import_state_def plain_import_api_def read_header_from_file_def prepare_chain_def cleared_tables_def
        pure_step_def)
qed

lemma plain_import_runs:
  assumes "ensure_state plain_world ''chiado'' Map.empty = (Inr (), fs)"
  shows "download_and_import_init_state (plain_import_api\<lparr>find_header := f\<rparr>) plain_world ''chiado''
    CHIADO_DOWNLOAD_SPEC new_datadir =
    (case check_state_root (plain_import_api\<lparr>find_header := f\<rparr>) CHIADO_DOWNLOAD_SPEC 700000 of
       Returned \<Rightarrow> (Returned, plain_imported)
     | out \<Rightarrow> (out, plain_imported\<lparr>dd_flag := False, dd_state := fs\<rparr>))"
  using assms plain_import_state [OF assms]
  by (simp add: download_and_import_init_state_def new_datadir_def plain_imported_def import_and_flag_def Let_def
      plain_import_api_def split: outcome.splits)

text \<open>Property C34: a launch that imports and returns leaves the flag, and then the import was complete: from
  the prepared and verified files, on the database of the launch, the storage settings were written, the
  header was set up as the head of an empty chain (or the chain already reached it), the nine state tables
  were cleared, this was committed, and the dump was imported on top; and when the launch found the
  imported header, it has checked its state root. Every later launch with the flag returns at once and
  changes nothing, whatever the network and the database answer. A header that is not found is no
  failure: the flag is then set without the check.\<close>

theorem imported_flag_means_imported:
  assumes "download_and_import_init_state api w chain spec dd = (Returned, dd')"
    and "\<not> (dd_exists dd \<and> dd_db_exists dd)"
  shows "dd_flag dd' \<and> dd_state dd' = Map.empty \<and> (\<exists>fs d key.
      ensure_state w chain (dd_state dd) = (Inr (), fs)
    \<and> completely_imported api (header_hash spec) fs (dd_database dd) d
    \<and> env_init_ro api d = (Inr (), dd_database dd')
    \<and> parse_key api (block_num spec) = Inr key
    \<and> (find_header api key (dd_database dd') = Inr None
       \<or> (\<exists>content header. find_header api key (dd_database dd') = Inr (Some content)
           \<and> decompress_header api content = Inr header
           \<and> header_state_root api header = expected_state_root spec)))
    \<and> download_and_import_init_state api' w' chain' spec' dd' = (Returned, dd')"
proof -
  from assms obtain fs where ensured: "ensure_state w chain (dd_state dd) = (Inr (), fs)"
    and rest: "import_and_flag api spec (dd\<lparr>dd_state := fs, dd_exists := True\<rparr>) = (Returned, dd')"
    by (auto simp: download_and_import_init_state_def split: if_splits sum.splits prod.splits fault.splits)
  from import_and_flag_Returned [OF rest] obtain d1 d where
      imported: "import_state api (header_hash spec) fs (dd_database dd) = (Inr (), d1)" "env_init_ro api d1 = (Inr (), d)"
    and checked: "check_state_root api spec d = Returned"
    and dd': "dd' = dd\<lparr>dd_state := Map.empty, dd_exists := True, dd_db_exists := True, dd_database := d, dd_flag := True\<rparr>"
    by auto
  have "download_and_import_init_state api' w' chain' spec' dd' = (Returned, dd')"
    by (simp add: download_and_import_init_state_def dd')
  with ensured imported(2) import_state_complete [OF imported(1)] check_state_root_Returned [OF checked]
  show ?thesis by (simp add: dd') blast
qed

text \<open>A database that counts: every step but the last adds to it, and the dump is only taken by a database on
  which they were all done.\<close>

definition counting_import_api :: "(u64, u64) import_api" where
  "counting_import_api = plain_import_api\<lparr>last_block_number := (\<lambda>_. Inr 0), setup_without_evm := (\<lambda>_ _ d. (Inr (), d + 10)),
     clear_table := (\<lambda>_ d. (Inr (), d + 1)), commit_provider := (\<lambda>d. (Inr (), d + 100)),
     init_from_state_dump := (\<lambda>_ d. if d = 119 then (Inr 0, 700000) else (Inl ''not prepared'', d))\<rparr>"

theorem imported_flag_means_imported_witness:
  "download_and_import_init_state counting_import_api plain_world ''chiado'' CHIADO_DOWNLOAD_SPEC new_datadir
     = (Returned, plain_imported)
   \<and> dd_flag plain_imported
   \<and> (\<exists>fs. completely_imported counting_import_api (header_hash CHIADO_DOWNLOAD_SPEC) fs 0 700000)
   \<and> download_and_import_init_state (plain_import_api\<lparr>runtime_build := Inl ''no runtime''\<rparr>) plain_world ''gnosis''
       GNOSIS_DOWNLOAD_SPEC plain_imported = (Returned, plain_imported)"
proof -
  obtain fs where fs: "ensure_state plain_world ''chiado'' Map.empty = (Inr (), fs)"
    using plain_world_fetches by blast
  then obtain st hd where "fs STATE_FILE = Some st" "fs HEADER_FILE = Some hd" by (rule ensure_state_files)
  then have "import_state counting_import_api (header_hash CHIADO_DOWNLOAD_SPEC) fs 0 = (Inr (), 700000)"
    by (simp add: import_state_def counting_import_api_def plain_import_api_def read_header_from_file_def
        prepare_chain_def cleared_tables_def pure_step_def)
  moreover have "check_state_root counting_import_api CHIADO_DOWNLOAD_SPEC 700000 = Returned"
    by (simp add: check_state_root_def counting_import_api_def plain_import_api_def)
  ultimately have run: "download_and_import_init_state counting_import_api plain_world ''chiado'' CHIADO_DOWNLOAD_SPEC
      new_datadir = (Returned, plain_imported)"
    using fs by (simp add: download_and_import_init_state_def new_datadir_def plain_imported_def import_and_flag_def
        Let_def counting_import_api_def plain_import_api_def)
  have new: "\<not> (dd_exists new_datadir \<and> dd_db_exists new_datadir)" by (simp add: new_datadir_def)
  have database: "dd_database new_datadir = 0" "dd_database plain_imported = 700000" "env_init_ro counting_import_api = Pair (Inr ())"
    by (simp_all add: new_datadir_def plain_imported_def counting_import_api_def plain_import_api_def)
  from imported_flag_means_imported [OF run new] run show ?thesis unfolding database by simp blast
qed

text \<open>Property C35: a launch that created the database and did not return leaves it without a flag, unless
  only removing the state directory failed; every later launch then exits with status 1 and changes
  nothing. So the import is not resumed after an interruption, and a state root that does not match, or a
  header that does not decode, leaves no flag.\<close>

theorem interrupted_import_is_refused:
  assumes "download_and_import_init_state api w chain spec dd = (out, dd')" and "out \<noteq> Returned"
    and "\<not> dd_flag dd" and "\<not> dd_db_exists dd" and "dd_exists dd'" and "dd_db_exists dd'"
  shows "if dd_flag dd' then check_state_root api spec (dd_database dd') = Returned \<and> (\<exists>e. remove_state_dir api = Inl e)
    else download_and_import_init_state api' w' chain' spec' dd' = (Exited 1, dd')"
proof -
  from assms obtain fs where
    "import_and_flag api spec (dd\<lparr>dd_state := fs, dd_exists := True\<rparr>) = (out, dd')"
    by (auto simp: download_and_import_init_state_def split: if_splits sum.splits prod.splits fault.splits)
  with assms(2,3) have "dd_flag dd' \<longrightarrow> check_state_root api spec (dd_database dd') = Returned
      \<and> (\<exists>e. remove_state_dir api = Inl e)"
    by (auto simp: import_and_flag_def Let_def split: prod.splits sum.splits outcome.splits)
  then show ?thesis using assms(5,6) by (simp add: download_and_import_init_state_def)
qed

theorem interrupted_import_is_refused_witness:
  "\<exists>fs. download_and_import_init_state (plain_import_api\<lparr>find_header := (\<lambda>_ _. Inl ''closed'')\<rparr>) plain_world ''chiado''
       CHIADO_DOWNLOAD_SPEC new_datadir = (Panicked, plain_imported\<lparr>dd_flag := False, dd_state := fs\<rparr>)
   \<and> download_and_import_init_state plain_import_api plain_world ''chiado'' CHIADO_DOWNLOAD_SPEC
       (plain_imported\<lparr>dd_flag := False, dd_state := fs\<rparr>) = (Exited 1, plain_imported\<lparr>dd_flag := False, dd_state := fs\<rparr>)"
proof -
  obtain fs where "ensure_state plain_world ''chiado'' Map.empty = (Inr (), fs)"
    using plain_world_fetches by blast
  moreover have "check_state_root (plain_import_api\<lparr>find_header := (\<lambda>_ _. Inl ''closed'')\<rparr>) CHIADO_DOWNLOAD_SPEC 700000
    = Panicked" by (simp add: check_state_root_def plain_import_api_def)
  ultimately have run: "download_and_import_init_state (plain_import_api\<lparr>find_header := (\<lambda>_ _. Inl ''closed'')\<rparr>) plain_world
      ''chiado'' CHIADO_DOWNLOAD_SPEC new_datadir = (Panicked, plain_imported\<lparr>dd_flag := False, dd_state := fs\<rparr>)"
    by (simp add: plain_import_runs)
  from interrupted_import_is_refused [OF run] run show ?thesis
    by (intro exI [of _ fs]) (simp add: new_datadir_def plain_imported_def)
qed

end
