(* ===== verification/Node.thy ===== *)
theory Node
  imports BlockBuild EraImport ImportState
begin

text \<open>
  The glue of the node that decides something: the version strings and the default extra data
  (\<open>src/version.rs\<close>), the status announced to peers (\<open>src/network.rs\<close>), the blob cache of the pool
  (\<open>src/pool.rs\<close>), the conversion of engine payloads (\<open>src/engine.rs\<close>), the start-up of \<open>src/main.rs\<close> and
  the command that starts an ERA import (\<open>src/cli/import_era.rs\<close>). What reth does with these values is a
  parameter.
\<close>

section \<open>Version\<close>

record version_env =
  VERSION :: string
  GIT_SHA :: string
  GIT_DIRTY :: string

record upstream_version =
  up_target :: string
  up_timestamp :: string
  up_features :: string
  up_profile :: string

record version_consts =
  name_client :: string
  cargo_pkg_version :: string
  vergen_git_sha_long :: string
  vergen_git_sha :: string
  short_version :: string
  long_version :: string
  p2p_client_version :: string
  vc_extra_data :: string

definition git_sha_short :: "version_env \<Rightarrow> string" where
  "git_sha_short v = (if length (GIT_SHA v) \<ge> 8 then take 8 (GIT_SHA v) else GIT_SHA v)"

definition dev_suffix :: "version_env \<Rightarrow> string" where
  "dev_suffix v = (if GIT_DIRTY v = ''true'' then ''-dev'' else [])"

definition default_gnosis_extra_data :: "version_env \<Rightarrow> string" where
  "default_gnosis_extra_data v = ''reth_gnosis/v'' @ VERSION v"

definition default_gnosis_extra_data_bytes :: "version_env \<Rightarrow> bytes" where
  "default_gnosis_extra_data_bytes v = map of_char (default_gnosis_extra_data v)"

definition newline :: string where
  "newline = [CHR 0x0A]"

definition init_gnosis_version :: "version_env \<Rightarrow> upstream_version \<Rightarrow> version_consts" where
  "init_gnosis_version v up =
     (let sha_short = git_sha_short v; dev = dev_suffix v in
      \<lparr>name_client = ''reth_gnosis'', cargo_pkg_version = VERSION v, vergen_git_sha_long = GIT_SHA v,
       vergen_git_sha = sha_short, short_version = VERSION v @ dev @ '' ('' @ sha_short @ '')'',
       long_version = ''Version: '' @ VERSION v @ dev @ newline @ ''Commit SHA: '' @ GIT_SHA v @ newline
         @ ''Build Timestamp: '' @ up_timestamp up @ newline @ ''Build Features: '' @ up_features up @ newline
         @ ''Build Profile: '' @ up_profile up,
       p2p_client_version = ''reth_gnosis/v'' @ VERSION v @ ''-'' @ sha_short @ ''/'' @ up_target up,
       vc_extra_data = default_gnosis_extra_data v\<rparr>)"

lemma extra_data_within_header_limit:
  "length (VERSION v) \<le> 19 \<longleftrightarrow> length (default_gnosis_extra_data_bytes v) \<le> 32"
  by (simp add: default_gnosis_extra_data_bytes_def default_gnosis_extra_data_def)

section \<open>Network\<close>

record head_info =
  hd_number :: u64
  hd_hash :: b256
  hd_total_difficulty :: u256

text \<open>\<open>final_paris\<close> is the final total difficulty of the specification.\<close>

definition announced_total_difficulty :: "u256 option \<Rightarrow> head_info \<Rightarrow> u256" where
  "announced_total_difficulty final_paris head =
     (if hd_total_difficulty head = 0 \<and> hd_number head > 0
      then (case final_paris of None \<Rightarrow> hd_total_difficulty head | Some ttd \<Rightarrow> ttd)
      else hd_total_difficulty head)"

record 'f unified_status =
  us_chain :: u64
  us_genesis :: b256
  us_blockhash :: b256
  us_total_difficulty :: "u256 option"
  us_forkid :: 'f

definition network_status ::
  "(GnosisHeader \<Rightarrow> b256) \<Rightarrow> GnosisChainSpec \<Rightarrow> u256 option \<Rightarrow> head_info \<Rightarrow> 'f \<Rightarrow> 'f unified_status" where
  "network_status hash_of spec final_paris head fork_filter_current =
     \<lparr>us_chain = spec_chain spec, us_genesis = genesis_hash hash_of spec, us_blockhash = hd_hash head,
      us_total_difficulty = Some (announced_total_difficulty final_paris head), us_forkid = fork_filter_current\<rparr>"

lemma announced_total_difficulty_positive:
  "final_paris = Some ttd \<Longrightarrow> ttd \<noteq> 0 \<Longrightarrow> hd_number head > 0 \<Longrightarrow> announced_total_difficulty final_paris head \<noteq> 0"
  by (simp add: announced_total_difficulty_def)

section \<open>Pool\<close>

definition EPOCH_SLOTS :: u64 where
  "EPOCH_SLOTS = 16"

text \<open>\<open>target_blob_count * EPOCH_SLOTS * 2\<close> in 64 bits, then cut to 32.\<close>

definition blob_cache_size :: "u32 option \<Rightarrow> u64 option \<Rightarrow> u64 \<Rightarrow> u32 option" where
  "blob_cache_size configured target_now cancun_target =
     (case configured of
        Some n \<Rightarrow> Some n
      | None \<Rightarrow> Some (ucast ((case target_now of None \<Rightarrow> cancun_target | Some t \<Rightarrow> t) * EPOCH_SLOTS * 2)))"

definition blobs_disabled :: "bool \<Rightarrow> nat \<Rightarrow> bool" where
  "blobs_disabled disable_blobs_support blobpool_max_count \<longleftrightarrow> disable_blobs_support \<or> blobpool_max_count = 0"

lemma blob_cache_covers_two_epochs:
  assumes "unat t < 2 ^ 27"
  shows "map_option unat (blob_cache_size None (Some t) c) = Some (unat t * 32)"
proof -
  have "unat (t * EPOCH_SLOTS * 2) = unat t * 32"
    using assms by (simp add: EPOCH_SLOTS_def unat_word_ariths)
  moreover have "unat (ucast x :: u32) = unat x mod 2 ^ 32" for x :: u64
    by (simp add: unsigned_ucast_eq take_bit_eq_mod)
  ultimately show ?thesis using assms by (simp add: blob_cache_size_def)
qed

section \<open>Engine\<close>

text \<open>The inner validator checks a payload and yields an Ethereum block with its hash.\<close>

definition convert_payload_to_block ::
  "('p \<Rightarrow> 'e + 'tx eth_block \<times> b256) \<Rightarrow> (EthHeader \<Rightarrow> GnosisHeader) \<Rightarrow> 'p \<Rightarrow> 'e + 'tx gnosis_block \<times> b256" where
  "convert_payload_to_block inner from_eth payload =
     and_then (inner payload) (\<lambda>(block, hash). Inr (into_gnosis_block from_eth block, hash))"

definition engine_well_formed_payload ::
  "('p \<Rightarrow> 'e + 'tx eth_block \<times> b256) \<Rightarrow> (EthHeader \<Rightarrow> GnosisHeader)
     \<Rightarrow> ('tx gnosis_block \<times> b256 \<Rightarrow> 'e + 'rec) \<Rightarrow> 'p \<Rightarrow> 'e + 'rec" where
  "engine_well_formed_payload inner from_eth try_recover payload =
     and_then (convert_payload_to_block inner from_eth payload) try_recover"

definition engine_version_fields ::
  "('r \<Rightarrow> 'e + unit) \<Rightarrow> ('v \<Rightarrow> 'pa \<Rightarrow> 'e + unit) \<Rightarrow> ('pa \<Rightarrow> 'r option) \<Rightarrow> 'v \<Rightarrow> 'pa \<Rightarrow> 'e + unit" where
  "engine_version_fields validate_requests validate_fields execution_requests version payload_or_attrs =
     and_then (case execution_requests payload_or_attrs of None \<Rightarrow> Inr () | Some r \<Rightarrow> validate_requests r)
       (\<lambda>_. validate_fields version payload_or_attrs)"

section \<open>Start-up\<close>

datatype ('ext, 'rest) command = NodeCommand 'ext u64 | OtherCommand 'rest

definition import_target :: "u64 \<Rightarrow> (string \<times> download_state_spec) option" where
  "import_target cid =
     (if cid = 100 then Some (''gnosis'', GNOSIS_DOWNLOAD_SPEC)
      else if cid = 10200 then Some (''chiado'', CHIADO_DOWNLOAD_SPEC)
      else None)"

text \<open>What runs before reth: nothing, or the import. The flag of the command also forces the legacy storage
  layout; the second component says whether it did.\<close>

definition before_run ::
  "('d, 'h) import_api \<Rightarrow> world \<Rightarrow> (bool, 'rest) command \<Rightarrow> 'd datadir \<Rightarrow> outcome \<times> bool \<times> 'd datadir" where
  "before_run api w cmd dd =
     (case cmd of
        NodeCommand import_post_merge_state cid \<Rightarrow>
          (if import_post_merge_state then
             (case import_target cid of
                Some (chain, spec) \<Rightarrow>
                  (case download_and_import_init_state api w chain spec dd of (out, dd') \<Rightarrow> (out, True, dd'))
              | None \<Rightarrow> (Returned, True, dd))
           else (Returned, False, dd))
      | OtherCommand _ \<Rightarrow> (Returned, False, dd))"

text \<open>The subcommand and its own subcommand; the process exits with status 2 on the blocked one.\<close>

definition reject_migrate_v2 :: "(string \<times> string option) option \<Rightarrow> nat option" where
  "reject_migrate_v2 subcommand =
     (if subcommand = Some (''db'', Some ''migrate-v2'') then Some 2 else None)"

lemma import_target_is_known:
  assumes "import_target cid = Some (chain, spec)"
  shows "get_state_url chain \<noteq> unreachable" "get_header_url chain \<noteq> unreachable"
    "get_compressed_state_size chain \<noteq> unreachable" "get_decompressed_state_size chain \<noteq> unreachable"
    "get_compressed_state_hash chain \<noteq> unreachable" "get_header_hash chain \<noteq> unreachable"
  using assms
  by (auto simp: import_target_def get_state_url_def get_header_url_def get_compressed_state_size_def
      get_decompressed_state_size_def get_compressed_state_hash_def get_header_hash_def by_chain_def
      unreachable_def split: if_splits)

section \<open>The command \<open>import-era\<close>\<close>

definition MAINNET_ERA_IMPORT_HEIGHT :: u64 where
  "MAINNET_ERA_IMPORT_HEIGHT = 25349537"

text \<open>The stream of the files starts at the block after the highest header; the path and the address the
  command line may give are not looked at.\<close>

definition import_era_command ::
  "('h, 'b, 'r) era_api \<Rightarrow> ('t, 'h, 'b, 'r) era_decode \<Rightarrow> (u64 \<Rightarrow> (string + (string + (string + 't) list)) list)
     \<Rightarrow> string + unit \<Rightarrow> string + unit \<Rightarrow> u64 \<Rightarrow> u64 option \<Rightarrow> ('h, 'b, 'r) era_store
     \<Rightarrow> (string fault + unit) \<times> ('h, 'b, 'r) era_store" where
  "import_era_command ea d stream env_init create_folder cid highest_header st =
     state_then (pure_step (map_err Err env_init) st) (\<lambda>_ st.
     let next_block = (case highest_header of None \<Rightarrow> 0 | Some h \<Rightarrow> h) + 1 in
     if cid = 100 then
       state_then (pure_step (map_err Err create_folder) st) (\<lambda>_ st.
       state_then (import_era ea d (stream next_block) highest_header (Some MAINNET_ERA_IMPORT_HEIGHT) st)
         (\<lambda>_ st. (Inr (), st)))
     else (Inl (Panic ''Era import not supported for chain id''), st))"

lemma import_era_command_Inr:
  assumes "import_era_command ea d stream env_init create_folder cid highest_header st = (Inr (), st')"
  shows "cid = 100 \<and> (\<exists>height files. import_era ea d files highest_header (Some MAINNET_ERA_IMPORT_HEIGHT) st
    = (Inr height, st'))"
  using assms by (auto simp: import_era_command_def Let_def result_simps split: if_splits)

end
