(* ===== verification/SpecInfo.thy ===== *)
theory SpecInfo
  imports ChainSpec
begin

text \<open>
  The rest of \<open>src/spec/gnosis_spec.rs\<close>: the boot nodes of the two networks, the chains the command line
  knows by name, the fork hashes the node logs when it starts, and the
  latest fork identifier.
\<close>

section \<open>Boot nodes\<close>

definition GNOSIS_NODES :: "string list" where
  "GNOSIS_NODES = [
     ''enode://6765fff89db92aa8d923e28c438af626c8ae95a43093cdccbd6f550a7b6ce6ab5d1a3dc60dd79af3e6d2c2e6731bae629f0e54446a0d9da408c4eca7ebcd8485@3.75.159.31:30303'',
     ''enode://9a7c98e8ee8cdd3199db68092b48868847d4743a471b26afc2ff878bafaa829ed43ee405f9aff58ae13fce53b898f7c2e3c30cb80af8eb111682c3c13f686dbb@18.198.130.54:30303'',
     ''enode://2c4307831914c237801993eac4f9596d8b2f78e1e76830419b64cb23f0933e52cb1e2bb3009cb4af76454bb5bc296135b36869fd6c13e2c2e536a0780e60fe82@3.64.242.196:30303'',
     ''enode://074f68e1a7df5b0859314ff721d55b59d9690e93249c941660609a29b302f02864df4f93ee48884f7ede57dc7f7646379d017a43c9745e34baff049749896b50@3.126.169.151:30303'',
     ''enode://d239697375d7586c7ea1de790401c310b0b1d389326849fa3b7c7005833c7a6b9020e49dfb3b61abfa39135237ffc4ff219cb84ca7653069e8548497527aa432@107.22.4.120:30303'',
     ''enode://d5852bf415d89b756faa809f4ff3f8beb661dc7d60cfb4a5542f9a5fcdf41e1ed0708a210db64b8c7ca32426e04ef0a50da58974124fdf562a8510314d11e28c@3.26.206.142:30303'',
     ''enode://01d372392bb22dd8a91f8b10b6bbb8d80d2dbe98d695801e0df9e4bd4825781df84bba88361f24d1b6580a61313f64e6cec82e8d842ad5f1b3d7cf8d6d132da7@15.152.45.82:30303'',
     ''enode://aee88e803b8e54925081957965b2527961cd90f4d6d14664884580b429da44729678a1258a8b49a42d1582c9c7c5ded05733622f7ab442ad9c6f655545a5ecdd@54.207.220.169:30303'',
     ''enode://fb14d72321ee823fcf21e163091849ee42e0f6ac0cddc737d79e324b0a734c4fc51823ef0a96b749c954483c25e8d2e534d1d5fc2619ea22d58671aff96f5188@65.109.103.148:30303'',
     ''enode://40f40acd78004650cce57aa302de9acbf54becf91b609da93596a18979bb203ba79fcbee5c2e637407b91be23ce72f0cc13dfa38d13e657005ce842eafb6b172@65.109.103.149:30303'',
     ''enode://9e50857aa48a7a31bc7b46957e8ced0ef69a7165d3199bea924cb6d02b81f1f35bd8e29d21a54f4a331316bf09bb92716772ea76d3ef75ce027699eccfa14fad@141.94.97.22:30303'',
     ''enode://96dc133ce3aeb5d9430f1dce1d77a36418c8789b443ae0445f06f73c6b363f5b35c019086700a098c3e6e54974d64f37e97d72a5c711d1eae34dc06e3e00eed5@141.94.97.74:30303'',
     ''enode://516cbfbe9bbf26b6395ed68b24e383401fc33e7fe96b9d235ebca86c9f812fde8d33a7dbebc0fb5595459d2c5cc6381595d96507af89e6b48b5bdd0ebf8af0c0@141.94.97.84:30303'',
     ''enode://fc86a93545c56322dd861180b76632b9baeb65af8f304269b489b4623ae060847569c3c3c10c4b39baf221a2cdefea66efabce061a542cdcda374cbba45aa3d4@51.68.39.206:30303'',
     ''enode://0e6dd3815a627893515465130c1e95aa73b18fe2f723b2467f3abf94df9be036f27595f301b5e78750ad128e59265f980c92033ae903330c0460c40ae088c04a@35.210.37.245:30303'',
     ''enode://b72d6233d50bef7b31c09f3ea39459257520178f985a872bbaa4e371ed619455b7671053ffe985af1b5fb3270606e2a49e4e67084debd75e6c9b93e227c5b01c@35.210.156.59:30303'']"

definition CHIADO_NODES :: "string list" where
  "CHIADO_NODES = [
     ''enode://3c9849b809dc34c914fcdf507ff59931942bdf5cd11510782a7d5695eacd622a281ae0b46aa53b8b893e1308f94867001d0fb0b52c854f96e7ecf43490f5b7bb@139.144.26.89:30303'',
     ''enode://1556022f95f2910ed795b80df68466284b5a7de112cb00d5f4843b486392e7e790c9d27cf358bf1e3ceff3089df36dcadae593eda9730565a7221e40a96b8cd4@139.144.26.115:30303'',
     ''enode://b39e929805542fb141ca6946931d06fdbbbd9ea8202eb1e72d7e7484877658b5baf0d8b0a6eb86a7f34b6f5c4b15b080c807c851692baef96c6a5aeca2cbf29a@139.144.26.101:30303'',
     ''enode://5f7074a38a84e7ed7cbb207b9b1a54b4c537c5d06ebc955c892528f95927eb63a3373e344302cb1bcc2242451899c276a21e360a4347674cb97e0b9c251c2704@139.144.26.85:30303'',
     ''enode://9ff64d021a83c72d68e7a3cefac5ea0661071cfdeed065782418ff2b0fccaace1072644118ed9fe6a304f451a2e75e2d4c69b502b3486ce16b4c50afc347cbff@170.187.154.239:30303'',
     ''enode://4504f03b4773251188e80d2c36186de4c2dd0e1e83aadaa1164cdae2ebc510d47a3dba6c80972ea18a71177ab3aa9883e081f5a350e8979cb7127e63bb6b81ea@139.144.173.54:30303'',
     ''enode://712144ac396fd2298b3e2559e2930d7f3a36fded3addd66955224958f1845634067717ab9522757ed2948f480fc52add5676487c8378e9011a7e2c0ac2f36cc3@3.71.132.231:30303'',
     ''enode://595160631241ea41b187b85716f9f9572a266daa940d74edbe3b83477264ce284d69208e61cf50e91641b1b4f9a03fa8e60eb73d435a84cf4616b1c969bc2512@3.69.35.13:30303'',
     ''enode://5abc2f73f81ea6b94f1e1b1e376731fc662ecd7863c4c7bc83ec307042542a64feab5af7985d52b3b1432acf3cb82460b327d0b6b70cb732afb1e5a16d6b1e58@35.206.174.92:30303'',
     ''enode://f7e62226a64a2ccc0ada8b032b33c4389464562f87135a3e0d5bdb814fab717d58db5d142c453b071d08b4e0ffd9c5aff4a6d4441c2041401634f10d7962f885@35.210.126.23:30303'']"

text \<open>\<open>parse_nodes\<close> reads each record and unwraps the result.\<close>

definition parse_nodes :: "(string \<Rightarrow> unit + 'n) \<Rightarrow> string list \<Rightarrow> 'e fault + 'n list" where
  "parse_nodes from_str nodes =
     collect_results (\<lambda>s. expect ''called `Result::unwrap()` on an `Err` value'' (from_str s)) nodes"

definition bootnodes :: "(string \<Rightarrow> unit + 'n) \<Rightarrow> GnosisChainSpec \<Rightarrow> 'e fault + 'n list option" where
  "bootnodes from_str spec =
     (case from_chain_id (spec_chain spec) of
        Some Gnosis \<Rightarrow> and_then (parse_nodes from_str GNOSIS_NODES) (\<lambda>ns. Inr (Some ns))
      | Some Chiado \<Rightarrow> and_then (parse_nodes from_str CHIADO_NODES) (\<lambda>ns. Inr (Some ns))
      | None \<Rightarrow> Inr None)"

text \<open>The format of a record with an IPv4 address: \<open>enode://\<close>, the 64 bytes of the public key in hex,
  \<open>@\<close>, four octets, \<open>:\<close> and a port.\<close>

definition hex_digit :: "char \<Rightarrow> bool" where
  "hex_digit c \<longleftrightarrow> c \<in> set ''0123456789abcdef''"

definition decimal_digit :: "char \<Rightarrow> int option" where
  "decimal_digit c = (if c \<in> set ''0123456789'' then Some (of_char c - 48) else None)"

text \<open>The two tests on the bits of a character, which is how they are evaluated.\<close>

lemma hex_digit_code [code]:
  "hex_digit (Char b0 b1 b2 b3 b4 b5 b6 b7) \<longleftrightarrow> \<not> b7 \<and> b5
     \<and> (if b6 then \<not> b4 \<and> \<not> b3 \<and> (b0 \<or> b1 \<or> b2) \<and> \<not> (b0 \<and> b1 \<and> b2)
        else b4 \<and> (\<not> b3 \<or> \<not> b2 \<and> \<not> b1))"
  by (cases b0; cases b1; cases b2; cases b3; cases b4; cases b5; cases b6; cases b7)
    (simp_all add: hex_digit_def)

lemma decimal_digit_code [code]:
  "decimal_digit (Char b0 b1 b2 b3 b4 b5 b6 b7) =
     (if \<not> b7 \<and> \<not> b6 \<and> b5 \<and> b4 \<and> (\<not> b3 \<or> \<not> b2 \<and> \<not> b1)
      then Some ((if b0 then 1 else 0) + (if b1 then 2 else 0) + (if b2 then 4 else 0) + (if b3 then 8 else 0))
      else None)"
  by (cases b0; cases b1; cases b2; cases b3; cases b4; cases b5; cases b6; cases b7)
    (simp_all add: decimal_digit_def)

fun decimal_value :: "int \<Rightarrow> string \<Rightarrow> int option" where
  "decimal_value acc [] = Some acc"
| "decimal_value acc (c # cs) =
     (case decimal_digit c of None \<Rightarrow> None | Some d \<Rightarrow> decimal_value (acc * 10 + d) cs)"

definition decimal_below :: "int \<Rightarrow> string \<Rightarrow> bool" where
  "decimal_below bound s \<longleftrightarrow> s \<noteq> [] \<and> (case decimal_value 0 s of None \<Rightarrow> False | Some v \<Rightarrow> v < bound)"

fun split_on :: "char \<Rightarrow> string \<Rightarrow> string list" where
  "split_on c [] = [[]]"
| "split_on c (x # xs) =
     (if x = c then [] # split_on c xs
      else (case split_on c xs of [] \<Rightarrow> [[x]] | y # ys \<Rightarrow> (x # y) # ys))"

definition enode_record :: "string \<Rightarrow> bool" where
  "enode_record s \<longleftrightarrow>
     take 8 s = ''enode://''
     \<and> (let rest = drop 8 s; key = take 128 rest; addr = drop 129 rest in
          length key = 128 \<and> list_all hex_digit key \<and> take 1 (drop 128 rest) = ''@''
          \<and> (case split_on (CHR '':'') addr of
               [ip, port] \<Rightarrow> decimal_below 65536 port
                 \<and> (let octets = split_on (CHR ''.'') ip in length octets = 4 \<and> list_all (decimal_below 256) octets)
             | _ \<Rightarrow> False))"

definition enode_key :: "string \<Rightarrow> string" where
  "enode_key s = take 128 (drop 8 s)"

lemma gnosis_nodes_records: "list_all enode_record GNOSIS_NODES"
  by code_simp

lemma chiado_nodes_records: "list_all enode_record CHIADO_NODES"
  by code_simp

lemma node_keys_distinct: "distinct (map enode_key (GNOSIS_NODES @ CHIADO_NODES))"
  by code_simp

lemma collect_results_total:
  assumes "\<forall>x \<in> set xs. \<exists>y. f x = Inr y"
  shows "collect_results f xs = Inr (map (\<lambda>x. projr (f x)) xs)"
  using assms by (induction xs) (auto simp: and_then_def)

lemma node_table_sizes: "length GNOSIS_NODES = 16" "length CHIADO_NODES = 10"
  by (simp_all add: GNOSIS_NODES_def CHIADO_NODES_def)

lemma parse_nodes_total:
  assumes "\<forall>s. enode_record s \<longrightarrow> (\<exists>n. from_str s = Inr n)" and "list_all enode_record nodes"
  shows "parse_nodes from_str nodes = Inr (map (\<lambda>s. projr (from_str s)) nodes)"
proof -
  have "\<exists>y. expect m (from_str s) = (Inr y :: 'b fault + 'a)" if "s \<in> set nodes" for s m
    using that assms by (auto simp: list_all_iff expect_def dest!: bspec)
  moreover have "map (\<lambda>s. projr (expect m (from_str s) :: 'b fault + 'a)) nodes
      = map (\<lambda>s. projr (from_str s)) nodes" for m
    using assms by (auto simp: list_all_iff expect_def split: sum.split)
  ultimately show ?thesis by (simp add: parse_nodes_def collect_results_total)
qed

text \<open>Reading the boot nodes never panics. The two tables are literals the node parses and
  unwraps when the network starts. With any parser that accepts records of the enode format every entry
  is parsed: the specification of Gnosis has sixteen boot nodes, that of Chiado ten, every other none;
  and no two entries of the tables name the same key.\<close>

theorem bootnodes_are_records:
  assumes "\<forall>s. enode_record s \<longrightarrow> (\<exists>n. from_str s = Inr n)"
  shows "(\<exists>ns. bootnodes from_str spec = Inr ns
      \<and> map_option length ns = (case from_chain_id (spec_chain spec) of
          Some Gnosis \<Rightarrow> Some 16 | Some Chiado \<Rightarrow> Some 10 | None \<Rightarrow> None))
    \<and> distinct (map enode_key (GNOSIS_NODES @ CHIADO_NODES))"
  using node_keys_distinct
  by (simp add: bootnodes_def parse_nodes_total [OF assms] gnosis_nodes_records chiado_nodes_records
      node_table_sizes split: option.split Chain.split)

text \<open>A parser that keeps the record as it is.\<close>

definition sample_from_str :: "string \<Rightarrow> unit + string" where
  "sample_from_str s = (if enode_record s then Inr s else Inl ())"

theorem bootnodes_are_records_witness:
  "\<exists>ns. bootnodes sample_from_str (sample_spec []) = (Inr (Some ns) :: unit fault + _) \<and> length ns = 16"
proof -
  have "\<forall>s. enode_record s \<longrightarrow> (\<exists>n. sample_from_str s = Inr n)" by (simp add: sample_from_str_def)
  from bootnodes_are_records [OF this, of "sample_spec []"] show ?thesis
    by (auto simp: sample_spec_def)
qed

section \<open>Chains by name\<close>

definition SUPPORTED_CHAINS :: "string list" where
  "SUPPORTED_CHAINS = [''dev'', ''chiado'', ''gnosis'']"

text \<open>The genesis of the library, the two embedded genesis files, and the library's reading of a file or
  of a JSON text.\<close>

record known_genesis =
  genesis_default :: Genesis
  CHIADO_GENESIS :: Genesis
  GNOSIS_GENESIS :: Genesis
  parse_genesis :: "string \<Rightarrow> string + Genesis"

definition chain_value_parser ::
  "hardforks_api \<Rightarrow> balancer_api \<Rightarrow> genesis_api \<Rightarrow> known_genesis \<Rightarrow> string \<Rightarrow> string fault + GnosisChainSpec" where
  "chain_value_parser api b ga kg s =
     (if s = ''dev'' then chain_spec_from_genesis api b ga (genesis_default kg)
      else if s = ''chiado'' then chain_spec_from_genesis api b ga (CHIADO_GENESIS kg)
      else if s = ''gnosis'' then chain_spec_from_genesis api b ga (GNOSIS_GENESIS kg)
      else and_then (map_err Err (parse_genesis kg s)) (chain_spec_from_genesis api b ga))"

section \<open>The log of fork hashes\<close>

datatype 'h fork_log = BlockFork Hardfork u64 'h | TimestampFork Hardfork u64 'h

fun log_block_forks ::
  "'h fork_hash_api \<Rightarrow> fork_table \<Rightarrow> 'h \<times> u64 \<Rightarrow> 'h fork_log list \<times> 'h \<times> u64" where
  "log_block_forks fh [] st = ([], st)"
| "log_block_forks fh ((f, cond) # fs) (forkhash, current_applied) =
     (case block_of cond of
        Some block \<Rightarrow>
          (let st = (if block \<noteq> current_applied then (fork_hash_add fh forkhash block, block)
                     else (forkhash, current_applied));
               (lines, st') = log_block_forks fh fs st
           in (BlockFork f block (fst st) # lines, st'))
      | None \<Rightarrow> log_block_forks fh fs (forkhash, current_applied))"

fun log_timestamp_forks ::
  "'h fork_hash_api \<Rightarrow> u64 \<Rightarrow> fork_table \<Rightarrow> 'h \<times> u64 \<Rightarrow> 'h fork_log list \<times> 'h \<times> u64" where
  "log_timestamp_forks fh genesis_time [] st = ([], st)"
| "log_timestamp_forks fh genesis_time ((f, cond) # fs) (forkhash, current_applied) =
     (case cond of
        Timestamp timestamp \<Rightarrow>
          (let st = (if timestamp > genesis_time \<and> timestamp \<noteq> current_applied
                     then (fork_hash_add fh forkhash timestamp, timestamp)
                     else (forkhash, current_applied));
               (lines, st') = log_timestamp_forks fh genesis_time fs st
           in (TimestampFork f timestamp (fst st) # lines, st'))
      | _ \<Rightarrow> log_timestamp_forks fh genesis_time fs (forkhash, current_applied))"

text \<open>The lines of the log and the final hash; the time of day is only printed.\<close>

definition log_all_fork_ids ::
  "'h fork_hash_api \<Rightarrow> (GnosisHeader \<Rightarrow> b256) \<Rightarrow> GnosisChainSpec \<Rightarrow> 'h fork_log list \<times> 'h" where
  "log_all_fork_ids fh header_hash spec =
     (let (block_lines, st) = log_block_forks fh (spec_hardforks spec)
            (fork_hash_from fh (genesis_hash header_hash spec), 0);
          (time_lines, st) = log_timestamp_forks fh (g_timestamp (spec_genesis spec)) (spec_hardforks spec) st
      in (block_lines @ time_lines, fst st))"

text \<open>Both loops log a list of points, each with the hash after it.\<close>

fun log_points :: "'h fork_hash_api \<Rightarrow> (Hardfork \<times> u64) list \<Rightarrow> 'h \<times> u64 \<Rightarrow> (Hardfork \<times> u64 \<times> 'h) list \<times> 'h \<times> u64" where
  "log_points fh [] st = ([], st)"
| "log_points fh ((f, p) # ps) st =
     (let st' = apply_point fh p st; (lines, st'') = log_points fh ps st' in ((f, p, fst st') # lines, st''))"

lemma log_points_step:
  "log_points fh ((f, p) # ps) st =
     ((f, p, fst (apply_point fh p st)) # fst (log_points fh ps (apply_point fh p st)),
      snd (log_points fh ps (apply_point fh p st)))"
  by (simp add: Let_def case_prod_beta)

declare log_points.simps(2) [simp del] log_points_step [simp]

lemma log_points_final: "snd (log_points fh ps st) = fold (apply_point fh) (map snd ps) st"
  by (induction fh ps st rule: log_points.induct) simp_all

lemma log_points_names: "map (\<lambda>(f, p, h). (f, p)) (fst (log_points fh ps st)) = ps"
  by (induction fh ps st rule: log_points.induct) simp_all

lemma apply_point_again: "apply_point fh p (apply_point fh p st) = apply_point fh p st"
  by (simp add: apply_point_def)

lemma fold_apply_same:
  "\<forall>x \<in> set xs. x = p \<Longrightarrow> fold (apply_point fh) xs (apply_point fh p st) = apply_point fh p st"
  by (induction xs arbitrary: st) (simp_all add: apply_point_again)

lemma log_points_line:
  assumes "sorted (map snd ps)" and "(f, p, h) \<in> set (fst (log_points fh ps st))"
  shows "h = fst (fold (apply_point fh) (takeWhile (\<lambda>x. x \<le> p) (map snd ps)) st)"
  using assms
proof (induction ps arbitrary: st)
  case (Cons e ps)
  obtain g q where e: "e = (g, q)" by (cases e)
  let ?st = "apply_point fh q st"
  from Cons.prems(2) consider "p = q" "h = fst ?st" | "(f, p, h) \<in> set (fst (log_points fh ps ?st))"
    by (auto simp: e)
  then show ?case
  proof cases
    case 1
    have "\<forall>x \<in> set (takeWhile (\<lambda>x. x \<le> q) (map snd ps)). x = q"
      using Cons.prems(1) by (fastforce simp: e dest: set_takeWhileD)
    with 1 show ?thesis by (simp add: e fold_apply_same)
  next
    case 2
    have "p \<in> snd ` set ps"
    proof -
      from 2 have "(f, p) \<in> set (map (\<lambda>(f, p, h). (f, p)) (fst (log_points fh ps ?st)))" by force
      then show ?thesis unfolding log_points_names by force
    qed
    with Cons.prems(1) have "q \<le> p" by (auto simp: e)
    with 2 Cons.IH [of ?st] Cons.prems(1) show ?thesis by (simp add: e)
  qed
qed simp

definition block_fork_points :: "fork_table \<Rightarrow> (Hardfork \<times> u64) list" where
  "block_fork_points table = List.map_filter (\<lambda>(f, cond). map_option (Pair f) (block_of cond)) table"

lemma log_block_forks_points:
  "log_block_forks fh table st =
     (map (\<lambda>(f, p, h). BlockFork f p h) (fst (log_points fh (block_fork_points table) st)),
      snd (log_points fh (block_fork_points table) st))"
  by (induction fh table st rule: log_block_forks.induct)
    (simp_all add: block_fork_points_def map_filter_simps Let_def case_prod_beta apply_point_def
      split: option.split)

lemma block_fork_points_snd: "map snd (block_fork_points (spec_hardforks spec)) = block_points spec"
proof -
  have "map snd (List.map_filter (\<lambda>(f, cond). map_option (Pair f) (block_of cond)) table)
      = List.map_filter (\<lambda>(_, cond). block_of cond) table" for table :: fork_table
    by (induction table) (auto simp: map_filter_simps split: option.split)
  then show ?thesis by (simp add: block_fork_points_def block_points_def)
qed

definition time_fork_points :: "u64 \<Rightarrow> fork_table \<Rightarrow> (Hardfork \<times> u64) list" where
  "time_fork_points t0 table = List.map_filter (\<lambda>(f, cond). case cond of
     Timestamp t \<Rightarrow> (if t > t0 then Some (f, t) else None) | _ \<Rightarrow> None) table"

text \<open>The lines of the forks after the genesis are those of the points; the others leave the hash alone.\<close>

definition line_after :: "u64 \<Rightarrow> 'h fork_log \<Rightarrow> (Hardfork \<times> u64 \<times> 'h) option" where
  "line_after t0 l = (case l of TimestampFork f t h \<Rightarrow> (if t > t0 then Some (f, t, h) else None) | _ \<Rightarrow> None)"

lemma log_timestamp_forks_points:
  "snd (log_timestamp_forks fh t0 table st) = snd (log_points fh (time_fork_points t0 table) st)
   \<and> List.map_filter (line_after t0) (fst (log_timestamp_forks fh t0 table st))
     = fst (log_points fh (time_fork_points t0 table) st)"
proof (induction table arbitrary: st)
  case (Cons e table)
  obtain f cond where e: "e = (f, cond)" by (cases e)
  obtain h c where st: "st = (h, c)" by (cases st)
  show ?case
    by (cases cond) (simp_all add: e st Cons.IH time_fork_points_def line_after_def map_filter_simps Let_def
        case_prod_beta apply_point_def Cons.IH [unfolded time_fork_points_def line_after_def])
qed (simp add: time_fork_points_def map_filter_simps)

lemma time_fork_points_snd:
  assumes "hardforks_ok api"
  shows "map snd (time_fork_points (g_timestamp (spec_genesis spec)) (spec_hardforks spec)) = time_points api spec"
proof -
  have "map snd (time_fork_points t0 table) = List.map_filter (\<lambda>(_, cond). case as_timestamp api cond of
       None \<Rightarrow> None | Some time \<Rightarrow> (if time > t0 then Some time else None)) table" for t0 table
    using assms by (induction table)
      (auto simp: time_fork_points_def map_filter_simps hardforks_ok_def split: ForkCondition.split)
  then show ?thesis by (simp add: time_points_def)
qed

section \<open>The log against the fork identifier\<close>

lemma fork_id_folds:
  "fork_id api fh header_hash spec head =
     (let bs = block_points spec; ts = time_points api spec;
          passed = takeWhile (\<lambda>b. b \<le> head_number head) bs;
          passed_t = takeWhile (\<lambda>t. t \<le> head_timestamp head) ts;
          st0 = (fork_hash_from fh (genesis_hash header_hash spec), 0)
      in if length passed < length bs
         then \<lparr>fid_hash = fst (fold (apply_point fh) passed st0), fid_next = bs ! length passed\<rparr>
         else \<lparr>fid_hash = fst (fold (apply_point fh) passed_t (fold (apply_point fh) bs st0)),
                fid_next = (if length passed_t < length ts then ts ! length passed_t else 0)\<rparr>)"
  by (simp add: fork_id_def fork_id_blocks_points fork_id_timestamps_points block_points_def Let_def)

lemma takeWhile_all_or_shorter: "\<not> length (takeWhile P xs) < length xs \<Longrightarrow> takeWhile P xs = xs"
  by (metis length_takeWhile_le less_linear linorder_not_less takeWhile_eq_take take_all)

lemma time_points_after_genesis:
  "t \<in> set (time_points api spec) \<Longrightarrow> t > g_timestamp (spec_genesis spec)"
  by (auto simp: time_points_def map_filter_def split: option.splits if_splits)

text \<open>The hash in a line is the fold of the points up to the fork of the line.\<close>

lemma no_block_fork_lines: "BlockFork f b h \<notin> set (fst (log_timestamp_forks fh t0 table st))"
  by (induction fh t0 table st rule: log_timestamp_forks.induct)
    (auto simp: Let_def case_prod_beta split: ForkCondition.split)

lemma block_fork_line:
  assumes "sorted (block_points spec)"
    and "BlockFork f b h \<in> set (fst (log_block_forks fh (spec_hardforks spec) st))"
  shows "h = fst (fold (apply_point fh) (takeWhile (\<lambda>x. x \<le> b) (block_points spec)) st)"
proof -
  from assms(2) have "(f, b, h) \<in> set (fst (log_points fh (block_fork_points (spec_hardforks spec)) st))"
    by (auto simp: log_block_forks_points)
  then show ?thesis
    using log_points_line [of "block_fork_points (spec_hardforks spec)" f b h fh st] assms(1)
    by (simp add: block_fork_points_snd)
qed

lemma timestamp_fork_line:
  assumes "hardforks_ok api" and "sorted (time_points api spec)" and "t > g_timestamp (spec_genesis spec)"
    and "TimestampFork f t h
      \<in> set (fst (log_timestamp_forks fh (g_timestamp (spec_genesis spec)) (spec_hardforks spec) st))"
  shows "h = fst (fold (apply_point fh) (takeWhile (\<lambda>x. x \<le> t) (time_points api spec)) st)"
proof -
  let ?t0 = "g_timestamp (spec_genesis spec)"
  from assms(3,4) have "(f, t, h) \<in> set (List.map_filter (line_after ?t0)
      (fst (log_timestamp_forks fh ?t0 (spec_hardforks spec) st)))"
    by (force simp: map_filter_def line_after_def)
  then show ?thesis
    using log_points_line [of "time_fork_points ?t0 (spec_hardforks spec)" f t h fh st] assms(2)
    by (simp add: log_timestamp_forks_points time_fork_points_snd [OF assms(1)])
qed

text \<open>Property C26: the fork hashes in the log are those the node announces. When the points of the table
  are in order, the hash logged with a block fork is the hash of the fork identifier of a head at that
  block; the hash logged with a timestamp fork after the genesis is that of a head past every block fork
  at that time; and the final hash is that of every head past all forks, which has no next fork.\<close>

theorem fork_log_is_fork_id:
  assumes "hardforks_ok api" and "sorted (block_points spec)" and "sorted (time_points api spec)"
    and "\<forall>b \<in> set (block_points spec). b \<le> n"
    and "log_all_fork_ids fh header_hash spec = (lines, final)"
  shows "(\<forall>f b h. BlockFork f b h \<in> set lines \<longrightarrow>
        fid_hash (fork_id api fh header_hash spec
          \<lparr>head_number = b, head_timestamp = g_timestamp (spec_genesis spec)\<rparr>) = h)
    \<and> (\<forall>f t h. TimestampFork f t h \<in> set lines \<longrightarrow> t > g_timestamp (spec_genesis spec) \<longrightarrow>
        fid_hash (fork_id api fh header_hash spec \<lparr>head_number = n, head_timestamp = t\<rparr>) = h)
    \<and> (\<forall>t. (\<forall>s \<in> set (time_points api spec). s \<le> t) \<longrightarrow>
        fork_id api fh header_hash spec \<lparr>head_number = n, head_timestamp = t\<rparr>
          = \<lparr>fid_hash = final, fid_next = 0\<rparr>)"
proof -
  define st0 where "st0 = (fork_hash_from fh (genesis_hash header_hash spec), 0 :: u64)"
  define st1 where "st1 = fold (apply_point fh) (block_points spec) st0"
  let ?t0 = "g_timestamp (spec_genesis spec)"
  note folds = fork_id_folds [of api fh header_hash spec, folded st0_def] and tw = takeWhile_all_or_shorter
  have blocks: "snd (log_block_forks fh (spec_hardforks spec) st0) = st1"
    by (simp add: log_block_forks_points log_points_final block_fork_points_snd st1_def)
  have all: "takeWhile (\<lambda>b. b \<le> n) (block_points spec) = block_points spec"
    using assms(4) by (simp add: takeWhile_eq_all_conv)
  from assms(5) have lines: "lines = fst (log_block_forks fh (spec_hardforks spec) st0)
        @ fst (log_timestamp_forks fh ?t0 (spec_hardforks spec) st1)"
    and final: "final = fst (snd (log_timestamp_forks fh ?t0 (spec_hardforks spec) st1))"
    by (auto simp: log_all_fork_ids_def Let_def case_prod_beta st0_def [symmetric] blocks)
  have block_line: "h = fst (fold (apply_point fh) (takeWhile (\<lambda>x. x \<le> b) (block_points spec)) st0)"
    if "BlockFork f b h \<in> set lines" for f b h
  proof (rule block_fork_line [OF assms(2)])
    show "BlockFork f b h \<in> set (fst (log_block_forks fh (spec_hardforks spec) st0))"
      using that by (simp add: lines no_block_fork_lines)
  qed
  have time_line: "h = fst (fold (apply_point fh) (takeWhile (\<lambda>x. x \<le> t) (time_points api spec)) st1)"
    if "TimestampFork f t h \<in> set lines" and "t > ?t0" for f t h
  proof (rule timestamp_fork_line [OF assms(1,3) that(2)])
    show "TimestampFork f t h \<in> set (fst (log_timestamp_forks fh ?t0 (spec_hardforks spec) st1))"
      using that(1) by (auto simp: lines log_block_forks_points)
  qed
  have at_genesis: "takeWhile (\<lambda>t. t \<le> ?t0) (time_points api spec) = []"
    using time_points_after_genesis [of _ api spec]
    by (cases "time_points api spec") (auto simp: not_le)
  have final_fold: "final = fst (fold (apply_point fh) (time_points api spec) st1)"
    by (simp add: final log_timestamp_forks_points log_points_final time_fork_points_snd [OF assms(1)])
  have block_id: "fid_hash (fork_id api fh header_hash spec \<lparr>head_number = b, head_timestamp = ?t0\<rparr>)
      = fst (fold (apply_point fh) (takeWhile (\<lambda>x. x \<le> b) (block_points spec)) st0)" for b
    by (simp add: folds Let_def at_genesis takeWhile_all_or_shorter)
  have time_id: "fid_hash (fork_id api fh header_hash spec \<lparr>head_number = n, head_timestamp = t\<rparr>)
      = fst (fold (apply_point fh) (takeWhile (\<lambda>x. x \<le> t) (time_points api spec)) st1)" for t
    by (simp add: folds Let_def all st1_def)
  have final_id: "fork_id api fh header_hash spec \<lparr>head_number = n, head_timestamp = t\<rparr>
      = \<lparr>fid_hash = final, fid_next = 0\<rparr>" if "\<forall>s \<in> set (time_points api spec). s \<le> t" for t
  proof -
    from that have past: "takeWhile (\<lambda>s. s \<le> t) (time_points api spec) = time_points api spec"
      by (simp add: takeWhile_eq_all_conv)
    show ?thesis by (simp add: folds Let_def all past st1_def final_fold)
  qed
  show ?thesis using block_line time_line final_id by (simp add: block_id time_id)
qed

text \<open>A table with two block forks and two timestamp forks, the first of them before the genesis, and the
  list of points as checksum.\<close>

definition sample_fork_table :: fork_table where
  "sample_fork_table = [(Homestead, Block 0), (Berlin, Block 5), (Shanghai, Timestamp 0), (Cancun, Timestamp 7)]"

definition sample_fork_hash :: "u64 list fork_hash_api" where
  "sample_fork_hash = \<lparr>fork_hash_from = (\<lambda>_. []), fork_hash_add = (\<lambda>h p. h @ [p])\<rparr>"

lemma sample_fork_log:
  "log_all_fork_ids sample_fork_hash (\<lambda>_. 0) (sample_spec sample_fork_table) =
     ([BlockFork Homestead 0 [], BlockFork Berlin 5 [5], TimestampFork Shanghai 0 [5],
       TimestampFork Cancun 7 [5, 7]], [5, 7])"
  by (simp add: log_all_fork_ids_def Let_def sample_fork_table_def sample_fork_hash_def sample_spec_def
      sample_genesis_def)

theorem fork_log_is_fork_id_witness:
  "fid_hash (fork_id sample_hardforks_api sample_fork_hash (\<lambda>_. 0) (sample_spec sample_fork_table)
     \<lparr>head_number = 5, head_timestamp = 7\<rparr>) = [5, 7]"
proof -
  have points: "block_points (sample_spec sample_fork_table) = [0, 5]"
    "time_points sample_hardforks_api (sample_spec sample_fork_table) = [7]"
    by (simp_all add: block_points_def time_points_def sample_fork_table_def map_filter_simps
        sample_hardforks_api_def sample_spec_def sample_genesis_def)
  have "g_timestamp (spec_genesis (sample_spec sample_fork_table)) < 7"
    by (simp add: sample_spec_def sample_genesis_def)
  with fork_log_is_fork_id [OF sample_hardforks_ok _ _ _ sample_fork_log, of 5] show ?thesis
    by (simp add: points)
qed

section \<open>The latest fork identifier\<close>

text \<open>It is asked of the inner specification, which holds the fork table and the genesis, but the genesis header
  in the format of Ethereum. The library's answer is a parameter.\<close>

definition latest_fork_id :: "(EthHeader \<Rightarrow> fork_table \<Rightarrow> Genesis \<Rightarrow> 'h ForkId) \<Rightarrow> GnosisChainSpec \<Rightarrow> 'h ForkId" where
  "latest_fork_id inner_latest spec =
     inner_latest (spec_inner_genesis_header spec) (spec_hardforks spec) (spec_genesis spec)"

text \<open>As documented, it is the identifier of the chain with every fork of the table passed; the chain is that
  of the header the inner specification holds.\<close>

definition inner_latest_ok ::
  "hardforks_api \<Rightarrow> 'h fork_hash_api \<Rightarrow> (EthHeader \<Rightarrow> b256) \<Rightarrow> (EthHeader \<Rightarrow> fork_table \<Rightarrow> Genesis \<Rightarrow> 'h ForkId) \<Rightarrow> bool" where
  "inner_latest_ok api fh inner_hash inner_latest \<longleftrightarrow>
     (\<forall>spec. inner_latest (spec_inner_genesis_header spec) (spec_hardforks spec) (spec_genesis spec)
        = \<lparr>fid_hash = checksum fh (fork_hash_from fh (inner_hash (spec_inner_genesis_header spec)))
             (block_points spec @ time_points api spec), fid_next = 0\<rparr>)"

lemma foldl_injective:
  "(\<And>x. inj (\<lambda>h. f h x)) \<Longrightarrow> foldl f h xs = foldl f h' xs \<longleftrightarrow> h = h'"
  by (induction xs arbitrary: h h') (auto dest: injD)

text \<open>The checksum of a longer input is injective in that of the shorter one, as CRC-32 is. So the latest
  identifier is that of a head past all forks exactly when the two genesis headers have the same checksum;
  for a chain that starts with AuRa they are different headers.\<close>

lemma latest_fork_id_agrees_iff:
  assumes "inner_latest_ok api fh inner_hash inner_latest" and "\<And>x. inj (\<lambda>h. fork_hash_add fh h x)"
    and "\<forall>b \<in> set (block_points spec). b \<le> n" and "\<forall>s \<in> set (time_points api spec). s \<le> t"
  shows "latest_fork_id inner_latest spec = fork_id api fh header_hash spec \<lparr>head_number = n, head_timestamp = t\<rparr>
    \<longleftrightarrow> fork_hash_from fh (inner_hash (spec_inner_genesis_header spec)) = fork_hash_from fh (genesis_hash header_hash spec)"
proof -
  have past: "takeWhile (\<lambda>b. b \<le> n) (block_points spec) = block_points spec"
    "takeWhile (\<lambda>s. s \<le> t) (time_points api spec) = time_points api spec"
    using assms(3,4) by (simp_all add: takeWhile_eq_all_conv)
  have "fork_id api fh header_hash spec \<lparr>head_number = n, head_timestamp = t\<rparr>
      = \<lparr>fid_hash = checksum fh (fork_hash_from fh (genesis_hash header_hash spec))
           (block_points spec @ time_points api spec), fid_next = 0\<rparr>"
    by (simp add: fork_id_folds Let_def past checksum_def fold_apply_point [symmetric] fold_append)
  with assms(1) show ?thesis
    by (simp add: latest_fork_id_def inner_latest_ok_def checksum_def foldl_injective [OF assms(2)])
qed

lemma aura_genesis_is_not_inner:
  assumes "chain_spec_from_genesis api b ga g = (Inr spec :: 'e fault + GnosisChainSpec)"
    and "terminal_total_difficulty (g_config g) = Some ttd" and "g_difficulty g < ttd"
    and "h_aura_seal (gnosis_header_from ga (spec_inner_genesis_header spec)) = None"
  shows "spec_genesis_header spec \<noteq> gnosis_header_from ga (spec_inner_genesis_header spec)"
proof -
  have "\<not> ttd \<le> g_difficulty g" using assms(3) by simp
  with assms(1,2) have "h_aura_seal (spec_genesis_header spec) = Some (replicate 65 0)"
    by (auto simp: chain_spec_from_genesis_def Let_def and_then_def split: sum.splits)
  with assms(4) show ?thesis by auto
qed

end
