(* ===== verification/NodeBuild.thy ===== *)
theory NodeBuild
  imports BuiltPayload Node Recovery SpecInfo Consensus
begin

text \<open>
  How a node is put together: the executor factory of \<open>src/block.rs\<close>, the providers behind the two lookup
  traits (\<open>src/evm_config.rs\<close>, \<open>src/aura/recovery.rs\<close>), and what the component builders make of the
  command line and the chain: the payload builder (\<open>src/payload_builder.rs\<close>, \<open>src/payload.rs\<close>), the
  transaction pool (\<open>src/pool.rs\<close>), the network (\<open>src/network.rs\<close>), the engine's types and attributes
  (\<open>src/engine.rs\<close>), the consensus (\<open>src/lib.rs\<close>) and the launch (\<open>src/main.rs\<close>). The libraries that build
  the parts are parameters.
\<close>

section \<open>The executor factory\<close>

record executor_factory =
  ef_spec :: GnosisChainSpec
  ef_evm_factory :: evm_factory
  ef_block_rewards_address :: address

definition executor_factory_new ::
  "GnosisChainSpec \<Rightarrow> evm_factory \<Rightarrow> address \<Rightarrow> executor_factory" where
  "executor_factory_new spec factory block_rewards_address =
     \<lparr>ef_spec = spec, ef_evm_factory = factory, ef_block_rewards_address = block_rewards_address\<rparr>"

text \<open>The context carries the shared cell; here it is the argument \<open>rf\<close>.\<close>

definition create_executor ::
  "executor_factory \<Rightarrow> ('db, 'insp, 'pre) evm \<Rightarrow> GnosisBlockExecutionCtx \<Rightarrow> RollingFinality mutex
     \<Rightarrow> ('db, 'insp, 'pre, 'receipt) executor" where
  "create_executor f evm ctx rf = executor_new evm ctx rf (ef_spec f) (ef_block_rewards_address f)"

section \<open>Lookups\<close>

text \<open>\<open>.ok().flatten()\<close>: an error of the provider is an absent value.\<close>

definition ok_flatten :: "'e + 'a option \<Rightarrow> 'a option" where
  "ok_flatten r = (case r of Inl _ \<Rightarrow> None | Inr v \<Rightarrow> v)"

definition provider_header_lookup ::
  "(b256 \<Rightarrow> string + GnosisHeader option) \<Rightarrow> b256 \<Rightarrow> GnosisHeader option" where
  "provider_header_lookup header h = ok_flatten (header h)"

definition provider_chain_scanner ::
  "(u64 \<Rightarrow> string + GnosisHeader option) \<Rightarrow> (u64 \<Rightarrow> string + 'receipt list option)
     \<Rightarrow> 'receipt chain_scanner" where
  "provider_chain_scanner header receipts_by_block =
     \<lparr>header_by_number = (\<lambda>n. ok_flatten (header n)),
      receipts_by_block_number = (\<lambda>n. ok_flatten (receipts_by_block n))\<rparr>"

section \<open>The payload builder\<close>

record ('client, 'pool) payload_builder =
  pb_client :: 'client
  pb_pool :: 'pool
  pb_evm_config :: GnosisEvmConfig
  pb_builder_config :: builder_config

definition payload_builder_new ::
  "'client \<Rightarrow> 'pool \<Rightarrow> GnosisEvmConfig \<Rightarrow> builder_config \<Rightarrow> ('client, 'pool) payload_builder" where
  "payload_builder_new client pool evm_config builder_config =
     \<lparr>pb_client = client, pb_pool = pool, pb_evm_config = evm_config, pb_builder_config = builder_config\<rparr>"

text \<open>The library's builder configuration with a desired gas limit, and the gas limit of a genesis file.
  The operator's settings are not an argument: the line that reads them is commented out.\<close>

definition build_payload_builder ::
  "(u64 \<Rightarrow> builder_config) \<Rightarrow> (Genesis \<Rightarrow> u64) \<Rightarrow> GnosisChainSpec \<Rightarrow> GnosisEvmConfig \<Rightarrow> 'client \<Rightarrow> 'pool
     \<Rightarrow> string + ('client, 'pool) payload_builder" where
  "build_payload_builder with_gas_limit genesis_gas_limit spec evm_config provider pool =
     (let gas_limit = genesis_gas_limit (spec_genesis spec)
      in Inr (payload_builder_new provider pool evm_config (with_gas_limit gas_limit)))"

section \<open>The transaction pool\<close>

text \<open>The settings of the command line and of the pool configuration the builder reads.\<close>

record 'local txpool_settings =
  tp_disable_blobs_support :: bool
  tp_blobpool_max_count :: nat
  tp_max_tx_input_bytes :: nat
  tp_max_tx_gas_limit :: "u64 option"
  tp_minimum_priority_fee :: "u128 option"
  tp_additional_validation_tasks :: nat
  tp_rpc_tx_fee_cap :: u128
  tp_blob_cache_size :: "u32 option"
  tp_local_transactions :: 'local

record ('local, 'kzg) validator_settings =
  tv_eip4844 :: bool
  tv_kzg :: 'kzg
  tv_max_tx_input_bytes :: nat
  tv_local_transactions :: 'local
  tv_tx_fee_cap :: u128
  tv_max_tx_gas_limit :: "u64 option"
  tv_minimum_priority_fee :: "u128 option"
  tv_additional_tasks :: nat

text \<open>The clock, the blob parameters, and the library's stores, settings and builders.\<close>

record ('local, 'kzg, 'store, 'validator, 'pool) pool_api =
  pp_now :: "string + u64"
  pp_target_blob_count_at :: "u64 \<Rightarrow> u64 option"
  pp_cancun_target :: u64
  pp_create_blob_store :: "u32 option \<Rightarrow> string + 'store"
  pp_kzg_settings :: "string + 'kzg"
  pp_build_validator :: "('local, 'kzg) validator_settings \<Rightarrow> 'store \<Rightarrow> 'validator"
  pp_validator_eip4844 :: "'validator \<Rightarrow> bool"
  pp_build_and_spawn :: "'validator \<Rightarrow> 'store \<Rightarrow> string + 'pool"

text \<open>The result: the pool, and whether the initialisation of the KZG settings was sent to the
  background.\<close>

definition build_pool ::
  "('local, 'kzg, 'store, 'validator, 'pool) pool_api \<Rightarrow> 'local txpool_settings \<Rightarrow> string + ('pool \<times> bool)" where
  "build_pool pp s =
     (let blobs_off = blobs_disabled (tp_disable_blobs_support s) (tp_blobpool_max_count s) in
      and_then (case tp_blob_cache_size s of
          Some n \<Rightarrow> Inr (Some n)
        | None \<Rightarrow> and_then (pp_now pp) (\<lambda>now.
            Inr (blob_cache_size None (pp_target_blob_count_at pp now) (pp_cancun_target pp)))) (\<lambda>cache_size.
      and_then (pp_create_blob_store pp cache_size) (\<lambda>blob_store.
      and_then (pp_kzg_settings pp) (\<lambda>kzg.
      let validator = pp_build_validator pp
            \<lparr>tv_eip4844 = \<not> blobs_off, tv_kzg = kzg, tv_max_tx_input_bytes = tp_max_tx_input_bytes s,
             tv_local_transactions = tp_local_transactions s, tv_tx_fee_cap = tp_rpc_tx_fee_cap s,
             tv_max_tx_gas_limit = tp_max_tx_gas_limit s,
             tv_minimum_priority_fee = tp_minimum_priority_fee s,
             tv_additional_tasks = tp_additional_validation_tasks s\<rparr> blob_store;
          spawned = pp_validator_eip4844 pp validator
      in and_then (pp_build_and_spawn pp validator blob_store) (\<lambda>pool. Inr (pool, spawned))))))"

section \<open>The network\<close>

record ('config, 'f, 'manager, 'handle) network_api =
  nw_network_config :: "string + 'config"
  nw_fork_filter_current :: "'config \<Rightarrow> 'f"
  nw_set_status :: "'f unified_status \<Rightarrow> 'config \<Rightarrow> 'config"
  nw_manager :: "'config \<Rightarrow> string + 'manager"
  nw_start :: "'manager \<Rightarrow> 'handle"

definition build_network ::
  "('config, 'f, 'manager, 'handle) network_api \<Rightarrow> (GnosisHeader \<Rightarrow> b256) \<Rightarrow> GnosisChainSpec \<Rightarrow> u256 option
     \<Rightarrow> head_info \<Rightarrow> string + 'handle" where
  "build_network nw hash_of spec final_paris head =
     and_then (nw_network_config nw) (\<lambda>config.
     let config = nw_set_status nw (network_status hash_of spec final_paris head
           (nw_fork_filter_current nw config)) config
     in and_then (nw_manager nw config) (\<lambda>network. Inr (nw_start nw network)))"

section \<open>The engine and the consensus\<close>

text \<open>The library reads a payload and its sidecar off a block with its hash.\<close>

definition block_to_payload ::
  "(b256 \<Rightarrow> 'tx gnosis_block \<Rightarrow> 'payload \<times> 'sidecar) \<Rightarrow> 'tx gnosis_block \<times> b256 \<Rightarrow> 'payload \<times> 'sidecar" where
  "block_to_payload from_block_unchecked block = from_block_unchecked (snd block) (fst block)"

definition ensure_well_formed_attributes ::
  "(GnosisChainSpec \<Rightarrow> 'v \<Rightarrow> 'payload + 'attrs \<Rightarrow> 'e + unit) \<Rightarrow> GnosisChainSpec \<Rightarrow> 'v \<Rightarrow> 'attrs \<Rightarrow> 'e + unit" where
  "ensure_well_formed_attributes validate_fields spec version attributes =
     validate_fields spec version (Inr attributes)"

definition build_consensus :: "GnosisChainSpec \<Rightarrow> string + GnosisConsensus" where
  "build_consensus spec = Inr (gnosis_consensus_new spec)"

section \<open>The launch\<close>

text \<open>Merging the validation API into the RPC modules, the launch itself and the end of the node may fail;
  the fork hashes are logged between the two.\<close>

definition launch_node ::
  "(string + unit) \<Rightarrow> (string + GnosisChainSpec) \<Rightarrow> (string + unit) \<Rightarrow> 'h fork_hash_api
     \<Rightarrow> (GnosisHeader \<Rightarrow> b256) \<Rightarrow> (string + unit) \<times> ('h fork_log list \<times> 'h) option" where
  "launch_node merge_modules launch node_exit fh hash_of =
     (case and_then merge_modules (\<lambda>_. launch) of
        Inl e \<Rightarrow> (Inl e, None)
      | Inr spec \<Rightarrow> (node_exit, Some (log_all_fork_ids fh hash_of spec)))"

section \<open>The gas limit of the blocks a node builds\<close>

text \<open>\<open>EthereumBuilderConfig::gas_limit\<close>: the desired limit, as far as one block may move from its parent's
  limit, which is the 1024th part less one.\<close>

definition gas_limit_step :: "nat \<Rightarrow> nat \<Rightarrow> nat" where
  "gas_limit_step desired parent =
     (let delta = parent div 1024 - 1 in max (parent - delta) (min desired (parent + delta)))"

definition with_gas_limit_ok :: "(u64 \<Rightarrow> builder_config) \<Rightarrow> bool" where
  "with_gas_limit_ok with_gas_limit \<longleftrightarrow>
     (\<forall>desired parent. unat parent < 2 ^ 63 \<longrightarrow>
        unat (bc_gas_limit (with_gas_limit desired) parent) = gas_limit_step (unat desired) (unat parent))"

text \<open>The limits of a run of blocks built one upon another.\<close>

definition built_gas_limit :: "('client, 'pool) payload_builder \<Rightarrow> payload_attributes \<Rightarrow> GnosisHeader \<Rightarrow> u64" where
  "built_gas_limit pb attributes parent =
     na_gas_limit (next_block_attributes (pb_builder_config pb) parent attributes)"

fun built_limits :: "('client, 'pool) payload_builder \<Rightarrow> payload_attributes \<Rightarrow> GnosisHeader \<Rightarrow> nat \<Rightarrow> u64" where
  "built_limits pb attributes parent 0 = h_gas_limit parent"
| "built_limits pb attributes parent (Suc k) =
     built_gas_limit pb attributes (parent\<lparr>h_gas_limit := built_limits pb attributes parent k\<rparr>)"

lemma gas_limit_step_towards:
  assumes "2048 \<le> p" and "2048 \<le> d"
  shows "if p = d then gas_limit_step d p = d
    else if d < p then d \<le> gas_limit_step d p \<and> gas_limit_step d p < p
    else p < gas_limit_step d p \<and> gas_limit_step d p \<le> d"
proof -
  define delta where "delta = p div 1024 - 1"
  have "1 \<le> delta" using assms(1) div_le_mono [of 2048 p 1024] by (simp add: delta_def)
  moreover have "delta \<le> p" using div_le_dividend [of p 1024] unfolding delta_def by linarith
  ultimately show ?thesis
    unfolding gas_limit_step_def Let_def delta_def [symmetric] by (auto simp: max_def min_def)
qed

lemma gas_limit_step_distance:
  assumes "2048 \<le> p" and "2048 \<le> d" and "p \<noteq> d"
  shows "(if d < gas_limit_step d p then gas_limit_step d p - d else d - gas_limit_step d p)
      < (if d < p then p - d else d - p)"
  using gas_limit_step_towards [OF assms(1,2)] assms(3) by (auto split: if_splits)

lemma gas_limit_steps_reach:
  assumes "2048 \<le> p" and "2048 \<le> d"
  shows "\<exists>k. \<forall>j \<ge> k. (gas_limit_step d ^^ j) p = d"
  using assms(1)
proof (induction "if d < p then p - d else d - p" arbitrary: p rule: less_induct)
  case less
  have fixed: "(gas_limit_step d ^^ j) d = d" for j
    using gas_limit_step_towards [OF assms(2,2)] by (induction j) simp_all
  show ?case
  proof (cases "p = d")
    case False
    let ?q = "gas_limit_step d p"
    have "2048 \<le> ?q" using gas_limit_step_towards [OF less.prems assms(2)] less.prems assms(2)
      by (auto split: if_splits)
    from less.hyps [OF gas_limit_step_distance [OF less.prems assms(2) False] this]
    obtain k where k: "\<forall>j \<ge> k. (gas_limit_step d ^^ j) ?q = d" by blast
    have "(gas_limit_step d ^^ j) p = d" if "Suc k \<le> j" for j
    proof -
      from that obtain i where "j = Suc i" "k \<le> i" by (cases j) auto
      with k show ?thesis by (simp add: funpow_Suc_right del: funpow.simps)
    qed
    then show ?thesis by blast
  qed (use fixed in blast)
qed

lemma gas_limit_step_below:
  "p < 2 ^ 63 \<Longrightarrow> d < 2 ^ 63 \<Longrightarrow> gas_limit_step d p < 2 ^ 63"
  by (auto simp: gas_limit_step_def Let_def max_def min_def)

lemma built_limits_steps:
  assumes "with_gas_limit_ok with_gas_limit" and "pb_builder_config pb = with_gas_limit g"
    and "unat g < 2 ^ 63" and "unat (h_gas_limit parent) < 2 ^ 63"
  shows "unat (built_limits pb attributes parent k) = (gas_limit_step (unat g) ^^ k) (unat (h_gas_limit parent))
    \<and> unat (built_limits pb attributes parent k) < 2 ^ 63"
proof (induction k)
  case (Suc k)
  have "unat (built_limits pb attributes parent (Suc k))
      = gas_limit_step (unat g) (unat (built_limits pb attributes parent k))"
    using assms(1,2) Suc by (simp add: with_gas_limit_ok_def built_gas_limit_def next_block_attributes_def)
  with Suc gas_limit_step_below [of "unat (built_limits pb attributes parent k)" "unat g"] assms(3)
  show ?case by simp
qed (use assms(4) in simp)

text \<open>Property C14: the gas limit of the blocks a node builds goes to the limit of the genesis file. The
  builder takes its desired gas limit from the genesis file and not from the operator, so as long as the
  node builds the blocks the limit moves towards the limit of the genesis, reaches it after finitely
  many blocks and stays there; from a parent with a higher limit it goes down in every block.\<close>

theorem built_gas_limit_reaches_genesis:
  assumes "with_gas_limit_ok with_gas_limit"
    and "build_payload_builder with_gas_limit genesis_gas_limit spec evm_config client pool = Inr pb"
    and "2048 \<le> unat (genesis_gas_limit (spec_genesis spec))" and "unat (genesis_gas_limit (spec_genesis spec)) < 2 ^ 63"
    and "2048 \<le> unat (h_gas_limit parent)" and "unat (h_gas_limit parent) < 2 ^ 63"
  shows "(\<exists>k. \<forall>j \<ge> k. built_limits pb attributes parent j = genesis_gas_limit (spec_genesis spec))
    \<and> (genesis_gas_limit (spec_genesis spec) < h_gas_limit parent \<longrightarrow>
        built_gas_limit pb attributes parent < h_gas_limit parent)"
proof -
  let ?g = "genesis_gas_limit (spec_genesis spec)"
  have cfg: "pb_builder_config pb = with_gas_limit ?g"
    using assms(2) by (auto simp: build_payload_builder_def payload_builder_new_def)
  note steps = built_limits_steps [OF assms(1) cfg assms(4,6)]
  obtain k where k: "\<forall>j \<ge> k. (gas_limit_step (unat ?g) ^^ j) (unat (h_gas_limit parent)) = unat ?g"
    using gas_limit_steps_reach [OF assms(5,3)] by blast
  then have "\<forall>j \<ge> k. built_limits pb attributes parent j = ?g"
    using steps by (simp add: word_unat_eq_iff)
  moreover have "unat (built_gas_limit pb attributes parent) = gas_limit_step (unat ?g) (unat (h_gas_limit parent))"
    using assms(1,6) cfg by (simp add: with_gas_limit_ok_def built_gas_limit_def next_block_attributes_def)
  then have "?g < h_gas_limit parent \<longrightarrow> built_gas_limit pb attributes parent < h_gas_limit parent"
    using gas_limit_step_towards [OF assms(5,3)] by (auto simp: word_less_nat_alt split: if_splits)
  ultimately show ?thesis by blast
qed

text \<open>The library's step on 64 bits, and a genesis limit of ten million as in both genesis files.\<close>

definition sample_with_gas_limit :: "u64 \<Rightarrow> builder_config" where
  "sample_with_gas_limit desired = \<lparr>bc_gas_limit = (\<lambda>parent.
     let delta = saturating_sub (parent div 1024) 1 in max (parent - delta) (min desired (parent + delta))),
     bc_extra_data = [], bc_max_blobs_per_block = None\<rparr>"

lemma sample_with_gas_limit_ok: "with_gas_limit_ok sample_with_gas_limit"
proof -
  have "unat (bc_gas_limit (sample_with_gas_limit desired) parent) = gas_limit_step (unat desired) (unat parent)"
    if small: "unat parent < 2 ^ 63" for desired parent :: u64
  proof -
    define delta where "delta = saturating_sub (parent div 1024) 1"
    have d: "unat delta = unat parent div 1024 - 1"
      by (simp add: delta_def unat_saturating_sub unat_div)
    have le: "unat delta \<le> unat parent" using div_le_dividend [of "unat parent" 1024] unfolding d by linarith
    have "unat (parent - delta) = unat parent - unat delta"
      using le by (simp add: unat_sub word_le_nat_alt)
    moreover have "unat (parent + delta) = unat parent + unat delta"
      using small le by (simp add: unat_word_ariths)
    moreover have "unat (max a b) = max (unat a) (unat b)" "unat (min a b) = min (unat a) (unat b)" for a b :: u64
      by (simp_all add: max_def min_def word_le_nat_alt)
    ultimately show ?thesis
      by (simp add: sample_with_gas_limit_def gas_limit_step_def Let_def delta_def [symmetric] d)
  qed
  then show ?thesis by (simp add: with_gas_limit_ok_def)
qed

definition tracker_free_config :: GnosisEvmConfig where
  "tracker_free_config = \<lparr>ec_fee_collector = 8, ec_block_rewards_address = 17, ec_chain_spec = sample_spec [],
     ec_extra_data = [], ec_rolling_finality = Healthy (rf_new [])\<rparr>"

theorem built_gas_limit_reaches_genesis_witness:
  "\<exists>pb. build_payload_builder sample_with_gas_limit (\<lambda>_. 10000000) (sample_spec []) tracker_free_config () ()
       = (Inr pb :: string + (unit, unit) payload_builder)
     \<and> built_gas_limit pb sample_payload_attributes (blank_header\<lparr>h_gas_limit := 17000000\<rparr>) < 17000000
     \<and> (\<exists>k. \<forall>j \<ge> k. built_limits pb sample_payload_attributes (blank_header\<lparr>h_gas_limit := 17000000\<rparr>) j = 10000000)"
proof -
  obtain pb where pb: "build_payload_builder sample_with_gas_limit (\<lambda>_. 10000000) (sample_spec [])
      tracker_free_config () () = (Inr pb :: string + (unit, unit) payload_builder)"
    by (simp add: build_payload_builder_def)
  from built_gas_limit_reaches_genesis [OF sample_with_gas_limit_ok pb,
      of "blank_header\<lparr>h_gas_limit := 17000000\<rparr>" sample_payload_attributes] pb
  show ?thesis by (simp add: word_less_nat_alt)
qed

end
