(* ===== verification/Cli.thy ===== *)
theory Cli
  imports Node SpecInfo Consensus EvmConfig
begin

text \<open>
  The command line of \<open>src/cli/gnosis_cli.rs\<close> and the program of \<open>src/main.rs\<close>: the commands and the
  chain each works on, the components the offline commands get, the runner each command is given to, the
  directory of the log files, and the order in which the program starts. Parsing the arguments, the
  tracing library, the runners and reth's commands are parameters.
\<close>

section \<open>Commands\<close>

text \<open>The arguments of the commands: for \<open>node\<close> its extension flag and chain, for \<open>import-era\<close> its chain;
  every other command is reth's, and gives its chain, if any, through \<open>chain_spec\<close>.\<close>

record node_args =
  import_post_merge_state :: bool
  node_chain :: GnosisChainSpec

datatype 'c Commands =
    Node node_args | Init 'c | InitState 'c | Import 'c | ImportEra GnosisChainSpec | ExportEra 'c
  | DumpGenesis 'c | Db 'c | Download 'c | SnapshotManifest 'c | Stage 'c | P2P 'c | Config 'c
  | Prune 'c | ReExecute 'c

fun command_chain_spec :: "('c \<Rightarrow> GnosisChainSpec option) \<Rightarrow> 'c Commands \<Rightarrow> GnosisChainSpec option" where
  "command_chain_spec chain_of (Node cmd) = Some (node_chain cmd)"
| "command_chain_spec chain_of (Init cmd) = chain_of cmd"
| "command_chain_spec chain_of (InitState cmd) = chain_of cmd"
| "command_chain_spec chain_of (Import cmd) = chain_of cmd"
| "command_chain_spec chain_of (ExportEra cmd) = chain_of cmd"
| "command_chain_spec chain_of (ImportEra chain) = Some chain"
| "command_chain_spec chain_of (DumpGenesis cmd) = chain_of cmd"
| "command_chain_spec chain_of (Db cmd) = chain_of cmd"
| "command_chain_spec chain_of (Download cmd) = chain_of cmd"
| "command_chain_spec chain_of (SnapshotManifest _) = None"
| "command_chain_spec chain_of (Stage cmd) = chain_of cmd"
| "command_chain_spec chain_of (P2P cmd) = chain_of cmd"
| "command_chain_spec chain_of (Config _) = None"
| "command_chain_spec chain_of (Prune cmd) = chain_of cmd"
| "command_chain_spec chain_of (ReExecute cmd) = chain_of cmd"

text \<open>The method of the runner a command is given to, and what the command gets besides its arguments.\<close>

datatype runner_method = CommandUntilExit | BlockingUntilCtrlC | BlockingCommandUntilExit | UntilCtrlC
  | NoRunner

datatype resource = Context | Launcher | Components | Runtime

fun dispatch :: "'c Commands \<Rightarrow> runner_method \<times> resource list" where
  "dispatch (Node _) = (CommandUntilExit, [Context, Launcher])"
| "dispatch (Init _) = (BlockingUntilCtrlC, [Runtime])"
| "dispatch (InitState _) = (BlockingUntilCtrlC, [Runtime])"
| "dispatch (DumpGenesis _) = (BlockingUntilCtrlC, [])"
| "dispatch (Db _) = (BlockingCommandUntilExit, [Context])"
| "dispatch (Stage _) = (CommandUntilExit, [Context, Components])"
| "dispatch (P2P _) = (UntilCtrlC, [])"
| "dispatch (Config _) = (UntilCtrlC, [])"
| "dispatch (Prune _) = (CommandUntilExit, [Context])"
| "dispatch (Import _) = (BlockingUntilCtrlC, [Components, Runtime])"
| "dispatch (ImportEra _) = (BlockingUntilCtrlC, [Runtime])"
| "dispatch (Download _) = (BlockingUntilCtrlC, [])"
| "dispatch (SnapshotManifest _) = (NoRunner, [])"
| "dispatch (ExportEra _) = (BlockingUntilCtrlC, [Runtime])"
| "dispatch (ReExecute _) = (UntilCtrlC, [Components, Runtime])"

section \<open>Running a command\<close>

text \<open>A path is the list of its segments.\<close>

record 'c gnosis_cli =
  cli_command :: "'c Commands"
  cli_chain :: GnosisChainSpec
  cli_instance :: u16
  cli_log_directory :: "string list"

definition set_chain :: "GnosisChainSpec \<Rightarrow> 'c gnosis_cli \<Rightarrow> 'c gnosis_cli" where
  "set_chain chain cli = cli\<lparr>cli_chain := chain\<rparr>"

text \<open>What the offline commands build for a specification: an EVM configuration that looks up headers
  with \<open>header_by_hash\<close>, and the consensus checks.\<close>

record cli_components =
  comp_evm_config :: GnosisEvmConfig
  comp_header_by_hash :: "b256 \<Rightarrow> GnosisHeader option"
  comp_consensus :: GnosisConsensus

text \<open>The libraries: the tracing of a log directory, the name of a chain, the default runtime and the
  commands themselves, on a world \<open>'w\<close>.\<close>

record ('c, 'w) cli_api =
  init_tracing :: "string list \<Rightarrow> 'w \<Rightarrow> (string + unit) \<times> 'w"
  chain_display :: "u64 \<Rightarrow> string"
  cmd_chain_spec :: "'c \<Rightarrow> GnosisChainSpec option"
  try_default_runtime :: "string + unit"
  run_job :: "runner_method \<times> resource list \<Rightarrow> 'c Commands
     \<Rightarrow> (GnosisChainSpec \<Rightarrow> string fault + cli_components) \<Rightarrow> 'w \<Rightarrow> (string fault + unit) \<times> 'w"

text \<open>The result, the directory announced in the log, and the world.\<close>

definition with_runner_and_components ::
  "('c, 'w) cli_api \<Rightarrow> (GnosisChainSpec \<Rightarrow> string fault + cli_components) \<Rightarrow> 'c gnosis_cli \<Rightarrow> 'w
     \<Rightarrow> (string fault + unit) \<times> string list option \<times> 'w" where
  "with_runner_and_components ca components cli w =
     (let cli = (case command_chain_spec (cmd_chain_spec ca) (cli_command cli) of
            Some spec \<Rightarrow>
              cli\<lparr>cli_log_directory := cli_log_directory cli @ [chain_display ca (spec_chain spec)]\<rparr>
          | None \<Rightarrow> cli)
      in case init_tracing ca (cli_log_directory cli) w of
           (Inl e, w) \<Rightarrow> (Inl (Err e), None, w)
         | (Inr _, w) \<Rightarrow>
             (case run_job ca (dispatch (cli_command cli)) (cli_command cli) components w of
                (r, w) \<Rightarrow> (r, Some (cli_log_directory cli), w)))"

definition offline_components ::
  "config_api \<Rightarrow> bytes \<Rightarrow> GnosisChainSpec \<Rightarrow> string fault + cli_components" where
  "offline_components c default_extra_data spec =
     and_then (evm_config_new c spec default_extra_data) (\<lambda>ec.
       Inr \<lparr>comp_evm_config = ec, comp_header_by_hash = noop_header_lookup,
            comp_consensus = gnosis_consensus_new spec\<rparr>)"

definition with_runner ::
  "('c, 'w) cli_api \<Rightarrow> config_api \<Rightarrow> bytes \<Rightarrow> 'c gnosis_cli \<Rightarrow> 'w
     \<Rightarrow> (string fault + unit) \<times> string list option \<times> 'w" where
  "with_runner ca c default_extra_data cli w =
     with_runner_and_components ca (offline_components c default_extra_data) cli w"

definition cli_run ::
  "('c, 'w) cli_api \<Rightarrow> config_api \<Rightarrow> bytes \<Rightarrow> 'c gnosis_cli \<Rightarrow> 'w
     \<Rightarrow> (string fault + unit) \<times> string list option \<times> 'w" where
  "cli_run ca c default_extra_data cli w =
     (case try_default_runtime ca of
        Inl e \<Rightarrow> (Inl (Err e), None, w)
      | Inr _ \<Rightarrow> with_runner ca c default_extra_data cli w)"

definition run_with_components ::
  "('c, 'w) cli_api \<Rightarrow> (GnosisChainSpec \<Rightarrow> string fault + cli_components) \<Rightarrow> 'c gnosis_cli \<Rightarrow> 'w
     \<Rightarrow> (string fault + unit) \<times> string list option \<times> 'w" where
  "run_with_components ca components cli w =
     (case try_default_runtime ca of
        Inl e \<Rightarrow> (Inl (Err e), None, w)
      | Inr _ \<Rightarrow> with_runner_and_components ca components cli w)"

section \<open>The program\<close>

definition run_reth ::
  "('c, 'w) cli_api \<Rightarrow> config_api \<Rightarrow> bytes \<Rightarrow> 'c gnosis_cli \<Rightarrow> 'w \<Rightarrow> outcome \<times> string list option \<times> 'w" where
  "run_reth ca c default_extra_data cli w =
     (case cli_run ca c default_extra_data cli w of
        (Inr _, announced, w) \<Rightarrow> (Returned, announced, w)
      | (Inl (Err _), announced, w) \<Rightarrow> (Exited 1, announced, w)
      | (Inl (Panic _), announced, w) \<Rightarrow> (Panicked, announced, w))"

definition start_command :: "'c Commands \<Rightarrow> (bool, 'c Commands) command" where
  "start_command cmd = (case cmd of
     Node args \<Rightarrow> NodeCommand (import_post_merge_state args) (spec_chain (node_chain args))
   | _ \<Rightarrow> OtherCommand cmd)"

text \<open>The result of the first tracing is kept in a variable and not looked at.\<close>

definition main_program ::
  "('c, 'w) cli_api \<Rightarrow> config_api \<Rightarrow> bytes \<Rightarrow> ('d, 'h) import_api \<Rightarrow> world
     \<Rightarrow> (string \<times> string option) option \<Rightarrow> 'c gnosis_cli \<Rightarrow> 'd datadir \<Rightarrow> 'w
     \<Rightarrow> outcome \<times> string list option \<times> 'd datadir \<times> 'w" where
  "main_program ca c default_extra_data api net subcommand cli dd w =
     (case reject_migrate_v2 subcommand of
        Some n \<Rightarrow> (Exited n, None, dd, w)
      | None \<Rightarrow>
          (let w = snd (init_tracing ca (cli_log_directory cli) w)
           in case before_run api net (start_command (cli_command cli)) dd of
                (Returned, _, dd) \<Rightarrow>
                  (case run_reth ca c default_extra_data cli w of (out, announced, w) \<Rightarrow> (out, announced, dd, w))
              | (out, _, dd) \<Rightarrow> (out, None, dd, w)))"

section \<open>The directory of the logs\<close>

text \<open>The tracing library: a process has one subscriber, the first that was installed; installing
  another has no effect. \<open>logs_to\<close> is the directory of the subscriber in place. A command does not
  replace it.\<close>

definition tracing_ok :: "('c, 'w) cli_api \<Rightarrow> ('w \<Rightarrow> string list option) \<Rightarrow> bool" where
  "tracing_ok ca logs_to \<longleftrightarrow>
     (\<forall>dir w. logs_to w = None \<longrightarrow> fst (init_tracing ca dir w) = Inr () \<longrightarrow>
        logs_to (snd (init_tracing ca dir w)) = Some dir)
     \<and> (\<forall>dir w d. logs_to w = Some d \<longrightarrow> logs_to (snd (init_tracing ca dir w)) = Some d)
     \<and> (\<forall>m cmd comps w. logs_to (snd (run_job ca m cmd comps w)) = logs_to w)"

lemma with_runner_logs:
  assumes "tracing_ok ca logs_to" and "logs_to w = Some d"
    and "with_runner_and_components ca comps cli w = (r, announced, w')"
  shows "logs_to w' = Some d"
    and "announced = Some dir \<Longrightarrow> command_chain_spec (cmd_chain_spec ca) (cli_command cli) = Some spec \<Longrightarrow>
      dir = cli_log_directory cli @ [chain_display ca (spec_chain spec)]"
proof -
  have init: "logs_to (snd (init_tracing ca dir w)) = Some d" for dir
    using assms(1,2) by (simp add: tracing_ok_def)
  have job: "logs_to (snd (run_job ca m cmd comps w1)) = logs_to w1" for m cmd comps w1
    using assms(1) by (cases m) (simp add: tracing_ok_def)
  define cli' where "cli' = (case command_chain_spec (cmd_chain_spec ca) (cli_command cli) of
      Some spec \<Rightarrow> cli\<lparr>cli_log_directory := cli_log_directory cli @ [chain_display ca (spec_chain spec)]\<rparr>
    | None \<Rightarrow> cli)"
  obtain q w1 where q: "init_tracing ca (cli_log_directory cli') w = (q, w1)" by fastforce
  obtain r2 w2 where r2: "run_job ca (dispatch (cli_command cli')) (cli_command cli') comps w1 = (r2, w2)"
    by fastforce
  have run: "(r, announced, w') = (case q of
      Inl e \<Rightarrow> (Inl (Err e), None, w1) | Inr _ \<Rightarrow> (r2, Some (cli_log_directory cli'), w2))"
    using assms(3) by (simp add: with_runner_and_components_def cli'_def [symmetric] q r2 split: sum.splits)
  have first: "logs_to w1 = Some d" using init [of "cli_log_directory cli'"] q by simp
  have "w2 = snd (run_job ca (dispatch (cli_command cli')) (cli_command cli') comps w1)" by (simp add: r2)
  then have "logs_to w2 = Some d" using first by (simp only: job)
  with run first show "logs_to w' = Some d" by (auto split: sum.splits)
  show "announced = Some dir \<Longrightarrow>
      command_chain_spec (cmd_chain_spec ca) (cli_command cli) = Some spec \<Longrightarrow>
      dir = cli_log_directory cli @ [chain_display ca (spec_chain spec)]"
    using run by (auto simp: cli'_def split: sum.splits)
qed

text \<open>The log files never go to the directory of the chain. The command adds the chain's name
  to the log directory before it sets up the tracing, and announces that directory; but the program has
  set up the tracing once before, with the directory as given, and the first one counts. So whenever the
  command is run for a chain, the log says it is in the chain's directory and is not.\<close>

theorem logs_miss_chain_directory:
  assumes "tracing_ok ca logs_to" and "logs_to w = None"
    and "fst (init_tracing ca (cli_log_directory cli) w) = Inr ()"
    and "command_chain_spec (cmd_chain_spec ca) (cli_command cli) = Some spec"
    and "main_program ca c default_extra_data api net subcommand cli dd w = (out, Some announced, dd', w')"
  shows "logs_to w' = Some (cli_log_directory cli)
    \<and> announced = cli_log_directory cli @ [chain_display ca (spec_chain spec)]"
proof -
  define w1 where "w1 = snd (init_tracing ca (cli_log_directory cli) w)"
  have first: "logs_to w1 = Some (cli_log_directory cli)"
    using assms(1-3) by (simp add: tracing_ok_def w1_def)
  from assms(5) obtain dd1 where reth: "run_reth ca c default_extra_data cli w1 = (out, Some announced, w')"
    by (auto simp: main_program_def w1_def Let_def split: option.splits prod.splits outcome.splits)
  then obtain r where "with_runner_and_components ca (offline_components c default_extra_data) cli w1
      = (r, Some announced, w')"
    by (auto simp: run_reth_def cli_run_def with_runner_def split: prod.splits sum.splits fault.splits)
  from with_runner_logs [OF assms(1) first this] assms(4) show ?thesis by simp
qed

text \<open>Tracing that remembers its first directory, and commands that do nothing.\<close>

definition sample_cli_api :: "(unit, string list option) cli_api" where
  "sample_cli_api = \<lparr>init_tracing = (\<lambda>dir w. (Inr (), case w of None \<Rightarrow> Some dir | Some d \<Rightarrow> Some d)),
     chain_display = (\<lambda>n. if n = 100 then ''gnosis'' else ''dev''), cmd_chain_spec = (\<lambda>_. None),
     try_default_runtime = Inr (), run_job = (\<lambda>_ _ _ w. (Inr (), w))\<rparr>"

definition sample_cli :: "unit gnosis_cli" where
  "sample_cli = \<lparr>cli_command = ImportEra (sample_spec []), cli_chain = sample_spec [], cli_instance = 1,
     cli_log_directory = [''logs'']\<rparr>"

lemma sample_main:
  "main_program sample_cli_api c [] api net None sample_cli dd None
     = (Returned, Some [''logs'', ''gnosis''], dd, Some [''logs''])"
  by (simp add: main_program_def sample_cli_api_def sample_cli_def reject_migrate_v2_def before_run_def
      start_command_def run_reth_def cli_run_def with_runner_def with_runner_and_components_def
      sample_spec_def)

lemma sample_tracing_ok: "tracing_ok sample_cli_api (\<lambda>w. w)"
  by (simp add: tracing_ok_def sample_cli_api_def)

theorem logs_miss_chain_directory_witness:
  "\<forall>c (api :: ('d, 'h) import_api) net dd.
     (case main_program sample_cli_api c [] api net None sample_cli dd None of
        (_, announced, _, w) \<Rightarrow> w = Some [''logs''] \<and> announced = Some [''logs'', ''gnosis''])"
proof (intro allI)
  fix c net dd and api :: "('d, 'h) import_api"
  have "fst (init_tracing sample_cli_api (cli_log_directory sample_cli) None) = Inr ()"
    "command_chain_spec (cmd_chain_spec sample_cli_api) (cli_command sample_cli) = Some (sample_spec [])"
    by (simp_all add: sample_cli_api_def sample_cli_def)
  from logs_miss_chain_directory [OF sample_tracing_ok refl this sample_main [of c api net dd]]
  show "case main_program sample_cli_api c [] api net None sample_cli dd None of
      (_, announced, _, w) \<Rightarrow> w = Some [''logs''] \<and> announced = Some [''logs'', ''gnosis'']"
    by (simp add: sample_main)
qed

section \<open>The default chain\<close>

text \<open>The default value of \<open>--chain\<close>.\<close>

definition default_chain :: string where
  "default_chain = hd SUPPORTED_CHAINS"

text \<open>The default chain cannot run. The command line defaults to the first supported chain,
  \<open>dev\<close>, whose specification is built from the library's default genesis. That genesis has no extra
  fields, so the specification is built without an AuRa section and without a Balancer fork, and then
  every construction of an EVM configuration from it panics for want of the fee collector.\<close>

theorem default_chain_has_no_evm_configuration:
  assumes "extra_fields (g_config (genesis_default kg)) = Map.empty"
  shows "\<exists>spec. chain_value_parser api b ga kg default_chain = Inr spec
    \<and> spec_aura_config spec = None \<and> balancer_hardfork_config spec = None
    \<and> offline_components c default_extra_data spec = Inl (Panic ''no eip1559collector field'')"
  using assms
  by (simp add: default_chain_def SUPPORTED_CHAINS_def chain_value_parser_def chain_spec_from_genesis_def
      parse_balancer_hardfork_config_def Let_def offline_components_def evm_config_new_def)

definition sample_known_genesis :: known_genesis where
  "sample_known_genesis = \<lparr>genesis_default = sample_genesis, CHIADO_GENESIS = sample_genesis,
     GNOSIS_GENESIS = sample_genesis, parse_genesis = (\<lambda>_. Inl ''no such file'')\<rparr>"

theorem default_chain_has_no_evm_configuration_witness:
  "\<exists>spec. chain_value_parser sample_hardforks_api sample_balancer_api sample_genesis_api sample_known_genesis
       ''dev'' = Inr spec
     \<and> offline_components sample_config_api [] spec = Inl (Panic ''no eip1559collector field'')"
proof -
  have "extra_fields (g_config (genesis_default sample_known_genesis)) = Map.empty"
    by (simp add: sample_known_genesis_def sample_genesis_def)
  from default_chain_has_no_evm_configuration [OF this, of sample_hardforks_api sample_balancer_api
      sample_genesis_api sample_config_api "[]"]
  show ?thesis by (auto simp: default_chain_def SUPPORTED_CHAINS_def)
qed

section \<open>Replaying the Balancer fork without headers\<close>

lemma collect_results_Inr:
  "collect_results f xs = Inr ys \<Longrightarrow> y \<in> set ys \<Longrightarrow> \<exists>x \<in> set xs. f x = Inr y"
  by (induction xs arbitrary: ys) (auto simp: and_then_Inr_iff)

text \<open>The expected hash of an entry is the hash of its code.\<close>

lemma balancer_config_hashes:
  assumes "chain_spec_from_genesis api b ga g = Inr spec" and "balancer_hardfork_config spec = Some cfg"
    and "(a, bc, expected) \<in> set (balancer_config cfg)"
  shows "expected = (case bc of Some c \<Rightarrow> code_hash_slow b c | None \<Rightarrow> keccak_empty b)"
proof -
  obtain tv cv where "parse_balancer_hardfork_config b tv cv = (Inr (Some cfg) :: 'a fault + _)"
    using assms(1,2) by (auto simp: chain_spec_from_genesis_def Let_def and_then_Inr_iff)
  then obtain m where "collect_results (balancer_entry b) m = (Inr (balancer_config cfg) :: 'a fault + _)"
    by (auto simp: parse_balancer_hardfork_config_def and_then_Inr_iff split: option.splits)
  from collect_results_Inr [OF this assms(3)] show ?thesis
    by (auto simp: balancer_entry_def and_then_Inr_iff split: if_splits)
qed

text \<open>Every listed account holds the expected code.\<close>

definition balancer_applied ::
  "'db db_api \<Rightarrow> ('db \<Rightarrow> address \<Rightarrow> account_info option) \<Rightarrow> BalancerHardforkConfig \<Rightarrow> 'db \<Rightarrow> bool" where
  "balancer_applied d view cfg db \<longleftrightarrow>
     list_all (\<lambda>(a, _, expected). code_hash (old_info d view db a) = expected) (balancer_config cfg)"

text \<open>Property C38: the offline commands may replay the Balancer fork at every block. They look up no
  header, so the parent of every block has the timestamp 0 and from the activation on the rewrite is
  tried in each block, not only in the first one. It is harmless because the expected hash of an entry is
  the hash of its code: the first rewrite leaves every listed account with the expected hash, and where
  they have it the whole step changes no account.\<close>

theorem offline_balancer_replay:
  assumes "hardforks_ok api" and "chain_spec_from_genesis api b ga g = Inr spec"
    and "balancer_hardfork_config spec = Some cfg" and "0 < activation_time cfg"
    and "db_ok (xe_db xe) view" and "code_hash_slow b = code_hash_of (xe_db xe)"
    and "distinct (map fst (balancer_config cfg))" and "codes_not_empty (xe_db xe) (balancer_config cfg)"
    and "xe_hardforks xe = api" and "ex_spec ex = spec"
    and "ex_ctx ex = fst (context_for_block api noop_header_lookup ec block)"
  shows "(activation_time cfg \<le> timestamp \<longrightarrow>
        balancer_activation xe timestamp ex = ex\<lparr>ex_evm := rewrite_bytecodes (xe_db xe) cfg (ex_evm ex)\<rparr>
        \<and> balancer_applied (xe_db xe) view cfg (evm_db (ex_evm (balancer_activation xe timestamp ex))))
    \<and> (balancer_applied (xe_db xe) view cfg (evm_db (ex_evm ex)) \<longrightarrow>
        view (evm_db (ex_evm (balancer_activation xe timestamp ex))) = view (evm_db (ex_evm ex)))"
proof -
  let ?d = "xe_db xe"
  have parent: "ctx_parent_timestamp (ex_ctx ex) = 0"
    using assms(11) by (simp add: context_for_block_def parent_timestamp_of_def noop_header_lookup_def
        Let_def split: prod.split)
  have active: "is_balancer_hardfork_active_at_timestamp api spec t \<longleftrightarrow> activation_time cfg \<le> t" for t
    using timestamp_forks_from_genesis [OF assms(1,2), of t] assms(3) by simp
  have step: "balancer_activation xe timestamp ex =
      (if activation_time cfg \<le> timestamp then ex\<lparr>ex_evm := rewrite_bytecodes ?d cfg (ex_evm ex)\<rparr> else ex)"
    using assms(3,4,9,10) by (simp add: balancer_activation_def parent active)
  note rewritten = balancer_rewrite_view [OF assms(5,7,8)]
  let ?evm = "ex_evm ex"
  have applied: "balancer_applied ?d view cfg (evm_db (rewrite_bytecodes ?d cfg ?evm))"
  proof -
    have "code_hash (old_info ?d view (evm_db (rewrite_bytecodes ?d cfg ?evm)) a) = expected"
      if e: "(a, bc, expected) \<in> set (balancer_config cfg)" for a bc expected
    proof -
      from e assms(8) obtain c where c: "bc = Some c"
        by (auto simp: codes_not_empty_def list_all_iff split: option.splits)
      with balancer_config_hashes [OF assms(2,3) e] assms(6) have "expected = code_hash_of ?d c" by simp
      moreover from e assms(7) have "map_of (balancer_config cfg) a = Some (bc, expected)" by simp
      ultimately show ?thesis
        by (simp add: old_info_def [of ?d view "evm_db (rewrite_bytecodes ?d cfg ?evm)"] rewritten
            rewritten_view_def c) (simp add: old_info_def)
    qed
    then show ?thesis by (auto simp: balancer_applied_def list_all_iff)
  qed
  have kept: "view (evm_db (rewrite_bytecodes ?d cfg ?evm)) = view (evm_db ?evm)"
    if "balancer_applied ?d view cfg (evm_db ?evm)"
    using that by (force simp: rewritten rewritten_view_def fun_eq_iff balancer_applied_def list_all_iff
        split: option.split dest: map_of_SomeD)
  show ?thesis using applied kept by (simp add: step)
qed

text \<open>A genesis file whose Balancer fork activates at time 5 and gives one account a code of two bytes.\<close>

definition replay_balancer_api :: balancer_api where
  "replay_balancer_api = \<lparr>json_u64 = (\<lambda>_. Inr 5), json_address_map = (\<lambda>_. Inr [(17, ''0102'')]),
     bytes_from_hex = (\<lambda>_. Inr [1, 2]), code_hash_slow = (\<lambda>c. of_nat (length c)), keccak_empty = 0\<rparr>"

definition replay_genesis :: Genesis where
  "replay_genesis = sample_genesis\<lparr>g_config := (g_config sample_genesis)\<lparr>extra_fields :=
     [''balancerHardforkTime'' \<mapsto> JNull, ''balancerHardforkBytecodes'' \<mapsto> JNull]\<rparr>\<rparr>"

definition replay_config :: BalancerHardforkConfig where
  "replay_config = \<lparr>activation_time = 5, balancer_config = [(17, Some [1, 2], 2)]\<rparr>"

lemma replay_spec_exists:
  "\<exists>spec. chain_spec_from_genesis sample_hardforks_api replay_balancer_api sample_genesis_api replay_genesis
      = (Inr spec :: unit fault + GnosisChainSpec)
    \<and> balancer_hardfork_config spec = Some replay_config"
  by (simp add: chain_spec_from_genesis_def parse_balancer_hardfork_config_def replay_balancer_api_def
      replay_genesis_def replay_config_def Let_def expect_def and_then_def balancer_entry_def)

definition replay_executor ::
  "GnosisChainSpec \<Rightarrow> (address \<rightharpoonup> account_info, unit, unit, log list) executor" where
  "replay_executor spec = (sample_executor (sample_aura_ctx None 0) [])\<lparr>ex_spec := spec,
     ex_ctx := fst (context_for_block sample_hardforks_api noop_header_lookup
       \<lparr>ec_fee_collector = 8, ec_block_rewards_address = 17, ec_chain_spec = spec, ec_extra_data = [],
        ec_rolling_finality = Healthy (rf_new [])\<rparr>
       \<lparr>bi_number = 30000000, bi_parent_hash = 3, bi_parent_beacon_block_root = None, bi_withdrawals = None\<rparr>)\<rparr>"

theorem offline_balancer_replay_witness:
  "\<exists>spec. chain_spec_from_genesis sample_hardforks_api replay_balancer_api sample_genesis_api replay_genesis
      = (Inr spec :: unit fault + GnosisChainSpec)
    \<and> balancer_applied sample_db_api (\<lambda>db. db) replay_config
        (evm_db (ex_evm (balancer_activation (sample_exec_env (CallOutput [])) 6 (replay_executor spec))))"
proof -
  obtain spec where spec: "chain_spec_from_genesis sample_hardforks_api replay_balancer_api sample_genesis_api
      replay_genesis = (Inr spec :: unit fault + GnosisChainSpec)"
    "balancer_hardfork_config spec = Some replay_config"
    using replay_spec_exists by blast
  let ?xe = "sample_exec_env (CallOutput [])"
  have env: "db_ok (xe_db ?xe) (\<lambda>db. db)" "code_hash_slow replay_balancer_api = code_hash_of (xe_db ?xe)"
    "codes_not_empty (xe_db ?xe) (balancer_config replay_config)" "xe_hardforks ?xe = sample_hardforks_api"
    using sample_db_ok
    by (simp_all add: sample_exec_env_def replay_balancer_api_def codes_not_empty_def sample_db_api_def
        replay_config_def)
  have cfg: "0 < activation_time replay_config" "distinct (map fst (balancer_config replay_config))"
    "activation_time replay_config \<le> 6"
    by (simp_all add: replay_config_def word_le_nat_alt word_less_nat_alt)
  have "ex_spec (replay_executor spec) = spec" by (simp add: replay_executor_def)
  from offline_balancer_replay [OF sample_hardforks_ok spec cfg(1) env(1,2) cfg(2) env(3,4) this] cfg(3) spec(1)
  show ?thesis by (fastforce simp: replay_executor_def sample_exec_env_def)
qed

end
