(* ===== verification/UnitTests.thy ===== *)
theory UnitTests
  imports Recovery Seal AddressArray
begin

text \<open>
  The unit tests of the repository, run on the model: every \<open>#[test]\<close> of \<open>src/aura/finality.rs\<close>,
  \<open>src/aura/validators.rs\<close>, \<open>src/aura/config.rs\<close>, \<open>src/aura/recovery.rs\<close>, \<open>src/evm_config.rs\<close> and
  \<open>src/block.rs\<close>, and the table of \<open>src/aura/seal.rs\<close> (its two golden vectors need the curve and the hash
  function), each with the inputs of the test and under its name. They are evaluated by the kernel,
  which checks that the definitions compute what the code was tested to compute.
\<close>

text \<open>The address whose twenty bytes are all the given one.\<close>

definition addr :: "u64 \<Rightarrow> address" where
  "addr b = ucast b * 0x0101010101010101010101010101010101010101"

section \<open>The rolling-finality tracker\<close>

definition sealed_tracker :: "address list \<Rightarrow> RollingFinality" where
  "sealed_tracker vs = set_validators vs (rf_new vs)"

definition four_validators :: RollingFinality where
  "four_validators = sealed_tracker [addr 1, addr 2, addr 3, addr 4]"

text \<open>The batches a run of pushes returns, and the tracker after it.\<close>

fun pushes :: "(u64 \<times> address) list \<Rightarrow> RollingFinality \<Rightarrow> (u64 \<times> address) list list \<times> RollingFinality" where
  "pushes [] rf = ([], rf)"
| "pushes ((n, a) # bs) rf =
     (let (finalized, rf) = push n a rf; (rest, rf) = pushes bs rf in (finalized # rest, rf))"

lemma test_push_no_finalize_below_majority:
  "fst (pushes [(1, addr 1), (2, addr 2)] four_validators) = [[], []]"
  by code_simp

lemma test_push_finalizes_when_majority_unique_signers:
  "fst (pushes [(1, addr 1), (2, addr 2), (3, addr 3)] four_validators) = [[], [], [(1, addr 1)]]"
  by code_simp

lemma test_push_does_not_double_count_same_signer:
  "fst (pushes [(1, addr 1), (2, addr 1), (3, addr 1)] four_validators) = [[], [], []]"
  by code_simp

lemma test_push_unknown_signer_skipped_in_sealed_set:
  "fst (pushes [(1, addr 1), (2, addr 2), (3, addr 0xff), (4, addr 3)] four_validators)
     = [[], [], [], [(1, addr 1)]]"
  by code_simp

lemma test_push_unknown_signer_does_not_get_falsely_finalized_later:
  "fst (pushes [(1, addr 0xff), (2, addr 1), (3, addr 2), (4, addr 3)] four_validators)
     = [[], [], [], [(2, addr 1)]]"
  by code_simp

lemma test_push_auto_discovers_until_sealed:
  "let rf = snd (pushes [(1, addr 1), (2, addr 2)] (rf_new []))
   in validator_count rf = 2 \<and> validator_count (snd (push 3 (addr 0xff) (set_validators [addr 1, addr 2] rf))) = 2"
  by code_simp

lemma test_add_pending_transition_then_finalize_schedules_finalize_change:
  "let rf = add_pending_transition 1 (addr 0xaa) (snd (push 1 (addr 1) four_validators));
       (first, rf) = take_finalize_change 4 (snd (pushes [(2, addr 2), (3, addr 3)] rf))
   in first = Some (addr 0xaa) \<and> fst (take_finalize_change 4 rf) = None"
  by code_simp

lemma test_take_finalize_change_blocks_before_target:
  "let rf = set_immediate_finalize 100 (addr 0xaa) (sealed_tracker [addr 1]);
       (at_50, rf) = take_finalize_change 50 rf; (at_99, rf) = take_finalize_change 99 rf
   in at_50 = None \<and> at_99 = None \<and> fst (take_finalize_change 100 rf) = Some (addr 0xaa)"
  by code_simp

lemma test_take_finalize_change_clears_window:
  "let rf = set_immediate_finalize 3 (addr 0xaa) (snd (pushes [(1, addr 1), (2, addr 2)] four_validators))
   in fst (push 3 (addr 1) (snd (take_finalize_change 3 rf))) = []"
  by code_simp

lemma test_set_immediate_finalize_overrides_pending:
  "let rf = set_immediate_finalize 5 (addr 0xbb) (add_pending_transition 10 (addr 0xaa) (sealed_tracker [addr 1]))
   in fst (take_finalize_change 5 rf) = Some (addr 0xbb)"
  by code_simp

lemma test_validators_sealed_once_set_remains_sealed_after_clear:
  "let rf = set_validators [addr 1, addr 2, addr 3] (snd (push 1 (addr 1) (rf_new [])));
       rf = snd (take_finalize_change 2 (set_immediate_finalize 2 (addr 0xaa) rf))
   in validator_count (snd (push 3 (addr 0xff) rf)) = 3"
  by code_simp

section \<open>Validator sets\<close>

lemma test_new_errors_on_empty_set: "vs_new bt_empty = Inl Empty"
  by code_simp

definition transitions :: "(u64 \<times> ValidatorSetKind) list \<Rightarrow> ValidatorSet" where
  "transitions entries = \<lparr>sets = bt_from_list entries\<rparr>"

definition three_sets :: ValidatorSet where
  "three_sets = transitions
     [(0, List [addr 1, addr 2, addr 3]), (100, Contract (addr 0xaa)), (1000, Contract (addr 0xbb))]"

lemma test_lookups_across_transitions:
  "map (try_get_list_validators three_sets) [0, 1, 99] = replicate 3 (Some [addr 1, addr 2, addr 3])"
  "map (contract_address_at three_sets) [0, 1, 99] = replicate 3 None"
  "map (try_get_list_validators three_sets) [100, 999] = [None, None]"
  "map (contract_address_at three_sets) [100, 999] = replicate 2 (Some (addr 0xaa))"
  "map (contract_address_at three_sets) [1000, - 1] = replicate 2 (Some (addr 0xbb))"
  by code_simp+

lemma test_kind_at_returns_none_below_first_entry:
  "map (kind_at (transitions [(100, List [addr 0xa])])) [0, 99, 100] = [None, None, Some (List [addr 0xa])]"
  by code_simp

lemma test_expected_proposer_round_robin:
  "map (\<lambda>step. expected_proposer step [addr 0xa, addr 0xb, addr 0xc]) [0, 2, 3, 7]
     = [Some (addr 0xa), Some (addr 0xc), Some (addr 0xa), Some (addr 0xb)]"
  "expected_proposer 0 [] = None"
  by code_simp+

section \<open>The AuRa configuration\<close>

text \<open>The tests give JSON values; serde's result for them is the raw configuration.\<close>

definition raw_config :: "(StringNum \<times> RawValidatorSetKind) list \<Rightarrow> RawAuraConfig" where
  "raw_config entries =
     \<lparr>raw_step_duration = 5, raw_validators = \<lparr>multi = bt_from_list entries\<rparr>,
      raw_block_reward_contract_address = None, raw_block_reward_contract_transition = None,
      raw_block_reward_contract_transitions = None, raw_posdao_transition = Some 0,
      raw_rewrite_bytecode = None\<rparr>"

definition parsed :: "RawAuraConfig \<Rightarrow> unit de_error + AuraConfig" where
  "parsed raw = from_json_value Inr raw"

definition genesis_list :: "(StringNum \<times> RawValidatorSetKind) list" where
  "genesis_list = [(StringNum 0, RawList [1])]"

lemma test_parse_contract_validator_field_name_aliases:
  "list_all (\<lambda>kind. case parsed (raw_config [(StringNum 100, kind 0xaa)]) of
       Inl _ \<Rightarrow> False
     | Inr cfg \<Rightarrow> try_get_list_validators (aura_validators cfg) 100 = None
         \<and> contract_address_at (aura_validators cfg) 100 \<noteq> None) [RawSafeContract, RawContract]"
  by code_simp

lemma test_parse_multi_transitions_in_order:
  "case parsed (raw_config [(StringNum 0, RawList [1]), (StringNum 1300, RawSafeContract 0xaa),
       (StringNum 9186425, RawContract 0xbb)]\<lparr>raw_posdao_transition := Some 9186425\<rparr>) of
     Inl _ \<Rightarrow> False
   | Inr cfg \<Rightarrow> posdao_transition cfg = 9186425
       \<and> try_get_list_validators (aura_validators cfg) 1 \<noteq> None
       \<and> try_get_list_validators (aura_validators cfg) 1299 \<noteq> None
       \<and> try_get_list_validators (aura_validators cfg) 1300 = None
       \<and> contract_address_at (aura_validators cfg) 1300 \<noteq> None
       \<and> contract_address_at (aura_validators cfg) 1300 \<noteq> contract_address_at (aura_validators cfg) 9186425"
  by code_simp

lemma test_parse_block_reward_legacy_single_address:
  "case parsed (raw_config genesis_list\<lparr>raw_block_reward_contract_address := Some 0xbeef,
       raw_block_reward_contract_transition := Some 100\<rparr>) of
     Inl _ \<Rightarrow> False
   | Inr cfg \<Rightarrow> map fst (block_reward_contract_transitions cfg) = [100]"
  by code_simp

lemma test_parse_block_reward_legacy_address_no_transition_defaults_zero:
  "case parsed (raw_config genesis_list\<lparr>raw_block_reward_contract_address := Some 0xbeef\<rparr>) of
     Inl _ \<Rightarrow> False
   | Inr cfg \<Rightarrow> bt_get (block_reward_contract_transitions cfg) 0 \<noteq> None"
  by code_simp

lemma test_parse_missing_posdao_transition_errors:
  "parsed (raw_config genesis_list\<lparr>raw_posdao_transition := None\<rparr>) = Inl CustomMissingPosdao"
  by code_simp

section \<open>The boundary of \<open>finalizeChange\<close>\<close>

abbreviation fc :: "(u64 \<times> ValidatorSetKind) list \<Rightarrow> u64 \<Rightarrow> address option" where
  "fc entries \<equiv> compute_finalize_change_address_from_validators (transitions entries)"

lemma test_list_region_returns_none:
  "map (fc [(0, List [addr 1])]) [0, 1000] = [None, None]"
  "map (fc [(0, List [addr 1]), (5000000, Contract (addr 0xaa))]) [1, 4999999] = [None, None]"
  by code_simp+

lemma test_genesis_with_contract_validator_returns_contract:
  "fc [(0, Contract (addr 0xaa))] 0 = Some (addr 0xaa)"
  by code_simp

text \<open>Four tests on one chain: the transition block, the first block after it, and blocks far after.\<close>

lemma test_list_to_contract_transition:
  "map (fc [(0, List [addr 1]), (1300, Contract (addr 0xaa))]) [1300, 1301, 1302, 1500, 9000000]
     = [None, Some (addr 0xaa), None, None, None]"
  by code_simp

lemma test_contract_to_contract_transition_returns_none:
  "map (fc [(0, List [addr 1]), (1300, Contract (addr 0xaa)), (9186425, Contract (addr 0xbb))])
     [9186425, 9186426, 9186500] = [None, None, None]"
  by code_simp

lemma test_contract_to_contract_first_after_grandparent_was_contract_returns_none:
  "map (fc [(0, Contract (addr 0xaa)), (100, Contract (addr 0xbb))]) [0, 100, 101]
     = [Some (addr 0xaa), None, None]"
  by code_simp

lemma test_block_one_after_genesis_contract_returns_none:
  "map (fc [(0, Contract (addr 0xaa))]) [1, 2] = [None, None]"
  by code_simp

section \<open>Recovery\<close>

text \<open>The mock scanner: headers \<open>1..=head\<close> with the given signers and one announcement.\<close>

definition mock_scanner :: "u64 \<Rightarrow> (u64 \<Rightarrow> address) \<Rightarrow> u64 \<Rightarrow> address \<Rightarrow> log list chain_scanner" where
  "mock_scanner head signer event contract =
     \<lparr>header_by_number = (\<lambda>n. if 1 \<le> n \<and> n \<le> head
        then Some (blank_header\<lparr>h_number := n, h_beneficiary := signer n\<rparr>) else None),
      receipts_by_block_number = (\<lambda>n. if 1 \<le> n \<and> n \<le> head
        then Some (if n = event
          then [[\<lparr>log_address = contract, log_topics = [INITIATE_CHANGE_TOPIC], log_data = []\<rparr>]] else [])
        else None)\<rparr>"

abbreviation recovered :: "u64 \<Rightarrow> (u64 \<Rightarrow> address) \<Rightarrow> u64 \<Rightarrow> u64 \<Rightarrow> RollingFinality" where
  "recovered head signer event posdao \<equiv>
     reconstruct_finality_state (mock_scanner head signer event (addr 0xaa)) (\<lambda>r. r) head (Some (addr 0xaa)) posdao"

lemma test_returns_empty_state_when_no_validator_contract_active:
  "let rf = reconstruct_finality_state (mock_scanner 0 addr 0 0) (\<lambda>r. r) 100 None 0
   in pending_transitions rf = [] \<and> finalize_change_at rf = None \<and> fst (take_finalize_change 101 rf) = None"
  by code_simp

lemma test_pre_posdao_event_at_head_schedules_finalize_change:
  "fst (take_finalize_change 101 (recovered 100 (\<lambda>_. addr 1) 100 1000)) = Some (addr 0xaa)"
  by code_simp

lemma test_unresolved_posdao_event_surfaces_in_recovered_state:
  "pending_transitions (recovered 100 (\<lambda>n. ucast (n mod 7 + 1)) 100 0) = [(100, addr 0xaa)]"
  by code_simp

lemma test_events_older_than_lookback_are_not_recovered:
  "let head = 5 + reconstruction_lookback + 50; rf = recovered head (\<lambda>_. addr 1) 5 0
   in pending_transitions rf = [] \<and> fst (take_finalize_change (head + 1) rf) = None"
  by code_simp

section \<open>Difficulty and address arrays\<close>

lemma test_calculate_aura_difficulty_table:
  "map (\<lambda>(parent, current). calculate_aura_difficulty parent current)
     [(100, 101), (1000, 1010), (42, 42), (332890826, 332890827)]
   = map (\<lambda>d. drop_bit 128 (- 1) - d) [1, 10, 0, 1]"
  by (simp add: calculate_aura_difficulty_def)

lemma test_roundtrip_empty_and_nonempty:
  "list_all (\<lambda>vs. decode_address_array (encode_address_array vs) = Inr vs) [[], [addr 1, addr 2, addr 3]]"
  by (simp add: decode_encode)

text \<open>The offset word of the last input is 1024, past the end of its 64 bytes.\<close>

lemma test_offset_word: "be_word (take 8 (drop 24 ((replicate 64 0)[30 := 4]))) = (1024 :: u64)"
  by code_simp

lemma test_rejects_truncated_input:
  "decode_address_array (take 112 (encode_address_array [addr 1, addr 2])) = Inl (Err ())"
  by (simp add: decode_prefix)

lemma test_rejects_malformed_inputs:
  "decode_address_array [] = Inl (Err ())"
  "decode_address_array (replicate 63 0) = Inl (Err ())"
  "decode_address_array ((replicate 64 0)[30 := 4]) = Inl (Err ())"
  by (simp_all add: decode_address_array_def slice_of_def test_offset_word)

end
