(* ===== verification/Spec2Isabelle.thy ===== *)
theory Spec2Isabelle
  imports Consensus GnosisHandler EvmFrames Recovery Handover BlockTracker Liveness PosdaoChain BuiltPayload
    EraComplete NodeBuild Cli UnitTests
begin

text \<open>
  A model of reth_gnosis, the Gnosis Chain execution client built on reth (Rust, \<open>src/\<close> of the
  repository; paths below are relative to that directory), and the theorems that make it correct.

  \<^bold>\<open>The program.\<close> Before the merge Gnosis Chain is an AuRa chain: validators propose in turn
  (\<open>aura/validators.rs\<close>), seal their headers (\<open>aura/seal.rs\<close>) and are replaced by contract events that
  take effect once a majority has built on them (\<open>aura/finality.rs\<close>, the rolling-finality tracker).
  Consensus (\<open>aura/mod.rs\<close>) checks headers by phase. The EVM configuration (\<open>evm_config.rs\<close>) turns a
  block into environments and an execution context, and takes a scheduled \<open>finalizeChange\<close> out of the
  tracker for it; the block executor (\<open>block.rs\<close>) makes the system calls around the transactions
  (\<open>gnosis.rs\<close>, over the EVM of \<open>evm/factory.rs\<close> and \<open>evm/gnosis_evm.rs\<close>) and records events and signers
  in the tracker, which configuration and executor share behind a mutex. The payload builder
  (\<open>payload.rs\<close>) drives the executor over the pool and the assembler (\<open>build.rs\<close>) makes the header. At
  start-up the tracker is rebuilt from receipts (\<open>aura/recovery.rs\<close>, \<open>lib.rs\<close>). Old blocks come from ERA
  files (\<open>cli/era.rs\<close>) or are replaced by a state dump (\<open>initialize/\<close>). The command line
  (\<open>cli/gnosis_cli.rs\<close>, \<open>main.rs\<close>) starts one of these, or the node that \<open>lib.rs\<close> and
  \<open>payload_builder.rs\<close> put together.

  \<^bold>\<open>Theories and what they model.\<close>
    \<^item> \<open>Prelude\<close>: machine integers, saturating operations, big-endian bytes, results, panics, the mutex.
      \<open>Effects\<close>: fallible steps on a state. \<open>BTreeMap\<close>: Rust's ordered map, through the interface
      \<open>ordered_map\<close>.
    \<^item> \<open>Header\<close>, \<open>EvmTypes\<close>: the data of headers and of revm, with the parameters \<open>evm_api\<close> and \<open>db_api\<close>.
    \<^item> \<open>Finality\<close>, \<open>Validators\<close>, \<open>AuraConfig\<close>, \<open>Seal\<close>, \<open>Consensus\<close>, \<open>Recovery\<close>: the files of \<open>aura/\<close>.
    \<^item> \<open>ChainSpec\<close>: \<open>spec/gnosis_spec.rs\<close>, \<open>consts.rs\<close>, \<open>blobs.rs\<close>. \<open>SpecInfo\<close>: its boot nodes, the named
      chains and the log of the fork identifiers.
    \<^item> \<open>EvmFactory\<close>: \<open>evm/factory.rs\<close>, with the interface \<open>system_call\<close>. \<open>GnosisHandler\<close>:
      the hooks and \<open>SSTORE\<close> of \<open>evm/gnosis_evm.rs\<close>; \<open>EvmFrames\<close>: its frames and entry points,
      with the frame loop as a step relation. \<open>GnosisCalls\<close>: \<open>gnosis.rs\<close>, \<open>errors.rs\<close>.
    \<^item> \<open>AddressArray\<close>, \<open>BlockExecutor\<close>: \<open>block.rs\<close>. \<open>EvmConfig\<close>: \<open>evm_config.rs\<close>. \<open>Handover\<close>: from the
      executor of a block over the shared tracker to the executor of the next. \<open>BlockTracker\<close>: everything
      a block does to the tracker, as a step relation. \<open>Liveness\<close>: runs of blocks after an announced change. \<open>FinalityRuns\<close>:
      which blocks of a run of pushes are final. \<open>PosdaoChain\<close>: the same along a chain of executed blocks.
    \<^item> \<open>BlockBuild\<close>: \<open>build.rs\<close>, \<open>primitives/block.rs\<close>. \<open>Payload\<close>: the loop of \<open>payload.rs\<close>, with the
      interface \<open>block_builder\<close> that the block executor provides. \<open>BuiltPayload\<close>: the rest of \<open>payload.rs\<close>.
    \<^item> \<open>EraImport\<close>: \<open>cli/era.rs\<close>; \<open>EraComplete\<close>: its run over a whole download. \<open>InitState\<close>, \<open>ImportState\<close>: \<open>initialize/\<close>. \<open>Node\<close>: \<open>version.rs\<close>,
      \<open>network.rs\<close>, \<open>pool.rs\<close>, \<open>engine.rs\<close>, \<open>main.rs\<close>, \<open>cli/import_era.rs\<close>. \<open>Cli\<close>: \<open>cli/gnosis_cli.rs\<close>
      and the start of the node. \<open>NodeBuild\<close>: the component builders of \<open>lib.rs\<close>, \<open>payload_builder.rs\<close> and the executor's
      factory of \<open>block.rs\<close>. \<open>UnitTests\<close>: the unit tests of the repository, evaluated on the model.

  \<^bold>\<open>How state and operations correspond.\<close> A struct is a record, an enum a datatype, an integer a word of
  its width (so \<open>+\<close> wraps as in a release build; saturating and checked operations are written out), a
  method that mutates returns the new record, and a fallible one a sum with the error on the left. A
  panic is the error \<open>Panic\<close>. The tracker behind the shared mutex is a field of whoever runs: \<open>ex_rf\<close> of
  the executor, \<open>ec_rolling_finality\<close> of the configuration. Log output and error texts are not kept,
  except where a test of the code reads them. Code outside \<open>src/\<close> (reth, revm, alloy, the generated ABI
  codecs, the network, the file system) is an argument of the definitions that use it; what a property
  needs of it is a named hypothesis (\<open>db_ok\<close>, \<open>gas_ok\<close>, \<open>block_calls_ok\<close>, \<open>hardforks_ok\<close>,
  \<open>header_from_ok\<close>, \<open>revm_spec_ok\<close>, \<open>push_ok\<close>, ...) that states its documented behaviour.

  \<^bold>\<open>What the lemmas show.\<close> The tracker refines the finality rule stated on its window, keeps its invariant in
  every reachable state, and hands a scheduled change out once; a change announced in a block is
  finalized in the next (before POSDAO) and afterwards the tracker holds the list the contract returned.
  Whatever blocks a node executes, the tracker behind the mutex stays well formed; a pending change is
  finalized within a run of blocks that more than half of the validators sign; with POSDAO an announced change ends
  with the validators the contract gives (\<open>BlockTracker\<close>, \<open>Liveness\<close>, \<open>Handover\<close>). Over a whole run of pushes
  a block is final exactly when more than half of the validators signed it or a later one, a block of an
  orphaned branch can only make that happen earlier (\<open>FinalityRuns\<close>), and the chain of executed POSDAO
  blocks has that finality, whatever its blocks contain short of a validator change (\<open>PosdaoChain\<close>). The frames of the EVM
  are entered and left in the order of their protocol, one handler call each (\<open>EvmFrames\<close>).
  Headers are accepted exactly under the AuRa rules, and along an accepted chain the weights telescope.
  System calls leave no trace beyond their contract's changes; fees reach the collector; rewards are the
  sums the contract returned; a block stays within its gas limit. The fork identifier is that of
  EIP-2124, and the one logged at start-up is the one served; the latest identifier starts from another
  genesis header (\<open>SpecInfo\<close>). The gas limit a node's payloads ask for
  reaches the one of the genesis (\<open>NodeBuild\<close>). Offline commands may try the Balancer rewrite in every block
  after its activation, where it changes nothing once applied (\<open>Cli\<close>). A built payload respects gas, blob and size limits, the
  build returns for every pool that runs out, and a built block is executed in the environment it was
  built in, except in the case the property on the first blob block describes. An ERA import writes a strictly increasing run of complete
  blocks within its bounds, and all of them when the files are consecutive and the provider accepts every write
  (\<open>EraComplete\<close>, with a run where the import stops too early); the state files are verified before use, and the flag of the state import
  means what it says up to the case its property names. Properties that show a divergence between the
  code and its comments, or between two parts of the code, state exactly what the code does.

  \<^bold>\<open>Bounds and termination.\<close> No definition uses fuel. Loops over lists are structural; the payload loop is a
  partial function, \<open>None\<close> when it does not return, and the property \<open>build_returns\<close> shows that it does
  for every pool whose iterator is exhausted after finitely many steps.

  \<^bold>\<open>Not modelled.\<close> The parsing of arguments by clap, the embedded genesis files (\<open>spec/chains.rs\<close>), the
  wiring that exists only in the types (\<open>rpc.rs\<close>, \<open>primitives/mod.rs\<close>, the associated types and builders of
  \<open>lib.rs\<close> that only name their components), the accessors that delegate to a field and the build script.
  Commands of reth that the command line forwards to are parameters. The conformance runner under
  \<open>testing/\<close> and the integration tests are not part of the node. The atomicity of database transactions is
  not modelled: a failed import leaves the storage as far as its steps got.
\<close>

end
